(* ===== verification/Prelude.thy ===== *)
theory Prelude
  imports Main "HOL-Library.Word" "HOL-Library.Sublist"
begin

text \<open>
  Shared ground of the development: the collections of simplification rules the component
  theories extend, the bounds of Go's 64-bit \<open>int\<close>, the result type of a Go function that
  returns a value and an error, and generic facts on lists, options and maps.
\<close>

section \<open>Collections of facts\<close>

named_theorems go_strings \<open>characterisations of the strings and strconv operations\<close>
named_theorems go_eval \<open>definitions unfolded to evaluate a closed term\<close>
named_theorems wf_intros \<open>an operation keeps the invariant of its component\<close>

section \<open>Results of fallible operations\<close>

text \<open>
  A Go function with result \<open>(T, error)\<close> is a function into \<open>'e + 'a\<close>: \<open>Inl e\<close> is the
  error return, \<open>Inr v\<close> the value with a nil error. A function whose only result is an
  \<open>error\<close> returns \<open>'e option\<close>, with \<open>None\<close> for nil.
\<close>

type_synonym ('e, 'a) result = "'e + 'a"

definition rbind :: "('e, 'a) result \<Rightarrow> ('a \<Rightarrow> ('e, 'b) result) \<Rightarrow> ('e, 'b) result" where
  "rbind r f = (case r of Inl e \<Rightarrow> Inl e | Inr v \<Rightarrow> f v)"

lemma rbind_simps [simp]:
  "rbind (Inl e) f = Inl e"
  "rbind (Inr v) f = f v"
  by (simp_all add: rbind_def)

lemma rbind_eq_Inr: "rbind r f = Inr y \<longleftrightarrow> (\<exists>v. r = Inr v \<and> f v = Inr y)"
  by (cases r) auto

lemma rbind_eq_Inl: "rbind r f = Inl e \<longleftrightarrow> r = Inl e \<or> (\<exists>v. r = Inr v \<and> f v = Inl e)"
  by (cases r) auto

definition is_ok :: "('e, 'a) result \<Rightarrow> bool" where
  "is_ok r = (case r of Inl _ \<Rightarrow> False | Inr _ \<Rightarrow> True)"

lemma is_ok_simps [simp]: "is_ok (Inr v)" "\<not> is_ok (Inl e)"
  by (simp_all add: is_ok_def)

lemma is_ok_iff: "is_ok r \<longleftrightarrow> (\<exists>v. r = Inr v)"
  by (cases r) auto

section \<open>Go's int on a 64-bit platform\<close>

definition max_int64 :: int where "max_int64 = 2 ^ 63 - 1"
definition min_int64 :: int where "min_int64 = - (2 ^ 63)"

definition in_int64 :: "int \<Rightarrow> bool" where
  "in_int64 i \<longleftrightarrow> min_int64 \<le> i \<and> i \<le> max_int64"

lemma in_int64_small: "\<bar>i\<bar> < 1000000000000 \<Longrightarrow> in_int64 i"
  by (auto simp: in_int64_def min_int64_def max_int64_def)

section \<open>Lists\<close>

lemma map_of_filter_None: "k \<notin> fst ` set xs \<Longrightarrow> map_of xs k = None"
  by (induction xs) auto

lemma takeWhile_all: "\<forall>x \<in> set xs. P x \<Longrightarrow> takeWhile P (xs @ ys) = xs @ takeWhile P ys"
  by (induction xs) auto

lemma dropWhile_all: "\<forall>x \<in> set xs. P x \<Longrightarrow> dropWhile P (xs @ ys) = dropWhile P ys"
  by (induction xs) auto

lemma dropWhile_none: "xs = [] \<or> \<not> P (hd xs) \<Longrightarrow> dropWhile P xs = xs"
  by (cases xs) auto

lemma takeWhile_none: "xs = [] \<or> \<not> P (hd xs) \<Longrightarrow> takeWhile P xs = []"
  by (cases xs) auto

lemma find_Some_iff_first:
  "find P xs = Some x \<Longrightarrow> P x \<and> x \<in> set xs"
  by (induction xs) (auto split: if_splits)

section \<open>Maps\<close>

lemma inj_on_map_upd:
  "inj_on m (dom m) \<Longrightarrow> (\<forall>k' v'. m k' = Some v' \<longrightarrow> v' \<noteq> v) \<Longrightarrow> inj_on (m(k \<mapsto> v)) (dom (m(k \<mapsto> v)))"
  by (force simp: inj_on_def dom_def)

end
