(* ===== verification/Transition.thy ===== *)
theory Transition
  imports Prelude "HOL-Library.Multiset"
begin

text \<open>
  Step relations, for the parts of the program that run concurrently: invariants, bounds on
  the length of a run, and simulation of an abstract step relation, each as a contract that a
  component's relation is shown to meet.
\<close>

section \<open>Runs\<close>

definition stuck :: "('s \<Rightarrow> 's \<Rightarrow> bool) \<Rightarrow> 's \<Rightarrow> bool" where
  "stuck step s \<longleftrightarrow> (\<forall>s'. \<not> step s s')"

locale invariant_system =
  fixes step :: "'s \<Rightarrow> 's \<Rightarrow> bool"
    and good :: "'s \<Rightarrow> bool"
  assumes step_good: "good s \<Longrightarrow> step s s' \<Longrightarrow> good s'"
begin

lemma run_good: "step\<^sup>*\<^sup>* s s' \<Longrightarrow> good s \<Longrightarrow> good s'"
  by (induction rule: rtranclp_induct) (auto intro: step_good)

lemma runs_good: "(step ^^ n) s s' \<Longrightarrow> good s \<Longrightarrow> good s'"
  using run_good relpowp_imp_rtranclp by metis

end

locale measured_system = invariant_system step good
  for step :: "'s \<Rightarrow> 's \<Rightarrow> bool" and good +
  fixes weight :: "'s \<Rightarrow> nat"
  assumes step_weight: "good s \<Longrightarrow> step s s' \<Longrightarrow> weight s' < weight s"
begin

lemma run_length: "(step ^^ n) s s' \<Longrightarrow> good s \<Longrightarrow> n + weight s' \<le> weight s"
proof (induction n arbitrary: s')
  case (Suc n)
  then obtain t where t: "(step ^^ n) s t" "step t s'" by auto
  then have "weight s' < weight t" using step_weight runs_good Suc.prems by blast
  then show ?case using Suc.IH [OF t(1) Suc.prems(2)] by simp
qed simp

lemma run_ends:
  assumes "good s"
  shows "\<exists>s'. step\<^sup>*\<^sup>* s s' \<and> stuck step s'"
  using assms
proof (induction "weight s" arbitrary: s rule: less_induct)
  case less
  show ?case
  proof (cases "stuck step s")
    case False
    then obtain t where "step s t" by (auto simp: stuck_def)
    then show ?thesis using less step_good step_weight converse_rtranclp_into_rtranclp by metis
  qed auto
qed

lemma no_infinite_run: "good (f 0) \<Longrightarrow> \<exists>i. \<not> step (f i) (f (Suc i))"
proof (rule ccontr)
  assume g: "good (f 0)" and "\<nexists>i. \<not> step (f i) (f (Suc i))"
  then have st: "step (f i) (f (Suc i))" for i by blast
  have "(step ^^ n) (f 0) (f n)" for n by (induction n) (auto intro: st)
  then show False using run_length [OF _ g, of "Suc (weight (f 0))"] by fastforce
qed

end

locale simulation = invariant_system step good
  for step :: "'s \<Rightarrow> 's \<Rightarrow> bool" and good +
  fixes abs :: "'s \<Rightarrow> 'a"
    and astep :: "'a \<Rightarrow> 'a \<Rightarrow> bool"
  assumes step_sim: "good s \<Longrightarrow> step s s' \<Longrightarrow> abs s' = abs s \<or> astep (abs s) (abs s')"
begin

lemma run_sim: "step\<^sup>*\<^sup>* s s' \<Longrightarrow> good s \<Longrightarrow> astep\<^sup>*\<^sup>* (abs s) (abs s')"
proof (induction rule: rtranclp_induct)
  case (step t u)
  then show ?case using step_sim [OF run_good [OF step.hyps(1) step.prems] step.hyps(2)]
    by (metis rtranclp.rtrancl_into_rtrancl)
qed simp

end

section \<open>Sums over the cells of a list\<close>

lemma sum_list_update:
  fixes f :: "'a \<Rightarrow> 'b :: comm_monoid_add"
  shows "i < length xs \<Longrightarrow> sum_list (map f (xs[i := x])) + f (xs ! i) = sum_list (map f xs) + f x"
proof (induction xs arbitrary: i)
  case (Cons y xs)
  show ?case
  proof (cases i)
    case (Suc j)
    then have "sum_list (map f (xs[j := x])) + f (xs ! j) = sum_list (map f xs) + f x"
      using Cons by simp
    then show ?thesis using Suc by (simp add: add.assoc)
  qed (simp add: ac_simps)
qed simp

lemma list_all_update: "list_all P xs \<Longrightarrow> P x \<Longrightarrow> list_all P (xs[i := x])"
  by (auto simp: list_all_iff dest!: set_update_subset_insert [THEN subsetD])

end
