(* ===== verification/Domain_Errors.thy ===== *)
theory Domain_Errors
  imports Go_Strings "HOL-Library.AList"
begin

text \<open>
  The error values of \<open>internal/domain/errors/errors.go\<close>. A Go \<open>error\<close> is one of three
  things in this program: a \<open>*DomainError\<close>, the result of \<open>fmt.Errorf\<close> with a \<open>%w\<close> verb, or
  an opaque error of a package the program calls, known by its text. The time stamp and
  the caller's position that \<open>ErrorContext\<close> also records are diagnostics taken from the
  runtime and are left out.
\<close>

section \<open>Data\<close>

datatype ErrorType =
    ErrorTypeValidation | ErrorTypeNotFound | ErrorTypeConflict | ErrorTypeSystem
  | ErrorTypeNetwork | ErrorTypeTimeout | ErrorTypeConfiguration | ErrorTypePermission
  | ErrorTypeResource

fun ErrorType_string :: "ErrorType \<Rightarrow> string" where
  "ErrorType_string ErrorTypeValidation = ''VALIDATION''"
| "ErrorType_string ErrorTypeNotFound = ''NOT_FOUND''"
| "ErrorType_string ErrorTypeConflict = ''CONFLICT''"
| "ErrorType_string ErrorTypeSystem = ''SYSTEM''"
| "ErrorType_string ErrorTypeNetwork = ''NETWORK''"
| "ErrorType_string ErrorTypeTimeout = ''TIMEOUT''"
| "ErrorType_string ErrorTypeConfiguration = ''CONFIGURATION''"
| "ErrorType_string ErrorTypePermission = ''PERMISSION''"
| "ErrorType_string ErrorTypeResource = ''RESOURCE''"

record ErrorContext =
  ctx_Operation :: string
  ctx_Component :: string

record DomainFields =
  err_Type :: ErrorType
  err_Code :: string
  err_Message :: string
  err_Context :: "ErrorContext option"
  err_Retryable :: bool
  err_Details :: "(string \<times> string) list"

datatype go_error =
    DomainError DomainFields "go_error option"
  | WrappedError string go_error
  | PlainError string

section \<open>Methods\<close>

fun Error :: "go_error \<Rightarrow> string" where
  "Error (DomainError e cause) =
     (if err_Code e \<noteq> [] then ''['' @ ErrorType_string (err_Type e) @ '':'' @ err_Code e @ ''] '' @ err_Message e
      else ''['' @ ErrorType_string (err_Type e) @ ''] '' @ err_Message e) @
     (case cause of None \<Rightarrow> [] | Some c \<Rightarrow> '': '' @ Error c)"
| "Error (WrappedError msg e) = msg"
| "Error (PlainError msg) = msg"

fun Unwrap :: "go_error \<Rightarrow> go_error option" where
  "Unwrap (DomainError e cause) = cause"
| "Unwrap (WrappedError msg e) = Some e"
| "Unwrap (PlainError msg) = None"

fun WithContext :: "go_error \<Rightarrow> string \<Rightarrow> string \<Rightarrow> go_error" where
  "WithContext (DomainError e cause) operation component =
     DomainError (e\<lparr>err_Context := Some \<lparr>ctx_Operation = operation, ctx_Component = component\<rparr>\<rparr>) cause"
| "WithContext e _ _ = e"

fun WithDetails :: "go_error \<Rightarrow> (string \<times> string) list \<Rightarrow> go_error" where
  "WithDetails (DomainError e cause) details =
     DomainError (e\<lparr>err_Details := foldl (\<lambda>m (k, v). AList.update k v m) (err_Details e) details\<rparr>) cause"
| "WithDetails e _ = e"

fun WithRetryable :: "go_error \<Rightarrow> bool \<Rightarrow> go_error" where
  "WithRetryable (DomainError e cause) b = DomainError (e\<lparr>err_Retryable := b\<rparr>) cause"
| "WithRetryable e _ = e"

fun DomainError_Is :: "go_error \<Rightarrow> go_error \<Rightarrow> bool" where
  "DomainError_Is (DomainError e _) (DomainError t _) = (err_Type e = err_Type t)"
| "DomainError_Is _ _ = False"

section \<open>Constructors\<close>

definition NewError :: "ErrorType \<Rightarrow> string \<Rightarrow> string \<Rightarrow> go_error option \<Rightarrow> go_error" where
  "NewError errType cd message cause =
     DomainError \<lparr>err_Type = errType, err_Code = cd, err_Message = message,
       err_Context = Some \<lparr>ctx_Operation = [], ctx_Component = []\<rparr>, err_Retryable = False, err_Details = []\<rparr> cause"

definition NewValidationError :: "string \<Rightarrow> go_error option \<Rightarrow> go_error" where
  "NewValidationError message cause = NewError ErrorTypeValidation ''VAL001'' message cause"

definition NewValidationErrorWithCode :: "string \<Rightarrow> string \<Rightarrow> go_error option \<Rightarrow> go_error" where
  "NewValidationErrorWithCode cd message cause = NewError ErrorTypeValidation cd message cause"

definition NewNotFoundError :: "string \<Rightarrow> go_error" where
  "NewNotFoundError message = NewError ErrorTypeNotFound ''NOT001'' message None"

definition NewConflictError :: "string \<Rightarrow> go_error" where
  "NewConflictError message = NewError ErrorTypeConflict ''CON001'' message None"

definition NewSystemError :: "string \<Rightarrow> go_error option \<Rightarrow> go_error" where
  "NewSystemError message cause = WithRetryable (NewError ErrorTypeSystem ''SYS001'' message cause) True"

definition NewNetworkError :: "string \<Rightarrow> go_error option \<Rightarrow> go_error" where
  "NewNetworkError message cause = WithRetryable (NewError ErrorTypeNetwork ''NET001'' message cause) True"

definition NewTimeoutError :: "string \<Rightarrow> go_error" where
  "NewTimeoutError message = WithRetryable (NewError ErrorTypeTimeout ''TIM001'' message None) True"

definition NewConfigurationError :: "string \<Rightarrow> go_error option \<Rightarrow> go_error" where
  "NewConfigurationError message cause = NewError ErrorTypeConfiguration ''CFG001'' message cause"

definition NewPermissionError :: "string \<Rightarrow> go_error option \<Rightarrow> go_error" where
  "NewPermissionError message cause = NewError ErrorTypePermission ''PER001'' message cause"

definition NewResourceError :: "string \<Rightarrow> go_error option \<Rightarrow> go_error" where
  "NewResourceError message cause = WithRetryable (NewError ErrorTypeResource ''RES001'' message cause) True"

section \<open>Classification\<close>

text \<open>\<open>errors.As(err, &domainErr)\<close>: the first domain error on the chain of wrapped errors.\<close>

fun errors_As :: "go_error \<Rightarrow> DomainFields option" where
  "errors_As (DomainError e cause) = Some e"
| "errors_As (WrappedError msg e) = errors_As e"
| "errors_As (PlainError msg) = None"

definition IsValidationError :: "go_error \<Rightarrow> bool" where
  "IsValidationError err = (case errors_As err of Some d \<Rightarrow> err_Type d = ErrorTypeValidation | None \<Rightarrow> False)"

definition IsNotFoundError :: "go_error \<Rightarrow> bool" where
  "IsNotFoundError err = (case errors_As err of Some d \<Rightarrow> err_Type d = ErrorTypeNotFound | None \<Rightarrow> False)"

definition IsSystemError :: "go_error \<Rightarrow> bool" where
  "IsSystemError err = (case errors_As err of Some d \<Rightarrow> err_Type d = ErrorTypeSystem | None \<Rightarrow> False)"

definition IsNetworkError :: "go_error \<Rightarrow> bool" where
  "IsNetworkError err = (case errors_As err of Some d \<Rightarrow> err_Type d = ErrorTypeNetwork | None \<Rightarrow> False)"

definition IsTimeoutError :: "go_error \<Rightarrow> bool" where
  "IsTimeoutError err = (case errors_As err of Some d \<Rightarrow> err_Type d = ErrorTypeTimeout | None \<Rightarrow> False)"

text \<open>The metrics label of \<open>usecases/error_helpers.go\<close>, and the log line it chooses.\<close>

definition getErrorType :: "go_error \<Rightarrow> string" where
  "getErrorType err =
     (if IsValidationError err then ''validation''
      else if IsNetworkError err then ''network''
      else if IsTimeoutError err then ''timeout''
      else if IsSystemError err then ''system''
      else ''unknown'')"

lemmas error_constructors = NewValidationError_def NewValidationErrorWithCode_def NewNotFoundError_def
  NewConflictError_def NewSystemError_def NewNetworkError_def NewTimeoutError_def
  NewConfigurationError_def NewPermissionError_def NewResourceError_def

lemmas error_tests = IsValidationError_def IsNotFoundError_def IsSystemError_def IsNetworkError_def
  IsTimeoutError_def

section \<open>Facts\<close>

lemma errors_As_NewError [simp]:
  "errors_As (NewError t c m cause) = Some \<lparr>err_Type = t, err_Code = c, err_Message = m,
     err_Context = Some \<lparr>ctx_Operation = [], ctx_Component = []\<rparr>, err_Retryable = False, err_Details = []\<rparr>"
  by (simp add: NewError_def)

lemma errors_As_WithRetryable [simp]:
  "errors_As (WithRetryable e b) = (case e of DomainError d _ \<Rightarrow> Some (d\<lparr>err_Retryable := b\<rparr>) | _ \<Rightarrow> errors_As e)"
  by (cases e) auto

lemma ErrorType_string_inject: "ErrorType_string s = ErrorType_string t \<longleftrightarrow> s = t"
  by (cases s; cases t) simp_all

text \<open>
  The first domain error down the \<open>Unwrap\<close> chain is what \<open>errors.As\<close> finds: the chain of
  an error, and the search over it.
\<close>

fun unwrap_chain :: "go_error \<Rightarrow> go_error list" where
  "unwrap_chain (DomainError e cause) = DomainError e cause # (case cause of None \<Rightarrow> [] | Some c \<Rightarrow> unwrap_chain c)"
| "unwrap_chain (WrappedError msg e) = WrappedError msg e # unwrap_chain e"
| "unwrap_chain (PlainError msg) = [PlainError msg]"

lemma errors_As_first:
  "errors_As e = map_option (\<lambda>x. case x of DomainError d _ \<Rightarrow> d)
     (find (\<lambda>x. case x of DomainError _ _ \<Rightarrow> True | _ \<Rightarrow> False) (unwrap_chain e))"
  by (induction e rule: errors_As.induct) simp_all

lemma getErrorType_Wrapped: "getErrorType (WrappedError msg e) = getErrorType e"
  by (simp add: getErrorType_def error_tests)

lemma IsValidationError_New [simp]:
  "IsValidationError (NewValidationError m c)" "IsValidationError (NewValidationErrorWithCode k m c)"
  by (simp_all add: IsValidationError_def error_constructors)

lemma IsSystemError_New [simp]: "IsSystemError (NewSystemError m c)"
  by (simp add: IsSystemError_def NewSystemError_def NewError_def)

lemma IsNetworkError_New [simp]: "IsNetworkError (NewNetworkError m c)"
  by (simp add: IsNetworkError_def NewNetworkError_def NewError_def)

lemma IsTimeoutError_New [simp]: "IsTimeoutError (NewTimeoutError m)"
  by (simp add: IsTimeoutError_def NewTimeoutError_def NewError_def)

end
