(* ===== verification/Routing.thy ===== *)
theory Routing
  imports Transition Domain_Errors
begin

text \<open>
  \<open>internal/domain/services/routing_coordinator.go\<close>: the mutex under which routing operations
  run, as a step relation over the interleavings of concurrent callers. An operation is the
  list of its elementary changes to the world and the error it returns; the coordinator's
  guarantee is that the changes of two operations never mix. Times and logs are left out, the
  counter of failed operations is kept.
\<close>

section \<open>State\<close>

type_synonym 'w RoutingOperation = "('w \<Rightarrow> 'w) list \<times> ('w \<Rightarrow> go_error option)"

text \<open>
  A caller before \<open>mutex.Lock\<close>, inside the operation (what it has done and what is left), after
  its return, or unwound by a panic of the operation.
\<close>

datatype 'w caller =
    Waiting "'w RoutingOperation"
  | Running "('w \<Rightarrow> 'w) list" "('w \<Rightarrow> 'w) list" "'w \<Rightarrow> go_error option"
  | Returned "go_error option"
  | Unwound

record 'w RoutingCoordinator =
  rc_locked :: bool
  rc_callers :: "'w caller list"
  rc_world :: 'w
  rc_failures :: nat
  rc_history :: "(nat \<times> ('w \<Rightarrow> 'w) list) list"

definition NewRoutingCoordinator :: "'w RoutingOperation list \<Rightarrow> 'w \<Rightarrow> 'w RoutingCoordinator" where
  "NewRoutingCoordinator ops w = \<lparr>rc_locked = False, rc_callers = map Waiting ops, rc_world = w, rc_failures = 0, rc_history = []\<rparr>"

definition IsLocked :: "'w RoutingCoordinator \<Rightarrow> bool" where
  "IsLocked s = rc_locked s"

section \<open>ExecuteWithLock\<close>

definition caller_at :: "'w RoutingCoordinator \<Rightarrow> nat \<Rightarrow> 'w caller \<Rightarrow> bool" where
  "caller_at s i c \<longleftrightarrow> i < length (rc_callers s) \<and> rc_callers s ! i = c"

definition unlock :: "nat \<Rightarrow> 'w caller \<Rightarrow> ('w \<Rightarrow> 'w) list \<Rightarrow> 'w RoutingCoordinator \<Rightarrow> 'w RoutingCoordinator" where
  "unlock i c past s = s\<lparr>rc_locked := False, rc_callers := (rc_callers s)[i := c], rc_history := rc_history s @ [(i, past)]\<rparr>"

inductive ExecuteWithLock :: "'w RoutingCoordinator \<Rightarrow> 'w RoutingCoordinator \<Rightarrow> bool" where
  lock: "caller_at s i (Waiting (fs, r)) \<Longrightarrow> \<not> rc_locked s \<Longrightarrow>
    ExecuteWithLock s (s\<lparr>rc_locked := True, rc_callers := (rc_callers s)[i := Running [] fs r]\<rparr>)"
| operate: "caller_at s i (Running past (f # fs) r) \<Longrightarrow>
    ExecuteWithLock s (s\<lparr>rc_world := f (rc_world s), rc_callers := (rc_callers s)[i := Running (past @ [f]) fs r]\<rparr>)"
| return: "caller_at s i (Running past [] r) \<Longrightarrow> err = r (rc_world s) \<Longrightarrow>
    ExecuteWithLock s (unlock i (Returned err) past (s\<lparr>rc_failures := rc_failures s + (if err = None then 0 else 1)\<rparr>))"
| panic: "caller_at s i (Running past fs r) \<Longrightarrow> ExecuteWithLock s (unlock i Unwound past s)"

section \<open>Invariant\<close>

fun is_Running :: "'w caller \<Rightarrow> bool" where
  "is_Running (Running _ _ _) = True"
| "is_Running _ = False"

definition run_all :: "('w \<Rightarrow> 'w) list \<Rightarrow> 'w \<Rightarrow> 'w" where
  "run_all fs w = fold (\<lambda>f. f) fs w"

definition failed_caller :: "'w caller \<Rightarrow> nat" where
  "failed_caller c = (case c of Returned (Some _) \<Rightarrow> 1 | _ \<Rightarrow> 0)"

text \<open>
  The lock is held exactly by the one running caller, the world is what the finished
  operations and then the running one have done, one after the other, and the counter of
  failures counts the callers that got an error.
\<close>

definition routing_inv :: "'w \<Rightarrow> 'w RoutingCoordinator \<Rightarrow> bool" where
  "routing_inv w0 s \<longleftrightarrow>
     (\<forall>i c j d. caller_at s i c \<and> is_Running c \<and> caller_at s j d \<and> is_Running d \<longrightarrow> i = j) \<and>
     (rc_locked s \<longleftrightarrow> list_ex is_Running (rc_callers s)) \<and>
     (\<forall>i past fs r. caller_at s i (Running past fs r) \<longrightarrow> rc_world s = run_all (concat (map snd (rc_history s)) @ past) w0) \<and>
     (\<not> rc_locked s \<longrightarrow> rc_world s = run_all (concat (map snd (rc_history s))) w0) \<and>
     rc_failures s = sum_list (map failed_caller (rc_callers s))"

lemma caller_update: "caller_at s i c \<Longrightarrow> rc_callers t = (rc_callers s)[i := x] \<Longrightarrow>
    caller_at t j d \<longleftrightarrow> (if j = i then d = x else caller_at s j d)"
  by (auto simp: caller_at_def)

lemma list_ex_caller: "list_ex is_Running (rc_callers s) \<longleftrightarrow> (\<exists>i c. caller_at s i c \<and> is_Running c)"
  by (force simp: list_ex_iff caller_at_def in_set_conv_nth)

lemma caller_unique: "caller_at s i c \<Longrightarrow> caller_at s i d \<Longrightarrow> c = d"
  by (simp add: caller_at_def)

lemma failures_update:
  "caller_at s i c \<Longrightarrow> sum_list (map failed_caller ((rc_callers s)[i := x])) + failed_caller c = sum_list (map failed_caller (rc_callers s)) + failed_caller x"
  unfolding caller_at_def using sum_list_update [of i "rc_callers s" failed_caller x] by simp

lemma routing_running:
  assumes "routing_inv w0 s" "caller_at s i (Running past fs r)"
  shows "rc_locked s" "rc_world s = run_all (concat (map snd (rc_history s)) @ past) w0"
    "is_Running c \<Longrightarrow> caller_at s j c \<Longrightarrow> j = i" "caller_at s j (Running p q g) \<Longrightarrow> j = i"
proof -
  have "list_ex is_Running (rc_callers s)" using assms(2) list_ex_caller is_Running.simps(1) by metis
  then show "rc_locked s" using assms(1) unfolding routing_inv_def by blast
  show "rc_world s = run_all (concat (map snd (rc_history s)) @ past) w0" using assms unfolding routing_inv_def by blast
  show only: "is_Running c \<Longrightarrow> caller_at s j c \<Longrightarrow> j = i" for c
    using assms is_Running.simps(1) unfolding routing_inv_def by blast
  show "caller_at s j (Running p q g) \<Longrightarrow> j = i" using only [of "Running p q g"] by simp
qed

lemma routing_inv_locked:
  assumes "caller_at t i (Running past fs r)" "\<And>j c. caller_at t j c \<Longrightarrow> is_Running c \<Longrightarrow> j = i" "rc_locked t"
    and "rc_world t = run_all (concat (map snd (rc_history t)) @ past) w0" "rc_failures t = sum_list (map failed_caller (rc_callers t))"
  shows "routing_inv w0 t"
proof -
  have "list_ex is_Running (rc_callers t)" using assms(1) list_ex_caller is_Running.simps(1) by metis
  moreover have "p = past" if "caller_at t j (Running p q g)" for j p q g
    using assms(2) [OF that] that caller_unique [OF assms(1)] by auto
  ultimately show ?thesis using assms(3-5) unfolding routing_inv_def by (metis assms(2))
qed

lemma routing_inv_free:
  assumes "\<And>j c. caller_at t j c \<Longrightarrow> \<not> is_Running c" "\<not> rc_locked t"
    and "rc_world t = run_all (concat (map snd (rc_history t))) w0" "rc_failures t = sum_list (map failed_caller (rc_callers t))"
  shows "routing_inv w0 t"
proof -
  have "\<not> caller_at t j (Running p q g)" for j p q g using assms(1) is_Running.simps(1) by blast
  moreover have "\<not> list_ex is_Running (rc_callers t)" using assms(1) list_ex_caller by blast
  ultimately show ?thesis using assms unfolding routing_inv_def by blast
qed

lemma routing_inv_unlock:
  assumes "routing_inv w0 s" "caller_at s i (Running past fs r)" "\<not> is_Running x"
    and "rc_callers t = (rc_callers s)[i := x]" "\<not> rc_locked t" "rc_world t = rc_world s"
    and "rc_history t = rc_history s @ [(i, past)]" "rc_failures t = rc_failures s + failed_caller x"
  shows "routing_inv w0 t"
proof -
  have "\<not> is_Running c" if "caller_at t j c" for j c
    using that routing_running(3) [OF assms(1,2)] assms(3) caller_update [OF assms(2,4)] by (auto split: if_splits)
  moreover have "rc_failures t = sum_list (map failed_caller (rc_callers t))"
    using assms failures_update [OF assms(2), of x] by (simp add: routing_inv_def failed_caller_def)
  ultimately show ?thesis
    using assms(5-7) routing_running(2) [OF assms(1,2)] by (intro routing_inv_free) auto
qed

lemma routing_inv_step:
  assumes "routing_inv w0 s" "ExecuteWithLock s t"
  shows "routing_inv w0 t"
  using assms(2)
proof (cases rule: ExecuteWithLock.cases)
  case (lock i fs r)
  have nr: "\<not> is_Running c" if "caller_at s j c" for j c
    using assms(1) lock(3) that list_ex_caller [of s] unfolding routing_inv_def by blast
  have c: "caller_at t j c \<longleftrightarrow> (if j = i then c = Running [] fs r else caller_at s j c)" for j c
    by (rule caller_update [OF lock(2)]) (simp add: lock(1))
  have "caller_at t j c \<Longrightarrow> is_Running c \<Longrightarrow> j = i" for j c
    using nr by (auto simp: c split: if_splits)
  moreover have "rc_failures t = sum_list (map failed_caller (rc_callers t))"
    using assms(1) lock failures_update [OF lock(2), of "Running [] fs r"] by (simp add: routing_inv_def failed_caller_def)
  moreover have "rc_world t = run_all (concat (map snd (rc_history t)) @ []) w0" using assms(1) lock by (simp add: routing_inv_def)
  moreover have "caller_at t i (Running [] fs r)" "rc_locked t" using c lock(1) by simp_all
  ultimately show ?thesis by (intro routing_inv_locked)
next
  case (operate i past f fs r)
  note old = routing_running [OF assms(1) operate(2)]
  have "rc_callers t = (rc_callers s)[i := Running (past @ [f]) fs r]" unfolding operate(1) by simp
  then have c: "caller_at t j c \<longleftrightarrow> (if j = i then c = Running (past @ [f]) fs r else caller_at s j c)" for j c
    by (rule caller_update [OF operate(2)])
  have "caller_at t j c \<Longrightarrow> is_Running c \<Longrightarrow> j = i" for j c
    using old(3) [of c j] c [of j c] by (cases "j = i") simp_all
  moreover have "rc_failures t = sum_list (map failed_caller (rc_callers t))"
    using assms(1) operate failures_update [OF operate(2), of "Running (past @ [f]) fs r"] by (simp add: routing_inv_def failed_caller_def)
  moreover have "rc_world t = run_all (concat (map snd (rc_history t)) @ past @ [f]) w0" using operate old(2) by (simp add: run_all_def)
  moreover have "caller_at t i (Running (past @ [f]) fs r)" "rc_locked t" using c operate(1) old(1) by simp_all
  ultimately show ?thesis by (intro routing_inv_locked)
next
  case (return i past r err)
  then show ?thesis by (intro routing_inv_unlock [OF assms(1) return(2), where x = "Returned err"]) (auto simp: unlock_def failed_caller_def split: option.splits)
next
  case (panic i past fs r)
  then show ?thesis by (intro routing_inv_unlock [OF assms(1) panic(2), where x = Unwound]) (auto simp: unlock_def failed_caller_def)
qed

text \<open>
  The history lists the finished callers, each once, in the order they held the lock, with
  the changes they made: the whole operation for one that returned, a prefix of it for one
  that was unwound.
\<close>

definition caller_faithful :: "'w RoutingOperation \<Rightarrow> (nat \<times> ('w \<Rightarrow> 'w) list) list \<Rightarrow> nat \<Rightarrow> 'w caller \<Rightarrow> bool" where
  "caller_faithful op hist i c =
     (case c of
        Waiting op' \<Rightarrow> op' = op \<and> i \<notin> fst ` set hist
      | Running past fs r \<Rightarrow> (past @ fs, r) = op \<and> i \<notin> fst ` set hist
      | Returned _ \<Rightarrow> (i, fst op) \<in> set hist
      | Unwound \<Rightarrow> \<exists>p. prefix p (fst op) \<and> (i, p) \<in> set hist)"

definition history_ok :: "'w RoutingOperation list \<Rightarrow> 'w RoutingCoordinator \<Rightarrow> bool" where
  "history_ok ops s \<longleftrightarrow> distinct (map fst (rc_history s)) \<and> length (rc_callers s) = length ops \<and>
     (\<forall>i c. caller_at s i c \<longrightarrow> caller_faithful (ops ! i) (rc_history s) i c)"

lemma caller_faithful_mono:
  "caller_faithful op hist j c \<Longrightarrow> j \<noteq> i \<Longrightarrow> caller_faithful op (hist @ [(i, past)]) j c"
  by (auto simp: caller_faithful_def split: caller.splits)

lemma history_ok_update:
  assumes "history_ok ops s" "caller_at s i c" "rc_callers t = (rc_callers s)[i := x]" "rc_history t = rc_history s"
    and "caller_faithful (ops ! i) (rc_history s) i x"
  shows "history_ok ops t"
  using assms caller_update [OF assms(2,3)] by (auto simp: history_ok_def)

lemma history_ok_unlock:
  assumes "history_ok ops s" "caller_at s i (Running past fs r)" "rc_callers t = (rc_callers s)[i := x]"
    and "rc_history t = rc_history s @ [(i, past)]" "caller_faithful (ops ! i) (rc_history t) i x"
  shows "history_ok ops t"
proof -
  have "caller_faithful (ops ! i) (rc_history s) i (Running past fs r)" using assms(1,2) by (simp add: history_ok_def)
  then have "i \<notin> fst ` set (rc_history s)" by (simp add: caller_faithful_def)
  moreover have "caller_faithful (ops ! j) (rc_history t) j c" if "caller_at t j c" for j c
    using that assms caller_update [OF assms(2,3)] caller_faithful_mono [of "ops ! j" "rc_history s" j c i past] by (cases "j = i") (auto simp: history_ok_def)
  ultimately show ?thesis using assms by (simp add: history_ok_def)
qed

lemma history_ok_step: "ExecuteWithLock s t \<Longrightarrow> history_ok ops s \<Longrightarrow> history_ok ops t"
proof (induction rule: ExecuteWithLock.induct)
  case (lock s i fs r)
  then have "caller_faithful (ops ! i) (rc_history s) i (Waiting (fs, r))" by (simp add: history_ok_def)
  then show ?case using lock by (intro history_ok_update [OF lock(3,1)]) (auto simp: caller_faithful_def)
next
  case (operate s i past f fs r)
  then have "caller_faithful (ops ! i) (rc_history s) i (Running past (f # fs) r)" by (simp add: history_ok_def)
  then show ?case using operate by (intro history_ok_update [OF operate(2,1)]) (auto simp: caller_faithful_def)
next
  case (return s i past r err)
  then have "caller_faithful (ops ! i) (rc_history s) i (Running past [] r)" by (simp add: history_ok_def)
  then have "fst (ops ! i) = past" by (auto simp: caller_faithful_def dest: sym)
  then show ?case by (intro history_ok_unlock [OF return(3,1)]) (auto simp: caller_faithful_def unlock_def)
next
  case (panic s i past fs r)
  then have "caller_faithful (ops ! i) (rc_history s) i (Running past fs r)" by (simp add: history_ok_def)
  then have "prefix past (fst (ops ! i))" by (auto simp: caller_faithful_def dest: sym)
  then show ?case by (intro history_ok_unlock [OF panic(2,1)]) (auto simp: caller_faithful_def unlock_def)
qed

interpretation history: invariant_system ExecuteWithLock "history_ok ops" for ops
  by unfold_locales (rule history_ok_step)

lemma NewRoutingCoordinator_history: "history_ok ops (NewRoutingCoordinator ops w)"
  by (auto simp: history_ok_def NewRoutingCoordinator_def caller_at_def caller_faithful_def)

fun caller_weight :: "'w caller \<Rightarrow> nat" where
  "caller_weight (Waiting op) = length (fst op) + 2"
| "caller_weight (Running past fs r) = length fs + 1"
| "caller_weight _ = 0"

definition routing_weight :: "'w RoutingCoordinator \<Rightarrow> nat" where
  "routing_weight s = sum_list (map caller_weight (rc_callers s))"

lemma routing_weight_update:
  "caller_at s i c \<Longrightarrow> rc_callers t = (rc_callers s)[i := x] \<Longrightarrow> caller_weight x < caller_weight c \<Longrightarrow> routing_weight t < routing_weight s"
  unfolding caller_at_def routing_weight_def using sum_list_update [of i "rc_callers s" caller_weight x] by simp

lemma routing_weight_step: "ExecuteWithLock s t \<Longrightarrow> routing_weight t < routing_weight s"
  by (induction rule: ExecuteWithLock.induct) (auto simp: unlock_def elim!: routing_weight_update)

interpretation routing: measured_system ExecuteWithLock "routing_inv w0" routing_weight for w0
  by unfold_locales (auto intro: routing_inv_step routing_weight_step)

lemma NewRoutingCoordinator_inv: "routing_inv w (NewRoutingCoordinator ops w)"
  by (auto simp: routing_inv_def NewRoutingCoordinator_def caller_at_def run_all_def failed_caller_def list_ex_iff comp_def)

lemma routing_stuck:
  assumes "routing_inv w0 s" "stuck ExecuteWithLock s" "c \<in> set (rc_callers s)"
  shows "c = Unwound \<or> (\<exists>err. c = Returned err)"
proof -
  obtain i where i: "caller_at s i c" using assms(3) by (auto simp: caller_at_def in_set_conv_nth)
  have run: "\<not> caller_at s j (Running past fs r)" for j past fs r
    using assms(2) ExecuteWithLock.panic [of s j past fs r] by (auto simp: stuck_def)
  have "\<not> rc_locked s"
  proof
    assume "rc_locked s"
    then obtain j d where "caller_at s j d" "is_Running d" using assms(1) list_ex_caller [of s] by (auto simp: routing_inv_def)
    then show False using run by (cases d) auto
  qed
  then have "\<not> caller_at s i (Waiting op)" for op
    using assms(2) ExecuteWithLock.lock [of s i "fst op" "snd op"] by (auto simp: stuck_def)
  then show ?thesis using i run by (cases c) auto
qed

section \<open>Property\<close>

text \<open>
  C31: routing operations that run under the coordinator are serialised. In every interleaving of
  the callers at most one is inside its operation, and the lock says whether one is; when the
  lock is free, the world is the effect of the finished callers' operations one after the
  other, each caller once and whole unless it panicked; every
  run is finite, and when none can go on every caller has returned or was unwound, with the
  lock free again even after a panic.
\<close>

theorem routing_serialised:
  assumes "ExecuteWithLock\<^sup>*\<^sup>* (NewRoutingCoordinator ops w) s"
  shows "(caller_at s i c \<and> is_Running c \<and> caller_at s j d \<and> is_Running d \<longrightarrow> i = j) \<and>
    (IsLocked s \<longleftrightarrow> list_ex is_Running (rc_callers s)) \<and>
    (\<not> IsLocked s \<longrightarrow> rc_world s = run_all (concat (map snd (rc_history s))) w \<and> distinct (map fst (rc_history s))) \<and>
    (caller_at s i (Returned err) \<longrightarrow> (i, fst (ops ! i)) \<in> set (rc_history s)) \<and>
    (stuck ExecuteWithLock s \<longrightarrow> \<not> IsLocked s \<and> (\<forall>c \<in> set (rc_callers s). c = Unwound \<or> (\<exists>err. c = Returned err))) \<and>
    (\<exists>s'. ExecuteWithLock\<^sup>*\<^sup>* s s' \<and> stuck ExecuteWithLock s')"
proof -
  have iv: "routing_inv w s" by (rule routing.run_good [OF assms NewRoutingCoordinator_inv])
  have "\<not> rc_locked s" if "stuck ExecuteWithLock s"
  proof -
    have "\<not> is_Running c" if "c \<in> set (rc_callers s)" for c
      using routing_stuck [OF iv \<open>stuck ExecuteWithLock s\<close> that] by auto
    then show ?thesis using iv by (auto simp: routing_inv_def list_ex_iff)
  qed
  moreover have "history_ok ops s" by (rule history.run_good [OF assms NewRoutingCoordinator_history])
  then have "distinct (map fst (rc_history s))" "caller_at s i (Returned err) \<Longrightarrow> (i, fst (ops ! i)) \<in> set (rc_history s)"
    by (auto simp: history_ok_def caller_faithful_def split: caller.splits)
  ultimately show ?thesis
    using iv routing_stuck [OF iv] routing.run_ends [OF iv] unfolding routing_inv_def IsLocked_def by blast
qed

theorem routing_serialised_witness:
  "\<exists>s'. ExecuteWithLock\<^sup>*\<^sup>* (NewRoutingCoordinator [([Suc], \<lambda>w. None), ([Suc, (*) 2], \<lambda>w. None)] 0) s' \<and> stuck ExecuteWithLock s'"
  by (rule routing_serialised [OF rtranclp.rtrancl_refl, THEN conjunct2, THEN conjunct2, THEN conjunct2, THEN conjunct2, THEN conjunct2])

end
