(* ===== verification/Go_Path.thy ===== *)
theory Go_Path
  imports Go_Strings
begin

text \<open>
  The functions of \<open>path/filepath\<close> the repository calls, on slash-separated paths: \<open>Clean\<close>,
  \<open>Join\<close>, \<open>Dir\<close>, \<open>Base\<close> and \<open>IsAbs\<close>. \<open>Clean\<close> works on the list of components: empty and
  single-dot components vanish, and a double dot removes the component before it.
\<close>

fun cleanComps :: "bool \<Rightarrow> string list \<Rightarrow> string list \<Rightarrow> string list" where
  "cleanComps rooted stack [] = rev stack"
| "cleanComps rooted stack (c # cs) =
     (if c = [] \<or> c = ''.'' then cleanComps rooted stack cs
      else if c = ''..'' then
        (case stack of
           [] \<Rightarrow> (if rooted then cleanComps rooted [] cs else cleanComps rooted [c] cs)
         | t # ts \<Rightarrow> (if t = ''..'' then cleanComps rooted (c # stack) cs else cleanComps rooted ts cs))
      else cleanComps rooted (c # stack) cs)"

definition IsAbs :: "string \<Rightarrow> bool" where
  "IsAbs p = HasPrefix p ''/''"

definition Clean :: "string \<Rightarrow> string" where
  "Clean p =
     (let cs = cleanComps (IsAbs p) [] (Split p (CHR ''/''))
      in if IsAbs p then CHR ''/'' # Join cs ''/'' else if cs = [] then ''.'' else Join cs ''/'')"

definition path_Join :: "string list \<Rightarrow> string" where
  "path_Join elems = (case dropWhile (\<lambda>e. e = []) elems of [] \<Rightarrow> [] | es \<Rightarrow> Clean (Join es ''/''))"

definition Dir :: "string \<Rightarrow> string" where
  "Dir p = Clean (rev (dropWhile (\<lambda>c. c \<noteq> CHR ''/'') (rev p)))"

definition Base :: "string \<Rightarrow> string" where
  "Base p =
     (if p = [] then ''.''
      else let q = rev (dropWhile (\<lambda>c. c = CHR ''/'') (rev p))
           in if q = [] then ''/'' else rev (takeWhile (\<lambda>c. c \<noteq> CHR ''/'') (rev q)))"

section \<open>Plain components\<close>

definition plain :: "string \<Rightarrow> bool" where
  "plain c \<longleftrightarrow> c \<noteq> [] \<and> c \<noteq> ''.'' \<and> c \<noteq> ''..'' \<and> CHR ''/'' \<notin> set c"

lemma cleanComps_plain: "list_all plain cs \<Longrightarrow> cleanComps r stack cs = rev stack @ cs"
  by (induction cs arbitrary: stack) (auto simp: plain_def)

lemma cleanComps_rooted_no_dots:
  "list_all (\<lambda>c. CHR ''/'' \<notin> set c) cs \<Longrightarrow> list_all plain stack \<Longrightarrow> list_all plain (cleanComps True stack cs)"
proof (induction True stack cs rule: cleanComps.induct)
  case (2 stack c cs)
  then show ?case by (auto simp: plain_def split: list.splits)
qed simp

lemma Join_simps [simp]:
  "Join [] sep = []" "Join [x] sep = x" "Join (x # y # ys) sep = x @ sep @ Join (y # ys) sep"
  by (simp_all add: Join_def)

lemma Split_Join:
  "cs \<noteq> [] \<Longrightarrow> \<forall>c \<in> set cs. sep \<notin> set c \<Longrightarrow> Split (Join cs [sep]) sep = cs"
proof (induction cs rule: induct_list012)
  case (3 x y zs)
  then show ?case by (simp add: Split_append)
qed (simp_all add: Split_none)

text \<open>The clean form of an absolute path, component by component.\<close>

definition comps :: "string \<Rightarrow> string list" where
  "comps p = cleanComps True [] (Split p (CHR ''/''))"

lemma Clean_abs: "IsAbs p \<Longrightarrow> Clean p = CHR ''/'' # Join (comps p) ''/''"
  by (simp add: Clean_def comps_def)

lemma comps_plain: "list_all plain (comps p)"
  unfolding comps_def by (rule cleanComps_rooted_no_dots) (auto simp: list_all_iff dest: Split_parts_no_sep)

lemma comps_of_plain:
  assumes "list_all plain cs"
  shows "comps (CHR ''/'' # Join cs ''/'') = cs"
proof (cases "cs = []")
  case True
  then show ?thesis by (simp add: comps_def)
next
  case False
  then have "Split (Join cs ''/'') (CHR ''/'') = cs"
    using assms by (intro Split_Join) (auto simp: list_all_iff plain_def)
  then show ?thesis using assms by (simp add: comps_def cleanComps_plain)
qed

lemma comps_Clean: "IsAbs p \<Longrightarrow> comps (Clean p) = comps p"
  using comps_of_plain [OF comps_plain [of p]] by (simp add: Clean_abs)

lemma Clean_idem_abs: "IsAbs p \<Longrightarrow> Clean (Clean p) = Clean p"
  using comps_Clean [of p] Clean_abs [of "Clean p"] by (simp add: Clean_abs IsAbs_def HasPrefix_def)

lemma Clean_plain:
  "list_all plain cs \<Longrightarrow> Clean (CHR ''/'' # Join cs ''/'') = CHR ''/'' # Join cs ''/''"
  using comps_of_plain [of cs] Clean_abs [of "CHR ''/'' # Join cs ''/''"] by (simp add: IsAbs_def HasPrefix_def)

lemma Join_snoc: "cs \<noteq> [] \<Longrightarrow> Join (cs @ [c]) sep = Join cs sep @ sep @ c"
  by (induction cs rule: induct_list012) simp_all

text \<open>Joining a directory and a plain file name adds one component.\<close>

lemma path_Join_plain:
  assumes "list_all plain ds" "ds \<noteq> []" "plain f"
  shows "path_Join [CHR ''/'' # Join ds ''/'', f] = CHR ''/'' # Join (ds @ [f]) ''/''"
proof -
  have "Join [CHR ''/'' # Join ds ''/'', f] ''/'' = CHR ''/'' # Join (ds @ [f]) ''/''"
    using assms by (simp add: Join_snoc)
  moreover have "f \<noteq> []" using assms by (simp add: plain_def)
  ultimately show ?thesis using assms Clean_plain [of "ds @ [f]"] by (simp add: path_Join_def)
qed

lemma Dir_plain:
  assumes "list_all plain ds" "ds \<noteq> []" "plain f"
  shows "Dir (CHR ''/'' # Join (ds @ [f]) ''/'') = CHR ''/'' # Join ds ''/''"
proof -
  let ?d = "CHR ''/'' # Join ds ''/''"
  have f: "CHR ''/'' \<notin> set f" using assms by (simp add: plain_def)
  have "dropWhile (\<lambda>c. c \<noteq> CHR ''/'') (rev f @ CHR ''/'' # rev ?d) = CHR ''/'' # rev ?d"
    using f by (subst dropWhile_append2) auto
  then have "Dir (CHR ''/'' # Join (ds @ [f]) ''/'') = Clean (?d @ ''/'')"
    using assms by (simp add: Dir_def Join_snoc)
  also have "comps (?d @ ''/'') = ds"
  proof -
    have "Split (Join ds ''/'' @ ''/'') (CHR ''/'') = ds @ [[]]"
      using Split_Join [of "ds @ [[]]" "CHR ''/''"] assms by (auto simp: Join_snoc list_all_iff plain_def)
    moreover have "cleanComps True [] (ds @ [[]]) = ds"
    proof -
      have "cleanComps True st (ds @ [[]]) = rev st @ ds" for st
        using assms(1) by (induction ds arbitrary: st) (auto simp: plain_def)
      then show ?thesis by simp
    qed
    ultimately show ?thesis by (simp add: comps_def)
  qed
  then have "Clean (?d @ ''/'') = ?d" by (simp add: Clean_abs IsAbs_def HasPrefix_def)
  finally show ?thesis .
qed

lemma Base_plain:
  assumes "ds \<noteq> []" "plain f"
  shows "Base (CHR ''/'' # Join (ds @ [f]) ''/'') = f"
proof -
  have f: "CHR ''/'' \<notin> set f" "f \<noteq> []" using assms by (auto simp: plain_def)
  let ?p = "CHR ''/'' # Join (ds @ [f]) ''/''"
  have r: "rev ?p = rev f @ CHR ''/'' # rev (CHR ''/'' # Join ds ''/'')" using assms by (simp add: Join_snoc)
  have "hd (rev f) \<noteq> CHR ''/''" using f by (metis hd_in_set rev_is_Nil_conv set_rev)
  then have "dropWhile (\<lambda>c. c = CHR ''/'') (rev ?p) = rev ?p"
    unfolding r using f by (cases "rev f") auto
  moreover have "takeWhile (\<lambda>c. c \<noteq> CHR ''/'') (rev ?p) = rev f"
    unfolding r using f by (subst takeWhile_append2) auto
  ultimately show ?thesis by (simp add: Base_def Let_def)
qed

end
