(* ===== verification/Go_Net.thy ===== *)
theory Go_Net
  imports Go_Strings
begin

text \<open>
  The part of Go's \<open>net\<close> and \<open>net/netip\<close> packages the repository calls: parsing and printing
  of IP addresses, CIDR prefixes and hardware addresses, and membership of an address in a
  network. An address is a list of bytes (4 or 16 of them), as \<open>net.IP\<close> is.
\<close>

unbundle bit_operations_syntax

type_synonym byte = "8 word"
type_synonym ip = "byte list"

section \<open>IPv4 fields\<close>

text \<open>
  The loop of \<open>netip.parseIPv4Fields\<close>: the character read before (None at the start), the
  rest of the text, the value and digit count of the current octet, the number of octets
  stored and the octets themselves.
\<close>

fun parseIPv4Fields :: "char option \<Rightarrow> string \<Rightarrow> nat \<Rightarrow> nat \<Rightarrow> nat \<Rightarrow> byte list \<Rightarrow> byte list option" where
  "parseIPv4Fields prev [] val pos digLen flds =
     (if pos < 3 then None else Some (flds @ [of_nat val]))"
| "parseIPv4Fields prev (c # cs) val pos digLen flds =
     (if is_digit c then
        (if digLen = 1 \<and> val = 0 then None
         else if 255 < val * 10 + digit_val c then None
         else parseIPv4Fields (Some c) cs (val * 10 + digit_val c) pos (digLen + 1) flds)
      else if c = CHR ''.'' then
        (if prev = None \<or> cs = [] \<or> prev = Some (CHR ''.'') then None
         else if pos = 3 then None
         else parseIPv4Fields (Some c) cs 0 (pos + 1) 0 (flds @ [of_nat val]))
      else None)"

definition parseIPv4 :: "string \<Rightarrow> byte list option" where
  "parseIPv4 s = parseIPv4Fields None s 0 0 0 []"

section \<open>IPv6\<close>

text \<open>The leading hexadecimal group: \<open>None\<close> for more than four digits.\<close>

fun hexGroup :: "string \<Rightarrow> nat \<Rightarrow> nat \<Rightarrow> (nat \<times> nat \<times> string) option" where
  "hexGroup [] off acc = Some (off, acc, [])"
| "hexGroup (c # cs) off acc =
     (case hex_val c of
        None \<Rightarrow> Some (off, acc, c # cs)
      | Some d \<Rightarrow>
          (if 3 < off then None
           else if 65535 < acc * 16 + d then None
           else hexGroup cs (off + 1) (acc * 16 + d)))"

text \<open>
  The group loop of \<open>netip.parseIPv6\<close>: the text left, the bytes stored so far and the
  position of the ellipsis. The result is the bytes, the ellipsis and the text left.
  Each round stores two or four bytes, so eight rounds end the loop: the fuel is 8.
\<close>

fun ipv6Loop :: "nat \<Rightarrow> string \<Rightarrow> byte list \<Rightarrow> nat option \<Rightarrow> (byte list \<times> nat option \<times> string) option" where
  "ipv6Loop 0 s bs ell = Some (bs, ell, s)"
| "ipv6Loop (Suc n) s bs ell =
     (case hexGroup s 0 0 of
        None \<Rightarrow> None
      | Some (off, acc, rest) \<Rightarrow>
          (if off = 0 then None
           else if rest \<noteq> [] \<and> hd rest = CHR ''.'' then
             (if ell = None \<and> length bs \<noteq> 12 then None
              else if 16 < length bs + 4 then None
              else (case parseIPv4 s of None \<Rightarrow> None | Some q \<Rightarrow> Some (bs @ q, ell, [])))
           else
             (let bs' = bs @ [of_nat (acc div 256), of_nat acc] in
              case rest of
                [] \<Rightarrow> Some (bs', ell, [])
              | c # cs \<Rightarrow>
                  (if c \<noteq> CHR '':'' then None
                   else case cs of
                     [] \<Rightarrow> None
                   | c' # cs' \<Rightarrow>
                       (if c' = CHR '':'' then
                          (if ell \<noteq> None then None
                           else if cs' = [] then Some (bs', Some (length bs'), [])
                           else ipv6Loop n cs' bs' (Some (length bs')))
                        else ipv6Loop n cs bs' ell)))))"

definition ipv6Finish :: "byte list \<times> nat option \<times> string \<Rightarrow> byte list option" where
  "ipv6Finish r =
     (case r of (bs, ell, s) \<Rightarrow>
        (if s \<noteq> [] then None
         else if length bs < 16 then
           (case ell of
              None \<Rightarrow> None
            | Some e \<Rightarrow> Some (take e bs @ replicate (16 - length bs) 0 @ drop e bs))
         else if ell \<noteq> None then None
         else Some bs))"

text \<open>
  \<open>netip.parseIPv6\<close> without its zone: \<open>net.ParseIP\<close> and \<open>net.ParseCIDR\<close> refuse every
  address with a zone, so a text with a percent sign is refused whatever follows it.
\<close>

definition parseIPv6 :: "string \<Rightarrow> byte list option" where
  "parseIPv6 s =
     (if List.member s (CHR ''%'') then None
      else if take 2 s = ''::'' then
        (if drop 2 s = [] then Some (replicate 16 0)
         else Option.bind (ipv6Loop 8 (drop 2 s) [] (Some 0)) ipv6Finish)
      else Option.bind (ipv6Loop 8 s [] None) ipv6Finish)"

section \<open>Addresses\<close>

datatype addr_family = IPv4 | IPv6

text \<open>\<open>netip.ParseAddr\<close>: the first dot, colon or percent sign decides.\<close>

fun addrKind :: "string \<Rightarrow> addr_family option" where
  "addrKind [] = None"
| "addrKind (c # cs) =
     (if c = CHR ''.'' then Some IPv4 else if c = CHR '':'' then Some IPv6
      else if c = CHR ''%'' then None else addrKind cs)"

definition ParseAddr :: "string \<Rightarrow> (addr_family \<times> byte list) option" where
  "ParseAddr s =
     (case addrKind s of
        None \<Rightarrow> None
      | Some IPv4 \<Rightarrow> map_option (Pair IPv4) (parseIPv4 s)
      | Some IPv6 \<Rightarrow> map_option (Pair IPv6) (parseIPv6 s))"

definition v4InV6Prefix :: "byte list" where
  "v4InV6Prefix = replicate 10 0 @ [255, 255]"

definition As16 :: "addr_family \<times> byte list \<Rightarrow> ip" where
  "As16 a = (case a of (IPv4, bs) \<Rightarrow> v4InV6Prefix @ bs | (IPv6, bs) \<Rightarrow> bs)"

definition ParseIP :: "string \<Rightarrow> ip option" where
  "ParseIP s = map_option As16 (ParseAddr s)"

definition To4 :: "ip \<Rightarrow> ip option" where
  "To4 ip =
     (if length ip = 4 then Some ip
      else if length ip = 16 \<and> take 12 ip = v4InV6Prefix then Some (drop 12 ip)
      else None)"

definition To16 :: "ip \<Rightarrow> ip option" where
  "To16 ip =
     (if length ip = 4 then Some (v4InV6Prefix @ ip)
      else if length ip = 16 then Some ip else None)"

definition IP_Equal :: "ip \<Rightarrow> ip \<Rightarrow> bool" where
  "IP_Equal ip x =
     (if length ip = length x then ip = x
      else if length ip = 4 \<and> length x = 16 then take 12 x = v4InV6Prefix \<and> ip = drop 12 x
      else if length ip = 16 \<and> length x = 4 then take 12 ip = v4InV6Prefix \<and> drop 12 ip = x
      else False)"

section \<open>Masks and networks\<close>

fun CIDRMask :: "nat \<Rightarrow> nat \<Rightarrow> byte list" where
  "CIDRMask ones 0 = []"
| "CIDRMask ones (Suc l) =
     (if 8 \<le> ones then 255 # CIDRMask (ones - 8) l
      else NOT (drop_bit ones 255) # CIDRMask 0 l)"

definition IP_Mask :: "ip \<Rightarrow> byte list \<Rightarrow> ip option" where
  "IP_Mask ip msk =
     (let msk' = (if length msk = 16 \<and> length ip = 4 \<and> take 12 msk = replicate 12 255
                   then drop 12 msk else msk);
          ip' = (if length msk' = 4 \<and> length ip = 16 \<and> take 12 ip = v4InV6Prefix
                 then drop 12 ip else ip)
      in if length ip' = length msk' then Some (map2 (AND) ip' msk') else None)"

record ip_net =
  net_ip :: ip
  net_mask :: "byte list"

definition networkNumberAndMask :: "ip_net \<Rightarrow> (ip \<times> byte list) option" where
  "networkNumberAndMask n =
     (let ip = (case To4 (net_ip n) of Some x \<Rightarrow> x | None \<Rightarrow> net_ip n);
          m = net_mask n
      in if To4 (net_ip n) = None \<and> length ip \<noteq> 16 then None
         else if length m = 4 then (if length ip \<noteq> 4 then None else Some (ip, m))
         else if length m = 16 then Some (ip, if length ip = 4 then drop 12 m else m)
         else None)"

definition IPNet_Contains :: "ip_net \<Rightarrow> ip \<Rightarrow> bool" where
  "IPNet_Contains n ip =
     (let x = (case To4 ip of Some y \<Rightarrow> y | None \<Rightarrow> ip)
      in case networkNumberAndMask n of
           None \<Rightarrow> length x = 0
         | Some (nn, m) \<Rightarrow> length x = length nn \<and> map2 (AND) nn m = map2 (AND) x m)"

text \<open>
  \<open>net.dtoi\<close>, with its bound 0xFFFFFF, as \<open>net.ParseCIDR\<close> calls it on the whole text after
  the slash: the text must be digits only.
\<close>

fun dtoi :: "string \<Rightarrow> nat \<Rightarrow> nat option" where
  "dtoi [] n = Some n"
| "dtoi (c # cs) n =
     (if is_digit c then (if 16777215 \<le> n * 10 + digit_val c then None else dtoi cs (n * 10 + digit_val c))
      else None)"

definition BitLen :: "addr_family \<Rightarrow> nat" where
  "BitLen f = (case f of IPv4 \<Rightarrow> 32 | IPv6 \<Rightarrow> 128)"

definition ParseCIDR :: "string \<Rightarrow> (ip \<times> ip_net) option" where
  "ParseCIDR s =
     (if \<not> List.member s (CHR ''/'') then None
      else let addr = takeWhile (\<lambda>c. c \<noteq> CHR ''/'') s;
               msk = drop (length addr + 1) s
      in case ParseAddr addr of
           None \<Rightarrow> None
         | Some a \<Rightarrow>
             (if msk = [] then None
              else case dtoi msk 0 of
                None \<Rightarrow> None
              | Some n \<Rightarrow>
                  (if BitLen (fst a) < n then None
                   else let m = CIDRMask n (BitLen (fst a) div 8)
                        in case IP_Mask (As16 a) m of
                             None \<Rightarrow> None
                           | Some i \<Rightarrow> Some (As16 a, \<lparr>net_ip = i, net_mask = m\<rparr>))))"

section \<open>Printing\<close>

definition dotted :: "byte list \<Rightarrow> string" where
  "dotted bs = Join (map (\<lambda>b. utoa (unat b)) bs) ''.''"

definition hex_digit :: "nat \<Rightarrow> char" where
  "hex_digit d = (if d < 10 then char_of (48 + d) else char_of (87 + d))"

fun hex_print :: "nat \<Rightarrow> string" where
  "hex_print n = (if n < 16 then [hex_digit n] else hex_print (n div 16) @ [hex_digit (n mod 16)])"

declare hex_print.simps [simp del]

fun groups16 :: "byte list \<Rightarrow> nat list" where
  "groups16 (a # b # bs) = (unat a * 256 + unat b) # groups16 bs"
| "groups16 _ = []"

text \<open>The longest run of at least two zero groups, the first one among equals.\<close>

fun zeroRun :: "nat list \<Rightarrow> nat \<Rightarrow> nat \<times> nat \<Rightarrow> nat \<times> nat" where
  "zeroRun [] i best = best"
| "zeroRun (g # gs) i (s, e) =
     (let l = length (takeWhile (\<lambda>x. x = 0) (g # gs))
      in zeroRun gs (i + 1) (if 2 \<le> l \<and> e - s < l then (i, i + l) else (s, e)))"

fun print6 :: "nat list \<Rightarrow> nat \<Rightarrow> nat \<times> nat \<Rightarrow> string" where
  "print6 [] i r = []"
| "print6 (g # gs) i (s, e) =
     (if i = s \<and> s < e then ''::'' @ print6 gs (i + 1) (s, e)
      else if s < i \<and> i < e then print6 gs (i + 1) (s, e)
      else (if i = 0 \<or> (i = e \<and> s < e) then [] else '':'') @ hex_print g @ print6 gs (i + 1) (s, e))"

definition IP_String :: "ip \<Rightarrow> string" where
  "IP_String ip =
     (case To4 ip of
        Some p \<Rightarrow> dotted p
      | None \<Rightarrow> (let gs = groups16 ip in print6 gs 0 (zeroRun gs 0 (0, 0))))"

text \<open>\<open>net.simpleMaskLength\<close> of a msk of leading ones.\<close>

fun byte_ones :: "nat \<Rightarrow> byte \<Rightarrow> nat" where
  "byte_ones 0 b = 0"
| "byte_ones (Suc k) b = (if bit b k then Suc (byte_ones k b) else 0)"

fun simpleMaskLength :: "byte list \<Rightarrow> nat option" where
  "simpleMaskLength [] = Some 0"
| "simpleMaskLength (b # bs) =
     (if b = 255 then map_option (\<lambda>k. k + 8) (simpleMaskLength bs)
      else if b = NOT (drop_bit (byte_ones 8 b) 255) \<and> list_all (\<lambda>x. x = 0) bs then Some (byte_ones 8 b)
      else None)"

definition IPNet_String :: "ip_net \<Rightarrow> string" where
  "IPNet_String n =
     (case networkNumberAndMask n of
        None \<Rightarrow> ''<nil>''
      | Some (nn, m) \<Rightarrow>
          (case simpleMaskLength m of
             None \<Rightarrow> IP_String nn @ ''/'' @ concat (map (\<lambda>b. [hex_digit (unat b div 16), hex_digit (unat b mod 16)]) m)
           | Some l \<Rightarrow> IP_String nn @ ''/'' @ utoa l))"

section \<open>Hardware addresses\<close>

text \<open>
  \<open>net.xtoi2\<close>: two hexadecimal digits, followed by the separator when text is left.
\<close>

definition xtoi2 :: "string \<Rightarrow> char \<Rightarrow> byte option" where
  "xtoi2 s e =
     (if 2 < length s \<and> s ! 2 \<noteq> e then None
      else case s of
        a # b # _ \<Rightarrow> (case (hex_val a, hex_val b) of
                       (Some x, Some y) \<Rightarrow> Some (of_nat (x * 16 + y))
                     | _ \<Rightarrow> None)
      | _ \<Rightarrow> None)"

fun macColon :: "nat \<Rightarrow> char \<Rightarrow> string \<Rightarrow> byte list option" where
  "macColon 0 e s = Some []"
| "macColon (Suc n) e s =
     (case xtoi2 s e of
        None \<Rightarrow> None
      | Some b \<Rightarrow> map_option (Cons b) (macColon n e (drop 3 s)))"

fun macDot :: "nat \<Rightarrow> char \<Rightarrow> string \<Rightarrow> byte list option" where
  "macDot 0 e s = Some []"
| "macDot (Suc n) e s =
     (case (xtoi2 (take 2 s) (CHR 0x00), xtoi2 (drop 2 s) e) of
        (Some a, Some b) \<Rightarrow> map_option (\<lambda>r. a # b # r) (macDot n e (drop 5 s))
      | _ \<Rightarrow> None)"

definition macLen :: "nat \<Rightarrow> bool" where
  "macLen n \<longleftrightarrow> n = 6 \<or> n = 8 \<or> n = 20"

definition ParseMAC :: "string \<Rightarrow> byte list option" where
  "ParseMAC s =
     (if length s < 14 then None
      else if s ! 2 = CHR '':'' \<or> s ! 2 = CHR ''-'' then
        (if (length s + 1) mod 3 \<noteq> 0 then None
         else if \<not> macLen ((length s + 1) div 3) then None
         else macColon ((length s + 1) div 3) (s ! 2) s)
      else if s ! 4 = CHR ''.'' then
        (if (length s + 1) mod 5 \<noteq> 0 then None
         else if \<not> macLen (2 * (length s + 1) div 5) then None
         else macDot ((length s + 1) div 5) (s ! 4) s)
      else None)"

definition HardwareAddr_String :: "byte list \<Rightarrow> string" where
  "HardwareAddr_String m =
     Join (map (\<lambda>b. [hex_digit (unat b div 16), hex_digit (unat b mod 16)]) m) '':''"

section \<open>Facts on IPv4 parsing\<close>

lemma unat_of_nat_byte [simp]: "n \<le> 255 \<Longrightarrow> unat (of_nat n :: byte) = n"
  by (simp add: unat_of_nat)

lemma unat_byte_le [simp]: "unat (b :: byte) \<le> 255"
proof -
  have "unat b < 2 ^ LENGTH(8)" by (rule unsigned_less)
  then show ?thesis by simp
qed

lemma dotted_simps [simp]:
  "dotted [a] = utoa (unat a)"
  "dotted (a # b # bs) = utoa (unat a) @ CHR ''.'' # dotted (b # bs)"
  by (simp_all add: dotted_def Join_def)

lemma utoa_last_digit: "is_digit (last (utoa n))"
  by (rule set_utoa_digit) (rule last_in_set, simp)

lemma parseIPv4Fields_octet:
  "v \<le> 255 \<Longrightarrow> parseIPv4Fields prev (utoa v @ rest) 0 pos 0 flds
     = parseIPv4Fields (Some (last (utoa v))) rest v pos (length (utoa v)) flds"
proof (induction v arbitrary: rest rule: utoa.induct)
  case (1 n)
  show ?case
  proof (cases "n < 10")
    case True
    then show ?thesis by (simp add: utoa_small)
  next
    case False
    then have u: "utoa n = utoa (n div 10) @ [digit_char (n mod 10)]"
      by (subst utoa.simps) simp
    from False 1 have "parseIPv4Fields prev (utoa (n div 10) @ [digit_char (n mod 10)] @ rest) 0 pos 0 flds
      = parseIPv4Fields (Some (last (utoa (n div 10)))) ([digit_char (n mod 10)] @ rest) (n div 10) pos
          (length (utoa (n div 10))) flds" by simp
    also have "\<dots> = parseIPv4Fields (Some (digit_char (n mod 10))) rest n pos (length (utoa n)) flds"
      using False 1(2) u by (simp add: div_eq_0_iff)
    finally show ?thesis using u by simp
  qed
qed

lemma not_dot_last_utoa [simp]: "last (utoa n) \<noteq> CHR ''.''"
  using utoa_last_digit [of n] by auto

lemma parseIPv4_dotted: "parseIPv4 (dotted [a, b, c, d]) = Some [a, b, c, d]"
  using parseIPv4Fields_octet [where rest = "[]"]
  by (simp add: parseIPv4_def parseIPv4Fields_octet)

lemma parseIPv4Fields_sound:
  assumes "parseIPv4Fields prev s val pos dl flds = Some bs"
    and "length flds = pos" "pos \<le> 3" "val \<le> 255"
    and "dl = 0 \<longrightarrow> val = 0 \<and> (prev = None \<or> prev = Some (CHR ''.'')) \<and> (0 < pos \<longrightarrow> s \<noteq> [])"
    and "dl \<noteq> 0 \<longrightarrow> dl = length (utoa val)"
  shows "length bs = 4 \<and> take pos bs = flds \<and> (if dl = 0 then [] else utoa val) @ s = dotted (drop pos bs)"
  using assms
proof (induction prev s val pos dl flds rule: parseIPv4Fields.induct)
  case (1 prev val pos dl flds)
  then show ?case by (auto split: if_splits)
next
  case (2 prev c cs val pos dl flds)
  show ?case
  proof (cases "is_digit c")
    case True
    have small: "val * 10 + digit_val c \<le> 255" and guard: "\<not> (dl = 1 \<and> val = 0)"
      and rec: "parseIPv4Fields (Some c) cs (val * 10 + digit_val c) pos (dl + 1) flds = Some bs"
      using "2.prems"(1) True by (auto split: if_splits)
    have digits: "utoa (val * 10 + digit_val c) = (if dl = 0 then [] else utoa val) @ [c]"
    proof (cases "dl = 0")
      case True
      with "2.prems"(5) \<open>is_digit c\<close> show ?thesis by (simp add: utoa_small)
    next
      case False
      with "2.prems"(6) guard have "0 < val" by (cases "val = 0") (auto simp: utoa_small)
      with False True show ?thesis by (simp add: utoa_snoc)
    qed
    then have "dl + 1 = length (utoa (val * 10 + digit_val c))" using "2.prems"(6) by simp
    with "2.IH"(1) [OF True guard _ rec] small "2.prems"(2,3)
    have "length bs = 4 \<and> take pos bs = flds \<and> utoa (val * 10 + digit_val c) @ cs = dotted (drop pos bs)"
      by simp
    with digits show ?thesis by auto
  next
    case False
    have dot: "c = CHR ''.''" and neq: "cs \<noteq> []" "pos \<noteq> 3" and prev: "\<not> (prev = None \<or> prev = Some (CHR ''.''))"
      and rec: "parseIPv4Fields (Some c) cs 0 (pos + 1) 0 (flds @ [of_nat val]) = Some bs"
      using "2.prems"(1) False by (auto split: if_splits)
    have dl: "dl \<noteq> 0" using "2.prems"(5) prev by auto
    have "length bs = 4 \<and> take (pos + 1) bs = flds @ [of_nat val] \<and> cs = dotted (drop (pos + 1) bs)"
      using "2.IH"(2) [OF False dot _ _ rec] prev neq "2.prems"(2,3) dot by simp
    moreover from this have "drop pos bs = of_nat val # drop (pos + 1) bs" "drop (pos + 1) bs \<noteq> []"
      using "2.prems"(2,3) neq Cons_nth_drop_Suc [of pos bs] by (auto simp: take_Suc_conv_app_nth)
    moreover from this obtain x xs where "drop (pos + 1) bs = x # xs" by (meson neq_Nil_conv)
    ultimately show ?thesis using "2.prems"(2,3,4) dl dot
      by (auto simp: take_Suc_conv_app_nth)
  qed
qed

lemma parseIPv4_sound: "parseIPv4 s = Some bs \<Longrightarrow> length bs = 4 \<and> s = dotted bs"
  using parseIPv4Fields_sound [of None s 0 0 0 "[]" bs] by (simp add: parseIPv4_def)

lemma length_4_cases: "length bs = 4 \<longleftrightarrow> (\<exists>a b c d. bs = [a, b, c, d])"
  by (auto simp: numeral_eq_Suc length_Suc_conv)

text \<open>The IPv4 parser accepts exactly the canonical dotted-decimal texts.\<close>

lemma parseIPv4_iff: "parseIPv4 s = Some bs \<longleftrightarrow> length bs = 4 \<and> s = dotted bs"
  using parseIPv4_dotted parseIPv4_sound by (auto simp: length_4_cases)

section \<open>Network membership is equality of prefixes\<close>

text \<open>The value of a byte list read as a big-endian number.\<close>

fun be_val :: "byte list \<Rightarrow> nat" where
  "be_val [] = 0"
| "be_val (b # bs) = unat b * 256 ^ length bs + be_val bs"

lemma be_val_less: "be_val bs < 256 ^ length bs"
proof (induction bs)
  case (Cons b bs)
  have "unat b * 256 ^ length bs + be_val bs < unat b * 256 ^ length bs + 256 ^ length bs"
    using Cons by simp
  also have "\<dots> = (unat b + 1) * 256 ^ length bs" by simp
  also have "\<dots> \<le> 256 * 256 ^ length bs"
    using unat_byte_le [of b] by (intro mult_right_mono) (simp_all add: le_imp_less_Suc)
  finally show ?case by simp
qed simp

lemma length_CIDRMask [simp]: "length (CIDRMask n l) = l"
  by (induction l arbitrary: n) auto

lemma bit_255: "bit (255 :: byte) i \<longleftrightarrow> i < 8"
proof -
  have "(255 :: byte) = Bit_Operations.mask 8" by (simp add: mask_eq_exp_minus_1)
  then show ?thesis by (simp only: bit_mask_iff) (simp add: possible_bit_word)
qed

lemma and_255 [simp]: "x AND 255 = (x :: byte)"
  by (auto simp: bit_eq_iff bit_and_iff bit_255 possible_bit_word simp del: bit_numeral_word_iff)

lemma bit_mask_byte: "bit (NOT (drop_bit n (255 :: byte))) i \<longleftrightarrow> i < 8 \<and> 8 \<le> n + i"
  by (auto simp: bit_not_iff bit_drop_bit_eq bit_255 possible_bit_word simp del: bit_numeral_word_iff)

lemma mask_byte_eq:
  fixes a b :: byte
  assumes "n < 8"
  shows "a AND NOT (drop_bit n 255) = b AND NOT (drop_bit n 255) \<longleftrightarrow> unat a div 2 ^ (8 - n) = unat b div 2 ^ (8 - n)"
proof -
  have "a AND NOT (drop_bit n 255) = b AND NOT (drop_bit n 255) \<longleftrightarrow>
      (\<forall>i. i < 8 \<and> 8 \<le> n + i \<longrightarrow> bit a i = bit b i)"
    by (auto simp: bit_eq_iff [of "a AND _"] bit_and_iff bit_mask_byte possible_bit_word)
  also have "\<dots> \<longleftrightarrow> (\<forall>j < n. bit a (8 - n + j) = bit b (8 - n + j))"
  proof
    assume "\<forall>i. i < 8 \<and> 8 \<le> n + i \<longrightarrow> bit a i = bit b i"
    with assms show "\<forall>j < n. bit a (8 - n + j) = bit b (8 - n + j)" by simp
  next
    assume *: "\<forall>j < n. bit a (8 - n + j) = bit b (8 - n + j)"
    have "bit a i = bit b i" if "i < 8" "8 \<le> n + i" for i
    proof -
      from that have "i = 8 - n + (i - (8 - n))" "i - (8 - n) < n" using assms by auto
      with * show ?thesis by metis
    qed
    then show "\<forall>i. i < 8 \<and> 8 \<le> n + i \<longrightarrow> bit a i = bit b i" by blast
  qed
  also have "\<dots> \<longleftrightarrow> drop_bit (8 - n) a = drop_bit (8 - n) b"
  proof
    assume *: "\<forall>j < n. bit a (8 - n + j) = bit b (8 - n + j)"
    have out: "\<not> bit x (8 - n + j)" if "\<not> j < n" for x :: byte and j
      using that assms bit_imp_le_length [of x "8 - n + j"] by auto
    show "drop_bit (8 - n) a = drop_bit (8 - n) b"
      by (rule bit_word_eqI) (use * out in \<open>metis bit_drop_bit_eq comp_apply\<close>)
  next
    assume "drop_bit (8 - n) a = drop_bit (8 - n) b"
    then show "\<forall>j < n. bit a (8 - n + j) = bit b (8 - n + j)"
      by (metis bit_drop_bit_eq comp_apply)
  qed
  also have "\<dots> \<longleftrightarrow> unat a div 2 ^ (8 - n) = unat b div 2 ^ (8 - n)"
    by (simp only: word_unat_eq_iff unat_drop_bit_eq) (simp only: drop_bit_eq_div)
  finally show ?thesis .
qed

lemma map2_and_Cons: "map2 (AND) (a # as) (m # ms) = map2 (AND) (b # bs) (m # ms) \<longleftrightarrow>
   (a AND m = b AND m \<and> map2 (AND) as ms = map2 (AND) bs ms)"
  by simp

lemma map2_and_zero:
  "length as = length bs \<Longrightarrow> map2 (AND) as (CIDRMask 0 (length as)) = map2 (AND) bs (CIDRMask 0 (length bs))"
proof (induction as bs rule: list_induct2)
  case (Cons a as b bs)
  have "NOT (drop_bit 0 255 :: byte) = 0"
    by (rule bit_word_eqI) (simp add: bit_mask_byte del: drop_bit_0)
  then have "a AND NOT (drop_bit 0 255) = b AND NOT (drop_bit 0 255)"
    by (simp only: and_zero_eq)
  then show ?case using Cons by simp
qed simp

lemma div_split_lt:
  fixes x y r s K :: nat
  assumes "r < K" "s < K"
  shows "x * K + r = y * K + s \<longleftrightarrow> x = y \<and> r = s"
proof
  assume eq: "x * K + r = y * K + s"
  have "(x * K + r) div K = x" "(y * K + s) div K = y" using assms by simp_all
  with eq show "x = y \<and> r = s" by simp
qed simp

lemma be_div_Cons:
  assumes "k \<le> 8 * length bs"
  shows "be_val (b # bs) div 2 ^ k = unat b * 2 ^ (8 * length bs - k) + be_val bs div 2 ^ k"
proof -
  have p: "(256 :: nat) ^ length bs = 2 ^ (8 * length bs - k) * 2 ^ k"
    using assms by (simp flip: power_add power_mult) (simp add: power_mult)
  show ?thesis by (simp add: p flip: mult.assoc)
qed

lemma be_div_hd:
  assumes "n < 8"
  shows "be_val (b # bs) div 2 ^ (8 * length bs + (8 - n)) = unat b div 2 ^ (8 - n)"
proof -
  have p: "(256 :: nat) ^ length bs = 2 ^ (8 * length bs)" by (simp add: power_mult)
  have "be_val (b # bs) div 2 ^ (8 * length bs) = unat b"
    using be_val_less [of bs] by (simp add: p)
  then show ?thesis by (simp add: power_add div_mult2_eq)
qed

lemma masked_eq_iff:
  assumes "length as = length bs" "n \<le> 8 * length as"
  shows "map2 (AND) as (CIDRMask n (length as)) = map2 (AND) bs (CIDRMask n (length bs)) \<longleftrightarrow>
    be_val as div 2 ^ (8 * length as - n) = be_val bs div 2 ^ (8 * length bs - n)"
  using assms
proof (induction as bs arbitrary: n rule: list_induct2)
  case Nil
  then show ?case by simp
next
  case (Cons a as b bs)
  show ?case
  proof (cases "8 \<le> n")
    case True
    let ?k = "8 * length as - (n - 8)"
    let ?K = "2 ^ (n - 8) :: nat"
    have k: "8 * length (a # as) - n = ?k" "?k \<le> 8 * length as" "8 * length as - ?k = n - 8"
      using True Cons.prems by auto
    have "be_val xs div 2 ^ ?k < ?K" if "length xs = length as" for xs
    proof -
      have "be_val xs < 2 ^ (8 * length as)" using be_val_less [of xs] that by (simp add: power_mult)
      also have "\<dots> = ?K * 2 ^ ?k" using k by (simp flip: power_add)
      finally show ?thesis by (simp add: less_mult_imp_div_less)
    qed
    then have lt: "be_val as div 2 ^ ?k < ?K" "be_val bs div 2 ^ ?k < ?K" using Cons.hyps by auto
    have "map2 (AND) (a # as) (CIDRMask n (length (a # as))) = map2 (AND) (b # bs) (CIDRMask n (length (b # bs)))
      \<longleftrightarrow> a = b \<and> be_val as div 2 ^ ?k = be_val bs div 2 ^ ?k"
      using True Cons.IH [of "n - 8"] Cons.prems Cons.hyps by auto
    also have "\<dots> \<longleftrightarrow> unat a * ?K + be_val as div 2 ^ ?k = unat b * ?K + be_val bs div 2 ^ ?k"
      using div_split_lt [OF lt, of "unat a" "unat b"] by (simp add: word_unat_eq_iff)
    also have "\<dots> \<longleftrightarrow> be_val (a # as) div 2 ^ ?k = be_val (b # bs) div 2 ^ ?k"
      using be_div_Cons [of ?k as a] be_div_Cons [of ?k bs b] k Cons.hyps by simp
    finally show ?thesis using k Cons.hyps by simp
  next
    case False
    then have k: "8 * length (a # as) - n = 8 * length as + (8 - n)" by simp
    have "map2 (AND) (a # as) (CIDRMask n (length (a # as))) = map2 (AND) (b # bs) (CIDRMask n (length (b # bs)))
      \<longleftrightarrow> unat a div 2 ^ (8 - n) = unat b div 2 ^ (8 - n)"
      using False mask_byte_eq [of n a b] map2_and_zero [OF Cons.hyps] Cons.hyps by simp
    then show ?thesis
      using be_div_hd [of n a as] be_div_hd [of n b bs] False k Cons.hyps by simp
  qed
qed

section \<open>CIDR texts of IPv4 networks\<close>

lemma addrKind_digits: "list_all is_digit ds \<Longrightarrow> addrKind (ds @ s) = addrKind s"
  by (induction ds) auto

lemma addrKind_dotted: "addrKind (dotted (a # b # bs) @ s) = Some IPv4"
  by (simp add: addrKind_digits utoa_digits)

lemma ParseAddr_dotted: "length bs = 4 \<Longrightarrow> ParseAddr (dotted bs) = Some (IPv4, bs)"
proof -
  assume len: "length bs = 4"
  then obtain a b r where "bs = a # b # r" by (auto simp: length_4_cases)
  then have "addrKind (dotted bs) = Some IPv4" using addrKind_dotted [of a b r "[]"] by simp
  moreover have "parseIPv4 (dotted bs) = Some bs" using len parseIPv4_iff [of "dotted bs" bs] by simp
  ultimately show ?thesis by (simp add: ParseAddr_def)
qed

lemma ParseAddr_v4D: "ParseAddr s = Some (IPv4, bs) \<Longrightarrow> length bs = 4 \<and> s = dotted bs"
  by (auto simp: ParseAddr_def parseIPv4_iff split: option.splits addr_family.splits)

lemma dtoi_foldl: "list_all is_digit ds \<Longrightarrow> foldl (\<lambda>acc c. acc * 10 + digit_val c) n ds < 16777215 \<Longrightarrow>
    dtoi ds n = Some (foldl (\<lambda>acc c. acc * 10 + digit_val c) n ds)"
proof (induction ds arbitrary: n)
  case (Cons c cs)
  have grow: "k \<le> foldl (\<lambda>acc c. acc * 10 + digit_val c) k cs" for k
  proof (induction cs arbitrary: k)
    case (Cons d ds)
    have "k \<le> k * 10 + digit_val d" by simp
    also note Cons.IH [of "k * 10 + digit_val d"]
    finally show ?case by simp
  qed simp
  have "n * 10 + digit_val c < 16777215"
    using grow [of "n * 10 + digit_val c"] Cons.prems(2) by simp
  with Cons show ?case by simp
qed simp

lemma dtoi_utoa: "p < 16777215 \<Longrightarrow> dtoi (utoa p) 0 = Some p"
  using dtoi_foldl [of "utoa p" 0] dec_val_utoa [of p] utoa_digits [of p] by (simp add: dec_val_def)

lemma dtoi_digits: "dtoi ds n = Some k \<Longrightarrow> list_all is_digit ds"
  by (induction ds n rule: dtoi.induct) (auto split: if_splits)

lemma dotted_no_slash: "CHR ''/'' \<notin> set (dotted bs)"
proof -
  have "CHR ''/'' \<notin> set (utoa n)" for n using set_utoa_digit [of "CHR ''/''" n] by auto
  then show ?thesis by (cases bs) (auto simp: dotted_def Join_def)
qed

lemma map2_and_idem: "map2 (AND) (map2 (AND) xs ms) ms = map2 (AND) xs (ms :: byte list)"
  by (induction xs ms rule: list_induct2') (auto simp: and.assoc)

definition v4_net :: "byte list \<Rightarrow> nat \<Rightarrow> ip_net" where
  "v4_net nb p = \<lparr>net_ip = map2 (AND) nb (CIDRMask p 4), net_mask = CIDRMask p 4\<rparr>"

lemma length_v4InV6Prefix [simp]: "length v4InV6Prefix = 12"
  by (simp add: v4InV6Prefix_def)

lemma IP_Mask_v4: "length nb = 4 \<Longrightarrow> IP_Mask (v4InV6Prefix @ nb) (CIDRMask p 4) = Some (map2 (AND) nb (CIDRMask p 4))"
  by (simp add: IP_Mask_def)

lemma ParseCIDR_v4:
  assumes "length nb = 4" "p \<le> 32"
  shows "ParseCIDR (dotted nb @ ''/'' @ utoa p) = Some (v4InV6Prefix @ nb, v4_net nb p)"
proof -
  have "takeWhile (\<lambda>c. c \<noteq> CHR ''/'') (dotted nb @ ''/'' @ utoa p) = dotted nb"
    using dotted_no_slash [of nb] by (subst takeWhile_all) auto
  then show ?thesis
    using assms by (simp add: ParseCIDR_def ParseAddr_dotted dtoi_utoa BitLen_def As16_def IP_Mask_v4 v4_net_def Let_def)
qed

lemma IPNet_Contains_v4:
  assumes "length nb = 4" "length ib = 4" "p \<le> 32"
  shows "IPNet_Contains (v4_net nb p) (v4InV6Prefix @ ib) \<longleftrightarrow>
    be_val ib div 2 ^ (32 - p) = be_val nb div 2 ^ (32 - p)"
proof -
  let ?m = "CIDRMask p 4"
  have "length (map2 (AND) nb ?m) = 4" using assms by simp
  then have "networkNumberAndMask (v4_net nb p) = Some (map2 (AND) nb ?m, ?m)"
    by (simp add: networkNumberAndMask_def v4_net_def To4_def)
  moreover have "To4 (v4InV6Prefix @ ib) = Some ib" using assms by (simp add: To4_def)
  ultimately have "IPNet_Contains (v4_net nb p) (v4InV6Prefix @ ib) \<longleftrightarrow> map2 (AND) nb ?m = map2 (AND) ib ?m"
    using assms by (simp add: IPNet_Contains_def map2_and_idem)
  also have "\<dots> \<longleftrightarrow> be_val nb div 2 ^ (32 - p) = be_val ib div 2 ^ (32 - p)"
    using masked_eq_iff [of nb ib p] assms by simp
  finally show ?thesis by auto
qed

section \<open>Hardware addresses round trip\<close>

lemma hex_val_hex_digit [simp]: "d < 16 \<Longrightarrow> hex_val (hex_digit d) = Some d"
  by (auto simp: hex_val_def hex_digit_def is_digit_def)

lemma hex_digit_not_sep [simp]: "d < 16 \<Longrightarrow> hex_digit d \<noteq> CHR '':''" "d < 16 \<Longrightarrow> CHR '':'' \<noteq> hex_digit d"
proof -
  show *: "d < 16 \<Longrightarrow> hex_digit d \<noteq> CHR '':''"
    using hex_val_hex_digit [of d] by (auto simp: hex_val_def is_digit_def)
  then show "d < 16 \<Longrightarrow> CHR '':'' \<noteq> hex_digit d" by metis
qed

abbreviation hex_byte :: "byte \<Rightarrow> string" where
  "hex_byte b \<equiv> [hex_digit (unat b div 16), hex_digit (unat b mod 16)]"

lemma unat_div_16 [simp]: "unat (b :: byte) div 16 < 16"
  using unat_byte_le [of b] by linarith

lemma HardwareAddr_String_simps [simp]:
  "HardwareAddr_String [] = []"
  "HardwareAddr_String [b] = hex_byte b"
  "HardwareAddr_String (b # c # bs) = hex_byte b @ CHR '':'' # HardwareAddr_String (c # bs)"
  by (simp_all add: HardwareAddr_String_def Join_def)

lemma length_HardwareAddr_String: "bs \<noteq> [] \<Longrightarrow> length (HardwareAddr_String bs) + 1 = 3 * length bs"
proof (induction bs rule: induct_list012)
  case (3 x y zs)
  then show ?case by simp
qed simp_all

lemma xtoi2_hex_byte [simp]:
  "xtoi2 (hex_digit (unat b div 16) # hex_digit (unat b mod 16) # CHR '':'' # s) (CHR '':'') = Some b"
  "xtoi2 (hex_byte b) e = Some b"
  by (simp_all add: xtoi2_def)

lemma macColon_HardwareAddr: "macColon (length bs) (CHR '':'') (HardwareAddr_String bs) = Some bs"
proof (induction bs rule: induct_list012)
  case (3 x y zs)
  then show ?case by (simp add: numeral_3_eq_3)
qed simp_all

lemma ParseMAC_HardwareAddr_String:
  assumes "macLen (length m)"
  shows "ParseMAC (HardwareAddr_String m) = Some m"
proof -
  obtain a b rest where m: "m = a # b # rest" using assms
    by (cases m; cases "tl m") (auto simp: macLen_def)
  have "length (HardwareAddr_String m) + 1 = 3 * length m"
    using length_HardwareAddr_String [of m] m by simp
  moreover have "HardwareAddr_String m ! 2 = CHR '':''" using m by simp
  moreover have "6 \<le> length m" using assms by (auto simp: macLen_def)
  ultimately show ?thesis
    using assms macColon_HardwareAddr [of m] by (simp add: ParseMAC_def)
qed

lemma macColon_length: "macColon n e s = Some bs \<Longrightarrow> length bs = n"
  by (induction n arbitrary: s bs) (auto split: option.splits)

lemma macDot_length: "macDot n e s = Some bs \<Longrightarrow> length bs = 2 * n"
  by (induction n arbitrary: s bs) (auto split: option.splits)

lemma ParseMAC_length:
  assumes "ParseMAC s = Some m"
  shows "macLen (length m)"
proof -
  have "2 * (length s + 1) div 5 = 2 * ((length s + 1) div 5)" if "(length s + 1) mod 5 = 0"
    using that by presburger
  then show ?thesis
    using assms by (auto simp: ParseMAC_def macColon_length macDot_length split: if_splits)
qed

section \<open>The characters of an accepted text\<close>

definition addr_char :: "char \<Rightarrow> bool" where
  "addr_char c \<longleftrightarrow> is_hex c \<or> c = CHR '':'' \<or> c = CHR ''.''"

lemma addr_char_seps [simp]: "addr_char (CHR '':'')" "addr_char (CHR ''.'')"
  by (simp_all add: addr_char_def)

lemma addr_char_digit [simp]: "is_digit c \<Longrightarrow> addr_char c"
  by (simp add: addr_char_def is_hex_def hex_val_def)

lemma addr_char_not_space: "addr_char c \<Longrightarrow> \<not> is_space c \<and> c \<noteq> CHR ''/''"
  by (auto simp: addr_char_def is_hex_def hex_val_def is_space_def is_digit_def split: if_splits)

lemma hexGroup_chars: "hexGroup s off acc = Some (o', a', rest) \<Longrightarrow> \<exists>p. s = p @ rest \<and> list_all addr_char p"
proof (induction s off acc rule: hexGroup.induct)
  case (2 c cs off acc)
  show ?case
  proof (cases "hex_val c")
    case None
    then show ?thesis using 2 by auto
  next
    case (Some d)
    then obtain p where "cs = p @ rest" "list_all addr_char p" using 2 by (auto split: if_splits)
    then have "c # cs = (c # p) @ rest" "list_all addr_char (c # p)" using Some by (auto simp: addr_char_def is_hex_def)
    then show ?thesis by blast
  qed
qed simp

lemma dotted_chars: "list_all addr_char (dotted bs)"
proof -
  have "list_all addr_char (Join (map (\<lambda>b. utoa (f b)) cs) ''.'')" for f :: "byte \<Rightarrow> nat" and cs
    by (cases cs) (auto simp: Join_def list_all_iff dest!: set_utoa_digit)
  then show ?thesis by (simp add: dotted_def)
qed

lemma parseIPv4_chars: "parseIPv4 s = Some bs \<Longrightarrow> list_all addr_char s"
  using dotted_chars by (simp add: parseIPv4_iff)

lemma ipv6Loop_chars: "ipv6Loop n s bs ell = Some (bs', ell', rest) \<Longrightarrow> \<exists>p. s = p @ rest \<and> list_all addr_char p"
proof (induction n s bs ell rule: ipv6Loop.induct)
  case (2 n s bs ell)
  obtain off acc r where g: "hexGroup s 0 0 = Some (off, acc, r)" using 2(3) by (auto split: option.splits)
  obtain p where p: "s = p @ r" "list_all addr_char p" using hexGroup_chars [OF g] by blast
  have step: "\<exists>q. s = q @ rest \<and> list_all addr_char q"
    if "r = x @ y" "list_all addr_char x" "\<exists>z. y = z @ rest \<and> list_all addr_char z" for x y
    using that p by (metis append.assoc list_all_append)
  show ?case
  proof (cases "r \<noteq> [] \<and> hd r = CHR ''.''")
    case True
    then show ?thesis using 2(3) g by (auto split: option.splits if_splits dest!: parseIPv4_chars)
  next
    case False
    show ?thesis
    proof (cases r)
      case Nil
      then show ?thesis using 2(3) g p by (auto simp: Let_def split: if_splits)
    next
      case (Cons c cs)
      then obtain c' cs' where cs: "c = CHR '':''" "cs = c' # cs'" "off \<noteq> 0"
        using 2(3) g False by (cases cs) (auto simp: Let_def split: if_splits)
      show ?thesis
      proof (cases "c' = CHR '':''")
        case True
        have "cs' = [] \<and> rest = [] \<or> (\<exists>z. cs' = z @ rest \<and> list_all addr_char z)"
          using 2(3) 2(1) [OF g] g False Cons cs True by (auto simp: Let_def split: if_splits)
        then show ?thesis using step [of "''::''" cs'] Cons cs True by auto
      next
        case False': False
        have "\<exists>z. cs = z @ rest \<and> list_all addr_char z"
          using 2(3) 2(2) [OF g] g False Cons cs False' by (auto simp: Let_def split: if_splits)
        then show ?thesis using step [of "'':''" cs] Cons cs by auto
      qed
    qed
  qed
qed simp

lemma parseIPv6_chars: "parseIPv6 s = Some bs \<Longrightarrow> list_all addr_char s"
proof -
  assume a: "parseIPv6 s = Some bs"
  have fin: "list_all addr_char t" if "Option.bind (ipv6Loop n t b e) ipv6Finish = Some bs" for n t b e
    using that ipv6Loop_chars [of n t b e] by (auto simp: bind_eq_Some_conv ipv6Finish_def split: if_splits)
  show ?thesis
  proof (cases "take 2 s = ''::''")
    case True
    then have s: "s = ''::'' @ drop 2 s" by (metis append_take_drop_id)
    have "list_all addr_char (drop 2 s)"
      using a True fin [of 8 "drop 2 s"] by (cases "drop 2 s = []") (auto simp: parseIPv6_def split: if_splits)
    then show ?thesis by (subst s) simp
  qed (use a fin [of 8 s] in \<open>auto simp: parseIPv6_def split: if_splits\<close>)
qed

lemma ParseAddr_chars: "ParseAddr s = Some a \<Longrightarrow> list_all addr_char s"
  by (auto simp: ParseAddr_def parseIPv4_chars parseIPv6_chars split: option.splits addr_family.splits)

lemma ParseAddr_nonempty: "ParseAddr s = Some a \<Longrightarrow> s \<noteq> []"
  by (auto simp: ParseAddr_def)

text \<open>An accepted prefix text is an address, one slash and digits.\<close>

lemma ParseCIDR_shape:
  assumes "ParseCIDR s = Some r"
  shows "\<exists>a ds. s = a @ ''/'' @ ds \<and> a \<noteq> [] \<and> ds \<noteq> [] \<and> list_all addr_char a \<and> list_all is_digit ds"
proof -
  let ?a = "takeWhile (\<lambda>c. c \<noteq> CHR ''/'') s"
  let ?m = "drop (length ?a + 1) s"
  have mem: "CHR ''/'' \<in> set s" using assms by (auto simp: ParseCIDR_def split: if_splits)
  obtain x where x: "ParseAddr ?a = Some x" "?m \<noteq> []" "dtoi ?m 0 \<noteq> None"
    using assms by (auto simp: ParseCIDR_def Let_def split: if_splits option.splits)
  have d: "dropWhile (\<lambda>c. c \<noteq> CHR ''/'') s = drop (length ?a) s" by (rule dropWhile_eq_drop)
  have ne: "dropWhile (\<lambda>c. c \<noteq> CHR ''/'') s \<noteq> []" using mem by auto
  then have "length ?a < length s" using d by simp
  then have "drop (length ?a) s = s ! length ?a # ?m" by (simp add: Cons_nth_drop_Suc)
  moreover have "hd (dropWhile (\<lambda>c. c \<noteq> CHR ''/'') s) = CHR ''/''" using hd_dropWhile [OF ne] by simp
  ultimately have "dropWhile (\<lambda>c. c \<noteq> CHR ''/'') s = CHR ''/'' # ?m" using d by simp
  then have "s = ?a @ ''/'' @ ?m" using takeWhile_dropWhile_id [of "\<lambda>c. c \<noteq> CHR ''/''" s] by simp
  then show ?thesis using x ParseAddr_chars [OF x(1)] ParseAddr_nonempty [OF x(1)] dtoi_digits by blast
qed

section \<open>Printing a network\<close>

lemma byte_ones_mask: "n \<le> 8 \<Longrightarrow> k \<le> 8 \<Longrightarrow> byte_ones k (NOT (drop_bit n (255 :: byte))) = k + n - 8"
  by (induction k) (auto simp: bit_mask_byte simp del: bit_numeral_word_iff)

lemma mask_byte_0: "NOT (drop_bit 0 (255 :: byte)) = 0"
  by (simp add: bit_eq_iff bit_mask_byte possible_bit_word del: drop_bit_0 bit_numeral_word_iff)

lemma mask_byte_not_255: "p < 8 \<Longrightarrow> NOT (drop_bit p (255 :: byte)) \<noteq> 255"
  using bit_mask_byte [of p 0] bit_255 [of 0] by auto

lemma CIDRMask_zero: "list_all (\<lambda>x. x = 0) (CIDRMask 0 l)"
  by (induction l) (simp_all add: mask_byte_0 del: drop_bit_0)

lemma simpleMaskLength_CIDRMask: "p \<le> 8 * l \<Longrightarrow> simpleMaskLength (CIDRMask p l) = Some p"
proof (induction l arbitrary: p)
  case (Suc l)
  show ?case
  proof (cases "8 \<le> p")
    case True
    then show ?thesis using Suc by simp
  next
    case False
    then show ?thesis using byte_ones_mask [of p 8] mask_byte_not_255 [of p] CIDRMask_zero [of l]
      by (simp add: list_all_iff)
  qed
qed simp

lemma To4_v4: "length bs = 4 \<Longrightarrow> To4 (v4InV6Prefix @ bs) = Some bs" "length bs = 4 \<Longrightarrow> To4 bs = Some bs"
  by (simp_all add: To4_def)

lemma IP_String_v4: "length bs = 4 \<Longrightarrow> IP_String (v4InV6Prefix @ bs) = dotted bs" "length bs = 4 \<Longrightarrow> IP_String bs = dotted bs"
  by (simp_all add: IP_String_def To4_v4)

lemma IPNet_String_v4:
  assumes "length nb = 4" "p \<le> 32"
  shows "IPNet_String (v4_net nb p) = dotted (map2 (AND) nb (CIDRMask p 4)) @ ''/'' @ utoa p"
proof -
  have "networkNumberAndMask (v4_net nb p) = Some (map2 (AND) nb (CIDRMask p 4), CIDRMask p 4)"
    using assms by (simp add: networkNumberAndMask_def v4_net_def To4_v4)
  then show ?thesis
    using assms simpleMaskLength_CIDRMask [of p 4] by (simp add: IPNet_String_def IP_String_v4)
qed

lemma dotted_inject:
  assumes "length a = 4" "length b = 4"
  shows "dotted a = dotted b \<longleftrightarrow> a = b"
  using ParseAddr_dotted [OF assms(1)] ParseAddr_dotted [OF assms(2)] by (metis option.inject snd_conv)

section \<open>A parsed hardware address has no space around it\<close>

lemma hex_val_no_space: "hex_val c = Some x \<Longrightarrow> \<not> is_space c"
  by (auto simp: hex_val_def is_space_def is_digit_def split: if_splits)

lemma xtoi2_hd:
  "xtoi2 s e = Some b \<Longrightarrow> s \<noteq> [] \<and> \<not> is_space (hd s)"
  "xtoi2 s e = Some b \<Longrightarrow> length s = 2 \<Longrightarrow> \<not> is_space (last s)"
  by (auto simp: xtoi2_def dest: hex_val_no_space split: if_splits list.splits option.splits)

lemma macColon_ends:
  "macColon n e s = Some m \<Longrightarrow> length s + 1 = 3 * n \<Longrightarrow> s \<noteq> [] \<and> \<not> is_space (hd s) \<and> \<not> is_space (last s)"
proof (induction n arbitrary: s m)
  case (Suc n)
  then obtain b m' where b: "xtoi2 s e = Some b" "macColon n e (drop 3 s) = Some m'" by (auto split: option.splits)
  show ?case
  proof (cases n)
    case 0
    then show ?thesis using xtoi2_hd [OF b(1)] Suc.prems(2) by simp
  next
    case (Suc k)
    then have l: "3 < length s" "length (drop 3 s) + 1 = 3 * n" using Suc.prems(2) by simp_all
    then show ?thesis using Suc.IH [OF b(2)] xtoi2_hd(1) [OF b(1)] by (simp add: last_drop)
  qed
qed simp

lemma macDot_ends:
  "macDot n e s = Some m \<Longrightarrow> length s + 1 = 5 * n \<Longrightarrow> s \<noteq> [] \<and> \<not> is_space (hd s) \<and> \<not> is_space (last s)"
proof (induction n arbitrary: s m)
  case (Suc n)
  then obtain a b m' where b: "xtoi2 (take 2 s) (CHR 0x00) = Some a" "xtoi2 (drop 2 s) e = Some b" "macDot n e (drop 5 s) = Some m'"
    by (auto split: option.splits)
  have h: "s \<noteq> [] \<and> \<not> is_space (hd s)" using xtoi2_hd(1) [OF b(1)] by (simp add: hd_take)
  show ?case
  proof (cases n)
    case 0
    then have "length (drop 2 s) = 2" using Suc.prems(2) by simp
    then show ?thesis using xtoi2_hd(2) [OF b(2)] h by (simp add: last_drop)
  next
    case (Suc k)
    then have l: "5 < length s" "length (drop 5 s) + 1 = 5 * n" using Suc.prems(2) by simp_all
    then show ?thesis using Suc.IH [OF b(3)] h by (simp add: last_drop)
  qed
qed simp

lemma ParseMAC_trimmed:
  assumes "ParseMAC s = Some m"
  shows "s \<noteq> []" "TrimSpace s = s"
proof -
  have "(\<exists>n e. macColon n e s = Some m \<and> length s + 1 = 3 * n) \<or> (\<exists>n e. macDot n e s = Some m \<and> length s + 1 = 5 * n)"
    using assms by (fastforce simp: ParseMAC_def dvd_def mod_eq_0_iff_dvd split: if_splits)
  then have "s \<noteq> [] \<and> \<not> is_space (hd s) \<and> \<not> is_space (last s)" using macColon_ends macDot_ends by blast
  then show "s \<noteq> []" "TrimSpace s = s" by (simp_all add: TrimSpace_def Trim_id)
qed

end
