(* ===== verification/Go_Regexp.thy ===== *)
theory Go_Regexp
  imports Go_Strings
begin

text \<open>
  Regular expressions as \<open>regexp.MatchString\<close> uses them on an anchored pattern
  \<open>^...$\<close>: the language of an expression as an inductive relation, and an executable
  matcher by derivatives that decides it. Patterns of the program are written with the
  constructors of this theory, in the shape the source gives them.
\<close>

datatype regex =
    Zero
  | One
  | Cls "char \<Rightarrow> bool"
  | Seq regex regex
  | Alt regex regex
  | Star regex

abbreviation Opt :: "regex \<Rightarrow> regex" where "Opt r \<equiv> Alt r One"
abbreviation Plus :: "regex \<Rightarrow> regex" where "Plus r \<equiv> Seq r (Star r)"

fun Lit :: "string \<Rightarrow> regex" where
  "Lit [] = One"
| "Lit (c # cs) = Seq (Cls (\<lambda>x. x = c)) (Lit cs)"

fun Rep :: "nat \<Rightarrow> regex \<Rightarrow> regex" where
  "Rep 0 r = One"
| "Rep (Suc n) r = Seq r (Rep n r)"

inductive in_lang :: "regex \<Rightarrow> string \<Rightarrow> bool" where
  One: "in_lang One []"
| Cls: "P c \<Longrightarrow> in_lang (Cls P) [c]"
| Seq: "in_lang r s \<Longrightarrow> in_lang q t \<Longrightarrow> in_lang (Seq r q) (s @ t)"
| AltL: "in_lang r s \<Longrightarrow> in_lang (Alt r q) s"
| AltR: "in_lang q s \<Longrightarrow> in_lang (Alt r q) s"
| Star_Nil: "in_lang (Star r) []"
| Star_Cons: "in_lang r s \<Longrightarrow> in_lang (Star r) t \<Longrightarrow> in_lang (Star r) (s @ t)"

inductive_simps in_lang_simps [simp]:
  "in_lang Zero s" "in_lang One s" "in_lang (Cls P) s" "in_lang (Alt r q) s"

inductive_simps in_lang_Seq: "in_lang (Seq r q) s"
inductive_cases in_lang_StarE: "in_lang (Star r) s"

fun nullable :: "regex \<Rightarrow> bool" where
  "nullable Zero = False"
| "nullable One = True"
| "nullable (Cls P) = False"
| "nullable (Seq r q) = (nullable r \<and> nullable q)"
| "nullable (Alt r q) = (nullable r \<or> nullable q)"
| "nullable (Star r) = True"

fun deriv :: "char \<Rightarrow> regex \<Rightarrow> regex" where
  "deriv c Zero = Zero"
| "deriv c One = Zero"
| "deriv c (Cls P) = (if P c then One else Zero)"
| "deriv c (Seq r q) = (if nullable r then Alt (Seq (deriv c r) q) (deriv c q) else Seq (deriv c r) q)"
| "deriv c (Alt r q) = Alt (deriv c r) (deriv c q)"
| "deriv c (Star r) = Seq (deriv c r) (Star r)"

fun MatchString :: "regex \<Rightarrow> string \<Rightarrow> bool" where
  "MatchString r [] = nullable r"
| "MatchString r (c # cs) = MatchString (deriv c r) cs"

section \<open>The matcher decides the language\<close>

lemma nullable_iff: "nullable r \<longleftrightarrow> in_lang r []"
proof (induction r)
  case (Star r)
  then show ?case by (simp add: in_lang.Star_Nil)
qed (auto simp: in_lang_Seq)

lemma Star_Cons_split:
  "in_lang (Star r) s \<Longrightarrow> s = c # cs \<Longrightarrow> \<exists>u v. cs = u @ v \<and> in_lang r (c # u) \<and> in_lang (Star r) v"
proof (induction "Star r" s arbitrary: cs rule: in_lang.induct)
  case (Star_Cons s t)
  then show ?case by (cases s) auto
qed simp

lemma in_lang_Star_Cons:
  "in_lang (Star r) (c # cs) \<longleftrightarrow> (\<exists>u v. cs = u @ v \<and> in_lang r (c # u) \<and> in_lang (Star r) v)"
  using Star_Cons_split in_lang.Star_Cons [of r "c # _"] by fastforce

lemma in_lang_Seq_Cons:
  "in_lang (Seq r q) (c # cs) \<longleftrightarrow>
     (\<exists>u v. cs = u @ v \<and> in_lang r (c # u) \<and> in_lang q v) \<or> (in_lang r [] \<and> in_lang q (c # cs))"
  by (auto simp: in_lang_Seq Cons_eq_append_conv)

lemma deriv_iff: "in_lang (deriv c r) cs \<longleftrightarrow> in_lang r (c # cs)"
proof (induction r arbitrary: cs)
  case (Seq r q)
  then show ?case unfolding in_lang_Seq_Cons by (auto simp: in_lang_Seq nullable_iff)
next
  case (Star r)
  then show ?case unfolding in_lang_Star_Cons by (auto simp: in_lang_Seq)
qed auto

theorem MatchString_iff: "MatchString r s \<longleftrightarrow> in_lang r s"
  by (induction s arbitrary: r) (simp_all add: nullable_iff deriv_iff)

section \<open>Languages of the common shapes\<close>

lemma in_lang_Lit [simp]: "in_lang (Lit l) s \<longleftrightarrow> s = l"
  by (induction l arbitrary: s) (auto simp: in_lang_Seq)

lemma in_lang_Star_Cls [simp]: "in_lang (Star (Cls P)) s \<longleftrightarrow> list_all P s"
proof (induction s)
  case Nil
  show ?case by (simp add: in_lang.Star_Nil)
next
  case (Cons c cs)
  then show ?case by (auto simp: in_lang_Star_Cons)
qed

lemma in_lang_Seq_Cls: "in_lang (Seq (Cls P) q) s \<longleftrightarrow> (\<exists>c t. s = c # t \<and> P c \<and> in_lang q t)"
proof
  assume "\<exists>c t. s = c # t \<and> P c \<and> in_lang q t"
  then obtain c t where "s = [c] @ t" "P c" "in_lang q t" by auto
  then show "in_lang (Seq (Cls P) q) s" by (auto intro: in_lang.intros simp del: append.simps)
qed (auto simp: in_lang_Seq)

lemma in_lang_Plus_Cls [simp]: "in_lang (Plus (Cls P)) s \<longleftrightarrow> s \<noteq> [] \<and> list_all P s"
  by (cases s) (auto simp: in_lang_Seq_Cls)

lemma in_lang_Rep_Cls [simp]: "in_lang (Rep n (Cls P)) s \<longleftrightarrow> length s = n \<and> list_all P s"
proof (induction n arbitrary: s)
  case (Suc n)
  then show ?case by (cases s) (auto simp: in_lang_Seq_Cls)
qed auto

text \<open>Labels separated by one character are a repetition of that character and a label.\<close>

lemma in_lang_Star_sep:
  assumes nosep: "\<And>t. in_lang r t \<Longrightarrow> sep \<notin> set t"
  shows "in_lang (Seq r (Star (Seq (Cls (\<lambda>c. c = sep)) r))) s \<longleftrightarrow> (\<forall>p \<in> set (Split s sep). in_lang r p)"
proof
  let ?R = "Star (Seq (Cls (\<lambda>c. c = sep)) r)"
  have tail: "in_lang ?R t \<Longrightarrow> t = [] \<or> (\<exists>u. t = sep # u \<and> (\<forall>p \<in> set (Split u sep). in_lang r p))" for t
  proof (induction "?R" t rule: in_lang.induct)
    case (Star_Cons v t)
    then obtain l where l: "v = sep # l" "in_lang r l" by (auto simp: in_lang_Seq_Cls)
    with Star_Cons.hyps nosep [OF l(2)] show ?case by (auto simp: Split_none Split_append)
  qed simp
  assume "in_lang (Seq r ?R) s"
  then obtain l t where "s = l @ t" "in_lang r l" "in_lang ?R t" by (auto simp: in_lang_Seq)
  with tail [of t] nosep [of l] show "\<forall>p \<in> set (Split s sep). in_lang r p"
    by (auto simp: Split_none Split_append)
next
  let ?R = "Star (Seq (Cls (\<lambda>c. c = sep)) r)"
  assume "\<forall>p \<in> set (Split s sep). in_lang r p"
  then have "\<exists>l t. s = l @ t \<and> in_lang r l \<and> in_lang ?R t"
  proof (induction "length s" arbitrary: s rule: less_induct)
    case less
    show ?case
    proof (cases "sep \<in> set s")
      case False
      with less.prems show ?thesis by (force simp: Split_none intro: in_lang.Star_Nil)
    next
      case True
      then obtain l u where s: "s = l @ sep # u" "sep \<notin> set l" by (meson split_list_first)
      then have "length u < length s" "\<forall>p \<in> set (Split u sep). in_lang r p"
        using less.prems by (simp_all add: Split_append)
      then obtain m t where m: "u = m @ t" "in_lang r m" "in_lang ?R t" using less.hyps by blast
      have "in_lang (Seq (Cls (\<lambda>c. c = sep)) r) (sep # m)" using m by (auto simp: in_lang_Seq_Cls)
      then have "in_lang ?R ((sep # m) @ t)" using m(3) by (rule in_lang.Star_Cons)
      then have "in_lang ?R (sep # u)" using m by simp
      moreover have "in_lang r l" using s less.prems by (simp add: Split_append)
      ultimately show ?thesis using s by blast
    qed
  qed
  then show "in_lang (Seq r ?R) s" by (auto simp: in_lang_Seq)
qed

text \<open>A label of the characters \<open>Q\<close> that starts and ends with a character of \<open>P\<close>.\<close>

lemma in_lang_label:
  assumes "\<And>c. P c \<Longrightarrow> Q c"
  shows "in_lang (Seq (Cls P) (Opt (Seq (Star (Cls Q)) (Cls P)))) s \<longleftrightarrow>
    s \<noteq> [] \<and> list_all Q s \<and> P (hd s) \<and> P (last s)"
proof -
  have "in_lang (Opt (Seq (Star (Cls Q)) (Cls P))) t \<longleftrightarrow> t = [] \<or> (list_all Q t \<and> P (last t))" for t
    using assms by (cases t rule: rev_cases) (auto simp: in_lang_Seq)
  then show ?thesis using assms by (cases s) (auto simp: in_lang_Seq_Cls)
qed

end
