(* ===== verification/Entities.thy ===== *)
theory Entities
  imports Go_Net Go_Regexp Domain_Errors
begin

text \<open>
  The value objects and the \<open>NetworkInterface\<close> entity of \<open>internal/domain/entities\<close> and the
  constants of \<open>internal/domain/constants\<close>: each constructor with every error it can return
  and the code of that error, the operations on the entity, and its invariant.
\<close>

section \<open>Constants\<close>

definition InterfacePrefix :: string where "InterfacePrefix = ''multinic''"
definition MaxInterfaces :: int where "MaxInterfaces = 10"
definition NetplanConfigDir :: string where "NetplanConfigDir = ''/etc/netplan''"
definition RHELNetworkScriptsDir :: string where "RHELNetworkScriptsDir = ''/etc/sysconfig/network-scripts''"
definition NetworkManagerDir :: string where "NetworkManagerDir = ''/etc/NetworkManager/system-connections''"
definition SystemdNetworkDir :: string where "SystemdNetworkDir = ''/etc/systemd/network''"
definition OSReleaseFile :: string where "OSReleaseFile = ''/host/etc/os-release''"
definition DefaultBackupDir :: string where "DefaultBackupDir = ''/var/lib/multinic/backups''"
definition SysClassNet :: string where "SysClassNet = ''/sys/class/net''"
definition DefaultMaxRetries :: int where "DefaultMaxRetries = 3"
definition DefaultMaxConcurrentTasks :: int where "DefaultMaxConcurrentTasks = 1"

lemmas path_defs = NetplanConfigDir_def RHELNetworkScriptsDir_def NetworkManagerDir_def
  SystemdNetworkDir_def OSReleaseFile_def DefaultBackupDir_def SysClassNet_def

definition RunMode_IsValid :: "string \<Rightarrow> bool" where
  "RunMode_IsValid r \<longleftrightarrow> r = ''service'' \<or> r = ''job''"

definition AgentAction_IsValid :: "string \<Rightarrow> bool" where
  "AgentAction_IsValid a \<longleftrightarrow> a = ''cleanup'' \<or> a = ''configure''"

definition OSType_IsValid :: "string \<Rightarrow> bool" where
  "OSType_IsValid t \<longleftrightarrow> t = ''ubuntu'' \<or> t = ''rhel'' \<or> t = ''centos'' \<or> t = ''debian''"

definition UsesNetplan :: "string \<Rightarrow> bool" where
  "UsesNetplan t \<longleftrightarrow> t = ''ubuntu'' \<or> t = ''debian''"

section \<open>IP addresses\<close>

record IPAddress =
  ip_value :: string
  ip_ip :: ip

definition NewIPAddress :: "string \<Rightarrow> (go_error, IPAddress) result" where
  "NewIPAddress value =
     (if value = [] then Inl (NewValidationErrorWithCode ''VAL002'' ''IP address cannot be empty'' None)
      else case ParseIP value of
        None \<Rightarrow> Inl (NewValidationErrorWithCode ''VAL003'' (''invalid IP address format: '' @ value) None)
      | Some i \<Rightarrow> Inr \<lparr>ip_value = value, ip_ip = i\<rparr>)"

definition IsIPv4 :: "IPAddress \<Rightarrow> bool" where
  "IsIPv4 a \<longleftrightarrow> To4 (ip_ip a) \<noteq> None"

definition IsIPv6 :: "IPAddress \<Rightarrow> bool" where
  "IsIPv6 a \<longleftrightarrow> To4 (ip_ip a) = None \<and> To16 (ip_ip a) \<noteq> None"

definition IPAddress_Equals :: "IPAddress \<Rightarrow> IPAddress option \<Rightarrow> bool" where
  "IPAddress_Equals a other = (case other of None \<Rightarrow> False | Some b \<Rightarrow> IP_Equal (ip_ip a) (ip_ip b))"

section \<open>MAC addresses\<close>

record MACAddress =
  mac_value :: string
  mac_mac :: "byte list"

text \<open>The text of the error of \<open>net.ParseMAC\<close>: an \<open>*AddrError\<close>.\<close>

definition ParseMAC_error :: "string \<Rightarrow> go_error" where
  "ParseMAC_error s = PlainError (''address '' @ s @ '': invalid MAC address'')"

definition NewMACAddress :: "string \<Rightarrow> (go_error, MACAddress) result" where
  "NewMACAddress value =
     (if value = [] then Inl (NewValidationErrorWithCode ''VAL004'' ''MAC address cannot be empty'' None)
      else case ParseMAC value of
        None \<Rightarrow> Inl (NewValidationErrorWithCode ''VAL005'' (''invalid MAC address format: '' @ value)
                      (Some (ParseMAC_error value)))
      | Some m \<Rightarrow> Inr \<lparr>mac_value = value, mac_mac = m\<rparr>)"

definition Canonical :: "MACAddress \<Rightarrow> string" where
  "Canonical m = HardwareAddr_String (mac_mac m)"

definition MACAddress_Equals :: "MACAddress \<Rightarrow> MACAddress option \<Rightarrow> bool" where
  "MACAddress_Equals m other =
     (case other of None \<Rightarrow> False
      | Some n \<Rightarrow> EqualFold (HardwareAddr_String (mac_mac m)) (HardwareAddr_String (mac_mac n)))"

section \<open>CIDR prefixes\<close>

record CIDR =
  cidr_value :: string
  cidr_network :: ip_net

definition ParseCIDR_error :: "string \<Rightarrow> go_error" where
  "ParseCIDR_error s = PlainError (''invalid CIDR address: '' @ s)"

definition NewCIDR :: "string \<Rightarrow> (go_error, CIDR) result" where
  "NewCIDR value =
     (if value = [] then Inl (NewValidationErrorWithCode ''VAL006'' ''CIDR cannot be empty'' None)
      else case ParseCIDR value of
        None \<Rightarrow> Inl (NewValidationErrorWithCode ''VAL007'' (''invalid CIDR format: '' @ value)
                      (Some (ParseCIDR_error value)))
      | Some (_, network) \<Rightarrow> Inr \<lparr>cidr_value = value, cidr_network = network\<rparr>)"

definition CIDR_Contains :: "CIDR \<Rightarrow> IPAddress option \<Rightarrow> bool" where
  "CIDR_Contains c ip = (case ip of None \<Rightarrow> False | Some a \<Rightarrow> IPNet_Contains (cidr_network c) (ip_ip a))"

definition NetworkAddress :: "CIDR \<Rightarrow> IPAddress option" where
  "NetworkAddress c =
     (case NewIPAddress (IP_String (net_ip (cidr_network c))) of Inl _ \<Rightarrow> None | Inr a \<Rightarrow> Some a)"

section \<open>MTU and interface index\<close>

record MTU =
  mtu_value :: int

definition NewMTU :: "int \<Rightarrow> (go_error, MTU) result" where
  "NewMTU value =
     (if value < 68 then Inl (NewValidationErrorWithCode ''VAL008''
        (''MTU too small: '' @ Itoa value @ '' (minimum: 68)'') None)
      else if 65536 < value then Inl (NewValidationErrorWithCode ''VAL009''
        (''MTU too large: '' @ Itoa value @ '' (maximum: 65536)'') None)
      else Inr \<lparr>mtu_value = value\<rparr>)"

definition MTU_IsJumboFrame :: "MTU \<Rightarrow> bool" where
  "MTU_IsJumboFrame m \<longleftrightarrow> 1500 < mtu_value m"

record InterfaceIndex =
  idx_value :: int

definition NewInterfaceIndex :: "int \<Rightarrow> (go_error, InterfaceIndex) result" where
  "NewInterfaceIndex value =
     (if value < 0 then Inl (NewValidationErrorWithCode ''VAL010''
        (''interface index cannot be negative: '' @ Itoa value) None)
      else if MaxInterfaces \<le> value then Inl (NewValidationErrorWithCode ''VAL011''
        (''interface index too large: '' @ Itoa value @ '' (maximum: '' @ Itoa (MaxInterfaces - 1) @ '')'') None)
      else Inr \<lparr>idx_value = value\<rparr>)"

definition ToInterfaceName :: "InterfaceIndex \<Rightarrow> string" where
  "ToInterfaceName idx = InterfacePrefix @ Itoa (idx_value idx)"

section \<open>Node names\<close>

record NodeName =
  node_value :: string

definition lower_alnum :: "char \<Rightarrow> bool" where
  "lower_alnum c \<longleftrightarrow> is_lower c \<or> is_digit c"

definition lower_alnum_dash :: "char \<Rightarrow> bool" where
  "lower_alnum_dash c \<longleftrightarrow> c = CHR ''-'' \<or> lower_alnum c"

definition labelPattern :: regex where
  "labelPattern = Seq (Cls lower_alnum) (Opt (Seq (Star (Cls lower_alnum_dash)) (Cls lower_alnum)))"

definition nodeNamePattern :: regex where
  "nodeNamePattern = Seq labelPattern (Star (Seq (Cls (\<lambda>c. c = CHR ''.'')) labelPattern))"

definition NewNodeName :: "string \<Rightarrow> (go_error, NodeName) result" where
  "NewNodeName value =
     (if value = [] then Inl (NewValidationErrorWithCode ''VAL012'' ''node name cannot be empty'' None)
      else if 253 < length value then Inl (NewValidationErrorWithCode ''VAL013''
        (''node name too long: '' @ utoa (length value) @ '' characters (maximum: 253)'') None)
      else if \<not> MatchString nodeNamePattern value then Inl (NewValidationErrorWithCode ''VAL014''
        (''invalid node name format: '' @ value) None)
      else Inr \<lparr>node_value = value\<rparr>)"

definition NodeName_Equals :: "NodeName \<Rightarrow> NodeName option \<Rightarrow> bool" where
  "NodeName_Equals n other = (case other of None \<Rightarrow> False | Some m \<Rightarrow> node_value n = node_value m)"

section \<open>Interface names\<close>

record InterfaceName =
  name_value :: string
  name_index :: int

definition interfaceNamePattern :: regex where
  "interfaceNamePattern = Seq (Lit InterfacePrefix) (Plus (Cls is_digit))"

definition NewInterfaceName :: "string \<Rightarrow> (go_error, InterfaceName) result" where
  "NewInterfaceName name =
     (if name = [] then Inl (NewValidationErrorWithCode ''VAL016'' ''interface name cannot be empty'' None)
      else if \<not> MatchString interfaceNamePattern name then Inl (NewValidationErrorWithCode ''VAL017''
        (''invalid interface name format: '' @ name @ '' (expected: '' @ InterfacePrefix @ ''<number>)'') None)
      else case Atoi (drop (length InterfacePrefix) name) of
        None \<Rightarrow> Inl (NewValidationErrorWithCode ''VAL018'' (''invalid interface index in name: '' @ name)
           (Some (PlainError (''strconv.Atoi: parsing '' @ CHR 0x22 # drop (length InterfacePrefix) name @
              CHR 0x22 # '': value out of range''))))
      | Some index \<Rightarrow>
          (if index < 0 \<or> MaxInterfaces \<le> index then Inl (NewValidationErrorWithCode ''VAL019''
             (''interface index out of range: '' @ Itoa index @ '' (0-'' @ Itoa (MaxInterfaces - 1) @ '')'') None)
           else Inr \<lparr>name_value = name, name_index = index\<rparr>))"

definition InterfaceName_Equals :: "InterfaceName \<Rightarrow> InterfaceName option \<Rightarrow> bool" where
  "InterfaceName_Equals n other = (case other of None \<Rightarrow> False | Some m \<Rightarrow> name_value n = name_value m)"

section \<open>What the value objects show\<close>

definition IPAddress_String :: "IPAddress \<Rightarrow> string" where "IPAddress_String a = ip_value a"
definition MACAddress_String :: "MACAddress \<Rightarrow> string" where "MACAddress_String m = mac_value m"
definition CIDR_String :: "CIDR \<Rightarrow> string" where "CIDR_String c = cidr_value c"
definition MTU_Value :: "MTU \<Rightarrow> int" where "MTU_Value m = mtu_value m"
definition MTU_String :: "MTU \<Rightarrow> string" where "MTU_String m = Itoa (mtu_value m)"
definition InterfaceIndex_Value :: "InterfaceIndex \<Rightarrow> int" where "InterfaceIndex_Value i = idx_value i"
definition InterfaceIndex_String :: "InterfaceIndex \<Rightarrow> string" where "InterfaceIndex_String i = Itoa (idx_value i)"
definition NodeName_String :: "NodeName \<Rightarrow> string" where "NodeName_String n = node_value n"
definition InterfaceName_String :: "InterfaceName \<Rightarrow> string" where "InterfaceName_String n = name_value n"
definition InterfaceName_Index :: "InterfaceName \<Rightarrow> int" where "InterfaceName_Index n = name_index n"

lemmas shown_defs = IPAddress_String_def MACAddress_String_def CIDR_String_def MTU_Value_def MTU_String_def InterfaceIndex_Value_def
  InterfaceIndex_String_def NodeName_String_def InterfaceName_String_def InterfaceName_Index_def

section \<open>The network interface entity\<close>

datatype InterfaceStatus = StatusPending | StatusConfigured | StatusFailed

record NetworkInterface =
  ni_id :: InterfaceIndex
  ni_macAddress :: MACAddress
  ni_nodeName :: NodeName
  ni_status :: InterfaceStatus
  ni_ipAddress :: IPAddress
  ni_cidr :: CIDR
  ni_mtu :: MTU
  ni_interfaceName :: InterfaceName
  ni_explicitName :: bool

definition cidr_error :: "string \<Rightarrow> string \<Rightarrow> go_error" where
  "cidr_error ipAddr cidrStr = NewValidationErrorWithCode ''VAL015''
     (''IP address '' @ ipAddr @ '' is not within CIDR '' @ cidrStr) None"

definition NewNetworkInterface ::
  "int \<Rightarrow> string \<Rightarrow> string \<Rightarrow> string \<Rightarrow> string \<Rightarrow> int \<Rightarrow> (go_error, NetworkInterface) result" where
  "NewNetworkInterface i macAddr nodeNameStr ipAddr cidrStr mtuValue =
     rbind (NewInterfaceIndex i) (\<lambda>interfaceIndex.
     rbind (NewMACAddress macAddr) (\<lambda>macAddress.
     rbind (NewNodeName nodeNameStr) (\<lambda>nodeName.
     rbind (NewIPAddress ipAddr) (\<lambda>ipAddress.
     rbind (NewCIDR cidrStr) (\<lambda>cidr.
     rbind (NewMTU mtuValue) (\<lambda>mtu.
     rbind (NewInterfaceName (ToInterfaceName interfaceIndex)) (\<lambda>interfaceName.
       if \<not> CIDR_Contains cidr (Some ipAddress) then Inl (cidr_error ipAddr cidrStr)
       else Inr \<lparr>ni_id = interfaceIndex, ni_macAddress = macAddress, ni_nodeName = nodeName,
         ni_status = StatusPending, ni_ipAddress = ipAddress, ni_cidr = cidr, ni_mtu = mtu,
         ni_interfaceName = interfaceName, ni_explicitName = False\<rparr>)))))))"

definition NewNetworkInterfaceWithName ::
  "int \<Rightarrow> string \<Rightarrow> string \<Rightarrow> string \<Rightarrow> string \<Rightarrow> string \<Rightarrow> int \<Rightarrow> (go_error, NetworkInterface) result" where
  "NewNetworkInterfaceWithName i name macAddr nodeNameStr ipAddr cidrStr mtuValue =
     rbind (NewInterfaceIndex i) (\<lambda>interfaceIndex.
     rbind (NewMACAddress macAddr) (\<lambda>macAddress.
     rbind (NewNodeName nodeNameStr) (\<lambda>nodeName.
     rbind (NewIPAddress ipAddr) (\<lambda>ipAddress.
     rbind (NewCIDR cidrStr) (\<lambda>cidr.
     rbind (NewMTU mtuValue) (\<lambda>mtu.
     rbind (NewInterfaceName name) (\<lambda>interfaceName.
       if \<not> CIDR_Contains cidr (Some ipAddress) then Inl (cidr_error ipAddr cidrStr)
       else Inr \<lparr>ni_id = interfaceIndex, ni_macAddress = macAddress, ni_nodeName = nodeName,
         ni_status = StatusPending, ni_ipAddress = ipAddress, ni_cidr = cidr, ni_mtu = mtu,
         ni_interfaceName = interfaceName, ni_explicitName = True\<rparr>)))))))"

text \<open>The getters.\<close>

definition ID :: "NetworkInterface \<Rightarrow> int" where "ID ni = idx_value (ni_id ni)"
definition MacAddress :: "NetworkInterface \<Rightarrow> string" where "MacAddress ni = mac_value (ni_macAddress ni)"
definition AttachedNodeName :: "NetworkInterface \<Rightarrow> string" where "AttachedNodeName ni = node_value (ni_nodeName ni)"
definition Status :: "NetworkInterface \<Rightarrow> InterfaceStatus" where "Status ni = ni_status ni"
definition Address :: "NetworkInterface \<Rightarrow> string" where "Address ni = ip_value (ni_ipAddress ni)"
definition CIDR_of :: "NetworkInterface \<Rightarrow> string" where "CIDR_of ni = cidr_value (ni_cidr ni)"
definition MTU_of :: "NetworkInterface \<Rightarrow> int" where "MTU_of ni = mtu_value (ni_mtu ni)"
definition InterfaceName_of :: "NetworkInterface \<Rightarrow> string" where "InterfaceName_of ni = name_value (ni_interfaceName ni)"
definition HasExplicitName :: "NetworkInterface \<Rightarrow> bool" where "HasExplicitName ni = ni_explicitName ni"

lemmas getter_defs = ID_def MacAddress_def AttachedNodeName_def Status_def Address_def CIDR_of_def
  MTU_of_def InterfaceName_of_def HasExplicitName_def

text \<open>The business methods.\<close>

definition MarkAsConfigured :: "NetworkInterface \<Rightarrow> NetworkInterface" where
  "MarkAsConfigured ni = ni\<lparr>ni_status := StatusConfigured\<rparr>"

definition MarkAsFailed :: "NetworkInterface \<Rightarrow> NetworkInterface" where
  "MarkAsFailed ni = ni\<lparr>ni_status := StatusFailed\<rparr>"

definition IsConfigured :: "NetworkInterface \<Rightarrow> bool" where "IsConfigured ni \<longleftrightarrow> ni_status ni = StatusConfigured"
definition IsFailed :: "NetworkInterface \<Rightarrow> bool" where "IsFailed ni \<longleftrightarrow> ni_status ni = StatusFailed"
definition IsPending :: "NetworkInterface \<Rightarrow> bool" where "IsPending ni \<longleftrightarrow> ni_status ni = StatusPending"

definition CanApplyTo :: "NetworkInterface \<Rightarrow> string \<Rightarrow> bool" where
  "CanApplyTo ni targetNodeName =
     (case NewNodeName targetNodeName of
        Inl _ \<Rightarrow> False
      | Inr targetNode \<Rightarrow> NodeName_Equals (ni_nodeName ni) (Some targetNode))"

text \<open>\<open>UpdateMTU\<close> returns the error, if any, and the entity it leaves.\<close>

definition UpdateMTU :: "NetworkInterface \<Rightarrow> int \<Rightarrow> go_error option \<times> NetworkInterface" where
  "UpdateMTU ni newMTU =
     (case NewMTU newMTU of
        Inl err \<Rightarrow> (Some err, ni)
      | Inr m \<Rightarrow> (None, ni\<lparr>ni_mtu := m\<rparr>))"

definition IsJumboFrame :: "NetworkInterface \<Rightarrow> bool" where
  "IsJumboFrame ni = MTU_IsJumboFrame (ni_mtu ni)"

definition macRegex :: regex where
  "macRegex = Seq (Rep 5 (Seq (Rep 2 (Cls is_hex)) (Cls (\<lambda>c. c = CHR '':'' \<or> c = CHR ''-'')))) (Rep 2 (Cls is_hex))"

definition isValidMacAddress :: "string \<Rightarrow> bool" where
  "isValidMacAddress mac = MatchString macRegex mac"

definition isValidInterfaceName :: "string \<Rightarrow> bool" where
  "isValidInterfaceName name = MatchString (Seq (Lit ''multinic'') (Cls is_digit)) name"

definition ErrInvalidMacAddress :: go_error where "ErrInvalidMacAddress = PlainError ''invalid MAC address format''"
definition ErrInvalidInterfaceName :: go_error where "ErrInvalidInterfaceName = PlainError ''invalid interface name''"
definition ErrInvalidNodeName :: go_error where "ErrInvalidNodeName = PlainError ''invalid node name''"

definition Validate :: "NetworkInterface \<Rightarrow> go_error option" where
  "Validate ni =
     (if \<not> isValidMacAddress (MacAddress ni) then Some ErrInvalidMacAddress
      else if AttachedNodeName ni = [] then Some ErrInvalidNodeName
      else None)"

section \<open>Facts on the value objects\<close>

lemma labelPattern_iff:
  "in_lang labelPattern s \<longleftrightarrow> s \<noteq> [] \<and> list_all lower_alnum_dash s \<and> lower_alnum (hd s) \<and> lower_alnum (last s)"
  unfolding labelPattern_def by (rule in_lang_label) (simp add: lower_alnum_dash_def)

lemma nodeNamePattern_iff:
  "MatchString nodeNamePattern s \<longleftrightarrow> (\<forall>p \<in> set (Split s (CHR ''.'')). p \<noteq> [] \<and> list_all lower_alnum_dash p
     \<and> lower_alnum (hd p) \<and> lower_alnum (last p))"
proof -
  have "\<not> lower_alnum_dash (CHR ''.'')"
    by (simp add: lower_alnum_dash_def lower_alnum_def is_lower_def is_digit_def)
  then have "CHR ''.'' \<notin> set t" if "in_lang labelPattern t" for t
    using that by (auto simp: labelPattern_iff list_all_iff)
  then show ?thesis
    unfolding MatchString_iff nodeNamePattern_def by (subst in_lang_Star_sep) (auto simp: labelPattern_iff)
qed

lemma interfaceNamePattern_iff:
  "MatchString interfaceNamePattern s \<longleftrightarrow> (\<exists>ds. s = InterfacePrefix @ ds \<and> ds \<noteq> [] \<and> list_all is_digit ds)"
proof -
  have "in_lang (Seq (Lit l) q) s \<longleftrightarrow> (\<exists>t. s = l @ t \<and> in_lang q t)" for l q
    by (auto simp: in_lang_Seq)
  then show ?thesis by (simp add: MatchString_iff interfaceNamePattern_def)
qed

lemma NewInterfaceIndex_ok: "NewInterfaceIndex v = Inr x \<longleftrightarrow> 0 \<le> v \<and> v < 10 \<and> x = \<lparr>idx_value = v\<rparr>"
  by (auto simp: NewInterfaceIndex_def MaxInterfaces_def)

lemma NewMTU_ok: "NewMTU v = Inr x \<longleftrightarrow> 68 \<le> v \<and> v \<le> 65536 \<and> x = \<lparr>mtu_value = v\<rparr>"
  by (auto simp: NewMTU_def)

lemma NewMACAddress_ok: "NewMACAddress v = Inr x \<longleftrightarrow> ParseMAC v = Some (mac_mac x) \<and> mac_value x = v"
  by (auto simp: NewMACAddress_def ParseMAC_def split: option.splits if_splits)

lemma NewIPAddress_ok: "NewIPAddress v = Inr x \<longleftrightarrow> ParseIP v = Some (ip_ip x) \<and> ip_value x = v"
  by (auto simp: NewIPAddress_def ParseIP_def ParseAddr_def split: option.splits if_splits)

lemma NewCIDR_ok: "NewCIDR v = Inr x \<longleftrightarrow> (\<exists>i. ParseCIDR v = Some (i, cidr_network x)) \<and> cidr_value x = v"
  by (auto simp: NewCIDR_def ParseCIDR_def split: option.splits if_splits)

lemma NewNodeName_ok:
  "NewNodeName v = Inr x \<longleftrightarrow> length v \<le> 253 \<and> MatchString nodeNamePattern v \<and> x = \<lparr>node_value = v\<rparr>"
proof -
  have "\<not> MatchString nodeNamePattern []" unfolding nodeNamePattern_iff by simp
  then show ?thesis by (auto simp: NewNodeName_def)
qed

lemma NewInterfaceName_ok:
  "NewInterfaceName v = Inr x \<longleftrightarrow>
     (\<exists>ds. v = InterfacePrefix @ ds \<and> ds \<noteq> [] \<and> list_all is_digit ds \<and> dec_val ds < 10 \<and>
       x = \<lparr>name_value = v, name_index = int (dec_val ds)\<rparr>)"
proof -
  have "dec_val ds < 10 \<Longrightarrow> in_int64 (int (dec_val ds))" for ds by (rule in_int64_small) simp
  then show ?thesis
    by (auto simp: NewInterfaceName_def interfaceNamePattern_iff MaxInterfaces_def Atoi_digits split: option.splits if_splits)
qed

lemma ToInterfaceName_ok:
  assumes "0 \<le> i" "i < 10"
  shows "NewInterfaceName (ToInterfaceName \<lparr>idx_value = i\<rparr>) =
    Inr \<lparr>name_value = InterfacePrefix @ Itoa i, name_index = i\<rparr>"
  using assms by (simp add: NewInterfaceName_ok ToInterfaceName_def Itoa_def utoa_digits)

section \<open>The invariant of the entity\<close>

text \<open>
  What every interface the rest of the program sees satisfies: each value object is the
  parse of its own text, the bounds hold, and the address lies in the network.
\<close>

definition wf_interface :: "NetworkInterface \<Rightarrow> bool" where
  "wf_interface ni \<longleftrightarrow>
     NewInterfaceIndex (ID ni) = Inr (ni_id ni) \<and>
     NewMACAddress (MacAddress ni) = Inr (ni_macAddress ni) \<and>
     NewNodeName (AttachedNodeName ni) = Inr (ni_nodeName ni) \<and>
     NewIPAddress (Address ni) = Inr (ni_ipAddress ni) \<and>
     NewCIDR (CIDR_of ni) = Inr (ni_cidr ni) \<and>
     NewMTU (MTU_of ni) = Inr (ni_mtu ni) \<and>
     NewInterfaceName (InterfaceName_of ni) = Inr (ni_interfaceName ni) \<and>
     CIDR_Contains (ni_cidr ni) (Some (ni_ipAddress ni)) \<and>
     (\<not> HasExplicitName ni \<longrightarrow> InterfaceName_of ni = ToInterfaceName (ni_id ni))"

lemmas value_object_ok = NewInterfaceIndex_ok NewMACAddress_ok NewNodeName_ok NewIPAddress_ok NewCIDR_ok
  NewMTU_ok NewInterfaceName_ok

lemma NewInterfaceName_value: "NewInterfaceName v = Inr x \<Longrightarrow> name_value x = v"
  by (auto simp: NewInterfaceName_ok)

text \<open>A value object shows the text it was made from, and is made again from it.\<close>

lemma shown_texts:
  "NewIPAddress v = Inr a \<Longrightarrow> IPAddress_String a = v"
  "NewMACAddress v = Inr m \<Longrightarrow> MACAddress_String m = v"
  "NewCIDR v = Inr c \<Longrightarrow> CIDR_String c = v"
  "NewNodeName v = Inr n \<Longrightarrow> NodeName_String n = v"
  "NewInterfaceName v = Inr k \<Longrightarrow> InterfaceName_String k = v"
  unfolding shown_defs
  by (simp add: NewIPAddress_ok, simp add: NewMACAddress_ok, simp add: NewCIDR_ok, simp add: NewNodeName_ok,
      rule NewInterfaceName_value)

lemma shown_numbers:
  "NewMTU i = Inr t \<Longrightarrow> MTU_Value t = i \<and> Atoi (MTU_String t) = Some i"
  "NewInterfaceIndex i = Inr x \<Longrightarrow> InterfaceIndex_Value x = i \<and> Atoi (InterfaceIndex_String x) = Some i"
  by (auto simp: shown_defs NewMTU_ok NewInterfaceIndex_ok in_int64_def min_int64_def max_int64_def intro!: Atoi_Itoa)

lemma shown_index:
  assumes "NewInterfaceIndex i = Inr x" "NewInterfaceName (ToInterfaceName x) = Inr n"
  shows "InterfaceName_Index n = InterfaceIndex_Value x"
proof -
  have "0 \<le> i" "i < 10" "x = \<lparr>idx_value = i\<rparr>" using assms(1) by (simp_all add: NewInterfaceIndex_ok)
  then show ?thesis using ToInterfaceName_ok [of i] assms(2) by (auto simp: shown_defs)
qed

lemma NewInterfaceName_index: "NewInterfaceName v = Inr x \<Longrightarrow> 0 \<le> name_index x \<and> name_index x < 10"
  by (auto simp: NewInterfaceName_ok)

text \<open>Construction succeeds exactly on a well-formed entity with the given texts.\<close>

lemma NewNetworkInterfaceWithName_ok:
  "NewNetworkInterfaceWithName i name m n a c u = Inr ni \<longleftrightarrow>
     wf_interface ni \<and> ni_status ni = StatusPending \<and> HasExplicitName ni \<and> ID ni = i \<and>
     InterfaceName_of ni = name \<and> MacAddress ni = m \<and> AttachedNodeName ni = n \<and> Address ni = a \<and>
     CIDR_of ni = c \<and> MTU_of ni = u" (is "?l \<longleftrightarrow> ?r")
proof
  assume ?l
  then show ?r
    by (auto simp: NewNetworkInterfaceWithName_def rbind_eq_Inr wf_interface_def getter_defs value_object_ok split: if_splits)
next
  assume ?r
  then show ?l
    by (cases ni) (auto simp: NewNetworkInterfaceWithName_def rbind_eq_Inr wf_interface_def getter_defs)
qed

lemma NewNetworkInterface_ok:
  "NewNetworkInterface i m n a c u = Inr ni \<longleftrightarrow>
     wf_interface ni \<and> ni_status ni = StatusPending \<and> \<not> HasExplicitName ni \<and> ID ni = i \<and>
     MacAddress ni = m \<and> AttachedNodeName ni = n \<and> Address ni = a \<and> CIDR_of ni = c \<and> MTU_of ni = u"
  (is "?l \<longleftrightarrow> ?r")
proof
  assume ?l
  then show ?r
    by (auto simp: NewNetworkInterface_def rbind_eq_Inr wf_interface_def getter_defs NewInterfaceName_value split: if_splits)
      (auto simp: value_object_ok)
next
  assume ?r
  then show ?l
    by (cases ni) (auto simp: NewNetworkInterface_def rbind_eq_Inr wf_interface_def getter_defs)
qed

lemma wf_MarkAsConfigured [wf_intros]: "wf_interface ni \<Longrightarrow> wf_interface (MarkAsConfigured ni)"
  by (simp add: wf_interface_def MarkAsConfigured_def getter_defs)

lemma wf_MarkAsFailed [wf_intros]: "wf_interface ni \<Longrightarrow> wf_interface (MarkAsFailed ni)"
  by (simp add: wf_interface_def MarkAsFailed_def getter_defs)

lemma wf_UpdateMTU [wf_intros]: "wf_interface ni \<Longrightarrow> wf_interface (snd (UpdateMTU ni v))"
  by (auto simp: wf_interface_def UpdateMTU_def getter_defs NewMTU_ok split: sum.splits)

lemma wf_interface_bounds:
  assumes "wf_interface ni"
  shows "0 \<le> ID ni" "ID ni < 10" "68 \<le> MTU_of ni" "MTU_of ni \<le> 65536"
    "0 \<le> name_index (ni_interfaceName ni)" "name_index (ni_interfaceName ni) < 10"
  using assms by (auto simp: wf_interface_def NewInterfaceIndex_ok NewMTU_ok dest: NewInterfaceName_index)

section \<open>Hardware address equality\<close>

lemma to_lower_hex_digit [simp]: "d < 16 \<Longrightarrow> to_lower_char (hex_digit d) = hex_digit d"
  by (auto simp: to_lower_char_def hex_digit_def is_upper_def)

lemma ToLower_HardwareAddr [simp]: "ToLower (HardwareAddr_String bs) = HardwareAddr_String bs"
proof (induction bs rule: induct_list012)
  case (3 x y zs)
  have "to_lower_char (CHR '':'') = CHR '':''" by (simp add: to_lower_char_def is_upper_def)
  with 3 show ?case by (simp add: ToLower_def)
qed (simp_all add: ToLower_def)

lemma HardwareAddr_inject:
  assumes "macLen (length m)" "macLen (length n)" "HardwareAddr_String m = HardwareAddr_String n"
  shows "m = n"
  using ParseMAC_HardwareAddr_String assms by (metis option.inject)

lemma MACAddress_Equals_iff:
  assumes "NewMACAddress v = Inr m" "NewMACAddress w = Inr n"
  shows "MACAddress_Equals m (Some n) \<longleftrightarrow> mac_mac m = mac_mac n"
  using assms HardwareAddr_inject
  by (auto simp: MACAddress_Equals_def EqualFold_def NewMACAddress_ok dest!: ParseMAC_length)

lemma Canonical_ok:
  assumes "NewMACAddress v = Inr m"
  shows "NewMACAddress (Canonical m) = Inr \<lparr>mac_value = Canonical m, mac_mac = mac_mac m\<rparr>"
  using assms by (auto simp: NewMACAddress_ok Canonical_def dest!: ParseMAC_length intro: ParseMAC_HardwareAddr_String)

section \<open>An example\<close>

text \<open>
  An interface of node node-1 with address 10.0.0.5 in 10.0.0.0/24 and MTU 1450, for
  evaluation at a concrete input: the index, the text and bytes of the hardware address, and
  whether the name was given.
\<close>

definition example_iface :: "int \<Rightarrow> string \<Rightarrow> byte list \<Rightarrow> bool \<Rightarrow> NetworkInterface" where
  "example_iface i m bs explicit =
     \<lparr>ni_id = \<lparr>idx_value = i\<rparr>, ni_macAddress = \<lparr>mac_value = m, mac_mac = bs\<rparr>,
      ni_nodeName = \<lparr>node_value = ''node-1''\<rparr>, ni_status = StatusPending,
      ni_ipAddress = \<lparr>ip_value = ''10.0.0.5'', ip_ip = v4InV6Prefix @ [10, 0, 0, 5]\<rparr>,
      ni_cidr = \<lparr>cidr_value = ''10.0.0.0/24'', cidr_network = v4_net [10, 0, 0, 0] 24\<rparr>,
      ni_mtu = \<lparr>mtu_value = 1450\<rparr>,
      ni_interfaceName = \<lparr>name_value = InterfacePrefix @ Itoa i, name_index = i\<rparr>,
      ni_explicitName = explicit\<rparr>"

lemma example_texts: "''10.0.0.5'' = dotted [10, 0, 0, 5]" "''10.0.0.0/24'' = dotted [10, 0, 0, 0] @ ''/'' @ utoa 24"
  by code_simp+

lemma wf_example_iface:
  assumes "ParseMAC m = Some bs" "0 \<le> i" "i < 10"
  shows "wf_interface (example_iface i m bs explicit)"
proof -
  have "ParseIP ''10.0.0.5'' = Some (v4InV6Prefix @ [10, 0, 0, 5])"
    unfolding example_texts ParseIP_def by (subst ParseAddr_dotted) (simp_all add: As16_def)
  moreover have "ParseCIDR ''10.0.0.0/24'' = Some (v4InV6Prefix @ [10, 0, 0, 0], v4_net [10, 0, 0, 0] 24)"
    unfolding example_texts by (rule ParseCIDR_v4) simp_all
  moreover have "IPNet_Contains (v4_net [10, 0, 0, 0] 24) (v4InV6Prefix @ [10, 0, 0, 5])"
    by (subst IPNet_Contains_v4) simp_all
  moreover have "MatchString nodeNamePattern ''node-1''" by code_simp
  moreover have "NewInterfaceName (InterfacePrefix @ Itoa i) = Inr \<lparr>name_value = InterfacePrefix @ Itoa i, name_index = i\<rparr>"
    using ToInterfaceName_ok [OF assms(2,3)] by (simp add: ToInterfaceName_def)
  ultimately show ?thesis using assms
    by (simp add: wf_interface_def example_iface_def getter_defs NewIPAddress_ok NewCIDR_ok NewMACAddress_ok
        NewMTU_ok NewInterfaceIndex_ok NewNodeName_ok CIDR_Contains_def ToInterfaceName_def)
qed

section \<open>The texts of a well-formed entity\<close>

lemma TrimSpace_addr: "list_all addr_char s \<Longrightarrow> TrimSpace s = s"
  using addr_char_not_space by (intro TrimSpace_id) (auto simp: list_all_iff)

lemma wf_Address:
  assumes "wf_interface ni"
  shows "TrimSpace (Address ni) = Address ni" "Address ni \<noteq> []" "list_all addr_char (Address ni)"
proof -
  obtain a where "ParseAddr (Address ni) = Some a"
    using assms by (auto simp: wf_interface_def NewIPAddress_ok ParseIP_def)
  then show "TrimSpace (Address ni) = Address ni" "Address ni \<noteq> []" "list_all addr_char (Address ni)"
    using ParseAddr_chars ParseAddr_nonempty TrimSpace_addr by auto
qed

lemma wf_CIDR:
  assumes "wf_interface ni"
  obtains a ds where "CIDR_of ni = a @ ''/'' @ ds" "ds \<noteq> []" "list_all is_digit ds" "list_all addr_char a"
    "Split (CIDR_of ni) (CHR ''/'') = [a, ds]" "TrimSpace (CIDR_of ni) = CIDR_of ni" "CIDR_of ni \<noteq> []"
proof -
  obtain r where "ParseCIDR (CIDR_of ni) = Some r" using assms by (auto simp: wf_interface_def NewCIDR_ok)
  then obtain a ds where s: "CIDR_of ni = a @ ''/'' @ ds" "a \<noteq> []" "ds \<noteq> []" "list_all addr_char a" "list_all is_digit ds"
    using ParseCIDR_shape by blast
  have ns: "CHR ''/'' \<notin> set a" "CHR ''/'' \<notin> set ds"
    using s addr_char_not_space not_digit_sign(4) by (auto simp: list_all_iff)
  then have "Split (CIDR_of ni) (CHR ''/'') = [a, ds]" using s by (simp add: Split_append Split_none)
  moreover have "TrimSpace (CIDR_of ni) = CIDR_of ni"
  proof (rule TrimSpace_id)
    have "\<not> is_space (CHR ''/'')" by (simp add: is_space_def)
    moreover have "\<forall>c \<in> set ds. \<not> is_space c"
      using s(5) by (auto simp: list_all_iff is_digit_def is_space_def)
    ultimately show "\<forall>c \<in> set (CIDR_of ni). \<not> is_space c"
      using s addr_char_not_space by (auto simp: list_all_iff)
  qed
  moreover have "CIDR_of ni \<noteq> []" using s by simp
  ultimately show thesis using that [of a ds] s by simp
qed

section \<open>Properties\<close>

text \<open>
  C36: constructing an interface either yields a well-formed entity that carries the given
  texts, is pending and is named by its index or by the explicit name, or fails with a
  validation error; nothing else is possible.
\<close>

theorem NewNetworkInterface_cases:
  "(case NewNetworkInterface i m n a c u of
      Inr ni \<Rightarrow> wf_interface ni \<and> IsPending ni \<and> ID ni = i \<and> MacAddress ni = m \<and> AttachedNodeName ni = n \<and>
        Address ni = a \<and> CIDR_of ni = c \<and> MTU_of ni = u \<and> InterfaceName_of ni = InterfacePrefix @ Itoa i
    | Inl e \<Rightarrow> IsValidationError e) \<and>
   (case NewNetworkInterfaceWithName i name m n a c u of
      Inr ni \<Rightarrow> wf_interface ni \<and> IsPending ni \<and> ID ni = i \<and> MacAddress ni = m \<and> AttachedNodeName ni = n \<and>
        Address ni = a \<and> CIDR_of ni = c \<and> MTU_of ni = u \<and> InterfaceName_of ni = name
    | Inl e \<Rightarrow> IsValidationError e)"
proof -
  have errs: "NewInterfaceIndex i = Inl e \<Longrightarrow> IsValidationError e" "NewMACAddress m = Inl e \<Longrightarrow> IsValidationError e"
    "NewNodeName n = Inl e \<Longrightarrow> IsValidationError e" "NewIPAddress a = Inl e \<Longrightarrow> IsValidationError e"
    "NewCIDR c = Inl e \<Longrightarrow> IsValidationError e" "NewMTU u = Inl e \<Longrightarrow> IsValidationError e"
    "NewInterfaceName x = Inl e \<Longrightarrow> IsValidationError e" for e x
    by (auto simp: NewInterfaceIndex_def NewMACAddress_def NewNodeName_def NewIPAddress_def NewCIDR_def NewMTU_def
        NewInterfaceName_def split: if_splits option.splits)
  have "IsValidationError e" if "NewNetworkInterface i m n a c u = Inl e" for e
    using that errs by (auto simp: NewNetworkInterface_def rbind_eq_Inl cidr_error_def split: if_splits)
  moreover have "IsValidationError e" if "NewNetworkInterfaceWithName i name m n a c u = Inl e" for e
    using that errs by (auto simp: NewNetworkInterfaceWithName_def rbind_eq_Inl cidr_error_def split: if_splits)
  moreover have "InterfaceName_of ni = InterfacePrefix @ Itoa i" if "NewNetworkInterface i m n a c u = Inr ni" for ni
    using that by (auto simp: NewNetworkInterface_ok wf_interface_def ToInterfaceName_def ID_def)
  ultimately show ?thesis
    by (auto simp: NewNetworkInterface_ok NewNetworkInterfaceWithName_ok IsPending_def split: sum.splits)
qed

text \<open>
  C28: the rule that ties the address to the network. For IPv4 texts, with every other field
  acceptable, construction succeeds exactly when the address and the network text agree in
  their leading prefix bits, whatever host bits the network text has.
\<close>

theorem NewNetworkInterface_ipv4_member:
  assumes "length ib = 4" "length nb = 4" "p \<le> 32"
    and "is_ok (NewInterfaceIndex i)" "is_ok (NewMACAddress m)" "is_ok (NewNodeName n)" "is_ok (NewMTU u)"
  shows "is_ok (NewNetworkInterface i m n (dotted ib) (dotted nb @ ''/'' @ utoa p) u) \<longleftrightarrow>
    be_val ib div 2 ^ (32 - p) = be_val nb div 2 ^ (32 - p)"
proof -
  have ip: "NewIPAddress (dotted ib) = Inr \<lparr>ip_value = dotted ib, ip_ip = v4InV6Prefix @ ib\<rparr>"
    using ParseAddr_dotted [OF assms(1)] by (simp add: NewIPAddress_ok ParseIP_def As16_def)
  have cidr: "NewCIDR (dotted nb @ ''/'' @ utoa p) = Inr \<lparr>cidr_value = dotted nb @ ''/'' @ utoa p, cidr_network = v4_net nb p\<rparr>"
    using ParseCIDR_v4 [OF assms(2,3)] by (simp add: NewCIDR_ok)
  obtain x where x: "NewInterfaceIndex i = Inr x" using assms by (auto simp: is_ok_iff)
  then have "is_ok (NewInterfaceName (ToInterfaceName x))" using ToInterfaceName_ok by (auto simp: NewInterfaceIndex_ok)
  then show ?thesis
    using assms ip cidr x IPNet_Contains_v4 [OF assms(2,1,3)]
    by (auto simp: is_ok_iff NewNetworkInterface_def CIDR_Contains_def simp del: append.simps)
qed

theorem NewNetworkInterface_ipv4_member_witness:
  "is_ok (NewNetworkInterface 1 ''fa:16:3e:00:00:01'' ''node-1'' (dotted [10, 0, 0, 5]) (dotted [10, 0, 0, 77] @ ''/'' @ utoa 24) 1450) \<and>
   \<not> is_ok (NewNetworkInterface 1 ''fa:16:3e:00:00:01'' ''node-1'' (dotted [10, 0, 1, 5]) (dotted [10, 0, 0, 77] @ ''/'' @ utoa 24) 1450)"
proof -
  have ok: "is_ok (NewInterfaceIndex 1)" "is_ok (NewMACAddress ''fa:16:3e:00:00:01'')" "is_ok (NewNodeName ''node-1'')"
    "is_ok (NewMTU 1450)" by code_simp+
  show ?thesis
    using NewNetworkInterface_ipv4_member [OF _ _ _ ok, of "[10, 0, 0, 5]" "[10, 0, 0, 77]" 24]
      NewNetworkInterface_ipv4_member [OF _ _ _ ok, of "[10, 0, 1, 5]" "[10, 0, 0, 77]" 24] by simp
qed

text \<open>
  C22: the entity's invariant survives every operation that changes it, and the new MTU is
  taken over exactly when it lies between 68 and 65536.
\<close>

theorem wf_interface_preserved:
  assumes "wf_interface ni"
  shows "wf_interface (MarkAsConfigured ni) \<and> wf_interface (MarkAsFailed ni) \<and> wf_interface (snd (UpdateMTU ni v)) \<and>
    MTU_of (snd (UpdateMTU ni v)) = (if 68 \<le> v \<and> v \<le> 65536 then v else MTU_of ni) \<and>
    (fst (UpdateMTU ni v) = None \<longleftrightarrow> 68 \<le> v \<and> v \<le> 65536)"
  using wf_MarkAsConfigured [OF assms] wf_MarkAsFailed [OF assms] wf_UpdateMTU [OF assms, of v]
  by (simp add: UpdateMTU_def NewMTU_def MTU_of_def)

theorem wf_interface_preserved_witness:
  "wf_interface (snd (UpdateMTU (example_iface 1 ''fa:16:3e:00:00:01'' [250, 22, 62, 0, 0, 1] False) 9000))"
proof -
  have "ParseMAC ''fa:16:3e:00:00:01'' = Some [250, 22, 62, 0, 0, 1]" by code_simp
  then show ?thesis using wf_interface_preserved [OF wf_example_iface, of "''fa:16:3e:00:00:01''" "[250, 22, 62, 0, 0, 1]" 1] by simp
qed

text \<open>
  A node name is accepted exactly when it has at most 253 characters and splits at its
  dots into non-empty labels of lower case letters, digits and dashes that neither start
  nor end with a dash.
\<close>

theorem NewNodeName_accepts:
  "is_ok (NewNodeName v) \<longleftrightarrow> length v \<le> 253 \<and>
     list_all (\<lambda>l. l \<noteq> [] \<and> list_all lower_alnum_dash l \<and> hd l \<noteq> CHR ''-'' \<and> last l \<noteq> CHR ''-'') (Split v (CHR ''.''))"
proof -
  have "\<not> lower_alnum (CHR ''-'')" by (simp add: lower_alnum_def is_lower_def is_digit_def)
  then have e: "lower_alnum c \<longleftrightarrow> lower_alnum_dash c \<and> c \<noteq> CHR ''-''" for c
    by (auto simp: lower_alnum_dash_def)
  have "(l \<noteq> [] \<and> list_all lower_alnum_dash l \<and> lower_alnum (hd l) \<and> lower_alnum (last l)) \<longleftrightarrow>
    (l \<noteq> [] \<and> list_all lower_alnum_dash l \<and> hd l \<noteq> CHR ''-'' \<and> last l \<noteq> CHR ''-'')" for l
    using e [of "hd l"] e [of "last l"] hd_in_set [of l] last_in_set [of l] unfolding list_all_iff by blast
  then show ?thesis by (simp add: is_ok_iff NewNodeName_ok nodeNamePattern_iff list_all_iff)
qed

text \<open>
  An interface name is accepted exactly when it is the prefix followed by digits of a
  value below ten; the index it carries is that value, and printing an accepted index gives
  back a name with that index.
\<close>

theorem NewInterfaceName_roundtrip:
  "(NewInterfaceName v = Inr x \<longleftrightarrow>
     (\<exists>ds. v = ''multinic'' @ ds \<and> ds \<noteq> [] \<and> list_all is_digit ds \<and> dec_val ds < 10 \<and>
        x = \<lparr>name_value = v, name_index = int (dec_val ds)\<rparr>)) \<and>
   (case NewInterfaceIndex i of
      Inr idx \<Rightarrow> NewInterfaceName (ToInterfaceName idx) = Inr \<lparr>name_value = ''multinic'' @ Itoa i, name_index = i\<rparr>
    | Inl e \<Rightarrow> i < 0 \<or> 9 < i)"
  using ToInterfaceName_ok [of i]
  by (auto simp: NewInterfaceName_ok NewInterfaceIndex_def MaxInterfaces_def InterfacePrefix_def)

text \<open>
  C39: hardware addresses compare by their bytes, not by their spelling, and the canonical
  form of an accepted address is accepted and denotes the same bytes.
\<close>

theorem MACAddress_by_bytes:
  assumes "NewMACAddress v = Inr m" "NewMACAddress v' = Inr m'"
  shows "(MACAddress_Equals m (Some m') \<longleftrightarrow> mac_mac m = mac_mac m') \<and>
    (MACAddress_Equals m (Some m') \<longleftrightarrow> Canonical m = Canonical m') \<and>
    NewMACAddress (Canonical m) = Inr \<lparr>mac_value = Canonical m, mac_mac = mac_mac m\<rparr>"
  using MACAddress_Equals_iff [OF assms] Canonical_ok [OF assms(1)]
  by (auto simp: MACAddress_Equals_def EqualFold_def Canonical_def)

theorem MACAddress_by_bytes_witness:
  "MACAddress_Equals \<lparr>mac_value = ''FA-16-3E-00-00-01'', mac_mac = [250, 22, 62, 0, 0, 1]\<rparr>
     (Some \<lparr>mac_value = ''fa16.3e00.0001'', mac_mac = [250, 22, 62, 0, 0, 1]\<rparr>)"
proof -
  have "NewMACAddress ''FA-16-3E-00-00-01'' = Inr \<lparr>mac_value = ''FA-16-3E-00-00-01'', mac_mac = [250, 22, 62, 0, 0, 1]\<rparr>"
    "NewMACAddress ''fa16.3e00.0001'' = Inr \<lparr>mac_value = ''fa16.3e00.0001'', mac_mac = [250, 22, 62, 0, 0, 1]\<rparr>"
    by code_simp+
  then show ?thesis using MACAddress_by_bytes by fastforce
qed

end
