(* ===== verification/Host.thy ===== *)
theory Host
  imports Go_Path Entities "HOL-Library.AList" "HOL-Library.Char_ord" "HOL-Library.List_Lexorder"
begin

text \<open>
  The interfaces of \<open>internal/domain/interfaces\<close> through which the program reaches the host,
  and their adapters of \<open>internal/infrastructure/adapters\<close>. An interface is a record of
  functions over a world \<open>'w\<close>; a call that changes the world returns the new one. Commands
  that only read (\<open>ip ... show\<close>, \<open>hostname\<close>, \<open>test\<close>) are issued through \<open>ex_query\<close>, which keeps
  the world it was given.
\<close>

section \<open>Interfaces\<close>

record 'w FileSystem =
  fs_ReadFile :: "string \<Rightarrow> 'w \<Rightarrow> (go_error, string) result"
  fs_WriteFile :: "string \<Rightarrow> string \<Rightarrow> nat \<Rightarrow> 'w \<Rightarrow> go_error option \<times> 'w"
  fs_Exists :: "string \<Rightarrow> 'w \<Rightarrow> bool"
  fs_MkdirAll :: "string \<Rightarrow> nat \<Rightarrow> 'w \<Rightarrow> go_error option \<times> 'w"
  fs_Remove :: "string \<Rightarrow> 'w \<Rightarrow> go_error option \<times> 'w"
  fs_ListFiles :: "string \<Rightarrow> 'w \<Rightarrow> (go_error, string list) result"

record 'w Host = "'w FileSystem" +
  ex_exec :: "string \<Rightarrow> string list \<Rightarrow> 'w \<Rightarrow> (go_error, string) result \<times> 'w"

definition ex_query :: "('w, 'z) Host_scheme \<Rightarrow> string \<Rightarrow> string list \<Rightarrow> 'w \<Rightarrow> (go_error, string) result" where
  "ex_query h cmd args w = fst (ex_exec h cmd args w)"

datatype OSType = OSTypeUbuntu | OSTypeRHEL

section \<open>The operating system's files\<close>

text \<open>
  The state \<open>os\<close> works on: the regular files by clean absolute path, the directories, and
  the failures the kernel reports for writing, creating, removing or listing at a path (no
  permission, no space); a file that is there can be read, since the agent runs as root.
  Symbolic links are not modelled: a path names the file of its clean form. \<open>os_log\<close> holds
  the commands that were run, oldest first.
\<close>

record os_state =
  os_files :: "(string \<times> string) list"
  os_dirs :: "string list"
  os_fault :: "string \<Rightarrow> string \<Rightarrow> go_error option"
  os_log :: "(string \<times> string list) list"

definition is_file :: "os_state \<Rightarrow> string \<Rightarrow> bool" where
  "is_file s p \<longleftrightarrow> map_of (os_files s) (Clean p) \<noteq> None"

definition is_dir :: "os_state \<Rightarrow> string \<Rightarrow> bool" where
  "is_dir s p \<longleftrightarrow> List.member (os_dirs s) (Clean p)"

definition path_error :: "string \<Rightarrow> string \<Rightarrow> string \<Rightarrow> go_error" where
  "path_error oper p msg = PlainError (oper @ '' '' @ p @ '': '' @ msg)"

definition os_ReadFile :: "string \<Rightarrow> os_state \<Rightarrow> (go_error, string) result" where
  "os_ReadFile p s =
     (case map_of (os_files s) (Clean p) of
        Some d \<Rightarrow> Inr d
      | None \<Rightarrow> Inl (if is_dir s p then path_error ''read'' p ''is a directory''
                     else path_error ''open'' p ''no such file or directory''))"

definition os_Stat_ok :: "string \<Rightarrow> os_state \<Rightarrow> bool" where
  "os_Stat_ok p s \<longleftrightarrow> is_file s p \<or> is_dir s p"

definition os_WriteFile :: "string \<Rightarrow> string \<Rightarrow> os_state \<Rightarrow> go_error option \<times> os_state" where
  "os_WriteFile p d s =
     (case os_fault s ''write'' (Clean p) of
        Some e \<Rightarrow> (Some e, s)
      | None \<Rightarrow>
          (if is_dir s p then (Some (path_error ''open'' p ''is a directory''), s)
           else if \<not> is_dir s (Dir p) then (Some (path_error ''open'' p ''no such file or directory''), s)
           else (None, s\<lparr>os_files := AList.update (Clean p) d (os_files s)\<rparr>)))"

text \<open>The path and all its parents.\<close>

definition ancestors :: "string \<Rightarrow> string list" where
  "ancestors p = map (\<lambda>n. CHR ''/'' # Join (take n (comps p)) ''/'') [0..<Suc (length (comps p))]"

definition os_MkdirAll :: "string \<Rightarrow> os_state \<Rightarrow> go_error option \<times> os_state" where
  "os_MkdirAll p s =
     (case os_fault s ''mkdir'' (Clean p) of
        Some e \<Rightarrow> (Some e, s)
      | None \<Rightarrow>
          (if list_ex (is_file s) (ancestors p) then (Some (path_error ''mkdir'' p ''not a directory''), s)
           else (None, s\<lparr>os_dirs := List.union (ancestors p) (os_dirs s)\<rparr>)))"

definition os_Remove :: "string \<Rightarrow> os_state \<Rightarrow> go_error option \<times> os_state" where
  "os_Remove p s =
     (case os_fault s ''remove'' (Clean p) of
        Some e \<Rightarrow> (Some e, s)
      | None \<Rightarrow>
          (if is_file s p then (None, s\<lparr>os_files := AList.delete (Clean p) (os_files s)\<rparr>)
           else if is_dir s p then
             (if list_ex (\<lambda>q. Dir q = Clean p \<and> q \<noteq> Clean p) (map fst (os_files s) @ os_dirs s)
              then (Some (path_error ''remove'' p ''directory not empty''), s)
              else (None, s\<lparr>os_dirs := removeAll (Clean p) (os_dirs s)\<rparr>))
           else (Some (path_error ''remove'' p ''no such file or directory''), s)))"

text \<open>The names of the regular files of a directory, in the order of \<open>os.ReadDir\<close>.\<close>

definition os_ReadDir_files :: "string \<Rightarrow> os_state \<Rightarrow> (go_error, string list) result" where
  "os_ReadDir_files p s =
     (case os_fault s ''readdir'' (Clean p) of
        Some e \<Rightarrow> Inl e
      | None \<Rightarrow>
          (if is_dir s p then
             Inr (sort (map Base (filter (\<lambda>q. Dir q = Clean p) (remdups (map fst (os_files s))))))
           else Inl (path_error ''open'' p ''no such file or directory'')))"

section \<open>adapters/filesystem.go\<close>

definition allowed_roots :: "string list" where
  "allowed_roots = [NetplanConfigDir, RHELNetworkScriptsDir, NetworkManagerDir, SystemdNetworkDir, DefaultBackupDir]"

definition isSafeConfigPath :: "string \<Rightarrow> bool" where
  "isSafeConfigPath p \<longleftrightarrow>
     p \<noteq> [] \<and> IsAbs p \<and> \<not> Contains (Clean p) ''..'' \<and> list_ex (HasPrefix (Clean p)) allowed_roots"

definition unsafe_path :: go_error where
  "unsafe_path = PlainError ''unsafe path rejected''"

definition RFS_WriteFile :: "string \<Rightarrow> string \<Rightarrow> nat \<Rightarrow> os_state \<Rightarrow> go_error option \<times> os_state" where
  "RFS_WriteFile p d perm s =
     (if \<not> isSafeConfigPath p then (Some unsafe_path, s)
      else case os_MkdirAll (Dir p) s of
        (Some e, s') \<Rightarrow> (Some e, s')
      | (None, s') \<Rightarrow> os_WriteFile p d s')"

definition RFS_MkdirAll :: "string \<Rightarrow> nat \<Rightarrow> os_state \<Rightarrow> go_error option \<times> os_state" where
  "RFS_MkdirAll p perm s = (if \<not> isSafeConfigPath p then (Some unsafe_path, s) else os_MkdirAll p s)"

definition RFS_Remove :: "string \<Rightarrow> os_state \<Rightarrow> go_error option \<times> os_state" where
  "RFS_Remove p s = (if \<not> isSafeConfigPath p then (Some unsafe_path, s) else os_Remove p s)"

definition RFS_Exists :: "string \<Rightarrow> os_state \<Rightarrow> bool" where
  "RFS_Exists p s = os_Stat_ok p s"

definition RFS_ListFiles :: "string \<Rightarrow> os_state \<Rightarrow> (go_error, string list) result" where
  "RFS_ListFiles p s = os_ReadDir_files p s"

definition RealFileSystem :: "os_state FileSystem" where
  "RealFileSystem = \<lparr>fs_ReadFile = os_ReadFile, fs_WriteFile = RFS_WriteFile, fs_Exists = RFS_Exists,
     fs_MkdirAll = RFS_MkdirAll, fs_Remove = RFS_Remove, fs_ListFiles = RFS_ListFiles\<rparr>"

text \<open>A host whose files are these and whose commands behave as \<open>ex\<close> says.\<close>

definition RealHost :: "(string \<Rightarrow> string list \<Rightarrow> os_state \<Rightarrow> (go_error, string) result \<times> os_state) \<Rightarrow> os_state Host" where
  "RealHost ex = \<lparr>fs_ReadFile = os_ReadFile, fs_WriteFile = RFS_WriteFile, fs_Exists = RFS_Exists,
     fs_MkdirAll = RFS_MkdirAll, fs_Remove = RFS_Remove, fs_ListFiles = RFS_ListFiles, ex_exec = ex\<rparr>"

text \<open>
  A host whose commands are logged, change no file, and answer as \<open>answer\<close> says; one on
  which every command fails; and a system with no files.
\<close>

definition scripted :: "(string \<Rightarrow> string list \<Rightarrow> os_state \<Rightarrow> (go_error, string) result) \<Rightarrow>
    string \<Rightarrow> string list \<Rightarrow> os_state \<Rightarrow> (go_error, string) result \<times> os_state" where
  "scripted answer cmd args s = (answer cmd args s, s\<lparr>os_log := os_log s @ [(cmd, args)]\<rparr>)"

definition mute_host :: "os_state Host" where
  "mute_host = RealHost (scripted (\<lambda>c a s. Inl (PlainError c)))"

definition fresh_os :: os_state where
  "fresh_os = \<lparr>os_files = [], os_dirs = [''/''], os_fault = (\<lambda>_ _. None), os_log = []\<rparr>"

section \<open>The contract of a file system\<close>

text \<open>
  What the adapters and use cases rely on: a write is read back, a removal is final, and
  neither touches another path. Paths are compared in their clean form. \<open>inv\<close> is the
  consistency of the world that every operation keeps.
\<close>

locale file_system =
  fixes fs :: "('w, 'z) FileSystem_scheme"
    and inv :: "'w \<Rightarrow> bool"
  assumes write_read: "fs_WriteFile fs p d m w = (None, w') \<Longrightarrow> fs_ReadFile fs p w' = Inr d"
    and write_frame: "fs_WriteFile fs p d m w = (r, w') \<Longrightarrow> Clean q \<noteq> Clean p \<Longrightarrow>
      fs_ReadFile fs q w' = Inr c \<longleftrightarrow> fs_ReadFile fs q w = Inr c"
    and write_inv: "inv w \<Longrightarrow> inv (snd (fs_WriteFile fs p d m w))"
    and read_exists: "fs_ReadFile fs p w = Inr c \<Longrightarrow> fs_Exists fs p w"
    and mkdir_frame: "fs_MkdirAll fs p m w = (r, w') \<Longrightarrow> fs_ReadFile fs q w' = Inr c \<longleftrightarrow> fs_ReadFile fs q w = Inr c"
    and mkdir_inv: "inv w \<Longrightarrow> inv (snd (fs_MkdirAll fs p m w))"
    and remove_gone: "inv w \<Longrightarrow> fs_Remove fs p w = (None, w') \<Longrightarrow> \<not> fs_Exists fs p w'"
    and remove_frame: "fs_Remove fs p w = (r, w') \<Longrightarrow> Clean q \<noteq> Clean p \<Longrightarrow>
      fs_ReadFile fs q w' = Inr c \<longleftrightarrow> fs_ReadFile fs q w = Inr c"
    and remove_fail: "fs_Remove fs p w = (Some e, w') \<Longrightarrow> w' = w"
    and remove_missing: "\<not> fs_Exists fs p w \<Longrightarrow> fst (fs_Remove fs p w) \<noteq> None"
    and remove_inv: "inv w \<Longrightarrow> inv (snd (fs_Remove fs p w))"
begin

lemma write_then_exists: "fs_WriteFile fs p d m w = (None, w') \<Longrightarrow> fs_Exists fs p w'"
  using write_read read_exists by blast

lemma removed_unreadable: "inv w \<Longrightarrow> fs_Remove fs p w = (None, w') \<Longrightarrow> fs_ReadFile fs p w' \<noteq> Inr c"
  using remove_gone read_exists by blast

end

definition os_inv :: "os_state \<Rightarrow> bool" where
  "os_inv s \<longleftrightarrow> (\<forall>p \<in> set (os_dirs s). map_of (os_files s) p = None)"

lemma os_inv_D: "os_inv s \<Longrightarrow> is_dir s p \<Longrightarrow> \<not> is_file s p"
  by (auto simp: os_inv_def is_dir_def is_file_def)

lemma Clean_ancestor: "a \<in> set (ancestors p) \<Longrightarrow> Clean a = a"
proof -
  assume "a \<in> set (ancestors p)"
  then obtain n where "a = CHR ''/'' # Join (take n (comps p)) ''/''" unfolding ancestors_def image_set [symmetric] by blast
  moreover have "list_all plain (take n (comps p))"
    using comps_plain [of p] by (auto simp: list_all_iff dest: in_set_takeD)
  ultimately show ?thesis by (simp add: Clean_plain)
qed

lemma os_MkdirAll_files: "os_MkdirAll p s = (r, s') \<Longrightarrow> os_files s' = os_files s"
  by (auto simp: os_MkdirAll_def split: option.splits if_splits)

lemma os_MkdirAll_inv: "os_inv s \<Longrightarrow> os_inv (snd (os_MkdirAll p s))"
  using Clean_ancestor [of _ p]
  by (auto simp: os_MkdirAll_def os_inv_def is_file_def list_ex_iff split: option.splits)

lemma os_WriteFile_inv: "os_inv s \<Longrightarrow> os_inv (snd (os_WriteFile p d s))"
  by (auto simp: os_WriteFile_def os_inv_def is_dir_def update_conv split: option.splits)

lemma os_Remove_inv: "os_inv s \<Longrightarrow> os_inv (snd (os_Remove p s))"
  by (auto simp: os_Remove_def os_inv_def delete_conv split: option.splits)

lemma os_ReadFile_ok: "os_ReadFile p s = Inr c \<longleftrightarrow> map_of (os_files s) (Clean p) = Some c"
  by (auto simp: os_ReadFile_def split: option.splits)

lemma os_Remove_gone: "os_inv s \<Longrightarrow> os_Remove p s = (None, s') \<Longrightarrow> \<not> os_Stat_ok p s'"
  using os_inv_D [of s p]
  by (auto simp: os_Remove_def os_Stat_ok_def is_file_def is_dir_def delete_conv split: option.splits if_splits)

lemmas host_fields = RealFileSystem_def RealHost_def

lemma RFS_laws:
  "RFS_WriteFile p d m w = (None, w') \<Longrightarrow> os_ReadFile p w' = Inr d"
  "RFS_WriteFile p d m w = (r, w') \<Longrightarrow> Clean q \<noteq> Clean p \<Longrightarrow> os_ReadFile q w' = Inr c \<longleftrightarrow> os_ReadFile q w = Inr c"
  "os_inv w \<Longrightarrow> os_inv (snd (RFS_WriteFile p d m w))"
  "os_ReadFile p w = Inr c \<Longrightarrow> RFS_Exists p w"
  "RFS_MkdirAll p m w = (r, w') \<Longrightarrow> os_ReadFile q w' = Inr c \<longleftrightarrow> os_ReadFile q w = Inr c"
  "os_inv w \<Longrightarrow> os_inv (snd (RFS_MkdirAll p m w))"
  "os_inv w \<Longrightarrow> RFS_Remove p w = (None, w') \<Longrightarrow> \<not> RFS_Exists p w'"
  "RFS_Remove p w = (r, w') \<Longrightarrow> Clean q \<noteq> Clean p \<Longrightarrow> os_ReadFile q w' = Inr c \<longleftrightarrow> os_ReadFile q w = Inr c"
  "RFS_Remove p w = (Some e, w') \<Longrightarrow> w' = w"
  "\<not> RFS_Exists p w \<Longrightarrow> fst (RFS_Remove p w) \<noteq> None"
  "os_inv w \<Longrightarrow> os_inv (snd (RFS_Remove p w))"
proof -
  show "os_inv w \<Longrightarrow> os_inv (snd (RFS_WriteFile p d m w))"
    using os_MkdirAll_inv [of w "Dir p"] os_WriteFile_inv
    by (auto simp: RFS_WriteFile_def split: prod.splits option.splits)
  show "os_inv w \<Longrightarrow> RFS_Remove p w = (None, w') \<Longrightarrow> \<not> RFS_Exists p w'"
    using os_Remove_gone by (auto simp: RFS_Remove_def RFS_Exists_def split: if_splits)
  show "os_inv w \<Longrightarrow> os_inv (snd (RFS_Remove p w))"
    using os_Remove_inv by (simp add: RFS_Remove_def)
qed (auto simp: RFS_WriteFile_def RFS_MkdirAll_def RFS_Remove_def RFS_Exists_def os_ReadFile_ok
      os_WriteFile_def os_Remove_def os_Stat_ok_def is_file_def update_conv delete_conv
      os_MkdirAll_inv os_Remove_inv
    dest!: os_MkdirAll_files split: prod.splits option.splits if_splits)

interpretation rfs: file_system RealFileSystem os_inv
  by (unfold_locales; unfold host_fields FileSystem.select_convs; rule RFS_laws; assumption)

interpretation rhost: file_system "RealHost ex" os_inv
  by (unfold_locales; unfold host_fields FileSystem.select_convs; rule RFS_laws; assumption)

end
