(* ===== verification/Adapters.thy ===== *)
theory Adapters
  imports Host
begin

text \<open>
  The command executor and the two operating system detectors of
  \<open>internal/infrastructure/adapters\<close>. What \<open>exec.Cmd.Run\<close> does is a parameter: it yields the
  standard output, or an error and the standard error text. Whether the deadline of the
  context has passed is a parameter too, read after the command.
\<close>

section \<open>adapters/command\_executor.go\<close>

type_synonym 'w process = "string \<Rightarrow> string list \<Rightarrow> 'w \<Rightarrow> (go_error \<times> string, string) result \<times> 'w"

definition isSafeCommand :: "string \<Rightarrow> bool" where
  "isSafeCommand cmd \<longleftrightarrow> cmd \<noteq> [] \<and>
     \<not> ContainsAny cmd ('' ;|&><'' @ [CHR 0x60] @ ''$'' @ [CHR 0x0A, CHR 0x0D, CHR 0x09])"

definition isSafeArg :: "string \<Rightarrow> bool" where
  "isSafeArg arg \<longleftrightarrow> \<not> ContainsAny arg ([CHR 0x60] @ ''$'' @ [CHR 0x0A, CHR 0x0D])"

definition secretKeyLike :: "string \<Rightarrow> bool" where
  "secretKeyLike v = list_ex (Contains (ToLower v))
     [''pass'', ''token'', ''secret'', ''key'', ''cred'', ''authorization'']"

definition maskArgs :: "string list \<Rightarrow> string list" where
  "maskArgs args = map (\<lambda>i.
     (if secretKeyLike (args ! i) then ''***''
      else if 0 < i \<and> secretKeyLike (args ! (i - 1)) then ''***''
      else args ! i)) [0..<length args]"

text \<open>The verb \<open>%v\<close> on a slice of strings.\<close>

definition fmt_slice :: "string list \<Rightarrow> string" where
  "fmt_slice xs = ''['' @ Join xs '' '' @ '']''"

definition Execute_cmd :: "'w process \<Rightarrow> string \<Rightarrow> string list \<Rightarrow> 'w \<Rightarrow> (go_error, string) result \<times> 'w" where
  "Execute_cmd run command args w =
     (if \<not> isSafeCommand command then
        (Inl (NewValidationError (''unsafe command rejected: '' @ command) None), w)
      else if \<not> list_all isSafeArg args then
        (Inl (NewValidationError ''unsafe argument rejected'' None), w)
      else case run command args w of
        (Inl (err, stderr), w') \<Rightarrow>
          (Inl (NewSystemError (''command execution failed: '' @ command @ '' '' @ fmt_slice (maskArgs args))
             (Some (WrappedError (Error err @ '', stderr: '' @ stderr) err))), w')
      | (Inr stdout, w') \<Rightarrow> (Inr stdout, w'))"

definition ExecuteWithTimeout ::
  "'w process \<Rightarrow> ('w \<Rightarrow> bool) \<Rightarrow> string \<Rightarrow> string \<Rightarrow> string list \<Rightarrow> 'w \<Rightarrow> (go_error, string) result \<times> 'w" where
  "ExecuteWithTimeout run expired timeout command args w =
     (case Execute_cmd run command args w of
        (Inl err, w') \<Rightarrow>
          (if expired w' then
             (Inl (NewTimeoutError (''command execution timeout: '' @ command @ '' '' @ fmt_slice args @
                '' (timeout: '' @ timeout @ '')'')), w')
           else (Inl err, w'))
      | (Inr output, w') \<Rightarrow> (Inr output, w'))"

section \<open>adapters/os\_detector.go\<close>

text \<open>
  \<open>bufio.Scanner\<close> on a text: lines without their newline and one trailing carriage return,
  no empty last line, and nothing from the first line on that does not fit its buffer.
\<close>

definition scan_lines :: "string \<Rightarrow> string list" where
  "scan_lines s =
     (let ls = Split s NL; ls' = (if last ls = [] then butlast ls else ls)
      in map (\<lambda>l. if l \<noteq> [] \<and> last l = CHR 0x0D then butlast l else l)
           (takeWhile (\<lambda>l. length l < 65536) ls'))"

definition release_line :: "(string \<rightharpoonup> string) \<Rightarrow> string \<Rightarrow> (string \<rightharpoonup> string)" where
  "release_line m line =
     (if Contains line ''='' then
        (let parts = SplitN line (CHR ''='') 2
         in m(TrimSpace (parts ! 0) \<mapsto> Trim (\<lambda>c. c = CHR 0x22) (TrimSpace (parts ! 1))))
      else m)"

definition parseOSRelease :: "('w, 'z) FileSystem_scheme \<Rightarrow> 'w \<Rightarrow> (go_error, string \<rightharpoonup> string) result" where
  "parseOSRelease fs w =
     (case fs_ReadFile fs OSReleaseFile w of
        Inl err \<Rightarrow> Inl err
      | Inr content \<Rightarrow> Inr (foldl release_line Map.empty (scan_lines content)))"

definition DetectOS :: "('w, 'z) FileSystem_scheme \<Rightarrow> 'w \<Rightarrow> (go_error, OSType) result" where
  "DetectOS fs w =
     (case parseOSRelease fs w of
        Inl err \<Rightarrow> Inl (NewSystemError ''OS detection failed: cannot read /etc/os-release file'' (Some err))
      | Inr releaseInfo \<Rightarrow>
          (case releaseInfo ''ID'' of
             None \<Rightarrow> Inl (NewSystemError ''OS detection failed: no ID field in /etc/os-release file'' None)
           | Some i \<Rightarrow>
               (let idLike = (case releaseInfo ''ID_LIKE'' of None \<Rightarrow> [] | Some l \<Rightarrow> l)
                in if i = ''ubuntu'' then Inr OSTypeUbuntu
                   else if i = ''rhel'' \<or> i = ''centos'' \<or> i = ''rocky'' \<or> i = ''almalinux'' \<or> i = ''oracle''
                       \<or> Contains idLike ''rhel'' \<or> Contains idLike ''fedora'' then Inr OSTypeRHEL
                   else Inl (NewSystemError (''unsupported OS type. ID: '' @ CHR 0x27 # i @ CHR 0x27 #
                          '', ID_LIKE: '' @ CHR 0x27 # idLike @ [CHR 0x27]) None))))"

section \<open>adapters/os\_detector\_k8s.go\<close>

text \<open>
  The environment variable, the host name and the answer of the API server (the string
  \<open>status.nodeInfo.osImage\<close> of the node, when it is there) are parameters.
\<close>

definition before_dot :: "string \<Rightarrow> string" where
  "before_dot s = takeWhile (\<lambda>c. c \<noteq> CHR ''.'') s"

definition K8s_nodeName :: "string \<Rightarrow> (go_error, string) result \<Rightarrow> (go_error, string) result" where
  "K8s_nodeName nodeEnv hostname =
     (if TrimSpace nodeEnv = [] then
        (case hostname of
           Inl err \<Rightarrow> Inl (NewSystemError ''failed to obtain node name'' (Some err))
         | Inr hn \<Rightarrow> Inr (before_dot hn))
      else Inr nodeEnv)"

definition K8s_DetectOS ::
  "string \<Rightarrow> (go_error, string) result \<Rightarrow> (string \<Rightarrow> (go_error, string option) result) \<Rightarrow> (go_error, OSType) result" where
  "K8s_DetectOS nodeEnv hostname getNode =
     rbind (K8s_nodeName nodeEnv hostname) (\<lambda>nodeName.
       case getNode nodeName of
         Inl err \<Rightarrow> Inl (NewSystemError ''failed to query Node from Kubernetes'' (Some err))
       | Inr img \<Rightarrow>
           (let osImage = (case img of None \<Rightarrow> [] | Some v \<Rightarrow> v); idLike = ToLower osImage
            in if Contains idLike ''ubuntu'' then Inr OSTypeUbuntu
               else if list_ex (Contains idLike) [''red hat'', ''rhel'', ''centos'', ''rocky'', ''alma'', ''oracle'']
               then Inr OSTypeRHEL
               else Inl (NewSystemError (''unsupported OS type from Node osImage: '' @ osImage) None)))"

section \<open>Facts\<close>

text \<open>A command that reaches the process table has a safe name and safe arguments.\<close>

lemma Execute_cmd_cases:
  "Execute_cmd run command args w = (r, w') \<Longrightarrow>
     (isSafeCommand command \<and> list_all isSafeArg args \<and> w' = snd (run command args w)) \<or>
     (w' = w \<and> \<not> is_ok r \<and> (\<exists>e. r = Inl e \<and> IsValidationError e))"
  by (auto simp: Execute_cmd_def NewValidationError_def IsValidationError_def split: if_splits prod.splits sum.splits)

lemma length_maskArgs [simp]: "length (maskArgs args) = length args"
  by (simp add: maskArgs_def)

lemma maskArgs_nth:
  "i < length args \<Longrightarrow> maskArgs args ! i =
     (if secretKeyLike (args ! i) \<or> (0 < i \<and> secretKeyLike (args ! (i - 1))) then ''***'' else args ! i)"
  by (simp add: maskArgs_def)

lemma ExecuteWithTimeout_ok:
  "ExecuteWithTimeout run expired t command args w = (Inr out, w') \<longleftrightarrow>
     isSafeCommand command \<and> list_all isSafeArg args \<and> run command args w = (Inr out, w')"
  by (auto simp: ExecuteWithTimeout_def Execute_cmd_def split: prod.splits sum.splits if_splits)

text \<open>The allowed roots, as component lists.\<close>

definition root_comps :: "string list list" where
  "root_comps = [[''etc'', ''netplan''], [''etc'', ''sysconfig'', ''network-scripts''],
     [''etc'', ''NetworkManager'', ''system-connections''], [''etc'', ''systemd'', ''network''],
     [''var'', ''lib'', ''multinic'', ''backups'']]"

lemma allowed_roots_comps: "allowed_roots = map (\<lambda>cs. CHR ''/'' # Join cs ''/'') root_comps"
  by (simp add: allowed_roots_def root_comps_def path_defs)

lemma not_Contains_dots: "\<forall>c \<in> set cs. CHR ''.'' \<notin> set c \<Longrightarrow> \<not> Contains (Join cs ''/'') ''..''"
proof -
  assume a: "\<forall>c \<in> set cs. CHR ''.'' \<notin> set c"
  have "CHR ''.'' \<notin> set (Join cs ''/'')"
    using a by (induction cs rule: induct_list012) auto
  then show ?thesis by (auto simp: Contains_iff)
qed

lemma isSafeConfigPath_comps:
  "isSafeConfigPath p \<Longrightarrow> \<exists>r. Clean p = CHR ''/'' # Join (comps p) ''/'' \<and> r \<in> set allowed_roots \<and> prefix r (Clean p)"
  by (auto simp: isSafeConfigPath_def Clean_abs list_ex_iff HasPrefix_prefix)

lemma slash_split:
  assumes "CHR ''/'' \<notin> set a" "CHR ''/'' \<notin> set c" "prefix (a @ CHR ''/'' # X) (c @ CHR ''/'' # Y)"
  shows "a = c \<and> prefix X Y"
proof -
  obtain z where z: "c @ CHR ''/'' # Y = a @ CHR ''/'' # (X @ z)" using assms(3) by (auto simp: prefix_def)
  then have "takeWhile (\<lambda>x. x \<noteq> CHR ''/'') (c @ CHR ''/'' # Y) = takeWhile (\<lambda>x. x \<noteq> CHR ''/'') (a @ CHR ''/'' # (X @ z))"
    by simp
  moreover have "takeWhile (\<lambda>x. x \<noteq> CHR ''/'') (s @ CHR ''/'' # t) = s" if "CHR ''/'' \<notin> set s" for s t
    using that by (subst takeWhile_append2) auto
  ultimately have "c = a" using assms(1,2) by simp
  with z show ?thesis by auto
qed

lemma prefix_of_first_comp:
  assumes "CHR ''/'' \<notin> set a" "prefix a (c @ t)" "t = [] \<or> hd t = CHR ''/''"
  shows "\<exists>x. c = a @ x"
proof -
  obtain z where "c @ t = a @ z" using assms(2) by (auto simp: prefix_def)
  then consider us where "c = a @ us" | us where "a = c @ us" "t = us @ z"
    by (auto simp: append_eq_append_conv2)
  then show ?thesis
  proof cases
    case (2 us)
    then have "us = []" using assms(1,3) by (cases us) auto
    then show ?thesis using 2 by simp
  qed blast
qed

lemma Join_tail: "cs = c # rest \<Longrightarrow> \<exists>t. Join cs ''/'' = c @ t \<and> (t = [] \<or> hd t = CHR ''/'')"
  by (cases rest) auto

lemma prefix_Join:
  assumes "list_all plain r" "r \<noteq> []" "list_all plain cs" "prefix (Join r ''/'') (Join cs ''/'')"
  shows "\<exists>x rest. cs = butlast r @ (last r @ x) # rest"
  using assms
proof (induction r arbitrary: cs rule: induct_list012)
  case (2 a)
  then obtain c rest where cs: "cs = c # rest" by (cases cs) (auto simp: plain_def)
  obtain t where t: "Join cs ''/'' = c @ t" "t = [] \<or> hd t = CHR ''/''" using Join_tail [OF cs] by blast
  have "\<exists>x. c = a @ x" using 2 t by (intro prefix_of_first_comp [of a c t]) (auto simp: plain_def)
  then show ?case using cs by auto
next
  case (3 a b r)
  obtain c rest where cs: "cs = c # rest" using 3 by (cases cs) (auto simp: plain_def)
  have sl: "CHR ''/'' \<notin> set a" "CHR ''/'' \<notin> set c" using 3 cs by (auto simp: plain_def)
  obtain d rest' where d: "rest = d # rest'"
  proof (cases rest)
    case Nil
    then have "CHR ''/'' \<in> set c" using 3 cs by (auto simp: prefix_def)
    then show ?thesis using sl by simp
  qed blast
  have "a = c \<and> prefix (Join (b # r) ''/'') (Join (d # rest') ''/'')"
    using 3 cs d by (intro slash_split [OF sl]) simp
  then show ?case using "3.IH"(2) [of "d # rest'"] 3 cs d by auto
qed simp

lemma Join_continued: "r \<noteq> [] \<Longrightarrow> prefix (Join r ''/'') (Join (butlast r @ (last r @ x) # rest) ''/'')"
proof (induction r rule: induct_list012)
  case (2 a)
  then show ?case by (cases rest) simp_all
next
  case (3 a b r)
  then have "prefix (Join (b # r) ''/'') (Join (butlast (b # r) @ (last (b # r) @ x) # rest) ''/'')" by simp
  moreover obtain y ys where y: "butlast (b # r) @ (last (b # r) @ x) # rest = y # ys" by (cases "butlast (b # r)") auto
  ultimately show ?case by (simp del: butlast.simps last.simps add: butlast.simps(2) last.simps [of a])
qed simp

section \<open>Properties\<close>

text \<open>
  C25: which paths the file system adapter accepts, exactly. The path is absolute, its clean form
  has no double dot, and the components of that form begin with the components of one of
  the five managed directories, of which the last may be continued: the check takes the
  siblings that continue the spelling of a managed directory for parts of it. The clean form is the path of those
  components, which are all plain, whatever dots and slashes the text has.
\<close>

theorem isSafeConfigPath_exact:
  "(isSafeConfigPath p \<longleftrightarrow> IsAbs p \<and> \<not> Contains (Clean p) ''..'' \<and>
      (\<exists>r \<in> set root_comps. \<exists>x rest. comps p = butlast r @ (last r @ x) # rest)) \<and>
   (isSafeConfigPath p \<longrightarrow> Clean p = CHR ''/'' # Join (comps p) ''/'' \<and> list_all plain (comps p))"
proof -
  have "\<exists>r \<in> set root_comps. \<exists>x rest. comps p = butlast r @ (last r @ x) # rest" if safe: "isSafeConfigPath p"
  proof -
    obtain r where r: "r \<in> set root_comps" "prefix (CHR ''/'' # Join r ''/'') (Clean p)" "Clean p = CHR ''/'' # Join (comps p) ''/''"
      using isSafeConfigPath_comps [OF safe] by (auto simp: allowed_roots_comps)
    have "list_all plain r" "r \<noteq> []" using r(1) by (auto simp: root_comps_def plain_def)
    then show ?thesis using prefix_Join [of r "comps p"] comps_plain [of p] r by auto
  qed
  moreover have "isSafeConfigPath p"
    if a: "IsAbs p" "\<not> Contains (Clean p) ''..''" "r \<in> set root_comps" "comps p = butlast r @ (last r @ x) # rest" for r x rest
  proof -
    have "r \<noteq> []" using a(3) by (auto simp: root_comps_def)
    then have "prefix (CHR ''/'' # Join r ''/'') (Clean p)" using Join_continued [of r x rest] a(4) by (simp add: Clean_abs [OF a(1)])
    moreover have "p \<noteq> []" using a(1) by (auto simp: IsAbs_def HasPrefix_def)
    ultimately show ?thesis using a(1-3) by (auto simp: isSafeConfigPath_def allowed_roots_comps list_ex_iff HasPrefix_prefix)
  qed
  moreover have "IsAbs p \<and> \<not> Contains (Clean p) ''..''" if "isSafeConfigPath p" using that by (simp add: isSafeConfigPath_def)
  ultimately show ?thesis using comps_plain [of p] by (auto simp: Clean_abs)
qed

theorem isSafeConfigPath_exact_witness:
  "list_all plain (comps ''/etc/x/../netplan/./90-multinic0.yaml'')"
proof -
  have "isSafeConfigPath ''/etc/x/../netplan/./90-multinic0.yaml''" by code_simp
  then show ?thesis using isSafeConfigPath_exact by blast
qed

text \<open>
  The root check has no separator boundary: a file of a directory that only shares the
  spelling of a managed root passes, and the adapter writes it.
\<close>

theorem isSafeConfigPath_sibling:
  "isSafeConfigPath ''/etc/netplan-other/x'' \<and>
   fst (RFS_WriteFile ''/etc/netplan-other/x'' ''data'' 420 fresh_os) = None"
  by code_simp

text \<open>
  C26: writing, creating and removing through the adapter is confined. Whatever its result, an
  operation changes the contents of no path but the clean form of its argument, and only
  when that argument passed the safety check; a rejected call changes nothing at all.
\<close>

theorem RealFileSystem_confined:
  "((fs_ReadFile RealFileSystem q (snd (fs_WriteFile RealFileSystem p d m s)) = Inr c \<longleftrightarrow> fs_ReadFile RealFileSystem q s = Inr c)
      \<or> (Clean q = Clean p \<and> isSafeConfigPath p)) \<and>
   ((fs_ReadFile RealFileSystem q (snd (fs_Remove RealFileSystem p s)) = Inr c \<longleftrightarrow> fs_ReadFile RealFileSystem q s = Inr c)
      \<or> (Clean q = Clean p \<and> isSafeConfigPath p)) \<and>
   (fs_ReadFile RealFileSystem q (snd (fs_MkdirAll RealFileSystem p m s)) = Inr c \<longleftrightarrow> fs_ReadFile RealFileSystem q s = Inr c) \<and>
   (isSafeConfigPath p \<or> (snd (fs_WriteFile RealFileSystem p d m s) = s \<and> snd (fs_Remove RealFileSystem p s) = s
      \<and> snd (fs_MkdirAll RealFileSystem p m s) = s))"
proof -
  have unsafe: "isSafeConfigPath p \<or> (snd (fs_WriteFile RealFileSystem p d m s) = s \<and> snd (fs_Remove RealFileSystem p s) = s
      \<and> snd (fs_MkdirAll RealFileSystem p m s) = s)"
    by (auto simp: RealFileSystem_def RFS_WriteFile_def RFS_Remove_def RFS_MkdirAll_def)
  show ?thesis
    using unsafe rfs.write_frame [of p d m s _ _ q c, OF prod.collapse [symmetric]]
      rfs.remove_frame [of p s _ _ q c, OF prod.collapse [symmetric]]
      rfs.mkdir_frame [of p m s _ _ q c, OF prod.collapse [symmetric]] by metis
qed

text \<open>
  No command reaches the operating system with shell metacharacters. Either the name is
  free of white space and of the characters a shell interprets and every argument of back
  quotes, dollars and line breaks, and the result is that of the process, or the call
  returns a validation error and the world is as it was. When the process fails, the error
  names an argument in clear only if neither it nor the argument before it looks like a secret.
\<close>

theorem Execute_cmd_safe:
  "(\<exists>r w'. Execute_cmd run command args w = (r, w') \<and>
     ((isSafeCommand command \<and> list_all isSafeArg args \<and>
        (case run command args w of
           (Inr out, v) \<Rightarrow> r = Inr out \<and> w' = v
         | (Inl (e, stderr), v) \<Rightarrow> w' = v \<and> (\<exists>err. r = Inl err \<and> IsSystemError err \<and>
             Contains (Error err) (fmt_slice (maskArgs args)))))
      \<or> (w' = w \<and> (\<exists>err. r = Inl err \<and> IsValidationError err))))"
proof -
  have c: "Contains (Error (NewSystemError (''command execution failed: '' @ command @ '' '' @ xs) (Some e))) xs" for xs e
  proof -
    have "Error (NewSystemError (''command execution failed: '' @ command @ '' '' @ xs) (Some e)) =
      (''[SYSTEM:SYS001] command execution failed: '' @ command @ '' '') @ xs @ ('': '' @ Error e)"
      by (simp add: NewSystemError_def NewError_def)
    then show ?thesis by (simp only: Contains_append)
  qed
  show ?thesis
  proof (cases "isSafeCommand command \<and> list_all isSafeArg args")
    case True
    obtain r v where run: "run command args w = (r, v)" by fastforce
    show ?thesis
    proof (cases r)
      case (Inl p)
      then show ?thesis using True run c by (cases p) (simp add: Execute_cmd_def)
    qed (use True run in \<open>simp add: Execute_cmd_def\<close>)
  qed (auto simp: Execute_cmd_def)
qed

end
