(* ===== verification/Duration.thy ===== *)
theory Duration
  imports Complex_Main
begin

text \<open>
  Durations computed through floats, as the back-off of the jobs and of the polling loop does:
  a duration is an integer of nanoseconds, a float a real number. The conversion to
  \<open>time.Duration\<close> truncates towards zero. Go leaves its result to the implementation when it does
  not fit 64 bits: \<open>big\<close> is the value the platform gives then, the least integer on amd64, the
  nearest one on arm64.
\<close>

definition to_duration :: "int \<Rightarrow> real \<Rightarrow> int" where
  "to_duration big f = (if - (2 ^ 63) \<le> f \<and> f < 2 ^ 63 then (if 0 \<le> f then \<lfloor>f\<rfloor> else \<lceil>f\<rceil>) else big)"

lemma to_duration_nonneg: "0 \<le> f \<Longrightarrow> f < 2 ^ 63 \<Longrightarrow> to_duration big f = \<lfloor>f\<rfloor>"
  by (auto simp: to_duration_def intro: order_trans [of _ 0])

text \<open>A product of a base and a power of two, while it fits.\<close>

lemma floor_scaled_power: "\<lfloor>numeral k * (2 :: real) ^ n\<rfloor> = numeral k * 2 ^ n"
  by (metis floor_of_int of_int_mult of_int_numeral of_int_power)

end
