(* ===== verification/Naming.thy ===== *)
theory Naming
  imports Host
begin

text \<open>
  \<open>internal/domain/services/interface_naming.go\<close>: the reservation of the names multinic0 to
  multinic9 for hardware addresses, and the readings of \<open>ip\<close> output the rest of the program
  relies on. The service's mutex makes each reservation operation atomic, so an operation is
  a function from the service's state to its result and the state it leaves. Messages the
  source has in Korean are given in English.
\<close>

section \<open>State\<close>

record NamingService =
  ns_isContainer :: bool
  ns_reservedByMac :: "string \<rightharpoonup> string"
  ns_reservedNames :: "string \<Rightarrow> bool"

definition NewInterfaceNamingService :: "('w, 'z) Host_scheme \<Rightarrow> 'w \<Rightarrow> NamingService" where
  "NewInterfaceNamingService h w =
     \<lparr>ns_isContainer = is_ok (ex_query h ''test'' [''-d'', ''/host''] w),
      ns_reservedByMac = Map.empty, ns_reservedNames = (\<lambda>_. False)\<rparr>"

definition reserve :: "string \<Rightarrow> string \<Rightarrow> NamingService \<Rightarrow> NamingService" where
  "reserve mac name s = s\<lparr>ns_reservedByMac := (ns_reservedByMac s)(mac \<mapsto> name),
     ns_reservedNames := (ns_reservedNames s)(name := True)\<rparr>"

definition multinic :: "nat \<Rightarrow> string" where
  "multinic i = ''multinic'' @ utoa i"

section \<open>Reading the output of ip\<close>

text \<open>The classes \<open>\s\<close> and \<open>\w\<close> of Go's regular expressions.\<close>

definition re_space :: "char \<Rightarrow> bool" where
  "re_space c \<longleftrightarrow> code c = 9 \<or> code c = 10 \<or> code c = 12 \<or> code c = 13 \<or> code c = 32"

definition word_char :: "char \<Rightarrow> bool" where
  "word_char c \<longleftrightarrow> is_digit c \<or> is_lower c \<or> is_upper c \<or> c = CHR ''_''"

definition mac_char :: "char \<Rightarrow> bool" where
  "mac_char c \<longleftrightarrow> is_hex c \<or> c = CHR '':''"

text \<open>The expression \<open>link/ether\s+([a-fA-F0-9:]{17})\<close> at the start of a text.\<close>

definition etherAt :: "string \<Rightarrow> string option" where
  "etherAt s =
     (if \<not> HasPrefix s ''link/ether'' then None
      else let t = drop 10 s; u = dropWhile re_space t
           in if length u < length t \<and> 17 \<le> length u \<and> list_all mac_char (take 17 u) then Some (take 17 u) else None)"

text \<open>Its first match in a text, and its last one (after a greedy \<open>.*\<close>).\<close>

fun firstEther :: "string \<Rightarrow> string option" where
  "firstEther [] = None"
| "firstEther (c # cs) = (case etherAt (c # cs) of Some m \<Rightarrow> Some m | None \<Rightarrow> firstEther cs)"

fun lastEther :: "string \<Rightarrow> string option" where
  "lastEther [] = None"
| "lastEther (c # cs) = (case lastEther cs of Some m \<Rightarrow> Some m | None \<Rightarrow> etherAt (c # cs))"

text \<open>
  The line expression \<open>^\s*\d+:\s+([^:]+):.*link/ether\s+([0-9A-Fa-f:]{17})\<close>. When nothing is
  left for the name, the space run gives back its last character to it.
\<close>

definition lineRe :: "string \<Rightarrow> (string \<times> string) option" where
  "lineRe line =
     (let t = dropWhile re_space line; ds = takeWhile is_digit t; r = drop (length ds) t
      in if ds = [] \<or> r = [] \<or> hd r \<noteq> CHR '':'' then None
         else let u = tl r; sp = takeWhile re_space u; v = dropWhile re_space u;
                  nm = takeWhile (\<lambda>c. c \<noteq> CHR '':'') v; r2 = dropWhile (\<lambda>c. c \<noteq> CHR '':'') v;
                  name = (if nm \<noteq> [] then nm else if 2 \<le> length sp then [last sp] else [])
              in if sp = [] \<or> r2 = [] \<or> name = [] then None
                 else map_option (Pair name) (lastEther (tl r2)))"

text \<open>The expression \<open>\bmtu\s+(\d+)\b\<close>; the first argument is the character before.\<close>

definition boundary :: "char option \<Rightarrow> bool" where
  "boundary p = (case p of None \<Rightarrow> True | Some c \<Rightarrow> \<not> word_char c)"

definition mtuAt :: "string \<Rightarrow> string option" where
  "mtuAt s =
     (if \<not> HasPrefix s ''mtu'' then None
      else let t = drop 3 s; u = dropWhile re_space t; ds = takeWhile is_digit u; r = drop (length ds) u
           in if length u < length t \<and> ds \<noteq> [] \<and> (r = [] \<or> \<not> word_char (hd r)) then Some ds else None)"

text \<open>The expression \<open>\binet\s+(\d+\.\d+\.\d+\.\d+/\d+)\<close>.\<close>

fun digitRuns :: "string \<Rightarrow> string \<Rightarrow> string option" where
  "digitRuns [] s = (let ds = takeWhile is_digit s in if ds = [] then None else Some ds)"
| "digitRuns (sep # seps) s =
     (let ds = takeWhile is_digit s; r = drop (length ds) s
      in if ds = [] \<or> r = [] \<or> hd r \<noteq> sep then None
         else map_option (\<lambda>rest. ds @ sep # rest) (digitRuns seps (tl r)))"

definition inetAt :: "string \<Rightarrow> string option" where
  "inetAt s =
     (if \<not> HasPrefix s ''inet'' then None
      else let t = drop 4 s; u = dropWhile re_space t
           in if length u < length t then digitRuns ''.../'' u else None)"

fun searchAt :: "(string \<Rightarrow> string option) \<Rightarrow> char option \<Rightarrow> string \<Rightarrow> string option" where
  "searchAt at prev [] = None"
| "searchAt at prev (c # cs) =
     (if boundary prev \<and> at (c # cs) \<noteq> None then at (c # cs) else searchAt at (Some c) cs)"

section \<open>Queries\<close>

definition isInterfaceInUse :: "('w, 'z) Host_scheme \<Rightarrow> 'w \<Rightarrow> string \<Rightarrow> bool" where
  "isInterfaceInUse h w name = fs_Exists h (''/sys/class/net/'' @ name) w"

definition InterfaceExists :: "('w, 'z) Host_scheme \<Rightarrow> 'w \<Rightarrow> string \<Rightarrow> bool" where
  "InterfaceExists h w name = isInterfaceInUse h w name"

definition isNameTaken :: "('w, 'z) Host_scheme \<Rightarrow> 'w \<Rightarrow> NamingService \<Rightarrow> string \<Rightarrow> bool" where
  "isNameTaken h w s name = (if isInterfaceInUse h w name then True else ns_reservedNames s name)"

definition GetMacAddressForInterface :: "('w, 'z) Host_scheme \<Rightarrow> 'w \<Rightarrow> string \<Rightarrow> (go_error, string) result" where
  "GetMacAddressForInterface h w interfaceName =
     (case ex_query h ''ip'' [''addr'', ''show'', interfaceName] w of
        Inl err \<Rightarrow> Inl (WrappedError (''failed to query interface '' @ interfaceName @ '': '' @ Error err) err)
      | Inr output \<Rightarrow>
          (case firstEther output of
             None \<Rightarrow> Inl (PlainError (''could not find MAC address on interface '' @ interfaceName))
           | Some m \<Rightarrow> Inr m))"

definition GetAltNames :: "('w, 'z) Host_scheme \<Rightarrow> 'w \<Rightarrow> string \<Rightarrow> (go_error, string list) result" where
  "GetAltNames h w interfaceName =
     (case ex_query h ''ip'' [''link'', ''show'', interfaceName] w of
        Inl err \<Rightarrow> Inl (WrappedError (''failed to read interface '' @ interfaceName @ '': '' @ Error err) err)
      | Inr output \<Rightarrow>
          Inr (List.map_filter (\<lambda>line. let l = TrimSpace line; parts = Fields l
             in if HasPrefix l ''altname '' \<and> 2 \<le> length parts then Some (parts ! 1) else None) (Split output NL)))"

definition RenameInterface :: "('w, 'z) Host_scheme \<Rightarrow> string \<Rightarrow> string \<Rightarrow> 'w \<Rightarrow> go_error option \<times> 'w" where
  "RenameInterface h oldName newName w =
     (case ex_exec h ''ip'' [''link'', ''set'', ''dev'', oldName, ''name'', newName] w of
        (Inl err, w') \<Rightarrow> (Some (WrappedError (''failed to rename '' @ oldName @ '' to '' @ newName @ '': '' @ Error err) err), w')
      | (Inr _, w') \<Rightarrow> (None, w'))"

fun findLine :: "string \<Rightarrow> string list \<Rightarrow> string option" where
  "findLine macLower [] = None"
| "findLine macLower (line # ls) =
     (case lineRe line of
        Some (name, m) \<Rightarrow> (if ToLower m = macLower then Some name else findLine macLower ls)
      | None \<Rightarrow> findLine macLower ls)"

definition FindInterfaceNameByMAC :: "('w, 'z) Host_scheme \<Rightarrow> 'w \<Rightarrow> string \<Rightarrow> (go_error, string) result" where
  "FindInterfaceNameByMAC h w macAddress =
     (case ex_query h ''ip'' [''-o'', ''link'', ''show''] w of
        Inl err \<Rightarrow> Inl (WrappedError (''failed to list system interfaces: '' @ Error err) err)
      | Inr output \<Rightarrow>
          (case findLine (ToLower (TrimSpace macAddress)) (Split output NL) of
             None \<Rightarrow> Inl (PlainError (''interface with MAC '' @ macAddress @ '' not found''))
           | Some name \<Rightarrow> Inr name))"

definition IsMacPresent :: "('w, 'z) Host_scheme \<Rightarrow> 'w \<Rightarrow> string \<Rightarrow> bool" where
  "IsMacPresent h w macAddress = (case FindInterfaceNameByMAC h w macAddress of Inl _ \<Rightarrow> False | Inr name \<Rightarrow> name \<noteq> [])"

definition up_text :: "string \<Rightarrow> bool" where
  "up_text s \<longleftrightarrow> Contains s ''state UP'' \<or> (Contains s '',UP,'' \<and> Contains s ''LOWER_UP'')"

definition IsInterfaceUp :: "('w, 'z) Host_scheme \<Rightarrow> 'w \<Rightarrow> string \<Rightarrow> (go_error, bool) result" where
  "IsInterfaceUp h w interfaceName =
     (case ex_query h ''ip'' [''link'', ''show'', interfaceName] w of
        Inl err \<Rightarrow> Inl (WrappedError (''failed to read the state of interface '' @ interfaceName @ '': '' @ Error err) err)
      | Inr output \<Rightarrow> Inr (up_text output))"

definition GetInterfaceMTU :: "('w, 'z) Host_scheme \<Rightarrow> 'w \<Rightarrow> string \<Rightarrow> (go_error, int) result" where
  "GetInterfaceMTU h w interfaceName =
     (case ex_query h ''ip'' [''link'', ''show'', interfaceName] w of
        Inl err \<Rightarrow> Inl err
      | Inr output \<Rightarrow>
          (case searchAt mtuAt None output of
             None \<Rightarrow> Inl (PlainError (''failed to parse MTU for '' @ interfaceName))
           | Some ds \<Rightarrow>
               (case Atoi ds of
                  None \<Rightarrow> Inl (PlainError (''integer overflow on token '' @ ds))
                | Some v \<Rightarrow> Inr v)))"

definition GetIPv4WithPrefix :: "('w, 'z) Host_scheme \<Rightarrow> 'w \<Rightarrow> string \<Rightarrow> (go_error, string) result" where
  "GetIPv4WithPrefix h w interfaceName =
     (case ex_query h ''ip'' [''-o'', ''-4'', ''addr'', ''show'', ''dev'', interfaceName] w of
        Inl err \<Rightarrow> Inl err
      | Inr output \<Rightarrow>
          (case searchAt inetAt None output of
             None \<Rightarrow> Inl (PlainError (''failed to parse IPv4 for '' @ interfaceName))
           | Some a \<Rightarrow> Inr a))"

definition ListNetplanFiles :: "('w, 'z) Host_scheme \<Rightarrow> 'w \<Rightarrow> string \<Rightarrow> (go_error, string list) result" where
  "ListNetplanFiles h w dir =
     (case fs_ListFiles h dir w of
        Inl err \<Rightarrow> Inl (WrappedError (''failed to list files in directory '' @ dir @ '': '' @ Error err) err)
      | Inr files \<Rightarrow> Inr files)"

definition GetHostname :: "('w, 'z) Host_scheme \<Rightarrow> 'w \<Rightarrow> (go_error, string) result" where
  "GetHostname h w =
     (case ex_query h ''hostname'' [] w of
        Inl err \<Rightarrow> Inl (WrappedError (''failed to get hostname: '' @ Error err) err)
      | Inr output \<Rightarrow>
          (let hostname = TrimSpace output
           in if hostname = [] then Inl (PlainError ''hostname is empty'')
              else Inr (takeWhile (\<lambda>c. c \<noteq> CHR ''.'') hostname)))"

section \<open>Reservation\<close>

definition no_name_left :: go_error where
  "no_name_left = PlainError ''no interface name is available (multinic0-9 are all in use)''"

definition GenerateNextName :: "('w, 'z) Host_scheme \<Rightarrow> 'w \<Rightarrow> (go_error, InterfaceName) result" where
  "GenerateNextName h w =
     (case find (\<lambda>name. \<not> isInterfaceInUse h w name) (map multinic [0..<10]) of
        None \<Rightarrow> Inl no_name_left
      | Some name \<Rightarrow> NewInterfaceName name)"

definition generateNextNameInternal :: "('w, 'z) Host_scheme \<Rightarrow> 'w \<Rightarrow> NamingService \<Rightarrow> (go_error, InterfaceName) result" where
  "generateNextNameInternal h w s =
     (case find (\<lambda>name. \<not> isNameTaken h w s name) (map multinic [0..<10]) of
        None \<Rightarrow> Inl no_name_left
      | Some name \<Rightarrow> NewInterfaceName name)"

text \<open>The interface \<open>name\<close> is there and carries the address \<open>mac\<close>.\<close>

definition carries :: "('w, 'z) Host_scheme \<Rightarrow> 'w \<Rightarrow> string \<Rightarrow> string \<Rightarrow> bool" where
  "carries h w mac name = (case GetMacAddressForInterface h w name of Inl _ \<Rightarrow> False | Inr m \<Rightarrow> EqualFold m mac)"

definition GenerateNextNameForMAC ::
  "('w, 'z) Host_scheme \<Rightarrow> 'w \<Rightarrow> string \<Rightarrow> NamingService \<Rightarrow> (go_error, InterfaceName) result \<times> NamingService" where
  "GenerateNextNameForMAC h w macAddress s =
     (let macLower = ToLower macAddress
      in case ns_reservedByMac s macLower of
           Some name \<Rightarrow> (NewInterfaceName name, s)
         | None \<Rightarrow>
             (case find (\<lambda>name. isNameTaken h w s name \<and> carries h w macAddress name) (map multinic [0..<10]) of
                Some name \<Rightarrow> (NewInterfaceName name, reserve macLower name s)
              | None \<Rightarrow>
                  (case generateNextNameInternal h w s of
                     Inl err \<Rightarrow> (Inl err, s)
                   | Inr name \<Rightarrow> (Inr name, reserve macLower (name_value name) s))))"

text \<open>
  The three phases of \<open>ReserveNamesForInterfaces\<close>. Each works on the service and the map of
  the names it has assigned. Phase 0 reserves the explicit names, phase 1 re-uses the names
  that are on the system with a requested address, phase 2 assigns the lowest free ones.
\<close>

type_synonym assigned = "string \<rightharpoonup> InterfaceName"

fun reserveExplicit :: "('w, 'z) Host_scheme \<Rightarrow> 'w \<Rightarrow> NetworkInterface list \<Rightarrow> NamingService \<Rightarrow> assigned
    \<Rightarrow> (go_error, assigned) result \<times> NamingService" where
  "reserveExplicit h w [] s res = (Inr res, s)"
| "reserveExplicit h w (iface # ifaces) s res =
     (let name = InterfaceName_of iface; macLower = ToLower (MacAddress iface)
      in if \<not> HasExplicitName iface then reserveExplicit h w ifaces s res
         else if ns_reservedByMac s macLower \<noteq> None then reserveExplicit h w ifaces s res
         else
           let clash = (if isNameTaken h w s name then
                          (case GetMacAddressForInterface h w name of
                             Inl _ \<Rightarrow> None
                           | Inr existing \<Rightarrow> (if existing \<noteq> [] \<and> \<not> EqualFold existing (MacAddress iface)
                                            then Some existing else None))
                        else None)
           in case clash of
                Some existing \<Rightarrow> (Inl (PlainError (''interface name '' @ name @ '' is already used by '' @ existing)), s)
              | None \<Rightarrow>
                  (case NewInterfaceName name of
                     Inl err \<Rightarrow> (Inl err, s)
                   | Inr en \<Rightarrow> reserveExplicit h w ifaces (reserve macLower name s) (res(macLower \<mapsto> en))))"

fun reuseFor :: "string \<Rightarrow> string \<Rightarrow> NetworkInterface list \<Rightarrow> NamingService \<Rightarrow> assigned \<Rightarrow> assigned \<times> NamingService" where
  "reuseFor name macLower [] s res = (res, s)"
| "reuseFor name macLower (iface # ifaces) s res =
     (if ns_reservedByMac s macLower \<noteq> None then reuseFor name macLower ifaces s res
      else if EqualFold (MacAddress iface) macLower \<or> EqualFold (ToLower (MacAddress iface)) macLower then
        (case NewInterfaceName name of
           Inl _ \<Rightarrow> reuseFor name macLower ifaces s res
         | Inr en \<Rightarrow> reuseFor name macLower ifaces (reserve macLower name s) (res(macLower \<mapsto> en)))
      else reuseFor name macLower ifaces s res)"

fun reserveExisting :: "('w, 'z) Host_scheme \<Rightarrow> 'w \<Rightarrow> NetworkInterface list \<Rightarrow> nat list \<Rightarrow> NamingService \<Rightarrow> assigned
    \<Rightarrow> assigned \<times> NamingService" where
  "reserveExisting h w ifaces [] s res = (res, s)"
| "reserveExisting h w ifaces (i # is) s res =
     (if \<not> isInterfaceInUse h w (multinic i) then reserveExisting h w ifaces is s res
      else case GetMacAddressForInterface h w (multinic i) of
        Inl _ \<Rightarrow> reserveExisting h w ifaces is s res
      | Inr m \<Rightarrow>
          (if m = [] then reserveExisting h w ifaces is s res
           else (case reuseFor (multinic i) (ToLower m) ifaces s res of
                   (res', s') \<Rightarrow> reserveExisting h w ifaces is s' res')))"

fun reserveFree :: "('w, 'z) Host_scheme \<Rightarrow> 'w \<Rightarrow> NetworkInterface list \<Rightarrow> NamingService \<Rightarrow> assigned
    \<Rightarrow> (go_error, assigned) result \<times> NamingService" where
  "reserveFree h w [] s res = (Inr res, s)"
| "reserveFree h w (iface # ifaces) s res =
     (let macLower = ToLower (MacAddress iface)
      in if ns_reservedByMac s macLower \<noteq> None then reserveFree h w ifaces s res
         else case find (\<lambda>c. \<not> isNameTaken h w s c) (map multinic [0..<10]) of
           None \<Rightarrow> (Inl no_name_left, s)
         | Some chosen \<Rightarrow>
             (let s' = reserve macLower chosen s
              in case NewInterfaceName chosen of
                   Inl _ \<Rightarrow> reserveFree h w ifaces s' res
                 | Inr en \<Rightarrow> reserveFree h w ifaces s' (res(macLower \<mapsto> en))))"

definition ReserveNamesForInterfaces ::
  "('w, 'z) Host_scheme \<Rightarrow> 'w \<Rightarrow> NetworkInterface list \<Rightarrow> NamingService \<Rightarrow> (go_error, assigned) result \<times> NamingService" where
  "ReserveNamesForInterfaces h w ifaces s =
     (case reserveExplicit h w ifaces s Map.empty of
        (Inl err, s1) \<Rightarrow> (Inl err, s1)
      | (Inr res, s1) \<Rightarrow>
          (case reserveExisting h w ifaces [0..<10] s1 res of
             (res', s2) \<Rightarrow> reserveFree h w ifaces s2 res'))"

definition GetCurrentMultinicInterfaces :: "('w, 'z) Host_scheme \<Rightarrow> 'w \<Rightarrow> InterfaceName list" where
  "GetCurrentMultinicInterfaces h w =
     List.map_filter (\<lambda>name. if isInterfaceInUse h w name
        then (case NewInterfaceName name of Inl _ \<Rightarrow> None | Inr n \<Rightarrow> Some n) else None) (map multinic [0..<10])"

section \<open>The names\<close>

lemma NewInterfaceName_multinic:
  "i < 10 \<Longrightarrow> NewInterfaceName (multinic i) = Inr \<lparr>name_value = multinic i, name_index = int i\<rparr>"
  by (simp add: NewInterfaceName_ok multinic_def InterfacePrefix_def utoa_digits)

lemma multinic_inject [simp]: "multinic i = multinic j \<longleftrightarrow> i = j"
  by (simp add: multinic_def)

lemma find_multinic:
  "find P (map multinic [0..<10]) = Some n \<longleftrightarrow>
     (\<exists>i < 10. n = multinic i \<and> P n \<and> (\<forall>j < i. \<not> P (multinic j)))"
  by (auto simp: find_Some_iff)

lemma find_multinic_None: "find P (map multinic [0..<10]) = None \<longleftrightarrow> (\<forall>i < 10. \<not> P (multinic i))"
  by (auto simp: find_None_iff)

section \<open>The invariant of the service\<close>

text \<open>
  The two maps agree, every reserved name is a valid interface name, and no two addresses
  share a name.
\<close>

definition naming_wf :: "NamingService \<Rightarrow> bool" where
  "naming_wf s \<longleftrightarrow>
     (\<forall>n. ns_reservedNames s n \<longleftrightarrow> (\<exists>m. ns_reservedByMac s m = Some n)) \<and>
     (\<forall>m n. ns_reservedByMac s m = Some n \<longrightarrow> is_ok (NewInterfaceName n)) \<and>
     inj_on (ns_reservedByMac s) (dom (ns_reservedByMac s))"

text \<open>No reserved name is on the system with another address.\<close>

definition naming_consistent :: "('w, 'z) Host_scheme \<Rightarrow> 'w \<Rightarrow> NamingService \<Rightarrow> bool" where
  "naming_consistent h w s \<longleftrightarrow>
     (\<forall>m n x. ns_reservedByMac s m = Some n \<and> isInterfaceInUse h w n \<and>
        GetMacAddressForInterface h w n = Inr x \<longrightarrow> ToLower x = m)"

lemma naming_wf_new: "naming_wf (NewInterfaceNamingService h w)"
  by (simp add: naming_wf_def NewInterfaceNamingService_def)

lemma naming_consistent_new: "naming_consistent h w (NewInterfaceNamingService h w)"
  by (simp add: naming_consistent_def NewInterfaceNamingService_def)

lemma reserve_simps [simp]:
  "ns_reservedByMac (reserve m n s) = (ns_reservedByMac s)(m \<mapsto> n)"
  "ns_reservedNames (reserve m n s) = (ns_reservedNames s)(n := True)"
  "ns_isContainer (reserve m n s) = ns_isContainer s"
  by (simp_all add: reserve_def)

lemma naming_wf_reserve:
  assumes "naming_wf s" "ns_reservedByMac s m = None" "\<not> ns_reservedNames s n" "is_ok (NewInterfaceName n)"
  shows "naming_wf (reserve m n s)"
proof -
  have fresh: "\<forall>k v. ns_reservedByMac s k = Some v \<longrightarrow> v \<noteq> n" using assms by (auto simp: naming_wf_def)
  have "inj_on (ns_reservedByMac (reserve m n s)) (dom (ns_reservedByMac (reserve m n s)))"
    unfolding reserve_simps using assms fresh by (intro inj_on_map_upd) (auto simp: naming_wf_def)
  moreover have "ns_reservedNames (reserve m n s) k \<longleftrightarrow> (\<exists>x. ns_reservedByMac (reserve m n s) x = Some k)" for k
    using assms unfolding naming_wf_def by (auto; metis option.distinct(1))
  ultimately show ?thesis using assms by (simp add: naming_wf_def)
qed

lemma firstEther_length: "firstEther s = Some m \<Longrightarrow> length m = 17"
  by (induction s rule: firstEther.induct) (auto simp: etherAt_def Let_def split: option.splits if_splits)

lemma GetMac_nonempty: "GetMacAddressForInterface h w n = Inr x \<Longrightarrow> x \<noteq> []"
  by (auto simp: GetMacAddressForInterface_def dest!: firstEther_length split: sum.splits option.splits)

text \<open>The invariant the phases keep: well-formed and consistent with the system.\<close>

definition naming_inv :: "('w, 'z) Host_scheme \<Rightarrow> 'w \<Rightarrow> NamingService \<Rightarrow> bool" where
  "naming_inv h w s \<longleftrightarrow> naming_wf s \<and> naming_consistent h w s"

lemma naming_inv_reserve:
  assumes "naming_inv h w s" "ns_reservedByMac s m = None" "\<not> ns_reservedNames s n" "is_ok (NewInterfaceName n)"
    and "\<And>x. isInterfaceInUse h w n \<Longrightarrow> GetMacAddressForInterface h w n = Inr x \<Longrightarrow> ToLower x = m"
  shows "naming_inv h w (reserve m n s)"
  using assms naming_wf_reserve [of s m n] by (auto simp: naming_inv_def naming_consistent_def)

lemma reserved_name_owner:
  "naming_inv h w s \<Longrightarrow> ns_reservedNames s n \<Longrightarrow> \<exists>m. ns_reservedByMac s m = Some n"
  by (auto simp: naming_inv_def naming_wf_def)

lemma carried_name_unreserved:
  assumes "naming_inv h w s" "isInterfaceInUse h w n" "GetMacAddressForInterface h w n = Inr x"
    and "ns_reservedByMac s (ToLower x) = None"
  shows "\<not> ns_reservedNames s n"
  using assms reserved_name_owner by (fastforce simp: naming_inv_def naming_consistent_def)

text \<open>
  The explicit names of a request: two interfaces with the same explicit name are the same
  device, and no explicit name is held for another address.
\<close>

definition explicit_ok :: "NamingService \<Rightarrow> NetworkInterface list \<Rightarrow> bool" where
  "explicit_ok s ifaces \<longleftrightarrow>
     (\<forall>a \<in> set ifaces. HasExplicitName a \<longrightarrow>
        (\<forall>b \<in> set ifaces. HasExplicitName b \<and> InterfaceName_of b = InterfaceName_of a \<longrightarrow>
           ToLower (MacAddress b) = ToLower (MacAddress a)) \<and>
        (\<forall>m. ns_reservedByMac s m = Some (InterfaceName_of a) \<longrightarrow> m = ToLower (MacAddress a)))"

lemma explicit_ok_tl: "explicit_ok s (a # as) \<Longrightarrow> explicit_ok s as"
  unfolding explicit_ok_def by (meson list.set_intros(2))

lemma explicit_ok_same:
  "explicit_ok s ifaces \<Longrightarrow> a \<in> set ifaces \<Longrightarrow> b \<in> set ifaces \<Longrightarrow> HasExplicitName a \<Longrightarrow> HasExplicitName b \<Longrightarrow>
     InterfaceName_of a = InterfaceName_of b \<Longrightarrow> ToLower (MacAddress a) = ToLower (MacAddress b)"
  unfolding explicit_ok_def by metis

lemma explicit_ok_owner:
  "explicit_ok s ifaces \<Longrightarrow> a \<in> set ifaces \<Longrightarrow> HasExplicitName a \<Longrightarrow>
     ns_reservedByMac s m = Some (InterfaceName_of a) \<Longrightarrow> m = ToLower (MacAddress a)"
  unfolding explicit_ok_def by metis

lemma explicit_ok_reserve:
  assumes "explicit_ok s (a # as)" "HasExplicitName a"
  shows "explicit_ok (reserve (ToLower (MacAddress a)) (InterfaceName_of a) s) as"
  unfolding explicit_ok_def
proof (intro ballI impI conjI allI)
  fix b c assume "b \<in> set as" "HasExplicitName b" "c \<in> set as" "HasExplicitName c \<and> InterfaceName_of c = InterfaceName_of b"
  then show "ToLower (MacAddress c) = ToLower (MacAddress b)"
    using explicit_ok_same [OF assms(1), of c b] by simp
next
  fix b m assume b: "b \<in> set as" "HasExplicitName b"
    "ns_reservedByMac (reserve (ToLower (MacAddress a)) (InterfaceName_of a) s) m = Some (InterfaceName_of b)"
  show "m = ToLower (MacAddress b)"
  proof (cases "m = ToLower (MacAddress a)")
    case True
    then show ?thesis using b explicit_ok_same [OF assms(1), of a b] assms(2) by simp
  next
    case False
    then show ?thesis using b explicit_ok_owner [OF assms(1), of b m] by simp
  qed
qed

lemma reserveExplicit_inv:
  assumes "reserveExplicit h w ifaces s res = (r, s')" "naming_inv h w s" "explicit_ok s ifaces"
  shows "naming_inv h w s'"
  using assms
proof (induction ifaces arbitrary: s res)
  case (Cons a as)
  let ?m = "ToLower (MacAddress a)" and ?n = "InterfaceName_of a"
  have step: "naming_inv h w (reserve ?m ?n s)"
    if x: "HasExplicitName a" "ns_reservedByMac s ?m = None" "is_ok (NewInterfaceName ?n)"
      and clash: "\<And>x. isNameTaken h w s ?n \<Longrightarrow> GetMacAddressForInterface h w ?n = Inr x \<Longrightarrow> x = [] \<or> EqualFold x (MacAddress a)"
  proof (rule naming_inv_reserve [OF Cons.prems(2) x(2) _ x(3)])
    show "\<not> ns_reservedNames s ?n"
    proof
      assume "ns_reservedNames s ?n"
      then obtain m where m: "ns_reservedByMac s m = Some ?n" using reserved_name_owner [OF Cons.prems(2)] by blast
      then have "m = ?m" using explicit_ok_owner [OF Cons.prems(3), of a m] x(1) by simp
      then show False using m x(2) by simp
    qed
    show "ToLower x = ?m" if "isInterfaceInUse h w ?n" "GetMacAddressForInterface h w ?n = Inr x" for x
      using clash [of x] that GetMac_nonempty [of h w ?n x] by (auto simp: isNameTaken_def EqualFold_def)
  qed
  note IH = Cons.IH [OF _ Cons.prems(2) explicit_ok_tl [OF Cons.prems(3)]]
    Cons.IH [OF _ step explicit_ok_reserve [OF Cons.prems(3)]]
  show ?case
    using Cons.prems(1,2) IH by (auto simp: Let_def split: if_splits option.splits sum.splits)
qed simp

lemma reuseFor_state:
  "reuseFor n m ifaces s res = (res', s') \<Longrightarrow>
     (s' = s \<and> res' = res) \<or>
     (ns_reservedByMac s m = None \<and> (\<exists>en. NewInterfaceName n = Inr en \<and> s' = reserve m n s \<and> res' = res(m \<mapsto> en)))"
proof (induction ifaces arbitrary: s res)
  case (Cons a as)
  have stay: "reuseFor n m xs s res = (res, s)" if "ns_reservedByMac s m \<noteq> None" for xs s res
    using that by (induction xs) auto
  show ?case using Cons.prems Cons.IH [of s res] stay
    by (auto split: if_splits sum.splits)
qed simp

lemma reserveExisting_inv:
  assumes "reserveExisting h w ifaces is s res = (res', s')" "naming_inv h w s"
  shows "naming_inv h w s'"
  using assms
proof (induction "is" arbitrary: s res)
  case (Cons i "is")
  show ?case
  proof (cases "isInterfaceInUse h w (multinic i) \<and> (\<exists>x. GetMacAddressForInterface h w (multinic i) = Inr x)")
    case True
    then obtain x where x: "isInterfaceInUse h w (multinic i)" "GetMacAddressForInterface h w (multinic i) = Inr x" by blast
    obtain r1 s1 where r1: "reuseFor (multinic i) (ToLower x) ifaces s res = (r1, s1)" by fastforce
    have "naming_inv h w (reserve (ToLower x) (multinic i) s)"
      if "ns_reservedByMac s (ToLower x) = None" "NewInterfaceName (multinic i) = Inr en" for en
      using that x carried_name_unreserved [OF Cons.prems(2) x] by (intro naming_inv_reserve [OF Cons.prems(2)]) auto
    then have "naming_inv h w s1" using reuseFor_state [OF r1] Cons.prems(2) by auto
    with Cons x r1 GetMac_nonempty [OF x(2)] show ?thesis by simp
  qed (use Cons in \<open>auto split: if_splits sum.splits\<close>)
qed simp

lemma reserveFree_inv:
  assumes "reserveFree h w ifaces s res = (r, s')" "naming_inv h w s"
  shows "naming_inv h w s'"
  using assms
proof (induction ifaces arbitrary: s res)
  case (Cons a as)
  have step: "naming_inv h w (reserve (ToLower (MacAddress a)) c s)"
    if "ns_reservedByMac s (ToLower (MacAddress a)) = None"
      "find (\<lambda>c. \<not> isNameTaken h w s c) (map multinic [0..<10]) = Some c" for c
    using that Cons.prems(2) unfolding find_multinic
    by (intro naming_inv_reserve) (auto simp: isNameTaken_def NewInterfaceName_multinic split: if_splits)
  show ?case using Cons.prems Cons.IH [OF _ step] Cons.IH [OF _ Cons.prems(2)]
    by (auto simp: Let_def split: if_splits option.splits sum.splits)
qed simp

lemma ReserveNames_inv:
  assumes "ReserveNamesForInterfaces h w ifaces s = (r, s')" "naming_inv h w s" "explicit_ok s ifaces"
  shows "naming_inv h w s'"
  using assms reserveExplicit_inv reserveExisting_inv reserveFree_inv
  by (fastforce simp: ReserveNamesForInterfaces_def split: prod.splits sum.splits)

section \<open>What a reservation adds\<close>

text \<open>
  From \<open>s0\<close> to \<open>s\<close> the service has only gained the assignments of \<open>res\<close>: no reservation of
  \<open>s0\<close> is lost or changed.
\<close>

definition gained :: "NamingService \<Rightarrow> NamingService \<Rightarrow> assigned \<Rightarrow> bool" where
  "gained s0 s res \<longleftrightarrow>
     (\<forall>m n. ns_reservedByMac s0 m = Some n \<longrightarrow> ns_reservedByMac s m = Some n) \<and>
     (\<forall>m. ns_reservedByMac s m \<noteq> None \<longrightarrow> ns_reservedByMac s0 m \<noteq> None \<or> res m \<noteq> None) \<and>
     (\<forall>m en. res m = Some en \<longrightarrow> ns_reservedByMac s0 m = None \<and>
        ns_reservedByMac s m = Some (name_value en) \<and> NewInterfaceName (name_value en) = Inr en)"

lemma gained_refl: "gained s s Map.empty"
  by (simp add: gained_def)

lemma gained_reserve:
  assumes "gained s0 s res" "ns_reservedByMac s m = None" "NewInterfaceName n = Inr en"
  shows "gained s0 (reserve m n s) (res(m \<mapsto> en))"
proof -
  have "ns_reservedByMac s0 m = None"
    using assms unfolding gained_def by (metis option.distinct(1) option.exhaust)
  then show ?thesis using assms NewInterfaceName_value [OF assms(3)] unfolding gained_def by auto
qed

lemma reserveExplicit_gained:
  "reserveExplicit h w ifaces s res = (Inr res', s') \<Longrightarrow> gained s0 s res \<Longrightarrow> gained s0 s' res'"
  by (induction ifaces arbitrary: s res) (auto simp: Let_def gained_reserve split: if_splits option.splits sum.splits)

lemma reuseFor_gained:
  "reuseFor n m ifaces s res = (res', s') \<Longrightarrow> gained s0 s res \<Longrightarrow> gained s0 s' res'"
  by (auto dest!: reuseFor_state intro: gained_reserve)

lemma reserveExisting_gained:
  "reserveExisting h w ifaces is s res = (res', s') \<Longrightarrow> gained s0 s res \<Longrightarrow> gained s0 s' res'"
  by (induction "is" arbitrary: s res) (auto dest: reuseFor_gained split: if_splits sum.splits prod.splits)

lemma reserveFree_gained:
  "reserveFree h w ifaces s res = (Inr res', s') \<Longrightarrow> gained s0 s res \<Longrightarrow> gained s0 s' res'"
proof (induction ifaces arbitrary: s res)
  case (Cons a as)
  then show ?case
    by (auto simp: Let_def find_multinic NewInterfaceName_multinic gained_reserve split: if_splits option.splits sum.splits)
qed simp

lemma ReserveNames_gained:
  "ReserveNamesForInterfaces h w ifaces s = (Inr res, s') \<Longrightarrow> gained s s' res"
  using gained_refl [of s]
  by (auto simp: ReserveNamesForInterfaces_def split: prod.splits sum.splits
      dest!: reserveExplicit_gained reserveExisting_gained reserveFree_gained)

lemma reserveFree_covers:
  assumes "reserveFree h w ifaces s res = (Inr res', s')" "a \<in> set ifaces"
  shows "ns_reservedByMac s' (ToLower (MacAddress a)) \<noteq> None"
  using assms
proof (induction ifaces arbitrary: s res)
  case (Cons b bs)
  have keep: "ns_reservedByMac s' m \<noteq> None"
    if "reserveFree h w as t r = (Inr res', s')" "ns_reservedByMac t m \<noteq> None" for as t r m
    using that
  proof (induction as arbitrary: t r)
    case (Cons c cs)
    then show ?case by (auto simp: Let_def split: if_splits option.splits sum.splits)
  qed simp
  from Cons show ?case
    by (auto simp: Let_def split: if_splits option.splits sum.splits dest: keep)
qed simp

lemma ReserveNames_covers:
  "ReserveNamesForInterfaces h w ifaces s = (Inr res, s') \<Longrightarrow> a \<in> set ifaces \<Longrightarrow>
     \<exists>n. ns_reservedByMac s' (ToLower (MacAddress a)) = Some n"
  by (auto simp: ReserveNamesForInterfaces_def split: prod.splits sum.splits dest!: reserveFree_covers)

lemma GenerateNextNameForMAC_reserved:
  "ns_reservedByMac s (ToLower m) = Some n \<Longrightarrow> GenerateNextNameForMAC h w m s = (NewInterfaceName n, s)"
  by (simp add: GenerateNextNameForMAC_def)

lemma naming_inv_inj:
  "naming_inv h w s \<Longrightarrow> ns_reservedByMac s m = Some n \<Longrightarrow> ns_reservedByMac s m' = Some n \<Longrightarrow> m = m'"
  by (auto simp: naming_inv_def naming_wf_def inj_on_def dom_def)

section \<open>When names run out\<close>

definition free_names :: "('w, 'z) Host_scheme \<Rightarrow> 'w \<Rightarrow> NamingService \<Rightarrow> nat set" where
  "free_names h w s = {i. i < 10 \<and> \<not> isNameTaken h w s (multinic i)}"

definition unreserved :: "NamingService \<Rightarrow> NetworkInterface list \<Rightarrow> string set" where
  "unreserved s ifaces = {m. \<exists>a \<in> set ifaces. m = ToLower (MacAddress a) \<and> ns_reservedByMac s m = None}"

lemma finite_free_names [simp]: "finite (free_names h w s)"
  by (rule finite_subset [of _ "{..<10}"]) (auto simp: free_names_def)

lemma finite_unreserved [simp]: "finite (unreserved s ifaces)"
  by (rule finite_subset [of _ "(\<lambda>a. ToLower (MacAddress a)) ` set ifaces"]) (auto simp: unreserved_def)

lemma free_names_reserve:
  "free_names h w (reserve m (multinic i) s) = free_names h w s - {i}"
  by (auto simp: free_names_def isNameTaken_def)

lemma unreserved_reserve: "unreserved (reserve m n s) ifaces = unreserved s ifaces - {m}"
  by (auto simp: unreserved_def)

lemma reserveFree_succeeds:
  assumes "card (unreserved s ifaces) \<le> card (free_names h w s)"
  shows "is_ok (fst (reserveFree h w ifaces s res))"
  using assms
proof (induction ifaces arbitrary: s res)
  case (Cons a as)
  let ?m = "ToLower (MacAddress a)"
  show ?case
  proof (cases "ns_reservedByMac s ?m")
    case None
    then have in_un: "?m \<in> unreserved s (a # as)" by (auto simp: unreserved_def)
    then have "0 < card (unreserved s (a # as))" by (auto simp: card_gt_0_iff)
    then have "free_names h w s \<noteq> {}" using Cons.prems by auto
    then have "find (\<lambda>c. \<not> isNameTaken h w s c) (map multinic [0..<10]) \<noteq> None"
      by (auto simp: find_multinic_None free_names_def)
    then obtain i where i: "i < 10" "find (\<lambda>c. \<not> isNameTaken h w s c) (map multinic [0..<10]) = Some (multinic i)"
      "i \<in> free_names h w s"
      by (auto simp: find_multinic free_names_def)
    have "unreserved (reserve ?m (multinic i) s) as \<subseteq> unreserved s (a # as) - {?m}"
      by (auto simp: unreserved_def)
    then have "card (unreserved (reserve ?m (multinic i) s) as) \<le> card (unreserved s (a # as) - {?m})"
      by (intro card_mono) auto
    also have "\<dots> \<le> card (free_names h w (reserve ?m (multinic i) s))"
      using Cons.prems in_un i(3) by (simp add: free_names_reserve)
    finally show ?thesis using Cons.IH None i by (simp add: Let_def NewInterfaceName_multinic)
  next
    case (Some n)
    then have "unreserved s (a # as) = unreserved s as" by (auto simp: unreserved_def)
    then show ?thesis using Cons Some by simp
  qed
qed simp

lemma reuseFor_free:
  assumes "reuseFor (multinic i) m ifaces s res = (res', s')" "isInterfaceInUse h w (multinic i)"
  shows "free_names h w s' = free_names h w s" "unreserved s' as \<subseteq> unreserved s as"
  using reuseFor_state [OF assms(1)] assms(2)
  by (auto simp: free_names_reserve unreserved_reserve) (simp add: free_names_def isNameTaken_def)

lemma reserveExisting_free:
  "reserveExisting h w ifaces is s res = (res', s') \<Longrightarrow>
     free_names h w s' = free_names h w s \<and> unreserved s' as \<subseteq> unreserved s as"
proof (induction "is" arbitrary: s res)
  case (Cons i "is")
  show ?case
  proof (cases "isInterfaceInUse h w (multinic i) \<and> (\<exists>x. GetMacAddressForInterface h w (multinic i) = Inr x)")
    case True
    then obtain x where x: "isInterfaceInUse h w (multinic i)" "GetMacAddressForInterface h w (multinic i) = Inr x" by blast
    obtain r1 s1 where r1: "reuseFor (multinic i) (ToLower x) ifaces s res = (r1, s1)" by fastforce
    have "reserveExisting h w ifaces is s1 r1 = (res', s')"
      using Cons.prems x r1 GetMac_nonempty [OF x(2)] by simp
    then have "free_names h w s' = free_names h w s1 \<and> unreserved s' as \<subseteq> unreserved s1 as" by (rule Cons.IH)
    then show ?thesis using reuseFor_free(1) [OF r1 x(1)] reuseFor_free(2) [OF r1 x(1), of as] by blast
  qed (use Cons in \<open>auto split: if_splits sum.splits\<close>)
qed simp

lemma reserveExplicit_none:
  "list_all (\<lambda>a. \<not> HasExplicitName a) ifaces \<Longrightarrow> reserveExplicit h w ifaces s res = (Inr res, s)"
  by (induction ifaces) (auto simp: Let_def)

section \<open>Properties\<close>

text \<open>
  C9: a successful \<open>ReserveNamesForInterfaces\<close> gives every requested interface a valid name
  of its own. Started from a service whose reservations are well-formed and agree with the
  system, and with explicit names that do not collide, it leaves such a service; every
  requested address holds a name that \<open>GenerateNextNameForMAC\<close> then returns without changing
  anything; two requested devices never share a name; and no reservation made earlier is
  lost or moved.
\<close>

theorem ReserveNames_unique:
  assumes inv: "naming_inv h w s"
    and explicit: "explicit_ok s ifaces"
    and run: "ReserveNamesForInterfaces h w ifaces s = (Inr res, s')"
  shows "naming_inv h w s' \<and>
    (\<forall>a \<in> set ifaces. \<exists>en. GenerateNextNameForMAC h w (MacAddress a) s' = (Inr en, s') \<and>
       ns_reservedByMac s' (ToLower (MacAddress a)) = Some (name_value en)) \<and>
    (\<forall>a \<in> set ifaces. \<forall>b \<in> set ifaces. ToLower (MacAddress a) \<noteq> ToLower (MacAddress b) \<longrightarrow>
       ns_reservedByMac s' (ToLower (MacAddress a)) \<noteq> ns_reservedByMac s' (ToLower (MacAddress b))) \<and>
    (\<forall>m n. ns_reservedByMac s m = Some n \<longrightarrow> ns_reservedByMac s' m = Some n)"
proof (intro conjI ballI impI)
  show "naming_inv h w s'" using ReserveNames_inv [OF run inv explicit] .
next
  fix a assume a: "a \<in> set ifaces"
  have inv': "naming_inv h w s'" using ReserveNames_inv [OF run inv explicit] .
  from ReserveNames_covers [OF run a] obtain n where n: "ns_reservedByMac s' (ToLower (MacAddress a)) = Some n" ..
  then have "is_ok (NewInterfaceName n)" using inv' by (auto simp: naming_inv_def naming_wf_def)
  then obtain en where en: "NewInterfaceName n = Inr en" by (auto simp: is_ok_iff)
  show "\<exists>en. GenerateNextNameForMAC h w (MacAddress a) s' = (Inr en, s') \<and>
      ns_reservedByMac s' (ToLower (MacAddress a)) = Some (name_value en)"
    using GenerateNextNameForMAC_reserved [OF n, of h w] NewInterfaceName_value [OF en] en n by simp
  fix b assume b: "b \<in> set ifaces" "ToLower (MacAddress a) \<noteq> ToLower (MacAddress b)"
  then show "ns_reservedByMac s' (ToLower (MacAddress a)) \<noteq> ns_reservedByMac s' (ToLower (MacAddress b))"
    using ReserveNames_covers [OF run b(1)] naming_inv_inj [OF inv' n, of "ToLower (MacAddress b)"] n by auto
qed (use ReserveNames_gained [OF run] in \<open>simp add: gained_def\<close>)

theorem ReserveNames_unique_witness:
  "\<exists>s'. (\<exists>res. ReserveNamesForInterfaces mute_host
       fresh_os
       [example_iface 1 ''fa:16:3e:00:00:01'' [250, 22, 62, 0, 0, 1] False, example_iface 2 ''FA:16:3E:00:00:02'' [250, 22, 62, 0, 0, 2] False]
       \<lparr>ns_isContainer = False, ns_reservedByMac = Map.empty, ns_reservedNames = (\<lambda>_. False)\<rparr> = (Inr res, s')) \<and>
     ns_reservedByMac s' ''fa:16:3e:00:00:01'' \<noteq> ns_reservedByMac s' ''fa:16:3e:00:00:02''"
proof -
  let ?h = "mute_host"
  let ?w = "fresh_os"
  let ?s = "\<lparr>ns_isContainer = False, ns_reservedByMac = Map.empty, ns_reservedNames = (\<lambda>_. False)\<rparr>"
  let ?i = "[example_iface 1 ''fa:16:3e:00:00:01'' [250, 22, 62, 0, 0, 1] False, example_iface 2 ''FA:16:3E:00:00:02'' [250, 22, 62, 0, 0, 2] False]"
  obtain r s' where run: "ReserveNamesForInterfaces ?h ?w ?i ?s = (r, s')" by fastforce
  have "is_ok (fst (ReserveNamesForInterfaces ?h ?w ?i ?s))" by code_simp
  then obtain res where r: "r = Inr res" using run by (auto simp: is_ok_iff)
  have inv: "naming_inv ?h ?w ?s" by (simp add: naming_inv_def naming_wf_def naming_consistent_def)
  have ex: "explicit_ok ?s ?i" by (simp add: explicit_ok_def HasExplicitName_def example_iface_def)
  have m: "ToLower (MacAddress (?i ! 0)) = ''fa:16:3e:00:00:01''" "ToLower (MacAddress (?i ! 1)) = ''fa:16:3e:00:00:02''"
    by code_simp+
  have "\<forall>a \<in> set ?i. \<forall>b \<in> set ?i. ToLower (MacAddress a) \<noteq> ToLower (MacAddress b) \<longrightarrow>
       ns_reservedByMac s' (ToLower (MacAddress a)) \<noteq> ns_reservedByMac s' (ToLower (MacAddress b))"
    using ReserveNames_unique [OF inv ex run [unfolded r]] by blast
  then have "ns_reservedByMac s' ''fa:16:3e:00:00:01'' \<noteq> ns_reservedByMac s' ''fa:16:3e:00:00:02''"
    using m by simp
  then show ?thesis using run r by blast
qed

text \<open>
  C10: reservation cannot fail while names are left. When no requested interface has an
  explicit name and the requested addresses without a reservation are at most as many as
  the names multinic0 to multinic9 that are neither on the system nor reserved,
  \<open>ReserveNamesForInterfaces\<close> succeeds.
\<close>

theorem ReserveNames_succeeds:
  assumes "list_all (\<lambda>a. \<not> HasExplicitName a) ifaces"
    and "card (unreserved s ifaces) \<le> card (free_names h w s)"
  shows "is_ok (fst (ReserveNamesForInterfaces h w ifaces s))"
proof -
  obtain res1 s1 where r: "reserveExisting h w ifaces [0..<10] s Map.empty = (res1, s1)" by fastforce
  have f: "free_names h w s1 = free_names h w s" "unreserved s1 ifaces \<subseteq> unreserved s ifaces"
    using reserveExisting_free [OF r, of ifaces] by simp_all
  then have "card (unreserved s1 ifaces) \<le> card (free_names h w s1)"
    using assms(2) card_mono [OF finite_unreserved f(2)] by simp
  then show ?thesis
    using reserveExplicit_none [OF assms(1), of h w s Map.empty] reserveFree_succeeds [of s1 ifaces h w res1] r
    by (simp add: ReserveNamesForInterfaces_def)
qed

theorem ReserveNames_succeeds_witness:
  "is_ok (fst (ReserveNamesForInterfaces mute_host
     fresh_os [example_iface 1 ''fa:16:3e:00:00:01'' [250, 22, 62, 0, 0, 1] False]
     \<lparr>ns_isContainer = False, ns_reservedByMac = Map.empty, ns_reservedNames = (\<lambda>_. False)\<rparr>))"
proof (rule ReserveNames_succeeds)
  let ?h = "mute_host"
  let ?w = "fresh_os"
  let ?s = "\<lparr>ns_isContainer = False, ns_reservedByMac = Map.empty, ns_reservedNames = (\<lambda>_. False)\<rparr>"
  let ?i = "[example_iface 1 ''fa:16:3e:00:00:01'' [250, 22, 62, 0, 0, 1] False]"
  show "list_all (\<lambda>a. \<not> HasExplicitName a) ?i" by (simp add: example_iface_def HasExplicitName_def)
  have "unreserved ?s ?i = {ToLower (MacAddress (hd ?i))}" by (auto simp: unreserved_def)
  then have "card (unreserved ?s ?i) = 1" by simp
  moreover have "free_names ?h ?w ?s = {..<10}"
  proof -
    have "list_all (\<lambda>i. \<not> isNameTaken ?h ?w ?s (multinic i)) [0..<10]" by code_simp
    then show ?thesis by (auto simp: free_names_def list_all_iff)
  qed
  ultimately show "card (unreserved ?s ?i) \<le> card (free_names ?h ?w ?s)" by simp
qed

text \<open>
  \<open>GenerateNextNameForMAC\<close> keeps the invariant of the service, on a system whose sysfs and
  \<open>ip\<close> agree on which interfaces exist. It never moves a reservation, and when it succeeds
  the address holds the name it returned.
\<close>

theorem GenerateNextNameForMAC_inv:
  assumes inv: "naming_inv h w s"
    and sysfs: "\<And>n x. GetMacAddressForInterface h w n = Inr x \<Longrightarrow> isInterfaceInUse h w n"
    and run: "GenerateNextNameForMAC h w mac s = (r, s')"
  shows "naming_inv h w s' \<and>
    (\<forall>m n. ns_reservedByMac s m = Some n \<longrightarrow> ns_reservedByMac s' m = Some n) \<and>
    (\<forall>en. r = Inr en \<longrightarrow> ns_reservedByMac s' (ToLower mac) = Some (name_value en))"
proof (cases "ns_reservedByMac s (ToLower mac)")
  case (Some n)
  then show ?thesis using run inv NewInterfaceName_value by (auto simp: GenerateNextNameForMAC_def)
next
  case None
  have carried: "naming_inv h w (reserve (ToLower mac) n s)"
    if c: "carries h w mac n" "is_ok (NewInterfaceName n)" for n
  proof -
    obtain x where x: "GetMacAddressForInterface h w n = Inr x" "ToLower x = ToLower mac"
      using c(1) by (cases "GetMacAddressForInterface h w n") (auto simp: carries_def EqualFold_def)
    then show ?thesis
      using carried_name_unreserved [OF inv sysfs [OF x(1)] x(1)] None c(2) x(2)
      by (intro naming_inv_reserve [OF inv None]) auto
  qed
  have fresh: "naming_inv h w (reserve (ToLower mac) n s)"
    if "\<not> isNameTaken h w s n" "is_ok (NewInterfaceName n)" for n
    using that by (intro naming_inv_reserve [OF inv None]) (auto simp: isNameTaken_def split: if_splits)
  have "(\<exists>i < 10. s' = reserve (ToLower mac) (multinic i) s \<and> r = NewInterfaceName (multinic i) \<and>
      (carries h w mac (multinic i) \<or> \<not> isNameTaken h w s (multinic i))) \<or> (s' = s \<and> \<not> is_ok r)"
    using run None
    by (auto simp: GenerateNextNameForMAC_def generateNextNameInternal_def find_multinic NewInterfaceName_multinic
        Let_def split: option.splits)
  then show ?thesis using inv None carried fresh by (auto simp: NewInterfaceName_multinic)
qed

theorem GenerateNextNameForMAC_inv_witness:
  "naming_inv mute_host fresh_os
     (snd (GenerateNextNameForMAC mute_host
        fresh_os ''fa:16:3e:00:00:01''
        \<lparr>ns_isContainer = False, ns_reservedByMac = Map.empty, ns_reservedNames = (\<lambda>_. False)\<rparr>))"
proof -
  let ?h = "mute_host"
  let ?w = "fresh_os"
  let ?s = "\<lparr>ns_isContainer = False, ns_reservedByMac = Map.empty, ns_reservedNames = (\<lambda>_. False)\<rparr>"
  have "naming_inv ?h ?w ?s" by (simp add: naming_inv_def naming_wf_def naming_consistent_def)
  moreover have "isInterfaceInUse ?h ?w n" if "GetMacAddressForInterface ?h ?w n = Inr x" for n x
    using that by (simp add: GetMacAddressForInterface_def ex_query_def mute_host_def RealHost_def scripted_def)
  ultimately show ?thesis
    using GenerateNextNameForMAC_inv [of ?h ?w ?s "''fa:16:3e:00:00:01''"] by (metis prod.collapse)
qed

text \<open>
  Two interfaces with the same explicit name are not told apart while the name is not on
  the system: the reservation succeeds and both addresses hold multinic0. The check of
  phase 0 only asks the system which address the name carries, never the reservations.
\<close>

theorem ReserveNames_explicit_collision:
  "\<exists>a b s'. ToLower (MacAddress a) \<noteq> ToLower (MacAddress b) \<and> wf_interface a \<and> wf_interface b \<and>
     (\<exists>res. ReserveNamesForInterfaces mute_host
        fresh_os [a, b]
        \<lparr>ns_isContainer = False, ns_reservedByMac = Map.empty, ns_reservedNames = (\<lambda>_. False)\<rparr> = (Inr res, s')) \<and>
     ns_reservedByMac s' (ToLower (MacAddress a)) = Some ''multinic0'' \<and>
     ns_reservedByMac s' (ToLower (MacAddress b)) = Some ''multinic0''"
proof -
  let ?h = "mute_host"
  let ?w = "fresh_os"
  let ?s = "\<lparr>ns_isContainer = False, ns_reservedByMac = Map.empty, ns_reservedNames = (\<lambda>_. False)\<rparr>"
  let ?a = "example_iface 0 ''fa:16:3e:00:00:01'' [250, 22, 62, 0, 0, 1] True"
  let ?b = "example_iface 0 ''fa:16:3e:00:00:02'' [250, 22, 62, 0, 0, 2] True"
  have "is_ok (fst (ReserveNamesForInterfaces ?h ?w [?a, ?b] ?s))" by code_simp
  then obtain res where "ReserveNamesForInterfaces ?h ?w [?a, ?b] ?s = (Inr res, snd (ReserveNamesForInterfaces ?h ?w [?a, ?b] ?s))"
    by (auto simp: is_ok_iff prod_eq_iff)
  moreover have "ns_reservedByMac (snd (ReserveNamesForInterfaces ?h ?w [?a, ?b] ?s)) (ToLower (MacAddress ?a)) = Some ''multinic0''"
    "ns_reservedByMac (snd (ReserveNamesForInterfaces ?h ?w [?a, ?b] ?s)) (ToLower (MacAddress ?b)) = Some ''multinic0''"
    by code_simp+
  moreover have "ToLower (MacAddress ?a) \<noteq> ToLower (MacAddress ?b)" by code_simp
  moreover have "ParseMAC ''fa:16:3e:00:00:01'' = Some [250, 22, 62, 0, 0, 1]" "ParseMAC ''fa:16:3e:00:00:02'' = Some [250, 22, 62, 0, 0, 2]"
    by code_simp+
  then have "wf_interface ?a" "wf_interface ?b" by (auto intro: wf_example_iface)
  ultimately show ?thesis by blast
qed

end
