(* ===== verification/Network.thy ===== *)
theory Network
  imports Adapters Naming
begin

text \<open>
  \<open>internal/infrastructure/network\<close>: the options, the Netplan and RHEL adapters behind the
  \<open>NetworkConfigurer\<close> and \<open>NetworkRollbacker\<close> interfaces, and the factory that picks one. The
  world is threaded through every command and file operation in the order of the source.
  The YAML encoder is a parameter; logging is left out. The two adapters repeat their
  routing and sysctl helpers word for word except for the function that runs a command, so
  these helpers take that function as an argument.
\<close>

type_synonym 'w runner = "string \<Rightarrow> string list \<Rightarrow> 'w \<Rightarrow> (go_error, string) result \<times> 'w"

text \<open>Return the error of a step, or go on from the world it left.\<close>

definition andThen :: "go_error option \<times> 'w \<Rightarrow> ('w \<Rightarrow> go_error option \<times> 'w) \<Rightarrow> go_error option \<times> 'w" where
  "andThen r f = (case r of (Some e, w) \<Rightarrow> (Some e, w) | (None, w) \<Rightarrow> f w)"

lemma andThen_simps [simp]: "andThen (Some e, w) f = (Some e, w)" "andThen (None, w) f = f w"
  by (simp_all add: andThen_def)

lemma andThen_ok: "andThen r f = (None, w') \<longleftrightarrow> (\<exists>v. r = (None, v) \<and> f v = (None, w'))"
  by (cases r; cases "fst r") auto

text \<open>Run a command; on failure return the error made of it.\<close>

definition must :: "'w runner \<Rightarrow> (go_error \<Rightarrow> go_error) \<Rightarrow> string \<Rightarrow> string list \<Rightarrow> 'w \<Rightarrow> go_error option \<times> 'w" where
  "must exec mk cmd args w = (case exec cmd args w of (Inl e, w') \<Rightarrow> (Some (mk e), w') | (Inr _, w') \<Rightarrow> (None, w'))"

text \<open>Run a command whatever it returns.\<close>

definition attempt :: "'w runner \<Rightarrow> string \<Rightarrow> string list \<Rightarrow> 'w \<Rightarrow> 'w" where
  "attempt exec cmd args w = snd (exec cmd args w)"

definition netErr :: "string \<Rightarrow> go_error \<Rightarrow> go_error" where
  "netErr msg e = NewNetworkError msg (Some e)"

section \<open>options.go\<close>

record Options =
  EnablePolicyRouting :: bool
  RoutingTableBase :: int
  RouteMetric :: int
  UseNoprefixroute :: bool
  SetArpSysctls :: bool
  SetLooseRPFilter :: bool

definition DefaultOptions :: Options where
  "DefaultOptions = \<lparr>EnablePolicyRouting = True, RoutingTableBase = 100, RouteMetric = 100,
     UseNoprefixroute = True, SetArpSysctls = True, SetLooseRPFilter = True\<rparr>"

definition normalize :: "Options \<Rightarrow> Options" where
  "normalize opts =
     (let o1 = (if RoutingTableBase opts \<le> 0 then opts\<lparr>RoutingTableBase := 100\<rparr> else opts)
      in if RouteMetric o1 \<le> 0 then o1\<lparr>RouteMetric := 100\<rparr> else o1)"

definition extractInterfaceIndex :: "string \<Rightarrow> int" where
  "extractInterfaceIndex name =
     (if HasPrefix name InterfacePrefix then
        (case Atoi (TrimPrefix name InterfacePrefix) of Some index \<Rightarrow> index | None \<Rightarrow> 0)
      else 0)"

definition routingTable :: "Options \<Rightarrow> string \<Rightarrow> int" where
  "routingTable opts name = RoutingTableBase opts + extractInterfaceIndex name"

definition routeMetric :: "Options \<Rightarrow> string \<Rightarrow> int" where
  "routeMetric opts name = RouteMetric opts + extractInterfaceIndex name"

section \<open>Shared steps\<close>

definition setSysctl :: "'w runner \<Rightarrow> string \<Rightarrow> string \<Rightarrow> 'w \<Rightarrow> 'w" where
  "setSysctl exec key value w = attempt exec ''sysctl'' [''-w'', key @ ''='' @ value] w"

definition applySysctls :: "'w runner \<Rightarrow> Options \<Rightarrow> string \<Rightarrow> 'w \<Rightarrow> 'w" where
  "applySysctls exec opts iface w =
     (let w1 = (if SetLooseRPFilter opts then setSysctl exec (''net.ipv4.conf.'' @ iface @ ''.rp_filter'') ''2'' w else w)
      in if SetArpSysctls opts then
           setSysctl exec (''net.ipv4.conf.'' @ iface @ ''.arp_announce'') ''2''
             (setSysctl exec (''net.ipv4.conf.'' @ iface @ ''.arp_ignore'') ''1'' w1)
         else w1)"

definition applyPolicyRouting :: "'w runner \<Rightarrow> Options \<Rightarrow> NetworkInterface \<Rightarrow> string \<Rightarrow> 'w \<Rightarrow> go_error option \<times> 'w" where
  "applyPolicyRouting exec opts iface target w =
     (let addr = TrimSpace (Address iface); cidr = TrimSpace (CIDR_of iface)
      in if addr = [] \<or> cidr = [] then (None, w)
         else
           let table = routingTable opts target; metric = routeMetric opts target;
               w1 = (if UseNoprefixroute opts then attempt exec ''ip'' [''route'', ''del'', cidr, ''dev'', target] w else w);
               w2 = attempt exec ''ip'' [''rule'', ''del'', ''from'', addr @ ''/32'', ''table'', Itoa table] w1
           in andThen
                (case exec ''ip'' [''rule'', ''add'', ''from'', addr @ ''/32'', ''table'', Itoa table] w2 of
                   (Inl err, w3) \<Rightarrow> (if \<not> Contains (Error err) ''File exists''
                      then (Some (netErr ''failed to install policy rule'' err), w3) else (None, w3))
                 | (Inr _, w3) \<Rightarrow> (None, w3))
                (must exec (netErr ''failed to install policy route'') ''ip''
                   ([''route'', ''replace'', cidr, ''dev'', target, ''table'', Itoa table, ''metric'', Itoa metric] @
                    (if addr \<noteq> [] then [''src'', addr] else []))))"

definition cleanupRouting :: "'w runner \<Rightarrow> Options \<Rightarrow> string \<Rightarrow> 'w \<Rightarrow> 'w" where
  "cleanupRouting exec opts name w =
     (if \<not> EnablePolicyRouting opts then w
      else let table = routingTable opts name
           in attempt exec ''ip'' [''route'', ''flush'', ''table'', Itoa table]
                (attempt exec ''ip'' [''rule'', ''delete'', ''table'', Itoa table] w))"

section \<open>netplan\_adapter.go\<close>

text \<open>The values handed to \<open>yaml.Marshal\<close>.\<close>

datatype yaml = YStr string | YInt int | YBool bool | YSeq "yaml list" | YMap "(string \<times> yaml) list"

definition generateNetplanConfig :: "Options \<Rightarrow> NetworkInterface \<Rightarrow> string \<Rightarrow> yaml" where
  "generateNetplanConfig opts iface interfaceName =
     (let base = [(''match'', YMap [(''macaddress'', YStr (MacAddress iface))]), (''set-name'', YStr interfaceName)];
          parts = Split (CIDR_of iface) (CHR ''/'');
          eth = (if Address iface \<noteq> [] \<and> CIDR_of iface \<noteq> [] \<and> length parts = 2 then
                   (let full = Address iface @ ''/'' @ parts ! 1;
                        table = routingTable opts interfaceName; metric = routeMetric opts interfaceName
                    in base @ [(''dhcp4'', YBool False), (''addresses'', YSeq [YStr full])] @
                       (if 0 < MTU_of iface then [(''mtu'', YInt (MTU_of iface))] else []) @
                       (if EnablePolicyRouting opts then
                          [(''routes'', YSeq [YMap [(''to'', YStr (CIDR_of iface)), (''table'', YInt table), (''metric'', YInt metric)]]),
                           (''routing-policy'', YSeq [YMap [(''from'', YStr full), (''table'', YInt table)]])]
                        else []))
                 else base)
      in YMap [(''network'', YMap [(''version'', YInt 2), (''ethernets'', YMap [(interfaceName, YMap eth)])])])"

fun findMacLine :: "string \<Rightarrow> string list \<Rightarrow> (string \<times> bool) option" where
  "findMacLine macLower [] = None"
| "findMacLine macLower (line # ls) =
     (if Contains (ToLower line) macLower \<and> 2 \<le> length (SplitN line (CHR '':'') 3)
      then Some (TrimSpace (SplitN line (CHR '':'') 3 ! 1), up_text line)
      else findMacLine macLower ls)"

definition findInterfaceByMAC :: "('w, 'z) Host_scheme \<Rightarrow> string \<Rightarrow> 'w \<Rightarrow> (string \<times> bool) option" where
  "findInterfaceByMAC h mac w =
     (case ex_query h ''ip'' [''-o'', ''link'', ''show''] w of
        Inl _ \<Rightarrow> None
      | Inr out \<Rightarrow> findMacLine (ToLower (TrimSpace mac)) (Split out NL))"

definition netplanPath :: "string \<Rightarrow> string" where
  "netplanPath name = path_Join [NetplanConfigDir, ''9'' @ Itoa (extractInterfaceIndex name) @ ''-'' @ name @ ''.yaml'']"

text \<open>Rename without taking the link down, then with the link down.\<close>

definition netplan_rename :: "'w runner \<Rightarrow> string \<Rightarrow> bool \<Rightarrow> string \<Rightarrow> 'w \<Rightarrow> go_error option \<times> 'w" where
  "netplan_rename exec curName wasUp target w =
     (if curName = target then (None, w)
      else case exec ''ip'' [''link'', ''set'', curName, ''name'', target] w of
        (Inr _, w1) \<Rightarrow> (None, w1)
      | (Inl _, w1) \<Rightarrow>
          andThen (must exec (netErr ''failed to rename interface'') ''ip'' [''link'', ''set'', curName, ''name'', target]
                     (attempt exec ''ip'' [''link'', ''set'', curName, ''down''] w1))
            (\<lambda>w2. (None, if wasUp then attempt exec ''ip'' [''link'', ''set'', target, ''up''] w2 else w2)))"

definition netplan_address :: "'w runner \<Rightarrow> Options \<Rightarrow> string \<Rightarrow> NetworkInterface \<Rightarrow> string \<Rightarrow> 'w \<Rightarrow> go_error option \<times> 'w" where
  "netplan_address exec opts msg iface target w =
     (let addr = TrimSpace (Address iface); parts = Split (CIDR_of iface) (CHR ''/'')
      in if addr \<noteq> [] \<and> TrimSpace (CIDR_of iface) \<noteq> [] \<and> length parts = 2 then
           must exec (netErr msg) ''ip''
             ([''addr'', ''replace'', addr @ ''/'' @ parts ! 1, ''dev'', target] @
              (if UseNoprefixroute opts then [''noprefixroute''] else [])) w
         else (None, w))"

definition setMTU :: "'w runner \<Rightarrow> string \<Rightarrow> NetworkInterface \<Rightarrow> string \<Rightarrow> 'w \<Rightarrow> go_error option \<times> 'w" where
  "setMTU exec msg iface target w =
     (if 0 < MTU_of iface then must exec (netErr msg) ''ip'' [''link'', ''set'', target, ''mtu'', Itoa (MTU_of iface)] w
      else (None, w))"

definition sysErr :: "string \<Rightarrow> go_error option \<times> 'w \<Rightarrow> go_error option \<times> 'w" where
  "sysErr msg r = (case r of (Some e, w) \<Rightarrow> (Some (NewSystemError msg (Some e)), w) | (None, w) \<Rightarrow> (None, w))"

text \<open>\<open>Configure\<close> first applies the settings at run time, then persists them.\<close>

definition Netplan_apply :: "('w, 'z) Host_scheme \<Rightarrow> Options \<Rightarrow> NetworkInterface \<Rightarrow> string \<Rightarrow> 'w \<Rightarrow> go_error option \<times> 'w" where
  "Netplan_apply h opts iface target w =
     (let exec = ex_exec h;
          missing = NewNetworkError ''MAC not found on system for runtime apply'' (Some (PlainError (''mac='' @ MacAddress iface)))
      in case findInterfaceByMAC h (MacAddress iface) w of
           None \<Rightarrow> (Some missing, w)
         | Some (curName, wasUp) \<Rightarrow>
             (if TrimSpace curName = [] then (Some missing, w)
              else
                andThen (netplan_rename exec curName wasUp target w) (\<lambda>w1.
                andThen (setMTU exec ''failed to set MTU'' iface target w1) (\<lambda>w2.
                andThen (netplan_address exec opts ''failed to set IPv4 address'' iface target w2) (\<lambda>w3.
                andThen (must exec (netErr ''failed to set link up'') ''ip'' [''link'', ''set'', target, ''up''] w3) (\<lambda>w4.
                andThen (if EnablePolicyRouting opts then applyPolicyRouting exec opts iface target w4 else (None, w4)) (\<lambda>w5.
                (None, applySysctls exec opts target w5))))))))"

definition Netplan_persist ::
  "('w, 'z) Host_scheme \<Rightarrow> (yaml \<Rightarrow> (go_error, string) result) \<Rightarrow> Options \<Rightarrow> NetworkInterface \<Rightarrow> string \<Rightarrow> 'w
    \<Rightarrow> go_error option \<times> 'w" where
  "Netplan_persist h marshal opts iface target w =
     (case marshal (generateNetplanConfig opts iface target) of
        Inl err \<Rightarrow> (Some (NewSystemError ''failed to marshal Netplan configuration'' (Some err)), w)
      | Inr data \<Rightarrow> sysErr ''failed to save Netplan configuration file'' (fs_WriteFile h (netplanPath target) data 384 w))"

definition Netplan_Configure ::
  "('w, 'z) Host_scheme \<Rightarrow> (yaml \<Rightarrow> (go_error, string) result) \<Rightarrow> Options \<Rightarrow> NetworkInterface \<Rightarrow> InterfaceName \<Rightarrow> 'w
    \<Rightarrow> go_error option \<times> 'w" where
  "Netplan_Configure h marshal opts iface name w =
     andThen (Netplan_apply h opts iface (name_value name) w) (Netplan_persist h marshal opts iface (name_value name))"

definition Netplan_Validate :: "('w, 'z) Host_scheme \<Rightarrow> InterfaceName \<Rightarrow> 'w \<Rightarrow> go_error option" where
  "Netplan_Validate h name w =
     (if \<not> fs_Exists h (''/sys/class/net/'' @ name_value name) w
      then Some (NewValidationError ''network interface does not exist'' None)
      else case ex_query h ''ip'' [''link'', ''show'', name_value name, ''up''] w of
        Inl err \<Rightarrow> Some (NewValidationError ''network interface is not UP'' (Some err))
      | Inr _ \<Rightarrow> None)"

definition Netplan_Rollback :: "('w, 'z) Host_scheme \<Rightarrow> Options \<Rightarrow> string \<Rightarrow> 'w \<Rightarrow> go_error option \<times> 'w" where
  "Netplan_Rollback h opts name w =
     andThen
       (if fs_Exists h (netplanPath name) w
        then sysErr ''failed to remove configuration file'' (fs_Remove h (netplanPath name) w) else (None, w))
       (\<lambda>w1. (None, cleanupRouting (ex_exec h) opts name w1))"

section \<open>rhel\_adapter.go\<close>

record RHELAdapter =
  ra_isContainer :: bool
  ra_enableSELinuxRestore :: bool
  ra_opts :: Options

definition NewRHELAdapterWithSELinux :: "('w, 'z) Host_scheme \<Rightarrow> bool \<Rightarrow> Options \<Rightarrow> 'w \<Rightarrow> RHELAdapter" where
  "NewRHELAdapterWithSELinux h selinux opts w =
     \<lparr>ra_isContainer = is_ok (ex_query h ''test'' [''-d'', ''/host''] w), ra_enableSELinuxRestore = selinux,
      ra_opts = normalize opts\<rparr>"

definition NewRHELAdapterWithOptions :: "('w, 'z) Host_scheme \<Rightarrow> Options \<Rightarrow> 'w \<Rightarrow> RHELAdapter" where
  "NewRHELAdapterWithOptions h opts = NewRHELAdapterWithSELinux h False opts"

definition NewRHELAdapter :: "('w, 'z) Host_scheme \<Rightarrow> 'w \<Rightarrow> RHELAdapter" where
  "NewRHELAdapter h = NewRHELAdapterWithOptions h DefaultOptions"

definition execCommand :: "('w, 'z) Host_scheme \<Rightarrow> RHELAdapter \<Rightarrow> 'w runner" where
  "execCommand h a command args w =
     (if ra_isContainer a then
        ex_exec h ''nsenter'' ([''--target'', ''1'', ''--mount'', ''--uts'', ''--ipc'', ''--net'', ''--pid'', command] @ args) w
      else ex_exec h command args w)"

fun ether_field :: "string list \<Rightarrow> string option" where
  "ether_field (f # g # fs) = (if f = ''link/ether'' then Some g else ether_field (g # fs))"
| "ether_field _ = None"

fun deviceLoop :: "string \<Rightarrow> string \<Rightarrow> string list \<Rightarrow> string option" where
  "deviceLoop targetMAC currentDevice [] = None"
| "deviceLoop targetMAC currentDevice (l # ls) =
     (let line = TrimSpace l
      in if line = [] then deviceLoop targetMAC currentDevice ls
         else if Contains line '':'' \<and> is_digit (hd line) then
           (let parts = Split line (CHR '':'')
            in deviceLoop targetMAC (if 2 \<le> length parts then TrimSpace (parts ! 1) else currentDevice) ls)
         else if Contains line ''link/ether'' \<and> currentDevice \<noteq> [] then
           (case ether_field (Fields line) of
              Some m \<Rightarrow> (if ToLower m = targetMAC then Some currentDevice else deviceLoop targetMAC currentDevice ls)
            | None \<Rightarrow> deviceLoop targetMAC currentDevice ls)
         else deviceLoop targetMAC currentDevice ls)"

definition findDeviceByMAC :: "('w, 'z) Host_scheme \<Rightarrow> RHELAdapter \<Rightarrow> string \<Rightarrow> 'w \<Rightarrow> (go_error, string) result" where
  "findDeviceByMAC h a macAddress w =
     (case fst (execCommand h a ''ip'' [''link'', ''show''] w) of
        Inl err \<Rightarrow> Inl (WrappedError (''failed to list devices: '' @ Error err) err)
      | Inr output \<Rightarrow>
          (case deviceLoop (ToLower macAddress) [] (Split output NL) of
             None \<Rightarrow> Inl (PlainError (''no device found with MAC address '' @ macAddress))
           | Some d \<Rightarrow> Inr d))"

text \<open>The adapter's own routing helpers, which run their commands through \<open>execCommand\<close>.\<close>

definition extractIndexRHEL :: "string \<Rightarrow> int" where
  "extractIndexRHEL name =
     (if HasPrefix name InterfacePrefix then
        (case Atoi (TrimPrefix name InterfacePrefix) of Some n \<Rightarrow> n | None \<Rightarrow> 0)
      else 0)"

definition RHEL_applyPolicyRouting :: "('w, 'z) Host_scheme \<Rightarrow> RHELAdapter \<Rightarrow> NetworkInterface \<Rightarrow> string \<Rightarrow> 'w \<Rightarrow> go_error option \<times> 'w" where
  "RHEL_applyPolicyRouting h a = applyPolicyRouting (execCommand h a) (ra_opts a)"

definition RHEL_applySysctls :: "('w, 'z) Host_scheme \<Rightarrow> RHELAdapter \<Rightarrow> string \<Rightarrow> 'w \<Rightarrow> 'w" where
  "RHEL_applySysctls h a = applySysctls (execCommand h a) (ra_opts a)"

definition RHEL_cleanupRouting :: "('w, 'z) Host_scheme \<Rightarrow> RHELAdapter \<Rightarrow> string \<Rightarrow> 'w \<Rightarrow> 'w" where
  "RHEL_cleanupRouting h a = cleanupRouting (execCommand h a) (ra_opts a)"

lemmas RHEL_helpers [simp] = RHEL_applyPolicyRouting_def RHEL_applySysctls_def RHEL_cleanupRouting_def

lemma extractIndexRHEL_eq [simp]: "extractIndexRHEL = extractInterfaceIndex"
  by (simp add: fun_eq_iff extractIndexRHEL_def extractInterfaceIndex_def)

definition rhel_rename :: "'w runner \<Rightarrow> string \<Rightarrow> string \<Rightarrow> 'w \<Rightarrow> go_error option \<times> 'w" where
  "rhel_rename exec actual ifaceName w =
     (if actual = ifaceName then (None, w)
      else case exec ''ip'' [''link'', ''set'', actual, ''name'', ifaceName] w of
        (Inr _, w1) \<Rightarrow> (None, w1)
      | (Inl _, w1) \<Rightarrow>
          andThen (must exec (netErr (''Failed to rename interface '' @ actual @ '' to '' @ ifaceName)) ''ip''
                     [''link'', ''set'', actual, ''name'', ifaceName]
                     (attempt exec ''ip'' [''link'', ''set'', actual, ''down''] w1))
            (\<lambda>w2. (None, attempt exec ''ip'' [''link'', ''set'', ifaceName, ''up''] w2)))"

definition linkPath :: "string \<Rightarrow> string" where
  "linkPath name = path_Join [SystemdNetworkDir, ''9'' @ Itoa (extractIndexRHEL name) @ ''-'' @ name @ ''.link'']"

definition nmPath :: "string \<Rightarrow> string" where
  "nmPath name = path_Join [NetworkManagerDir, ''9'' @ Itoa (extractIndexRHEL name) @ ''-'' @ name @ ''.nmconnection'']"

definition linkContent :: "string \<Rightarrow> string \<Rightarrow> string" where
  "linkContent mac name = ''[Match]'' @ NL # ''MACAddress='' @ ToLower mac @ NL # ''[Link]'' @ NL # ''Name='' @ name @ [NL]"

definition generateNMConnection :: "Options \<Rightarrow> NetworkInterface \<Rightarrow> string \<Rightarrow> string" where
  "generateNMConnection opts iface ifaceName =
     (let parts = Split (CIDR_of iface) (CHR ''/''); table = routingTable opts ifaceName; metric = routeMetric opts ifaceName
      in concat (map (\<lambda>l. l @ [NL])
        ([''[connection]'', ''id='' @ ifaceName, ''type=ethernet'', ''interface-name='' @ ifaceName, ''autoconnect=true'', [],
          ''[ethernet]'', ''mac-address='' @ ToLower (MacAddress iface)] @
         (if 0 < MTU_of iface then [''mtu='' @ Itoa (MTU_of iface)] else []) @
         [[], ''[ipv4]'', ''method=manual''] @
         (if Address iface \<noteq> [] \<and> CIDR_of iface \<noteq> [] \<and> length parts = 2
          then [''address1='' @ Address iface @ ''/'' @ parts ! 1] else []) @
         (if EnablePolicyRouting opts \<and> Address iface \<noteq> [] \<and> CIDR_of iface \<noteq> []
          then [''route-table='' @ Itoa table, ''route1='' @ CIDR_of iface @ '',,'' @ Itoa metric,
                ''routing-rules=priority '' @ Itoa (10000 + table) @ '' from '' @ Address iface @ ''/32 table '' @ Itoa table]
          else []) @
         [''never-default=true'', [], ''[ipv6]'', ''method=ignore''])))"

definition restoreDir :: "('w, 'z) Host_scheme \<Rightarrow> RHELAdapter \<Rightarrow> string \<Rightarrow> 'w \<Rightarrow> 'w" where
  "restoreDir h a dir w =
     (if \<not> fs_Exists h dir w then w
      else attempt (ex_exec h) ''sh'' [''-c'',
        if ra_isContainer a then ''nsenter --target 1 --mount --uts --ipc --net --pid restorecon -Rv '' @ dir
        else ''restorecon -Rv '' @ dir] w)"

definition restoreSELinuxContext :: "('w, 'z) Host_scheme \<Rightarrow> RHELAdapter \<Rightarrow> 'w \<Rightarrow> 'w" where
  "restoreSELinuxContext h a w =
     (if \<not> ra_enableSELinuxRestore a then w
      else restoreDir h a SystemdNetworkDir (restoreDir h a NetworkManagerDir w))"

definition RHEL_persist :: "('w, 'z) Host_scheme \<Rightarrow> RHELAdapter \<Rightarrow> NetworkInterface \<Rightarrow> string \<Rightarrow> 'w \<Rightarrow> go_error option \<times> 'w" where
  "RHEL_persist h a iface ifaceName w =
     (let w1 = snd (fs_MkdirAll h SystemdNetworkDir 493 w); w2 = snd (fs_MkdirAll h NetworkManagerDir 493 w1)
      in andThen (sysErr ''failed to write .link''
                    (fs_WriteFile h (linkPath ifaceName) (linkContent (MacAddress iface) ifaceName) 420 w2)) (\<lambda>w3.
         andThen (sysErr ''failed to write .nmconnection''
                    (fs_WriteFile h (nmPath ifaceName) (generateNMConnection (ra_opts a) iface ifaceName) 384 w3)) (\<lambda>w4.
         (None, restoreSELinuxContext h a w4))))"

definition RHEL_apply :: "('w, 'z) Host_scheme \<Rightarrow> RHELAdapter \<Rightarrow> NetworkInterface \<Rightarrow> string \<Rightarrow> 'w \<Rightarrow> go_error option \<times> 'w" where
  "RHEL_apply h a iface ifaceName w =
     (let exec = execCommand h a; opts = ra_opts a
      in case findDeviceByMAC h a (MacAddress iface) w of
           Inl err \<Rightarrow> (Some (netErr (''Failed to find device with MAC '' @ MacAddress iface) err), w)
         | Inr actual \<Rightarrow>
             andThen (rhel_rename exec actual ifaceName w) (\<lambda>w1.
             andThen (setMTU exec ''Failed to set MTU'' iface ifaceName w1) (\<lambda>w2.
             andThen (netplan_address exec opts ''Failed to set IPv4'' iface ifaceName w2) (\<lambda>w3.
             andThen (must exec (netErr ''Failed to set link up'') ''ip'' [''link'', ''set'', ifaceName, ''up''] w3) (\<lambda>w4.
             andThen (if EnablePolicyRouting opts then RHEL_applyPolicyRouting h a iface ifaceName w4 else (None, w4)) (\<lambda>w5.
             (None, RHEL_applySysctls h a ifaceName w5)))))))"

definition RHEL_Configure :: "('w, 'z) Host_scheme \<Rightarrow> RHELAdapter \<Rightarrow> NetworkInterface \<Rightarrow> InterfaceName \<Rightarrow> 'w \<Rightarrow> go_error option \<times> 'w" where
  "RHEL_Configure h a iface name w =
     andThen (RHEL_apply h a iface (name_value name) w) (RHEL_persist h a iface (name_value name))"

definition RHEL_Validate :: "('w, 'z) Host_scheme \<Rightarrow> RHELAdapter \<Rightarrow> InterfaceName \<Rightarrow> 'w \<Rightarrow> go_error option" where
  "RHEL_Validate h a name w =
     (let ifaceName = name_value name
      in case fst (execCommand h a ''ip'' [''link'', ''show'', ifaceName] w) of
           Inl err \<Rightarrow> Some (netErr (''Interface '' @ ifaceName @ '' not found'') err)
         | Inr _ \<Rightarrow>
             (if \<not> fs_Exists h (linkPath ifaceName) w \<or> \<not> fs_Exists h (nmPath ifaceName) w
              then Some (NewNetworkError ''persist files not found'' None) else None))"

definition RHEL_Rollback :: "('w, 'z) Host_scheme \<Rightarrow> RHELAdapter \<Rightarrow> string \<Rightarrow> 'w \<Rightarrow> go_error option \<times> 'w" where
  "RHEL_Rollback h a name w =
     (let w1 = snd (fs_Remove h (linkPath name) w); w2 = snd (fs_Remove h (nmPath name) w1)
      in (None, RHEL_cleanupRouting h a name w2))"

section \<open>factory.go\<close>

text \<open>What a network manager is to the use cases: the two interfaces of \<open>interfaces/network.go\<close>.\<close>

record 'w NetworkManager =
  nm_Configure :: "NetworkInterface \<Rightarrow> InterfaceName \<Rightarrow> 'w \<Rightarrow> go_error option \<times> 'w"
  nm_Validate :: "InterfaceName \<Rightarrow> 'w \<Rightarrow> go_error option"
  nm_GetConfigDir :: string
  nm_Rollback :: "string \<Rightarrow> 'w \<Rightarrow> go_error option \<times> 'w"

definition NetplanAdapter :: "('w, 'z) Host_scheme \<Rightarrow> (yaml \<Rightarrow> (go_error, string) result) \<Rightarrow> Options \<Rightarrow> 'w NetworkManager" where
  "NetplanAdapter h marshal opts =
     \<lparr>nm_Configure = Netplan_Configure h marshal (normalize opts), nm_Validate = Netplan_Validate h,
      nm_GetConfigDir = NetplanConfigDir, nm_Rollback = Netplan_Rollback h (normalize opts)\<rparr>"

definition NewNetplanAdapter :: "('w, 'z) Host_scheme \<Rightarrow> (yaml \<Rightarrow> (go_error, string) result) \<Rightarrow> 'w NetworkManager" where
  "NewNetplanAdapter h marshal = NetplanAdapter h marshal DefaultOptions"

definition RHELAdapter_manager :: "('w, 'z) Host_scheme \<Rightarrow> RHELAdapter \<Rightarrow> 'w NetworkManager" where
  "RHELAdapter_manager h a =
     \<lparr>nm_Configure = RHEL_Configure h a, nm_Validate = RHEL_Validate h a,
      nm_GetConfigDir = NetworkManagerDir, nm_Rollback = RHEL_Rollback h a\<rparr>"

text \<open>The two interfaces have one implementation, so that the assertion of the rollbacker's type never fails.\<close>

record 'w NetworkManagerFactory =
  nf_osDetector :: "'w \<Rightarrow> (go_error, OSType) result"
  nf_host :: "'w Host"
  nf_marshal :: "yaml \<Rightarrow> (go_error, string) result"
  nf_opts :: Options

definition NewNetworkManagerFactory :: "('w \<Rightarrow> (go_error, OSType) result) \<Rightarrow> 'w Host \<Rightarrow> (yaml \<Rightarrow> (go_error, string) result)
    \<Rightarrow> Options \<Rightarrow> 'w NetworkManagerFactory" where
  "NewNetworkManagerFactory detect h marshal opts =
     \<lparr>nf_osDetector = detect, nf_host = h, nf_marshal = marshal, nf_opts = normalize opts\<rparr>"

definition CreateNetworkConfigurer :: "'w NetworkManagerFactory \<Rightarrow> 'w \<Rightarrow> (go_error, 'w NetworkManager) result" where
  "CreateNetworkConfigurer f w =
     (case nf_osDetector f w of
        Inl err \<Rightarrow> Inl (NewSystemError ''failed to detect OS'' (Some err))
      | Inr OSTypeUbuntu \<Rightarrow> Inr (NetplanAdapter (nf_host f) (nf_marshal f) (nf_opts f))
      | Inr OSTypeRHEL \<Rightarrow> Inr (RHELAdapter_manager (nf_host f) (NewRHELAdapterWithOptions (nf_host f) (nf_opts f) w)))"

definition CreateNetworkRollbacker :: "'w NetworkManagerFactory \<Rightarrow> 'w \<Rightarrow> (go_error, 'w NetworkManager) result" where
  "CreateNetworkRollbacker f w = rbind (CreateNetworkConfigurer f w) Inr"

lemma CreateNetworkRollbacker_configurer [simp]: "CreateNetworkRollbacker f w = CreateNetworkConfigurer f w"
  by (cases "CreateNetworkConfigurer f w") (simp_all add: CreateNetworkRollbacker_def)

lemma normalize_idem [simp]: "normalize (normalize opts) = normalize opts"
  by (simp add: normalize_def Let_def)

text \<open>A detected system is always served, with options that name a routing table and a metric.\<close>

lemma CreateNetworkConfigurer_ok [simp]: "is_ok (CreateNetworkConfigurer f w) \<longleftrightarrow> is_ok (nf_osDetector f w)"
  by (auto simp: CreateNetworkConfigurer_def is_ok_iff split: sum.splits OSType.splits)

lemma factory_options:
  "0 < RoutingTableBase (nf_opts (NewNetworkManagerFactory detect h marshal opts))"
  "0 < RouteMetric (nf_opts (NewNetworkManagerFactory detect h marshal opts))"
  by (auto simp: NewNetworkManagerFactory_def normalize_def Let_def)

section \<open>Commands leave the files alone\<close>

text \<open>
  From \<open>w\<close> to \<open>w'\<close> every readable file kept its contents, none appeared, and the consistency
  of the world was kept.
\<close>

definition keeps :: "('w, 'z) FileSystem_scheme \<Rightarrow> ('w \<Rightarrow> bool) \<Rightarrow> 'w \<Rightarrow> 'w \<Rightarrow> bool" where
  "keeps fs iv w w' \<longleftrightarrow> (\<forall>q c. fs_ReadFile fs q w' = Inr c \<longleftrightarrow> fs_ReadFile fs q w = Inr c) \<and> (iv w \<longrightarrow> iv w')"

definition quiet :: "('w, 'z) FileSystem_scheme \<Rightarrow> ('w \<Rightarrow> bool) \<Rightarrow> 'w runner \<Rightarrow> bool" where
  "quiet fs iv exec \<longleftrightarrow> (\<forall>c a w. keeps fs iv w (snd (exec c a w)))"

text \<open>The same except for the paths of \<open>P\<close>.\<close>

definition keeps_except :: "string set \<Rightarrow> ('w, 'z) FileSystem_scheme \<Rightarrow> ('w \<Rightarrow> bool) \<Rightarrow> 'w \<Rightarrow> 'w \<Rightarrow> bool" where
  "keeps_except P fs iv w w' \<longleftrightarrow>
     (\<forall>q c. Clean q \<notin> P \<longrightarrow> (fs_ReadFile fs q w' = Inr c \<longleftrightarrow> fs_ReadFile fs q w = Inr c)) \<and> (iv w \<longrightarrow> iv w')"

lemma keeps_refl [simp]: "keeps fs iv w w"
  by (simp add: keeps_def)

lemma keeps_trans: "keeps fs iv u v \<Longrightarrow> keeps fs iv v w \<Longrightarrow> keeps fs iv u w"
  by (simp add: keeps_def)

lemma keeps_except_refl [simp]: "keeps_except P fs iv w w"
  by (simp add: keeps_except_def)

lemma keeps_except_trans: "keeps_except P fs iv u v \<Longrightarrow> keeps_except P fs iv v w \<Longrightarrow> keeps_except P fs iv u w"
  by (simp add: keeps_except_def)

lemma keeps_imp_except: "keeps fs iv w w' \<Longrightarrow> keeps_except P fs iv w w'"
  by (simp add: keeps_def keeps_except_def)

lemma keeps_except_mono: "keeps_except P fs iv w w' \<Longrightarrow> P \<subseteq> Q \<Longrightarrow> keeps_except Q fs iv w w'"
  by (auto simp: keeps_except_def)

lemma quiet_exec: "quiet fs iv exec \<Longrightarrow> exec c a w = (r, w') \<Longrightarrow> keeps fs iv w w'"
  unfolding quiet_def by (metis snd_conv)

lemma quiet_attempt: "quiet fs iv exec \<Longrightarrow> keeps fs iv w (attempt exec c a w)"
  by (simp add: quiet_def attempt_def)

lemma keeps_attempt: "quiet fs iv exec \<Longrightarrow> keeps fs iv u w \<Longrightarrow> keeps fs iv u (attempt exec c a w)"
  by (rule keeps_trans [OF _ quiet_attempt])

lemma keeps_andThen:
  "keeps fs iv w (snd r) \<Longrightarrow> (\<And>v. r = (None, v) \<Longrightarrow> keeps fs iv v (snd (f v))) \<Longrightarrow> keeps fs iv w (snd (andThen r f))"
  by (cases r; cases "fst r") (auto intro: keeps_trans)

lemma quiet_must: "quiet fs iv exec \<Longrightarrow> keeps fs iv w (snd (must exec mk c a w))"
  by (auto simp: must_def split: prod.splits sum.splits dest: quiet_exec)

lemma keeps_must: "quiet fs iv exec \<Longrightarrow> keeps fs iv u w \<Longrightarrow> keeps fs iv u (snd (must exec mk c a w))"
  by (rule keeps_trans [OF _ quiet_must])

lemma quiet_sysctls: "quiet fs iv exec \<Longrightarrow> keeps fs iv w (applySysctls exec opts i w)"
  by (auto simp: applySysctls_def setSysctl_def Let_def simp del: append.simps intro!: keeps_attempt)

lemma quiet_cleanup: "quiet fs iv exec \<Longrightarrow> keeps fs iv w (cleanupRouting exec opts n w)"
  by (auto simp: cleanupRouting_def Let_def intro!: keeps_attempt)

lemma quiet_policy: "quiet fs iv exec \<Longrightarrow> keeps fs iv w (snd (applyPolicyRouting exec opts iface t w))"
proof -
  assume q: "quiet fs iv exec"
  have add: "keeps fs iv u v \<Longrightarrow> keeps fs iv u (snd (case exec c a v of
       (Inl err, w3) \<Rightarrow> (if P err then (Some (f err), w3) else (None, w3)) | (Inr _, w3) \<Rightarrow> (None, w3)))"
    for u v c a P and f :: "go_error \<Rightarrow> go_error"
    using quiet_exec [OF q] keeps_trans by (fastforce split: prod.splits sum.splits)
  show ?thesis unfolding applyPolicyRouting_def Let_def
    by (cases "TrimSpace (Address iface) = [] \<or> TrimSpace (CIDR_of iface) = []"; cases "UseNoprefixroute opts")
      (simp_all, (intro keeps_andThen add keeps_attempt [OF q] quiet_must [OF q] keeps_refl)+)
qed

lemma quiet_rename: "quiet fs iv exec \<Longrightarrow> keeps fs iv w (snd (netplan_rename exec c up t w))"
  by (auto simp: netplan_rename_def split: prod.splits sum.splits dest: quiet_exec
      intro!: keeps_andThen keeps_must keeps_attempt)

lemma quiet_rhel_rename: "quiet fs iv exec \<Longrightarrow> keeps fs iv w (snd (rhel_rename exec c t w))"
  by (auto simp: rhel_rename_def split: prod.splits sum.splits dest: quiet_exec
      intro!: keeps_andThen keeps_must keeps_attempt)

lemma quiet_address: "quiet fs iv exec \<Longrightarrow> keeps fs iv w (snd (netplan_address exec opts m i t w))"
  by (auto simp: netplan_address_def Let_def quiet_must)

lemma quiet_setMTU: "quiet fs iv exec \<Longrightarrow> keeps fs iv w (snd (setMTU exec m i t w))"
  by (auto simp: setMTU_def quiet_must)

lemmas quiet_steps = quiet_rename quiet_rhel_rename quiet_address quiet_setMTU quiet_must quiet_policy quiet_sysctls quiet_cleanup

lemma keeps_except_andThen:
  "keeps_except P fs iv w (snd r) \<Longrightarrow> (\<And>v. r = (None, v) \<Longrightarrow> keeps_except P fs iv v (snd (f v))) \<Longrightarrow>
     keeps_except P fs iv w (snd (andThen r f))"
  by (cases r; cases "fst r") (auto intro: keeps_except_trans)

lemma sysErr_simps [simp]: "snd (sysErr m r) = snd r" "fst (sysErr m r) = None \<longleftrightarrow> fst r = None"
  "sysErr m r = (None, w) \<longleftrightarrow> r = (None, w)"
  by (auto simp: sysErr_def split: prod.splits option.splits)

section \<open>The contract of a network manager\<close>

text \<open>
  A host whose commands do not touch regular files: \<open>ip\<close>, \<open>sysctl\<close>, \<open>nsenter\<close> and \<open>restorecon\<close>
  change kernel state and labels only.
\<close>

locale ip_host = file_system h iv for h :: "('w, 'z) Host_scheme" and iv +
  assumes exec_keeps: "keeps h iv w (snd (ex_exec h c a w))"
begin

lemma quiet_direct: "quiet h iv (ex_exec h)"
  by (simp add: quiet_def exec_keeps)

lemma quiet_execCommand: "quiet h iv (execCommand h a)"
  by (simp add: quiet_def execCommand_def exec_keeps)

lemma write_keeps: "keeps_except {Clean p} h iv w (snd (fs_WriteFile h p d m w))"
  using write_frame [of p d m w _ _ _ _, OF prod.collapse [symmetric]] write_inv [of w p d m]
  by (simp add: keeps_except_def)

lemma remove_keeps: "keeps_except {Clean p} h iv w (snd (fs_Remove h p w))"
  using remove_frame [of p w _ _ _ _, OF prod.collapse [symmetric]] remove_inv [of w p]
  by (simp add: keeps_except_def)

lemma mkdir_keeps: "keeps h iv w (snd (fs_MkdirAll h p m w))"
  using mkdir_frame [of p m w _ _ _ _, OF prod.collapse [symmetric]] mkdir_inv [of w p m]
  by (simp add: keeps_def)

lemma apply_keeps: "keeps h iv w (snd (Netplan_apply h opts iface target w))"
  unfolding Netplan_apply_def Let_def
  by (auto split: option.splits intro!: keeps_andThen quiet_steps [OF quiet_direct])

lemma RHEL_apply_keeps: "keeps h iv w (snd (RHEL_apply h a iface target w))"
  unfolding RHEL_apply_def Let_def
  by (auto split: sum.splits intro!: keeps_andThen quiet_steps [OF quiet_execCommand])

lemma Netplan_persist_keeps: "keeps_except {Clean (netplanPath t)} h iv w (snd (Netplan_persist h marshal opts iface t w))"
  by (auto simp: Netplan_persist_def write_keeps split: sum.splits)

lemma Netplan_Configure_keeps:
  "keeps_except {Clean (netplanPath (name_value name))} h iv w (snd (Netplan_Configure h marshal opts iface name w))"
  unfolding Netplan_Configure_def
  by (intro keeps_except_andThen keeps_imp_except apply_keeps Netplan_persist_keeps)

lemma Netplan_Rollback_keeps:
  "keeps_except {Clean (netplanPath name)} h iv w (snd (Netplan_Rollback h opts name w))"
  unfolding Netplan_Rollback_def
  by (rule keeps_except_andThen) (auto simp: remove_keeps intro: keeps_imp_except quiet_cleanup [OF quiet_direct])

lemma Netplan_Configure_persists:
  assumes "Netplan_Configure h marshal opts iface name w = (None, w')"
  shows "\<exists>data. marshal (generateNetplanConfig opts iface (name_value name)) = Inr data \<and>
    fs_ReadFile h (netplanPath (name_value name)) w' = Inr data"
  using assms write_read
  by (cases "marshal (generateNetplanConfig opts iface (name_value name))")
     (auto simp: Netplan_Configure_def Netplan_persist_def andThen_ok)

lemma Netplan_Rollback_gone:
  assumes "iv w" "Netplan_Rollback h opts name w = (None, w')"
  shows "fs_ReadFile h (netplanPath name) w' \<noteq> Inr c"
proof -
  let ?p = "netplanPath name"
  obtain v where v: "(if fs_Exists h ?p w then sysErr ''failed to remove configuration file'' (fs_Remove h ?p w) else (None, w)) = (None, v)"
    "w' = cleanupRouting (ex_exec h) opts name v"
    using assms(2) by (auto simp: Netplan_Rollback_def andThen_ok)
  have "fs_ReadFile h ?p v \<noteq> Inr c"
    using v(1) removed_unreadable [OF assms(1)] read_exists by (auto split: if_splits)
  then show ?thesis using v(2) quiet_cleanup [OF quiet_direct, of v opts name] by (simp add: keeps_def)
qed

lemma restore_keeps: "keeps h iv w (restoreSELinuxContext h a w)"
proof -
  have "keeps h iv v (restoreDir h a d v)" for d v
    by (simp add: restoreDir_def quiet_attempt [OF quiet_direct])
  then show ?thesis by (auto simp: restoreSELinuxContext_def intro: keeps_trans)
qed

lemma RHEL_persist_keeps:
  "keeps_except {Clean (linkPath n), Clean (nmPath n)} h iv w (snd (RHEL_persist h a iface n w))"
proof -
  let ?P = "{Clean (linkPath n), Clean (nmPath n)}"
  have wr: "keeps_except ?P h iv v (snd (fs_WriteFile h p d m v))" if "Clean p \<in> ?P" for v p d m
    using that by (intro keeps_except_mono [OF write_keeps]) auto
  have mk: "keeps_except ?P h iv v (snd (fs_MkdirAll h p m v))" for v p m
    by (intro keeps_imp_except mkdir_keeps)
  let ?w2 = "snd (fs_MkdirAll h NetworkManagerDir 493 (snd (fs_MkdirAll h SystemdNetworkDir 493 w)))"
  have "keeps_except ?P h iv ?w2 (snd (RHEL_persist h a iface n w))"
    unfolding RHEL_persist_def Let_def
    by (intro keeps_except_andThen) (auto intro: wr keeps_imp_except [OF restore_keeps])
  then show ?thesis using keeps_except_trans [OF keeps_except_trans [OF mk mk]] by blast
qed

lemma RHEL_Configure_keeps:
  "keeps_except {Clean (linkPath (name_value name)), Clean (nmPath (name_value name))} h iv w (snd (RHEL_Configure h a iface name w))"
  unfolding RHEL_Configure_def
  by (intro keeps_except_andThen keeps_imp_except RHEL_apply_keeps RHEL_persist_keeps)

lemma RHEL_Rollback_keeps:
  "keeps_except {Clean (linkPath n), Clean (nmPath n)} h iv w (snd (RHEL_Rollback h a n w))"
proof -
  let ?P = "{Clean (linkPath n), Clean (nmPath n)}"
  have "keeps_except ?P h iv v (snd (fs_Remove h p v))" if "Clean p \<in> ?P" for v p
    using that by (intro keeps_except_mono [OF remove_keeps]) auto
  then show ?thesis unfolding RHEL_Rollback_def Let_def RHEL_helpers
    using keeps_except_trans keeps_imp_except [OF quiet_cleanup [OF quiet_execCommand]] by (metis insertCI snd_conv)
qed

lemma RHEL_Configure_persists:
  assumes "RHEL_Configure h a iface name w = (None, w')" "Clean (linkPath (name_value name)) \<noteq> Clean (nmPath (name_value name))"
  shows "fs_ReadFile h (linkPath (name_value name)) w' = Inr (linkContent (MacAddress iface) (name_value name)) \<and>
    fs_ReadFile h (nmPath (name_value name)) w' = Inr (generateNMConnection (ra_opts a) iface (name_value name))"
proof -
  let ?n = "name_value name"
  obtain v w3 w4 where w3: "fs_WriteFile h (linkPath ?n) (linkContent (MacAddress iface) ?n) 420 v = (None, w3)"
    and w4: "fs_WriteFile h (nmPath ?n) (generateNMConnection (ra_opts a) iface ?n) 384 w3 = (None, w4)"
    and w': "w' = restoreSELinuxContext h a w4"
    using assms(1) by (auto simp: RHEL_Configure_def RHEL_persist_def Let_def andThen_ok)
  then show ?thesis
    using write_read [OF w3] write_read [OF w4] write_frame [OF w4 assms(2)] restore_keeps [of w4 a]
    by (simp add: keeps_def)
qed

end

text \<open>
  What the use cases may assume of a network manager: configuring or rolling back a name
  touches no file but those the name owns.
\<close>

locale network_manager =
  fixes h :: "('w, 'z) FileSystem_scheme"
    and iv :: "'w \<Rightarrow> bool"
    and nm :: "'w NetworkManager"
    and owns :: "string \<Rightarrow> string set"
  assumes configure_frame: "keeps_except (owns (name_value name)) h iv w (snd (nm_Configure nm iface name w))"
    and rollback_frame: "keeps_except (owns n) h iv w (snd (nm_Rollback nm n w))"
begin

lemma rollback_all_frame:
  "keeps_except (\<Union>n \<in> set ns. owns n) h iv w (foldl (\<lambda>w n. snd (nm_Rollback nm n w)) w ns)"
proof (induction ns arbitrary: w)
  case (Cons n ns)
  have "keeps_except (\<Union>k \<in> set (n # ns). owns k) h iv w (snd (nm_Rollback nm n w))"
    by (rule keeps_except_mono [OF rollback_frame]) auto
  moreover have "keeps_except (\<Union>k \<in> set (n # ns). owns k) h iv (snd (nm_Rollback nm n w))
      (foldl (\<lambda>w n. snd (nm_Rollback nm n w)) (snd (nm_Rollback nm n w)) ns)"
    by (rule keeps_except_mono [OF Cons.IH]) auto
  ultimately show ?case using keeps_except_trans by fastforce
qed simp

end

sublocale ip_host \<subseteq> netplan: network_manager h iv "NetplanAdapter h marshal opts" "\<lambda>n. {Clean (netplanPath n)}" for marshal opts
  by unfold_locales (simp_all add: NetplanAdapter_def Netplan_Configure_keeps Netplan_Rollback_keeps)

sublocale ip_host \<subseteq> rhel: network_manager h iv "RHELAdapter_manager h a" "\<lambda>n. {Clean (linkPath n), Clean (nmPath n)}" for a
  by unfold_locales (simp_all add: RHELAdapter_manager_def RHEL_Configure_keeps RHEL_Rollback_keeps)

interpretation sh: ip_host "RealHost (scripted answer)" os_inv
  by unfold_locales (simp add: keeps_def RealHost_def scripted_def os_ReadFile_ok os_inv_def)

section \<open>The paths of the configuration files\<close>

lemma Itoa_chars: "c \<in> set (Itoa i) \<Longrightarrow> is_digit c \<or> c = CHR ''-''"
  by (auto simp: Itoa_def dest: set_utoa_digit split: if_splits)

definition config_file :: "string \<Rightarrow> string \<Rightarrow> string" where
  "config_file name ext = ''9'' @ Itoa (extractInterfaceIndex name) @ ''-'' @ name @ ext"

lemma config_file_plain: "CHR ''/'' \<notin> set name \<Longrightarrow> CHR ''/'' \<notin> set ext \<Longrightarrow> plain (config_file name ext)"
  using Itoa_chars [of "CHR ''/''" "extractInterfaceIndex name"] by (auto simp: plain_def config_file_def)

lemma config_paths:
  assumes "CHR ''/'' \<notin> set n"
  shows "netplanPath n = CHR ''/'' # Join [''etc'', ''netplan'', config_file n ''.yaml''] ''/''"
    "linkPath n = CHR ''/'' # Join [''etc'', ''systemd'', ''network'', config_file n ''.link''] ''/''"
    "nmPath n = CHR ''/'' # Join [''etc'', ''NetworkManager'', ''system-connections'', config_file n ''.nmconnection''] ''/''"
proof -
  have d: "NetplanConfigDir = CHR ''/'' # Join [''etc'', ''netplan''] ''/''"
    "SystemdNetworkDir = CHR ''/'' # Join [''etc'', ''systemd'', ''network''] ''/''"
    "NetworkManagerDir = CHR ''/'' # Join [''etc'', ''NetworkManager'', ''system-connections''] ''/''"
    by (simp_all add: path_defs)
  have j: "list_all plain ds \<Longrightarrow> ds \<noteq> [] \<Longrightarrow> CHR ''/'' \<notin> set e \<Longrightarrow>
      path_Join [CHR ''/'' # Join ds ''/'', config_file n e] = CHR ''/'' # Join (ds @ [config_file n e]) ''/''" for ds e
    using path_Join_plain config_file_plain [OF assms] by blast
  show "netplanPath n = CHR ''/'' # Join [''etc'', ''netplan'', config_file n ''.yaml''] ''/''"
    unfolding netplanPath_def d config_file_def [symmetric] by (subst j) (simp_all add: plain_def)
  show "linkPath n = CHR ''/'' # Join [''etc'', ''systemd'', ''network'', config_file n ''.link''] ''/''"
    unfolding linkPath_def extractIndexRHEL_eq d config_file_def [symmetric] by (subst j) (simp_all add: plain_def)
  show "nmPath n = CHR ''/'' # Join [''etc'', ''NetworkManager'', ''system-connections'', config_file n ''.nmconnection''] ''/''"
    unfolding nmPath_def extractIndexRHEL_eq d config_file_def [symmetric] by (subst j) (simp_all add: plain_def)
qed

lemma Clean_config_paths:
  assumes "CHR ''/'' \<notin> set n"
  shows "Clean (netplanPath n) = netplanPath n" "Clean (linkPath n) = linkPath n" "Clean (nmPath n) = nmPath n"
  unfolding config_paths [OF assms] using config_file_plain [OF assms]
  by (intro Clean_plain; simp add: plain_def)+

text \<open>A valid interface name has no slash and no dot, and its index is the one it carries.\<close>

lemma valid_name_chars:
  assumes "NewInterfaceName n = Inr en"
  shows "CHR ''/'' \<notin> set n" "CHR ''.'' \<notin> set n"
proof -
  obtain ds where n: "n = ''multinic'' @ ds" "list_all is_digit ds"
    using assms by (auto simp: NewInterfaceName_ok InterfacePrefix_def)
  then have "CHR ''/'' \<notin> set ds" "CHR ''.'' \<notin> set ds" using not_digit_sign by (auto simp: list_all_iff)
  then show "CHR ''/'' \<notin> set n" "CHR ''.'' \<notin> set n" using n by auto
qed

lemma extractInterfaceIndex_valid:
  assumes "NewInterfaceName n = Inr en"
  shows "extractInterfaceIndex n = name_index en"
proof -
  obtain ds where ds: "n = InterfacePrefix @ ds" "ds \<noteq> []" "list_all is_digit ds" "dec_val ds < 10" "name_index en = int (dec_val ds)"
    using assms by (auto simp: NewInterfaceName_ok)
  then have "in_int64 (int (dec_val ds))" by (intro in_int64_small) simp
  then show ?thesis using ds by (simp add: extractInterfaceIndex_def Atoi_digits)
qed

lemma one_dot_safe: "CHR ''.'' \<notin> set a \<Longrightarrow> CHR ''.'' \<notin> set b \<Longrightarrow> \<not> Contains (a @ CHR ''.'' # b) ''..''"
proof
  assume ab: "CHR ''.'' \<notin> set a" "CHR ''.'' \<notin> set b" and "Contains (a @ CHR ''.'' # b) ''..''"
  then obtain x y where "a @ CHR ''.'' # b = x @ ''..'' @ y" by (auto simp: Contains_iff)
  then have "count_list (a @ CHR ''.'' # b) (CHR ''.'') = count_list (x @ ''..'' @ y) (CHR ''.'')" by simp
  moreover have "count_list (a @ CHR ''.'' # b) (CHR ''.'') = 1"
    using ab by (simp add: count_list_0_iff [THEN iffD2])
  ultimately show False by simp
qed

lemma config_file_dot:
  assumes "CHR ''.'' \<notin> set n"
  shows "CHR ''.'' \<notin> set (''9'' @ Itoa (extractInterfaceIndex n) @ ''-'' @ n)"
  using Itoa_chars [of "CHR ''.''" "extractInterfaceIndex n"] assms by auto

lemma config_path_safe:
  assumes "NewInterfaceName n = Inr en" "list_all plain ds" "ds \<noteq> []" "\<forall>d \<in> set ds. CHR ''.'' \<notin> set d"
    and "e = CHR ''.'' # e'" "CHR ''.'' \<notin> set e'" "CHR ''/'' \<notin> set e'"
    and "list_ex (HasPrefix (CHR ''/'' # Join (ds @ [config_file n e]) ''/'')) allowed_roots"
  shows "isSafeConfigPath (CHR ''/'' # Join (ds @ [config_file n e]) ''/'')"
proof -
  let ?p = "CHR ''/'' # Join (ds @ [config_file n e]) ''/''"
  have "plain (config_file n e)" using valid_name_chars [OF assms(1)] assms(5,7) by (intro config_file_plain) auto
  then have c: "Clean ?p = ?p" using assms(2) by (intro Clean_plain) simp
  have dj: "CHR ''.'' \<notin> set (Join ds ''/'')" using assms(4) by (induction ds rule: induct_list012) auto
  have "?p = (CHR ''/'' # Join ds ''/'' @ ''/'' @ ''9'' @ Itoa (extractInterfaceIndex n) @ ''-'' @ n) @ CHR ''.'' # e'"
    using assms(3,5) by (simp add: Join_snoc config_file_def)
  moreover have "CHR ''.'' \<notin> set (CHR ''/'' # Join ds ''/'' @ ''/'' @ ''9'' @ Itoa (extractInterfaceIndex n) @ ''-'' @ n)"
    using config_file_dot [OF valid_name_chars(2) [OF assms(1)]] dj by auto
  ultimately have "\<not> Contains ?p ''..''" using one_dot_safe assms(6) by metis
  then show ?thesis using c assms(8) by (simp add: isSafeConfigPath_def IsAbs_def HasPrefix_def del: Contains.simps)
qed

lemma config_paths_allowed:
  assumes "NewInterfaceName n = Inr en"
  shows "isSafeConfigPath (netplanPath n)" "isSafeConfigPath (linkPath n)" "isSafeConfigPath (nmPath n)"
proof -
  note v = valid_name_chars(1) [OF assms]
  have p: "HasPrefix (CHR ''/'' # Join (ds @ [f]) ''/'') (CHR ''/'' # Join ds ''/'')" if "ds \<noteq> []" for ds f
    using that by (simp add: Join_snoc HasPrefix_def)
  have "isSafeConfigPath (CHR ''/'' # Join ([''etc'', ''netplan''] @ [config_file n ''.yaml'']) ''/'')"
    using p [of "[''etc'', ''netplan'']"]
    by (intro config_path_safe [OF assms, where e' = "''yaml''"]) (auto simp: plain_def allowed_roots_def path_defs)
  then show "isSafeConfigPath (netplanPath n)" unfolding config_paths [OF v] by simp
  have "isSafeConfigPath (CHR ''/'' # Join ([''etc'', ''systemd'', ''network''] @ [config_file n ''.link'']) ''/'')"
    using p [of "[''etc'', ''systemd'', ''network'']"]
    by (intro config_path_safe [OF assms, where e' = "''link''"]) (auto simp: plain_def allowed_roots_def path_defs)
  then show "isSafeConfigPath (linkPath n)" unfolding config_paths [OF v] by simp
  have "isSafeConfigPath (CHR ''/'' # Join ([''etc'', ''NetworkManager'', ''system-connections''] @ [config_file n ''.nmconnection'']) ''/'')"
    using p [of "[''etc'', ''NetworkManager'', ''system-connections'']"]
    by (intro config_path_safe [OF assms, where e' = "''nmconnection''"]) (auto simp: plain_def allowed_roots_def path_defs)
  then show "isSafeConfigPath (nmPath n)" unfolding config_paths [OF v] by simp
qed

section \<open>Properties\<close>

text \<open>
  C27: the files the adapters write are ones the file system adapter accepts: for every valid
  interface name the Netplan, the link and the NetworkManager path pass the safety check, and
  the routing table is the base plus the index the name carries.
\<close>

theorem config_paths_safe:
  assumes "NewInterfaceName n = Inr en"
  shows "isSafeConfigPath (netplanPath n) \<and> isSafeConfigPath (linkPath n) \<and> isSafeConfigPath (nmPath n) \<and>
    routingTable opts n = RoutingTableBase opts + name_index en"
  using config_paths_allowed [OF assms] extractInterfaceIndex_valid [OF assms] by (simp add: routingTable_def)

theorem config_paths_safe_witness:
  "isSafeConfigPath (netplanPath ''multinic3'') \<and> routingTable DefaultOptions ''multinic3'' = 103"
proof -
  have "NewInterfaceName ''multinic3'' = Inr \<lparr>name_value = ''multinic3'', name_index = 3\<rparr>" by code_simp
  from config_paths_safe [OF this, of DefaultOptions] show ?thesis by (simp add: DefaultOptions_def)
qed

text \<open>
  C15: rolling back undoes configuring, on Ubuntu. On a host whose commands do not touch
  files: after a successful \<open>Configure\<close> the interface's Netplan file holds the encoded
  configuration; after a successful \<open>Rollback\<close> it is gone; and no other file has changed in
  either step.
\<close>

theorem Netplan_configure_rollback:
  assumes "os_inv w"
    and conf: "Netplan_Configure (RealHost (scripted answer)) marshal opts iface name w = (None, w1)"
    and roll: "Netplan_Rollback (RealHost (scripted answer)) opts (name_value name) w1 = (None, w2)"
    and other: "Clean q \<noteq> Clean (netplanPath (name_value name))"
  shows "(\<exists>data. marshal (generateNetplanConfig opts iface (name_value name)) = Inr data \<and>
      os_ReadFile (netplanPath (name_value name)) w1 = Inr data) \<and>
    os_ReadFile (netplanPath (name_value name)) w2 \<noteq> Inr c \<and>
    (os_ReadFile q w1 = Inr c \<longleftrightarrow> os_ReadFile q w = Inr c) \<and> (os_ReadFile q w2 = Inr c \<longleftrightarrow> os_ReadFile q w = Inr c)"
proof -
  let ?h = "RealHost (scripted answer)"
  have r [simp]: "fs_ReadFile ?h = os_ReadFile" by (simp add: RealHost_def)
  have k1: "keeps_except {Clean (netplanPath (name_value name))} ?h os_inv w w1"
    using sh.Netplan_Configure_keeps [where answer = answer and name = name and w = w and marshal = marshal and opts = opts and iface = iface] conf by simp
  have k2: "keeps_except {Clean (netplanPath (name_value name))} ?h os_inv w1 w2"
    using sh.Netplan_Rollback_keeps [where answer = answer and name = "name_value name" and w = w1 and opts = opts] roll by simp
  have "os_inv w1" using k1 assms(1) by (simp add: keeps_except_def)
  then show ?thesis
    using sh.Netplan_Configure_persists [OF conf] sh.Netplan_Rollback_gone [OF _ roll, where c = c] k1 k2 other
    by (simp add: keeps_except_def)
qed

theorem Netplan_configure_rollback_witness:
  "\<exists>w1 w2. os_ReadFile (netplanPath ''multinic1'') w1 = Inr ''yaml'' \<and> os_ReadFile (netplanPath ''multinic1'') w2 \<noteq> Inr ''yaml''"
proof -
  let ?answer = "\<lambda>c a s. Inr (if a = [''-o'', ''link'', ''show'']
    then ''2: ens4: <BROADCAST,MULTICAST> mtu 1500 state DOWN link/ether fa:16:3e:00:00:01 brd ff:ff:ff:ff:ff:ff'' else [])"
  let ?h = "RealHost (scripted ?answer)" and ?m = "\<lambda>y. Inr ''yaml''"
  let ?i = "example_iface 1 ''fa:16:3e:00:00:01'' [250, 22, 62, 0, 0, 1] False"
  let ?n = "\<lparr>name_value = ''multinic1'', name_index = 1\<rparr>"
  obtain r1 w1 where c: "Netplan_Configure ?h ?m DefaultOptions ?i ?n fresh_os = (r1, w1)" by fastforce
  have "fst (Netplan_Configure ?h ?m DefaultOptions ?i ?n fresh_os) = None" by code_simp
  with c have r1: "r1 = None" by simp
  obtain r2 w2 where d: "Netplan_Rollback ?h DefaultOptions ''multinic1'' w1 = (r2, w2)" by fastforce
  have "fst (Netplan_Rollback ?h DefaultOptions ''multinic1'' (snd (Netplan_Configure ?h ?m DefaultOptions ?i ?n fresh_os))) = None"
    by code_simp
  with c d have r2: "r2 = None" by simp
  have "os_inv fresh_os" by (simp add: os_inv_def fresh_os_def)
  moreover have "Clean ''/etc/hosts'' \<noteq> Clean (netplanPath ''multinic1'')" by code_simp
  ultimately show ?thesis
    using Netplan_configure_rollback [of fresh_os ?answer ?m DefaultOptions ?i ?n w1 w2 "''/etc/hosts''" "''yaml''"] c d r1 r2 by auto
qed

text \<open>
  The commands of a run-time apply with the default options, on a host where every command
  succeeds: those of the policy routing, those of the sysctls, and all of them.
\<close>

definition routing_commands :: "NetworkInterface \<Rightarrow> string \<Rightarrow> (string \<times> string list) list" where
  "routing_commands iface target =
     (let table = Itoa (100 + extractInterfaceIndex target)
      in [(''ip'', [''route'', ''del'', CIDR_of iface, ''dev'', target]),
          (''ip'', [''rule'', ''del'', ''from'', Address iface @ ''/32'', ''table'', table]),
          (''ip'', [''rule'', ''add'', ''from'', Address iface @ ''/32'', ''table'', table]),
          (''ip'', [''route'', ''replace'', CIDR_of iface, ''dev'', target, ''table'', table, ''metric'', table, ''src'', Address iface])])"

definition sysctl_commands :: "string \<Rightarrow> (string \<times> string list) list" where
  "sysctl_commands target =
     [(''sysctl'', [''-w'', ''net.ipv4.conf.'' @ target @ ''.rp_filter=2'']),
      (''sysctl'', [''-w'', ''net.ipv4.conf.'' @ target @ ''.arp_ignore=1'']),
      (''sysctl'', [''-w'', ''net.ipv4.conf.'' @ target @ ''.arp_announce=2''])]"

definition runtime_commands :: "NetworkInterface \<Rightarrow> string \<Rightarrow> string \<Rightarrow> string \<Rightarrow> (string \<times> string list) list" where
  "runtime_commands iface cur target plen =
     (if cur = target then [] else [(''ip'', [''link'', ''set'', cur, ''name'', target])]) @
     [(''ip'', [''link'', ''set'', target, ''mtu'', Itoa (MTU_of iface)]),
      (''ip'', [''addr'', ''replace'', Address iface @ ''/'' @ plen, ''dev'', target, ''noprefixroute'']),
      (''ip'', [''link'', ''set'', target, ''up''])] @
     routing_commands iface target @ sysctl_commands target"

abbreviation willing :: "(string \<Rightarrow> string list \<Rightarrow> os_state \<Rightarrow> string) \<Rightarrow> os_state Host" where
  "willing out \<equiv> RealHost (scripted (\<lambda>c a s. Inr (out c a s)))"

lemma willing_exec: "ex_exec (willing out) c a s = (Inr (out c a s), s\<lparr>os_log := os_log s @ [(c, a)]\<rparr>)"
  by (simp add: RealHost_def scripted_def)

lemma willing_steps:
  "must (ex_exec (willing out)) mk c a s = (None, s\<lparr>os_log := os_log s @ [(c, a)]\<rparr>)"
  "attempt (ex_exec (willing out)) c a s = s\<lparr>os_log := os_log s @ [(c, a)]\<rparr>"
  by (simp_all add: must_def attempt_def willing_exec)

lemma willing_routing:
  "wf_interface iface \<Longrightarrow> applyPolicyRouting (ex_exec (willing out)) DefaultOptions iface target s =
     (None, s\<lparr>os_log := os_log s @ routing_commands iface target\<rparr>)"
  using wf_Address [of iface]
  by (auto simp: applyPolicyRouting_def Let_def DefaultOptions_def routingTable_def routeMetric_def routing_commands_def
      willing_exec willing_steps elim!: wf_CIDR)

lemma willing_sysctls:
  "applySysctls (ex_exec (willing out)) DefaultOptions target s = s\<lparr>os_log := os_log s @ sysctl_commands target\<rparr>"
  by (simp add: applySysctls_def setSysctl_def DefaultOptions_def sysctl_commands_def willing_steps)

text \<open>
  C33: the commands of a run-time apply on Ubuntu. When the device is found and every command
  succeeds, \<open>Configure\<close> with the default options renames the device if its name differs, then
  sets the MTU, the address, and the link state, installs the rule and route of the
  interface's own table, and hardens its sysctls: exactly these commands, in this order, and
  no file is written before they are done.
\<close>

theorem Netplan_apply_trace:
  assumes wf: "wf_interface iface"
    and found: "findInterfaceByMAC (RealHost (scripted (\<lambda>c a s. Inr (out c a s)))) (MacAddress iface) w = Some (cur, up)"
      "TrimSpace cur \<noteq> []"
  shows "\<exists>pre plen. CIDR_of iface = pre @ ''/'' @ plen \<and> list_all is_digit plen \<and>
    Netplan_apply (RealHost (scripted (\<lambda>c a s. Inr (out c a s)))) DefaultOptions iface target w =
      (None, w\<lparr>os_log := os_log w @ runtime_commands iface cur target plen\<rparr>)"
proof -
  obtain pre plen where c: "CIDR_of iface = pre @ ''/'' @ plen" "list_all is_digit plen"
    "Split (CIDR_of iface) (CHR ''/'') = [pre, plen]" "TrimSpace (CIDR_of iface) = CIDR_of iface" "CIDR_of iface \<noteq> []"
    using wf_CIDR [OF wf] by metis
  let ?exec = "ex_exec (willing out)"
  have ren: "netplan_rename ?exec cur up target w =
      (None, w\<lparr>os_log := os_log w @ (if cur = target then [] else [(''ip'', [''link'', ''set'', cur, ''name'', target])])\<rparr>)"
    by (auto simp: netplan_rename_def willing_exec)
  have mtu: "setMTU ?exec m iface target s = (None, s\<lparr>os_log := os_log s @ [(''ip'', [''link'', ''set'', target, ''mtu'', Itoa (MTU_of iface)])]\<rparr>)" for m s
    using wf_interface_bounds(3) [OF wf] by (simp add: setMTU_def willing_steps)
  have addr: "netplan_address ?exec DefaultOptions m iface target s = (None, s\<lparr>os_log := os_log s @
      [(''ip'', [''addr'', ''replace'', Address iface @ ''/'' @ plen, ''dev'', target, ''noprefixroute''])]\<rparr>)" for m s
    using wf_Address [OF wf] c by (simp add: netplan_address_def Let_def DefaultOptions_def willing_steps)
  have "EnablePolicyRouting DefaultOptions" by (simp add: DefaultOptions_def)
  then show ?thesis
    using found c(1,2) by (auto simp: Netplan_apply_def Let_def ren mtu addr willing_steps willing_routing [OF wf]
        willing_sysctls runtime_commands_def)
qed

theorem Netplan_apply_trace_witness:
  "os_log (snd (Netplan_apply (RealHost (scripted (\<lambda>c a s.
      Inr ''2: ens4: <BROADCAST,MULTICAST> mtu 1500 state DOWN link/ether fa:16:3e:00:00:01 brd ff:ff:ff:ff:ff:ff'')))
     DefaultOptions (example_iface 1 ''fa:16:3e:00:00:01'' [250, 22, 62, 0, 0, 1] False) ''multinic1'' fresh_os)) \<noteq> []"
proof -
  let ?out = "\<lambda>(c :: string) (a :: string list) (s :: os_state).
    ''2: ens4: <BROADCAST,MULTICAST> mtu 1500 state DOWN link/ether fa:16:3e:00:00:01 brd ff:ff:ff:ff:ff:ff''"
  let ?i = "example_iface 1 ''fa:16:3e:00:00:01'' [250, 22, 62, 0, 0, 1] False"
  have "ParseMAC ''fa:16:3e:00:00:01'' = Some [250, 22, 62, 0, 0, 1]" by code_simp
  then have wf: "wf_interface ?i" by (rule wf_example_iface) simp_all
  have f: "findInterfaceByMAC (willing ?out) (MacAddress ?i) fresh_os = Some (''ens4'', False)" by code_simp
  have t: "TrimSpace ''ens4'' \<noteq> []" by code_simp
  show ?thesis using Netplan_apply_trace [of ?i ?out, OF wf f t, of "''multinic1''"] by (auto simp: runtime_commands_def)
qed

lemma rhel_paths_differ:
  assumes "NewInterfaceName n = Inr en"
  shows "Clean (linkPath n) \<noteq> Clean (nmPath n)"
proof -
  note v = valid_name_chars(1) [OF assms]
  show ?thesis unfolding Clean_config_paths [OF v] unfolding config_paths [OF v] by simp
qed

text \<open>
  C32: what a successful \<open>Configure\<close> leaves on RHEL. On a host whose commands do not touch
  files, for a valid name, the link file maps the lower case hardware address to the name,
  the NetworkManager profile is the generated one, no other file has changed, and the
  validation that follows fails only when \<open>ip link show\<close> does.
\<close>

theorem RHEL_Configure_result:
  assumes name: "NewInterfaceName (name_value name) = Inr name"
    and conf: "RHEL_Configure (RealHost (scripted answer)) a iface name w = (None, w')"
  shows "os_ReadFile (linkPath (name_value name)) w' = Inr (linkContent (MacAddress iface) (name_value name)) \<and>
    os_ReadFile (nmPath (name_value name)) w' = Inr (generateNMConnection (ra_opts a) iface (name_value name)) \<and>
    (\<forall>q c. Clean q \<notin> {linkPath (name_value name), nmPath (name_value name)} \<longrightarrow> (os_ReadFile q w' = Inr c \<longleftrightarrow> os_ReadFile q w = Inr c)) \<and>
    (RHEL_Validate (RealHost (scripted answer)) a name w' = None \<longleftrightarrow>
       is_ok (fst (execCommand (RealHost (scripted answer)) a ''ip'' [''link'', ''show'', name_value name] w')))"
proof -
  let ?h = "RealHost (scripted answer)" and ?n = "name_value name"
  have r [simp]: "fs_ReadFile ?h = os_ReadFile" by (simp add: RealHost_def)
  have p: "os_ReadFile (linkPath ?n) w' = Inr (linkContent (MacAddress iface) ?n)"
    "os_ReadFile (nmPath ?n) w' = Inr (generateNMConnection (ra_opts a) iface ?n)"
    using sh.RHEL_Configure_persists [OF conf rhel_paths_differ [OF name]] by simp_all
  then have e: "fs_Exists ?h (linkPath ?n) w'" "fs_Exists ?h (nmPath ?n) w'"
    using rhost.read_exists [where ex = "scripted answer" and w = w'] by simp_all
  have k: "keeps_except {Clean (linkPath ?n), Clean (nmPath ?n)} ?h os_inv w w'"
    using sh.RHEL_Configure_keeps [where answer = answer and name = name and w = w and a = a and iface = iface] conf by simp
  have "RHEL_Validate ?h a name w' = None \<longleftrightarrow> is_ok (fst (execCommand ?h a ''ip'' [''link'', ''show'', ?n] w'))"
    using e by (auto simp: RHEL_Validate_def Let_def is_ok_def netErr_def split: sum.splits)
  then show ?thesis using p k Clean_config_paths [OF valid_name_chars(1) [OF name]] by (simp add: keeps_except_def)
qed

theorem RHEL_Configure_result_witness:
  "\<exists>w'. os_ReadFile (linkPath ''multinic1'') w' = Inr (linkContent ''fa:16:3e:00:00:01'' ''multinic1'')"
proof -
  let ?answer = "\<lambda>c a s. Inr (''2: ens4: <BROADCAST,MULTICAST> mtu 1500 state DOWN'' @ NL # ''    link/ether fa:16:3e:00:00:01 brd ff:ff:ff:ff:ff:ff'')"
  let ?a = "\<lparr>ra_isContainer = True, ra_enableSELinuxRestore = True, ra_opts = DefaultOptions\<lparr>EnablePolicyRouting := False\<rparr>\<rparr>"
  let ?i = "example_iface 1 ''fa:16:3e:00:00:01'' [250, 22, 62, 0, 0, 1] False"
  let ?n = "\<lparr>name_value = ''multinic1'', name_index = 1\<rparr>"
  obtain r w' where c: "RHEL_Configure (RealHost (scripted ?answer)) ?a ?i ?n fresh_os = (r, w')" by fastforce
  have "fst (RHEL_Configure (RealHost (scripted ?answer)) ?a ?i ?n fresh_os) = None" by code_simp
  with c have r: "r = None" by simp
  have "NewInterfaceName (name_value ?n) = Inr ?n" by code_simp
  from RHEL_Configure_result [OF this c [unfolded r]] show ?thesis by (auto simp: example_iface_def MacAddress_def)
qed

text \<open>
  A rollback on RHEL reports success even when the files could not be removed: there is a
  consistent system on which the profile is still there after a rollback without error.
\<close>

theorem RHEL_Rollback_hides_failure:
  "\<exists>s. os_inv s \<and> (case RHEL_Rollback (RealHost (scripted (\<lambda>c a s. Inr [])))
       \<lparr>ra_isContainer = True, ra_enableSELinuxRestore = False, ra_opts = DefaultOptions\<rparr> ''multinic1'' s of
       (err, s') \<Rightarrow> err = None \<and> os_ReadFile (nmPath ''multinic1'') s' = Inr ''profile'')"
proof
  let ?s = "\<lparr>os_files = [(nmPath ''multinic1'', ''profile'')], os_dirs = [''/''],
    os_fault = (\<lambda>oper p. if oper = ''remove'' then Some (PlainError ''read-only file system'') else None), os_log = []\<rparr>"
  have "nmPath ''multinic1'' \<noteq> ''/''" by code_simp
  then have "os_inv ?s" by (simp add: os_inv_def)
  moreover have "case RHEL_Rollback (RealHost (scripted (\<lambda>c a s. Inr [])))
       \<lparr>ra_isContainer = True, ra_enableSELinuxRestore = False, ra_opts = DefaultOptions\<rparr> ''multinic1'' ?s of
       (err, s') \<Rightarrow> err = None \<and> os_ReadFile (nmPath ''multinic1'') s' = Inr ''profile''"
    by code_simp
  ultimately show "os_inv ?s \<and> (case RHEL_Rollback (RealHost (scripted (\<lambda>c a s. Inr [])))
       \<lparr>ra_isContainer = True, ra_enableSELinuxRestore = False, ra_opts = DefaultOptions\<rparr> ''multinic1'' ?s of
       (err, s') \<Rightarrow> err = None \<and> os_ReadFile (nmPath ''multinic1'') s' = Inr ''profile'')" ..
qed

end
