(* ===== verification/Drift.thy ===== *)
theory Drift
  imports Network
begin

text \<open>
  \<open>internal/domain/services/drift_detector.go\<close>: whether the configuration file of an
  interface still says what the node's record says. The YAML decoder is a parameter that
  yields the decoded structure; the entries of its map of ethernets come in the order the
  runtime iterates them. Metrics and logging are left out.
\<close>

section \<open>Data\<close>

record Ethernet =
  eth_DHCP4 :: bool
  eth_MTU :: int
  eth_Addresses :: "string list"
  eth_MACAddress :: string
  eth_SetName :: string

record NetplanYAML =
  np_Ethernets :: "(string \<times> Ethernet) list"
  np_Version :: int

record netplanFileConfig =
  nf_macAddress :: string
  nf_address :: string
  nf_cidr :: string
  nf_mtu :: int
  nf_hasAddresses :: bool

record ifcfgFileConfig =
  if_macAddress :: string
  if_ipAddress :: string
  if_prefix :: string
  if_mtu :: int

type_synonym decoder = "string \<Rightarrow> (go_error, NetplanYAML) result"

section \<open>Reading the files\<close>

definition extractNetplanConfig :: "NetplanYAML \<Rightarrow> netplanFileConfig" where
  "extractNetplanConfig np =
     (case np_Ethernets np of
        [] \<Rightarrow> \<lparr>nf_macAddress = [], nf_address = [], nf_cidr = [], nf_mtu = 0, nf_hasAddresses = False\<rparr>
      | (_, eth) # _ \<Rightarrow>
          (case eth_Addresses eth of
             [] \<Rightarrow> \<lparr>nf_macAddress = eth_MACAddress eth, nf_address = [], nf_cidr = [], nf_mtu = eth_MTU eth, nf_hasAddresses = False\<rparr>
           | a # _ \<Rightarrow>
               (case ParseCIDR a of
                  Some (ip, ipNet) \<Rightarrow> \<lparr>nf_macAddress = eth_MACAddress eth, nf_address = IP_String ip, nf_cidr = IPNet_String ipNet,
                    nf_mtu = eth_MTU eth, nf_hasAddresses = True\<rparr>
                | None \<Rightarrow> \<lparr>nf_macAddress = eth_MACAddress eth, nf_address = a, nf_cidr = [], nf_mtu = eth_MTU eth, nf_hasAddresses = True\<rparr>)))"

definition checkConfigDrift :: "NetworkInterface \<Rightarrow> netplanFileConfig \<Rightarrow> bool" where
  "checkConfigDrift dbIface fc \<longleftrightarrow>
     (\<not> nf_hasAddresses fc \<and> Address dbIface \<noteq> []) \<or> Address dbIface \<noteq> nf_address fc \<or>
     CIDR_of dbIface \<noteq> nf_cidr fc \<or> MTU_of dbIface \<noteq> nf_mtu fc"

definition extractInterfaceNameFromPath :: "string \<Rightarrow> string" where
  "extractInterfaceNameFromPath configPath =
     (let fileName = Base configPath; parts = Split (TrimSuffix fileName ''.yaml'') (CHR ''-'')
      in if HasSuffix fileName ''.yaml'' \<and> Contains fileName ''-'' \<and> 2 \<le> length parts then last parts
         else if HasPrefix fileName ''ifcfg-'' then TrimPrefix fileName ''ifcfg-''
         else [])"

definition ifcfg_line :: "ifcfgFileConfig \<Rightarrow> string \<Rightarrow> ifcfgFileConfig" where
  "ifcfg_line cfg text =
     (let line = TrimSpace text; parts = SplitN line (CHR ''='') 2
      in if line = [] \<or> HasPrefix line ''#'' \<or> length parts \<noteq> 2 then cfg
         else let key = TrimSpace (parts ! 0); value = TrimSpace (parts ! 1)
              in if key = ''HWADDR'' then cfg\<lparr>if_macAddress := ToLower value\<rparr>
                 else if key = ''IPADDR'' then cfg\<lparr>if_ipAddress := value\<rparr>
                 else if key = ''PREFIX'' then cfg\<lparr>if_prefix := value\<rparr>
                 else if key = ''MTU'' then (case Atoi value of Some v \<Rightarrow> cfg\<lparr>if_mtu := v\<rparr> | None \<Rightarrow> cfg)
                 else cfg)"

definition parseIfcfgFile :: "string \<Rightarrow> ifcfgFileConfig" where
  "parseIfcfgFile content =
     foldl ifcfg_line \<lparr>if_macAddress = [], if_ipAddress = [], if_prefix = [], if_mtu = 0\<rparr> (scan_lines content)"

definition checkIfcfgDrift :: "NetworkInterface \<Rightarrow> ifcfgFileConfig \<Rightarrow> bool" where
  "checkIfcfgDrift dbIface fc =
     (let parts = Split (CIDR_of dbIface) (CHR ''/'');
          dbPrefix = (if CIDR_of dbIface \<noteq> [] \<and> length parts = 2 then parts ! 1 else [])
      in Address dbIface \<noteq> if_ipAddress fc \<or>
         (dbPrefix \<noteq> [] \<and> if_prefix fc \<noteq> [] \<and> dbPrefix \<noteq> if_prefix fc) \<or> MTU_of dbIface \<noteq> if_mtu fc)"

section \<open>Checking the system\<close>

definition drift_isInterfaceUp :: "('w, 'z) Host_scheme \<Rightarrow> 'w \<Rightarrow> string \<Rightarrow> bool" where
  "drift_isInterfaceUp h w name = (case IsInterfaceUp h w name of Inl _ \<Rightarrow> False | Inr up \<Rightarrow> up)"

definition checkSystemInterfaceDrift :: "('w, 'z) Host_scheme \<Rightarrow> 'w \<Rightarrow> NetworkInterface \<Rightarrow> bool" where
  "checkSystemInterfaceDrift h w dbIface =
     (case FindInterfaceNameByMAC h w (MacAddress dbIface) of
        Inl _ \<Rightarrow> True
      | Inr foundName \<Rightarrow> (if TrimSpace foundName = [] then True else drift_isInterfaceUp h w foundName))"

section \<open>The public operations\<close>

definition IsNetplanDrift :: "('w, 'z) Host_scheme \<Rightarrow> decoder \<Rightarrow> 'w \<Rightarrow> NetworkInterface \<Rightarrow> string \<Rightarrow> bool" where
  "IsNetplanDrift h unmarshal w dbIface configPath =
     (if \<not> fs_Exists h configPath w then True
      else case fs_ReadFile h configPath w of
        Inl _ \<Rightarrow> True
      | Inr content \<Rightarrow>
          (case unmarshal content of
             Inl _ \<Rightarrow> True
           | Inr np \<Rightarrow>
               (let fc = extractNetplanConfig np
                in if nf_macAddress fc \<noteq> MacAddress dbIface then True
                   else if extractInterfaceNameFromPath configPath \<noteq> [] \<and> checkSystemInterfaceDrift h w dbIface then True
                   else checkConfigDrift dbIface fc)))"

definition IsIfcfgDrift :: "('w, 'z) Host_scheme \<Rightarrow> 'w \<Rightarrow> NetworkInterface \<Rightarrow> string \<Rightarrow> bool" where
  "IsIfcfgDrift h w dbIface configPath =
     (case fs_ReadFile h configPath w of
        Inl _ \<Rightarrow> True
      | Inr content \<Rightarrow>
          (let fc = parseIfcfgFile content
           in if if_macAddress fc \<noteq> ToLower (MacAddress dbIface) then True
              else if extractInterfaceNameFromPath configPath \<noteq> [] \<and> checkSystemInterfaceDrift h w dbIface then True
              else checkIfcfgDrift dbIface fc))"

definition FindNetplanFileForInterface :: "('w, 'z) Host_scheme \<Rightarrow> 'w \<Rightarrow> string \<Rightarrow> string \<Rightarrow> string" where
  "FindNetplanFileForInterface h w configDir interfaceName =
     (case fs_ListFiles h configDir w of
        Inl _ \<Rightarrow> []
      | Inr files \<Rightarrow>
          (case find (\<lambda>f. Contains f interfaceName \<and> HasSuffix f ''.yaml'') files of
             None \<Rightarrow> [] | Some f \<Rightarrow> path_Join [configDir, f]))"

definition FindIfcfgFile :: "('w, 'z) Host_scheme \<Rightarrow> 'w \<Rightarrow> string \<Rightarrow> string \<Rightarrow> string" where
  "FindIfcfgFile h w configDir interfaceName =
     (let filePath = path_Join [configDir, ''ifcfg-'' @ interfaceName]
      in if fs_Exists h filePath w then filePath else [])"

section \<open>What the detector reads back\<close>

text \<open>
  A file with the values of an IPv4 record, decoded: only the network can differ from the record,
  since the detector prints the network with its host bits cleared.
\<close>

lemma drift_of_written:
  assumes wf: "wf_interface iface"
    and ip: "Address iface = dotted ib" "length ib = 4"
    and cidr: "CIDR_of iface = dotted nb @ ''/'' @ utoa p" "length nb = 4" "p \<le> 32"
    and np: "np_Ethernets np = [(name, eth)]" "eth_MACAddress eth = MacAddress iface" "eth_MTU eth = MTU_of iface"
      "eth_Addresses eth = [Address iface @ ''/'' @ utoa p]"
  shows "nf_macAddress (extractNetplanConfig np) = MacAddress iface"
    and "checkConfigDrift iface (extractNetplanConfig np) \<longleftrightarrow> map2 (AND) nb (CIDRMask p 4) \<noteq> nb"
proof -
  have net: "cidr_network (ni_cidr iface) = v4_net nb p"
    using wf cidr ParseCIDR_v4 [OF cidr(2,3)] by (auto simp: wf_interface_def NewCIDR_ok)
  have addr: "ip_ip (ni_ipAddress iface) = v4InV6Prefix @ ib"
    using wf ip ParseAddr_dotted [OF ip(2)] by (auto simp: wf_interface_def NewIPAddress_ok ParseIP_def As16_def)
  have "IPNet_Contains (v4_net nb p) (v4InV6Prefix @ ib)"
    using wf net addr by (simp add: wf_interface_def CIDR_Contains_def)
  then have m: "map2 (AND) ib (CIDRMask p 4) = map2 (AND) nb (CIDRMask p 4)"
    using IPNet_Contains_v4 [OF cidr(2) ip(2) cidr(3)] masked_eq_iff [of ib nb p] ip cidr by simp
  have ex: "ParseCIDR (dotted ib @ ''/'' @ utoa p) = Some (v4InV6Prefix @ ib, v4_net ib p)"
    by (rule ParseCIDR_v4 [OF ip(2) cidr(3)])
  have fc: "extractNetplanConfig np =
    \<lparr>nf_macAddress = MacAddress iface, nf_address = Address iface,
      nf_cidr = dotted (map2 (AND) nb (CIDRMask p 4)) @ ''/'' @ utoa p, nf_mtu = MTU_of iface, nf_hasAddresses = True\<rparr>"
    unfolding extractNetplanConfig_def np
    by (simp only: np list.case prod.case ex option.case IP_String_v4(1) [OF ip(2)] IPNet_String_v4 [OF ip(2) cidr(3)] m ip(1))
  then show "nf_macAddress (extractNetplanConfig np) = MacAddress iface" by simp
  show "checkConfigDrift iface (extractNetplanConfig np) \<longleftrightarrow> map2 (AND) nb (CIDRMask p 4) \<noteq> nb"
    using cidr(1) dotted_inject [OF cidr(2), of "map2 (AND) nb (CIDRMask p 4)"] cidr(2) by (simp add: fc checkConfigDrift_def) metis
qed

section \<open>Properties\<close>

text \<open>
  C23: an interface is reported as not drifted only when the file agrees with the record in
  every respect: the file is there, decodes, and carries the record's hardware address,
  address, network and MTU; and, when the file name names an interface, the hardware address
  is on the system and its device is not up.
\<close>

theorem IsNetplanDrift_sound:
  assumes "\<not> IsNetplanDrift h unmarshal w iface path"
  shows "\<exists>content np. fs_ReadFile h path w = Inr content \<and> unmarshal content = Inr np \<and>
    nf_macAddress (extractNetplanConfig np) = MacAddress iface \<and> nf_address (extractNetplanConfig np) = Address iface \<and>
    nf_cidr (extractNetplanConfig np) = CIDR_of iface \<and> nf_mtu (extractNetplanConfig np) = MTU_of iface \<and>
    (extractInterfaceNameFromPath path = [] \<or>
      (\<exists>name. FindInterfaceNameByMAC h w (MacAddress iface) = Inr name \<and> IsInterfaceUp h w name \<noteq> Inr True))"
  using assms
  by (auto simp: IsNetplanDrift_def Let_def checkConfigDrift_def checkSystemInterfaceDrift_def drift_isInterfaceUp_def
      split: if_splits sum.splits)

theorem IsNetplanDrift_sound_witness:
  "\<exists>content. os_ReadFile ''/etc/netplan/91-multinic1.yaml''
     \<lparr>os_files = [(''/etc/netplan/91-multinic1.yaml'', ''yaml'')], os_dirs = [], os_fault = (\<lambda>_ _. None), os_log = []\<rparr> = Inr content"
proof -
  let ?h = "RealHost (scripted (\<lambda>c a s. Inr (if a = [''-o'', ''link'', ''show'']
        then ''2: ens4: <BROADCAST> mtu 1500 state DOWN link/ether fa:16:3e:00:00:01'' else ''state DOWN'')))"
  let ?u = "\<lambda>s. Inr \<lparr>np_Ethernets = [(''multinic1'', \<lparr>eth_DHCP4 = False, eth_MTU = 1450, eth_Addresses = [''10.0.0.5''],
         eth_MACAddress = ''fa:16:3e:00:00:01'', eth_SetName = ''multinic1''\<rparr>)], np_Version = 2\<rparr>"
  let ?s = "\<lparr>os_files = [(''/etc/netplan/91-multinic1.yaml'', ''yaml'')], os_dirs = [], os_fault = (\<lambda>_ _. None), os_log = []\<rparr>"
  let ?i = "(example_iface 1 ''fa:16:3e:00:00:01'' [250, 22, 62, 0, 0, 1] False)\<lparr>ni_cidr := \<lparr>cidr_value = [], cidr_network = v4_net [10, 0, 0, 0] 24\<rparr>\<rparr>"
  have "\<not> IsNetplanDrift ?h ?u ?s ?i ''/etc/netplan/91-multinic1.yaml''" by code_simp
  from IsNetplanDrift_sound [OF this] show ?thesis by (auto simp: RealHost_def)
qed

end
