(* ===== verification/Worker_Pool.thy ===== *)
theory Worker_Pool
  imports Transition Entities
begin

text \<open>
  \<open>internal/application/usecases/worker_pool.go\<close>: the queue of jobs, the workers that take
  them, the retries and the after-hook, as a step relation over every interleaving of the
  submitting goroutine and the workers. What a handler does with a job is left open: a step
  may end it with any result. The driver is the one of
  \<open>ConfigureNetworkUseCase.Execute\<close>: it adds to the wait group and submits each job, waits
  for the group, and closes the channel; the after-hook ends with \<open>wg.Done\<close>. Enqueue times,
  durations and metrics are left out.
\<close>

section \<open>State\<close>

record 'j jobEnvelope =
  payload :: 'j
  env_attempt :: nat

text \<open>A policy gives the retry decision and the back-off in nanoseconds.\<close>

type_synonym 'j RetryPolicy = "'j \<Rightarrow> go_error \<Rightarrow> nat \<Rightarrow> bool \<times> int"

text \<open>
  Where a worker stands: at the \<open>select\<close>, in the handler, in the back-off wait, at the send
  that puts the job back, or returned.
\<close>

datatype 'j worker =
    Idle
  | Handling "'j jobEnvelope"
  | Backoff "'j jobEnvelope" go_error
  | Resend "'j jobEnvelope" go_error
  | Exited

datatype job_status = Success | Failed | Panicked

text \<open>The arguments of a call of the after-hook.\<close>

record 'j outcome =
  oc_job :: 'j
  oc_status :: job_status
  oc_attempt :: nat
  oc_err :: "go_error option"

text \<open>
  The pool with its driver: the channel with its capacity, the workers, the context, the jobs
  still to be submitted and the wait group; \<open>wp_after\<close> lists the calls of the after-hook and
  \<open>wp_dropped\<close> the jobs whose retry was given up because the context was cancelled.
\<close>

record 'j WorkerPool =
  wp_jobs :: "'j jobEnvelope list"
  wp_cap :: nat
  wp_closed :: bool
  wp_workers :: "'j worker list"
  wp_cancelled :: bool
  wp_submit :: "'j list"
  wp_wg :: nat
  wp_after :: "'j outcome list"
  wp_dropped :: "'j list"

definition NewWorkerPool :: "int \<Rightarrow> int \<Rightarrow> 'j list \<Rightarrow> 'j WorkerPool" where
  "NewWorkerPool workers queueSize js =
     (let workers' = (if workers \<le> 0 then 1 else workers);
          queueSize' = (if queueSize \<le> 0 then workers' else queueSize)
      in \<lparr>wp_jobs = [], wp_cap = nat queueSize', wp_closed = False, wp_workers = replicate (nat workers') Idle,
          wp_cancelled = False, wp_submit = js, wp_wg = 0, wp_after = [], wp_dropped = []\<rparr>)"

fun busy :: "'j worker \<Rightarrow> nat" where
  "busy Idle = 0"
| "busy Exited = 0"
| "busy _ = 1"

definition ActiveWorkers :: "'j WorkerPool \<Rightarrow> nat" where
  "ActiveWorkers s = sum_list (map busy (wp_workers s))"

definition QueueLen :: "'j WorkerPool \<Rightarrow> nat" where
  "QueueLen s = length (wp_jobs s)"

definition NumWorkers :: "'j WorkerPool \<Rightarrow> nat" where
  "NumWorkers s = length (wp_workers s)"

section \<open>Steps\<close>

definition set_worker :: "nat \<Rightarrow> 'j worker \<Rightarrow> 'j WorkerPool \<Rightarrow> 'j WorkerPool" where
  "set_worker i x s = s\<lparr>wp_workers := (wp_workers s)[i := x]\<rparr>"

text \<open>The after-hook with its \<open>wg.Done\<close>, and the worker back at the \<open>select\<close>.\<close>

definition finish :: "nat \<Rightarrow> 'j jobEnvelope \<Rightarrow> job_status \<Rightarrow> go_error option \<Rightarrow> 'j WorkerPool \<Rightarrow> 'j WorkerPool" where
  "finish i e st err s = (set_worker i Idle s)
     \<lparr>wp_after := wp_after s @ [\<lparr>oc_job = payload e, oc_status = st, oc_attempt = env_attempt e, oc_err = err\<rparr>],
      wp_wg := wp_wg s - 1\<rparr>"

definition at_worker :: "'j WorkerPool \<Rightarrow> nat \<Rightarrow> 'j worker \<Rightarrow> bool" where
  "at_worker s i x \<longleftrightarrow> i < length (wp_workers s) \<and> wp_workers s ! i = x"

inductive pool_step :: "'j RetryPolicy \<Rightarrow> 'j WorkerPool \<Rightarrow> 'j WorkerPool \<Rightarrow> bool"
  for policy :: "'j RetryPolicy" where
  submit: "wp_submit s = j # js \<Longrightarrow> \<not> wp_closed s \<Longrightarrow> QueueLen s < wp_cap s \<Longrightarrow>
    pool_step policy s (s\<lparr>wp_submit := js, wp_wg := wp_wg s + 1, wp_jobs := wp_jobs s @ [\<lparr>payload = j, env_attempt = 0\<rparr>]\<rparr>)"
| take_job: "at_worker s i Idle \<Longrightarrow> wp_jobs s = e # q \<Longrightarrow>
    pool_step policy s (set_worker i (Handling e) (s\<lparr>wp_jobs := q\<rparr>))"
| success: "at_worker s i (Handling e) \<Longrightarrow> pool_step policy s (finish i e Success None s)"
| failed: "at_worker s i (Handling e) \<Longrightarrow> \<not> fst (policy (payload e) err (env_attempt e)) \<Longrightarrow>
    pool_step policy s (finish i e Failed (Some err) s)"
| panicked: "at_worker s i (Handling e) \<Longrightarrow> pool_step policy s (finish i e Panicked None s)"
| retry: "at_worker s i (Handling e) \<Longrightarrow> fst (policy (payload e) err (env_attempt e)) \<Longrightarrow>
    pool_step policy s (set_worker i (Backoff e err) s)"
| backoff_over: "at_worker s i (Backoff e err) \<Longrightarrow> \<not> wp_cancelled s \<Longrightarrow>
    pool_step policy s (set_worker i (Resend (e\<lparr>env_attempt := env_attempt e + 1\<rparr>) err) s)"
| backoff_cancelled: "at_worker s i (Backoff e err) \<Longrightarrow> wp_cancelled s \<Longrightarrow>
    pool_step policy s ((set_worker i Idle s)\<lparr>wp_dropped := wp_dropped s @ [payload e]\<rparr>)"
| resend: "at_worker s i (Resend e err) \<Longrightarrow> \<not> wp_closed s \<Longrightarrow> QueueLen s < wp_cap s \<Longrightarrow>
    pool_step policy s (set_worker i Idle (s\<lparr>wp_jobs := wp_jobs s @ [e]\<rparr>))"
| resend_closed: "at_worker s i (Resend e err) \<Longrightarrow> wp_closed s \<Longrightarrow>
    pool_step policy s (finish i e Panicked (Some err) s)"
| worker_exit: "at_worker s i Idle \<Longrightarrow> wp_cancelled s \<or> wp_closed s \<and> wp_jobs s = [] \<Longrightarrow>
    pool_step policy s (set_worker i Exited s)"
| stop: "wp_submit s = [] \<Longrightarrow> wp_wg s = 0 \<Longrightarrow> \<not> wp_closed s \<Longrightarrow>
    pool_step policy s (s\<lparr>wp_closed := True\<rparr>)"

text \<open>The same with a context that the caller may cancel at any moment.\<close>

inductive run_step :: "'j RetryPolicy \<Rightarrow> 'j WorkerPool \<Rightarrow> 'j WorkerPool \<Rightarrow> bool"
  for policy :: "'j RetryPolicy" where
  pool: "pool_step policy s s' \<Longrightarrow> run_step policy s s'"
| cancel: "\<not> wp_cancelled s \<Longrightarrow> run_step policy s (s\<lparr>wp_cancelled := True\<rparr>)"

inductive_cases run_stepE: "run_step policy s s'"

section \<open>Conservation of jobs\<close>

fun held :: "'j worker \<Rightarrow> 'j multiset" where
  "held (Handling e) = {#payload e#}"
| "held (Backoff e err) = {#payload e#}"
| "held (Resend e err) = {#payload e#}"
| "held _ = {#}"

definition holding :: "'j WorkerPool \<Rightarrow> 'j multiset" where
  "holding s = sum_list (map held (wp_workers s))"

text \<open>Every job the pool has been given, wherever it stands.\<close>

definition all_jobs :: "'j WorkerPool \<Rightarrow> 'j multiset" where
  "all_jobs s = mset (wp_submit s) + mset (map payload (wp_jobs s)) + holding s +
     mset (map oc_job (wp_after s)) + mset (wp_dropped s)"

lemma holding_set_worker: "at_worker s i x \<Longrightarrow> holding (set_worker i y s) + held x = holding s + held y"
  unfolding holding_def set_worker_def at_worker_def using sum_list_update [of i "wp_workers s" held y] by simp

lemma busy_held: "busy x = size (held x)"
  by (cases x) auto

lemma ActiveWorkers_holding: "ActiveWorkers s = size (holding s)"
proof -
  have "sum_list (map busy ws) = size (sum_list (map held ws))" for ws :: "'a worker list"
    by (induction ws) (auto simp: busy_held)
  then show ?thesis by (simp add: ActiveWorkers_def holding_def)
qed

lemma pool_parts [simp]:
  "wp_jobs (set_worker i x s) = wp_jobs s" "wp_cap (set_worker i x s) = wp_cap s"
  "wp_closed (set_worker i x s) = wp_closed s" "wp_cancelled (set_worker i x s) = wp_cancelled s"
  "wp_submit (set_worker i x s) = wp_submit s" "wp_wg (set_worker i x s) = wp_wg s"
  "wp_after (set_worker i x s) = wp_after s" "wp_dropped (set_worker i x s) = wp_dropped s"
  "wp_workers (set_worker i x s) = (wp_workers s)[i := x]"
  by (simp_all add: set_worker_def)

lemma holding_cong: "wp_workers t = wp_workers s \<Longrightarrow> holding t = holding s"
  by (simp add: holding_def)

lemma at_worker_cong: "wp_workers t = wp_workers s \<Longrightarrow> at_worker t i x = at_worker s i x"
  by (simp add: at_worker_def)

lemma holding_step:
  assumes "at_worker s i x" "wp_workers t = (wp_workers s)[i := y]"
  shows "holding t + held x = holding s + held y"
  using holding_set_worker [OF assms(1), of y] assms(2) holding_cong [of t "set_worker i y s"] by simp

lemma pool_parts_finish [simp]:
  "wp_jobs (finish i e st err s) = wp_jobs s" "wp_cap (finish i e st err s) = wp_cap s"
  "wp_closed (finish i e st err s) = wp_closed s" "wp_cancelled (finish i e st err s) = wp_cancelled s"
  "wp_submit (finish i e st err s) = wp_submit s" "wp_wg (finish i e st err s) = wp_wg s - 1"
  "wp_after (finish i e st err s) = wp_after s @ [\<lparr>oc_job = payload e, oc_status = st, oc_attempt = env_attempt e, oc_err = err\<rparr>]"
  "wp_dropped (finish i e st err s) = wp_dropped s"
  "wp_workers (finish i e st err s) = (wp_workers s)[i := Idle]"
  by (simp_all add: finish_def)

lemma all_jobs_step:
  assumes "at_worker s i x" "wp_workers t = (wp_workers s)[i := y]" "wp_submit t = wp_submit s"
    and "mset (map payload (wp_jobs t)) + held y + mset (map oc_job (wp_after t)) + mset (wp_dropped t) =
      mset (map payload (wp_jobs s)) + held x + mset (map oc_job (wp_after s)) + mset (wp_dropped s)"
  shows "all_jobs t = all_jobs s"
proof -
  define J where "J u = mset (map payload (wp_jobs u)) + mset (map oc_job (wp_after u)) + mset (wp_dropped u)" for u :: "'a WorkerPool"
  have split: "all_jobs u = mset (wp_submit u) + J u + holding u" for u
    by (simp only: all_jobs_def J_def ac_simps)
  have "J t + held y = J s + held x" using assms(4) by (simp only: J_def ac_simps)
  moreover have "holding t + held x = holding s + held y" by (rule holding_step [OF assms(1,2)])
  ultimately have "(J t + held y) + (holding t + held x) = (J s + held x) + (holding s + held y)" by simp
  then have "(J t + holding t) + (held x + held y) = (J s + holding s) + (held x + held y)" by (simp only: ac_simps)
  then show ?thesis using assms(3) by (simp add: split ac_simps)
qed

lemma step_all_jobs: "pool_step policy s s' \<Longrightarrow> all_jobs s' = all_jobs s"
proof (induction rule: pool_step.induct)
  case (submit s j js)
  then show ?case by (simp add: all_jobs_def holding_def)
next
  case (stop s)
  then show ?case by (simp add: all_jobs_def holding_def)
qed (auto elim!: all_jobs_step)

section \<open>The invariant\<close>

fun worker_attempts :: "nat \<Rightarrow> 'j worker \<Rightarrow> bool" where
  "worker_attempts M (Handling e) \<longleftrightarrow> env_attempt e \<le> M"
| "worker_attempts M (Backoff e err) \<longleftrightarrow> env_attempt e < M"
| "worker_attempts M (Resend e err) \<longleftrightarrow> 0 < env_attempt e \<and> env_attempt e \<le> M"
| "worker_attempts M _ \<longleftrightarrow> True"

text \<open>What an after-hook call may report of a job.\<close>

definition outcome_ok :: "'j RetryPolicy \<Rightarrow> nat \<Rightarrow> 'j outcome \<Rightarrow> bool" where
  "outcome_ok policy M r \<longleftrightarrow> oc_attempt r \<le> M \<and>
     (case oc_status r of
        Failed \<Rightarrow> \<exists>err. oc_err r = Some err \<and> \<not> fst (policy (oc_job r) err (oc_attempt r))
      | _ \<Rightarrow> oc_err r = None)"

text \<open>A policy that gives up after \<open>M\<close> retries.\<close>

definition bounded_policy :: "'j RetryPolicy \<Rightarrow> nat \<Rightarrow> bool" where
  "bounded_policy policy M \<longleftrightarrow> (\<forall>j err a. fst (policy j err a) \<longrightarrow> a < M)"

definition pool_inv :: "'j RetryPolicy \<Rightarrow> nat \<Rightarrow> 'j WorkerPool \<Rightarrow> bool" where
  "pool_inv policy M s \<longleftrightarrow>
     size (all_jobs s) \<le> wp_cap s \<and> 0 < wp_cap s \<and> wp_workers s \<noteq> [] \<and>
     wp_wg s = QueueLen s + ActiveWorkers s + length (wp_dropped s) \<and>
     (wp_closed s \<longrightarrow> wp_submit s = [] \<and> wp_wg s = 0) \<and>
     (wp_cancelled s \<or> wp_dropped s = []) \<and>
     (wp_cancelled s \<or> wp_closed s \<or> Exited \<notin> set (wp_workers s)) \<and>
     list_all (\<lambda>e. env_attempt e \<le> M) (wp_jobs s) \<and> list_all (worker_attempts M) (wp_workers s) \<and>
     list_all (outcome_ok policy M) (wp_after s)"

lemma ActiveWorkers_step:
  assumes "at_worker s i x" "wp_workers t = (wp_workers s)[i := y]"
  shows "ActiveWorkers t + busy x = ActiveWorkers s + busy y"
  using arg_cong [OF holding_step [OF assms], of size] by (simp add: ActiveWorkers_holding busy_held)

lemma at_worker_attempts: "at_worker s i x \<Longrightarrow> list_all (worker_attempts M) (wp_workers s) \<Longrightarrow> worker_attempts M x"
  by (auto simp: at_worker_def list_all_length)

lemma busy_le_active: "at_worker s i x \<Longrightarrow> busy x \<le> ActiveWorkers s"
  unfolding ActiveWorkers_def at_worker_def using member_le_sum_list [of "busy x" "map busy (wp_workers s)"] by force

lemma busy_not_closed: "pool_inv policy M s \<Longrightarrow> at_worker s i x \<Longrightarrow> busy x = 1 \<Longrightarrow> \<not> wp_closed s \<and> 0 < wp_wg s"
  using busy_le_active [of s i x] by (auto simp: pool_inv_def)

lemma pool_inv_worker:
  assumes iv: "pool_inv policy M s" and st: "pool_step policy s t"
    and w: "at_worker s i x" "wp_workers t = (wp_workers s)[i := y]"
    and same: "wp_submit t = wp_submit s" "wp_cap t = wp_cap s" "wp_closed t = wp_closed s" "wp_cancelled t = wp_cancelled s"
    and y: "worker_attempts M x \<Longrightarrow> worker_attempts M y" "y = Exited \<Longrightarrow> wp_cancelled s \<or> wp_closed s"
    and wg: "wp_wg t + (QueueLen s + length (wp_dropped s) + busy x) = wp_wg s + (QueueLen t + length (wp_dropped t) + busy y)"
      "wp_closed s \<Longrightarrow> wp_wg t = 0"
    and parts: "wp_cancelled s \<or> wp_dropped t = []" "list_all (\<lambda>e. env_attempt e \<le> M) (wp_jobs t)"
      "list_all (outcome_ok policy M) (wp_after t)"
  shows "pool_inv policy M t"
proof -
  have ex: "Exited \<in> set (wp_workers t) \<Longrightarrow> Exited \<in> set (wp_workers s) \<or> y = Exited"
    using w(2) set_update_subset_insert [of "wp_workers s" i y] by auto
  have "list_all (worker_attempts M) (wp_workers t)"
    using iv y(1) w at_worker_attempts [OF w(1)] by (auto simp: pool_inv_def intro: list_all_update)
  moreover have "wp_wg t = QueueLen t + ActiveWorkers t + length (wp_dropped t)"
    using iv wg(1) ActiveWorkers_step [OF w] by (simp add: pool_inv_def)
  moreover have "wp_cancelled t \<or> wp_closed t \<or> Exited \<notin> set (wp_workers t)"
    using iv ex y(2) same by (auto simp: pool_inv_def)
  moreover have "wp_workers t \<noteq> []" using iv w(2) by (simp add: pool_inv_def)
  ultimately show ?thesis
    using iv same wg(2) parts step_all_jobs [OF st] by (auto simp: pool_inv_def)
qed

lemma pool_inv_step:
  assumes "bounded_policy policy M" "pool_inv policy M s" "pool_step policy s t"
  shows "pool_inv policy M t"
  using assms(3)
proof (cases rule: pool_step.cases)
  case (submit j js)
  have "ActiveWorkers t = ActiveWorkers s" using submit by (simp add: ActiveWorkers_def)
  then show ?thesis using assms(2) step_all_jobs [OF assms(3)] submit by (auto simp: pool_inv_def QueueLen_def)
next
  case (take_job i e q)
  then show ?thesis using assms(2)
    by (intro pool_inv_worker [OF assms(2,3) take_job(2), of "Handling e"]) (auto simp: pool_inv_def QueueLen_def)
next
  case (success i e)
  then show ?thesis using assms(2) busy_not_closed [OF assms(2) success(2)] at_worker_attempts [OF success(2)]
    by (intro pool_inv_worker [OF assms(2,3) success(2), of Idle]) (auto simp: pool_inv_def outcome_ok_def QueueLen_def)
next
  case (failed i e err)
  then show ?thesis using assms(2) busy_not_closed [OF assms(2) failed(2)] at_worker_attempts [OF failed(2)]
    by (intro pool_inv_worker [OF assms(2,3) failed(2), of Idle]) (auto simp: pool_inv_def outcome_ok_def QueueLen_def)
next
  case (panicked i e)
  then show ?thesis using assms(2) busy_not_closed [OF assms(2) panicked(2)] at_worker_attempts [OF panicked(2)]
    by (intro pool_inv_worker [OF assms(2,3) panicked(2), of Idle]) (auto simp: pool_inv_def outcome_ok_def QueueLen_def)
next
  case (retry i e err)
  then show ?thesis using assms(1,2)
    by (intro pool_inv_worker [OF assms(2,3) retry(2), of "Backoff e err"]) (auto simp: pool_inv_def bounded_policy_def QueueLen_def)
next
  case (backoff_over i e err)
  then show ?thesis using assms(2)
    by (intro pool_inv_worker [OF assms(2,3) backoff_over(2), of "Resend (e\<lparr>env_attempt := env_attempt e + 1\<rparr>) err"])
       (auto simp: pool_inv_def QueueLen_def)
next
  case (backoff_cancelled i e err)
  then show ?thesis using assms(2) busy_not_closed [OF assms(2) backoff_cancelled(2)]
    by (intro pool_inv_worker [OF assms(2,3) backoff_cancelled(2), of Idle]) (auto simp: pool_inv_def QueueLen_def)
next
  case (resend i e err)
  then show ?thesis using assms(2) at_worker_attempts [OF resend(2)]
    by (intro pool_inv_worker [OF assms(2,3) resend(2), of Idle]) (auto simp: pool_inv_def QueueLen_def)
next
  case (resend_closed i e err)
  then show ?thesis using busy_not_closed [OF assms(2) resend_closed(2)] by simp
next
  case (worker_exit i)
  then show ?thesis using assms(2)
    by (intro pool_inv_worker [OF assms(2,3) worker_exit(2), of Exited]) (auto simp: pool_inv_def QueueLen_def)
next
  case stop
  have "ActiveWorkers t = ActiveWorkers s" using stop by (simp add: ActiveWorkers_def)
  then show ?thesis using assms(2) step_all_jobs [OF assms(3)] stop by (auto simp: pool_inv_def QueueLen_def)
qed

lemma all_jobs_cancel: "all_jobs (s\<lparr>wp_cancelled := c\<rparr>) = all_jobs s"
  by (simp add: all_jobs_def holding_def)

lemma pool_inv_cancel: "pool_inv policy M s \<Longrightarrow> pool_inv policy M (s\<lparr>wp_cancelled := True\<rparr>)"
  by (auto simp: pool_inv_def all_jobs_cancel QueueLen_def ActiveWorkers_def)

lemma pool_inv_run_step: "bounded_policy policy M \<Longrightarrow> pool_inv policy M s \<Longrightarrow> run_step policy s t \<Longrightarrow> pool_inv policy M t"
  by (elim run_stepE) (auto intro: pool_inv_step pool_inv_cancel)

section \<open>Runs are finite\<close>

text \<open>How many steps a job may still take, by where it stands.\<close>

fun envelope_weight :: "nat \<Rightarrow> 'j jobEnvelope \<Rightarrow> nat" where
  "envelope_weight M e = 5 * (M + 1 - env_attempt e)"

fun worker_weight :: "nat \<Rightarrow> 'j worker \<Rightarrow> nat" where
  "worker_weight M Exited = 0"
| "worker_weight M Idle = 1"
| "worker_weight M (Handling e) = 5 * (M + 1 - env_attempt e)"
| "worker_weight M (Backoff e err) = 5 * (M - env_attempt e) + 4"
| "worker_weight M (Resend e err) = 5 * (M + 1 - env_attempt e) + 3"

definition pool_weight :: "nat \<Rightarrow> 'j WorkerPool \<Rightarrow> nat" where
  "pool_weight M s = length (wp_submit s) * (5 * M + 6) + sum_list (map (envelope_weight M) (wp_jobs s)) +
     sum_list (map (worker_weight M) (wp_workers s)) + (if wp_closed s then 0 else 1) + (if wp_cancelled s then 0 else 1)"

lemma worker_weight_step:
  assumes "at_worker s i x" "wp_workers t = (wp_workers s)[i := y]"
  shows "sum_list (map (worker_weight M) (wp_workers t)) + worker_weight M x = sum_list (map (worker_weight M) (wp_workers s)) + worker_weight M y"
  using assms sum_list_update [of i "wp_workers s" "worker_weight M" y] by (simp add: at_worker_def)

lemma pool_weight_worker:
  assumes "at_worker s i x" "wp_workers t = (wp_workers s)[i := y]" "wp_submit t = wp_submit s"
    and "wp_closed t = wp_closed s" "wp_cancelled t = wp_cancelled s"
    and "sum_list (map (envelope_weight M) (wp_jobs t)) + worker_weight M y < sum_list (map (envelope_weight M) (wp_jobs s)) + worker_weight M x"
  shows "pool_weight M t < pool_weight M s"
  using assms worker_weight_step [OF assms(1,2), of M] by (simp add: pool_weight_def)

lemma pool_weight_finish:
  "at_worker s i x \<Longrightarrow> 1 < worker_weight M x \<Longrightarrow> pool_weight M (finish i e st err s) < pool_weight M s"
  by (rule pool_weight_worker [of _ _ _ _ Idle]) auto

lemma pool_weight_step:
  assumes "bounded_policy policy M" "pool_inv policy M s" "pool_step policy s t"
  shows "pool_weight M t < pool_weight M s"
proof -
  have att: "at_worker s i x \<Longrightarrow> worker_attempts M x" for i x
    using assms(2) at_worker_attempts by (auto simp: pool_inv_def)
  have heavy: "at_worker s i (Handling e) \<Longrightarrow> pool_weight M (finish i e st err s) < pool_weight M s" for i e st err
    using pool_weight_finish [of s i "Handling e" M e st err] att [of i "Handling e"] by simp
  show ?thesis
    using assms(3)
  proof (cases rule: pool_step.cases)
    case (retry i e err)
    then have "env_attempt e < M" using assms(1) by (auto simp: bounded_policy_def)
    then show ?thesis using retry by (intro pool_weight_worker [OF retry(2), of _ "Backoff e err"]) (auto simp: Suc_diff_le)
  next
    case (backoff_over i e err)
    then show ?thesis using att [OF backoff_over(2)] 
      by (intro pool_weight_worker [OF backoff_over(2), of _ "Resend (e\<lparr>env_attempt := env_attempt e + 1\<rparr>) err"]) auto
  next
    case (submit j js)
    then show ?thesis by (simp add: pool_weight_def)
  next
    case stop
    then show ?thesis by (simp add: pool_weight_def)
  next
    case (take_job i e q)
    then show ?thesis by (intro pool_weight_worker [OF take_job(2), of _ "Handling e"]) auto
  next
    case (backoff_cancelled i e err)
    then show ?thesis by (intro pool_weight_worker [OF backoff_cancelled(2), of _ Idle]) auto
  next
    case (resend i e err)
    then show ?thesis by (intro pool_weight_worker [OF resend(2), of _ Idle]) auto
  next
    case (worker_exit i)
    then show ?thesis by (intro pool_weight_worker [OF worker_exit(2), of _ Exited]) auto
  next
    case (resend_closed i e err)
    then show ?thesis by (auto intro: pool_weight_finish)
  qed (auto intro!: heavy)
qed

lemma pool_weight_cancel: "\<not> wp_cancelled s \<Longrightarrow> pool_weight M (s\<lparr>wp_cancelled := True\<rparr>) < pool_weight M s"
  by (simp add: pool_weight_def)

lemma pool_weight_run_step:
  "bounded_policy policy M \<Longrightarrow> pool_inv policy M s \<Longrightarrow> run_step policy s t \<Longrightarrow> pool_weight M t < pool_weight M s"
  by (elim run_stepE) (auto intro: pool_weight_step pool_weight_cancel)

section \<open>Progress\<close>

lemma queue_bound: "pool_inv policy M s \<Longrightarrow> QueueLen s + ActiveWorkers s \<le> wp_cap s"
  by (simp add: pool_inv_def all_jobs_def QueueLen_def ActiveWorkers_holding)

lemma ActiveWorkers_le: "ActiveWorkers s \<le> NumWorkers s"
proof -
  have "sum_list (map busy ws) \<le> length ws" for ws :: "'a worker list"
  proof (induction ws)
    case (Cons w ws)
    then show ?case by (cases w) auto
  qed simp
  then show ?thesis by (simp add: ActiveWorkers_def NumWorkers_def)
qed

lemma busy_worker_steps:
  assumes "pool_inv policy M s" "\<not> wp_cancelled s" "at_worker s i x" "busy x = 1"
  shows "\<not> stuck (pool_step policy) s"
proof (cases x)
  case (Handling e)
  then show ?thesis using pool_step.success [of s i e policy] assms(3) by (auto simp: stuck_def)
next
  case (Backoff e err)
  then show ?thesis using pool_step.backoff_over [of s i e err policy] assms(2,3) by (auto simp: stuck_def)
next
  case (Resend e err)
  have "\<not> wp_closed s" using busy_not_closed [OF assms(1,3,4)] by simp
  moreover have "QueueLen s < wp_cap s" using queue_bound [OF assms(1)] busy_le_active [OF assms(3)] assms(4) by simp
  ultimately show ?thesis using pool_step.resend [of s i e err policy] assms(3) Resend by (auto simp: stuck_def)
qed (use assms in auto)

lemma stuck_is_done:
  assumes iv: "pool_inv policy M s" and nc: "\<not> wp_cancelled s" and st: "stuck (pool_step policy) s"
  shows "wp_closed s \<and> set (wp_workers s) = {Exited} \<and> wp_submit s = [] \<and> wp_jobs s = [] \<and> holding s = {#} \<and> wp_dropped s = []"
proof -
  have none: "\<not> pool_step policy s t" for t using st by (simp add: stuck_def)
  have free: "x = Idle \<or> x = Exited" if "x \<in> set (wp_workers s)" for x
  proof -
    obtain i where "at_worker s i x" using \<open>x \<in> set (wp_workers s)\<close> by (auto simp: at_worker_def in_set_conv_nth)
    then have "busy x \<noteq> 1" using busy_worker_steps [OF iv nc] st by auto
    then show ?thesis by (cases x) auto
  qed
  then have act: "ActiveWorkers s = 0" by (force simp: ActiveWorkers_def)
  have dr: "wp_dropped s = []" using iv nc by (simp add: pool_inv_def)
  have idle: "\<exists>i. at_worker s i Idle" if "\<not> wp_closed s"
  proof -
    have "wp_workers s ! 0 \<in> set (wp_workers s)" "Exited \<notin> set (wp_workers s)" using iv nc that by (auto simp: pool_inv_def)
    then have "wp_workers s ! 0 = Idle" using free by metis
    then show ?thesis using iv by (auto simp: at_worker_def pool_inv_def)
  qed
  have jobs: "wp_jobs s = []"
  proof (rule ccontr)
    assume j: "wp_jobs s \<noteq> []"
    then have "\<not> wp_closed s" using iv by (auto simp: pool_inv_def QueueLen_def)
    then show False using idle pool_step.take_job none j by (metis neq_Nil_conv)
  qed
  have sub: "wp_submit s = []"
  proof (rule ccontr)
    assume "wp_submit s \<noteq> []"
    then obtain j js where "wp_submit s = j # js" "\<not> wp_closed s" using iv by (auto simp: pool_inv_def neq_Nil_conv)
    moreover have "QueueLen s < wp_cap s" using iv jobs by (simp add: pool_inv_def QueueLen_def)
    ultimately show False using pool_step.submit none by metis
  qed
  have "wp_wg s = 0" using iv jobs act dr by (simp add: pool_inv_def QueueLen_def)
  then have cl: "wp_closed s" using pool_step.stop none sub by metis
  have "Idle \<notin> set (wp_workers s)"
    using pool_step.worker_exit [of s _ policy] none cl jobs by (metis at_worker_def in_set_conv_nth)
  then have "set (wp_workers s) = {Exited}" using free iv by (auto simp: pool_inv_def) (metis list.set_sel(1))+
  then show ?thesis using cl sub jobs act dr by (simp add: ActiveWorkers_holding)
qed

section \<open>The pool as a transition system\<close>

lemma pool_step_cancelled: "pool_step policy s t \<Longrightarrow> wp_cancelled t = wp_cancelled s"
  by (induction rule: pool_step.induct) auto

lemma pool_step_workers: "pool_step policy s t \<Longrightarrow> length (wp_workers t) = length (wp_workers s) \<and> wp_cap t = wp_cap s"
  by (induction rule: pool_step.induct) auto

text \<open>
  The specification of the pool: a bag of open jobs and a bag of closed ones, with the one
  operation of closing an open job with a status.
\<close>

type_synonym 'j bag = "'j multiset \<times> ('j \<times> job_status) multiset"

inductive close_one :: "'j bag \<Rightarrow> 'j bag \<Rightarrow> bool" where
  "close_one (add_mset j opn, cl) (opn, add_mset (j, st) cl)"

definition pool_bag :: "'j WorkerPool \<Rightarrow> 'j bag" where
  "pool_bag s = (mset (wp_submit s) + mset (map payload (wp_jobs s)) + holding s,
     mset (map (\<lambda>r. (oc_job r, oc_status r)) (wp_after s)))"

definition pool_good :: "'j RetryPolicy \<Rightarrow> nat \<Rightarrow> 'j WorkerPool \<Rightarrow> bool" where
  "pool_good policy M s \<longleftrightarrow> bounded_policy policy M \<and> pool_inv policy M s \<and> \<not> wp_cancelled s"

lemma pool_open: "mset (wp_submit s) + mset (map payload (wp_jobs s)) + holding s + mset (map oc_job (wp_after s)) + mset (wp_dropped s) = all_jobs s"
  by (simp add: all_jobs_def)

lemma pool_bag_step:
  assumes "pool_good policy M s" "pool_step policy s t"
  shows "pool_bag t = pool_bag s \<or> close_one (pool_bag s) (pool_bag t)"
proof -
  let ?o = "\<lambda>u. mset (wp_submit u) + mset (map payload (wp_jobs u)) + holding u"
  have dropped: "wp_dropped s = []" using assms(1) by (auto simp: pool_good_def pool_inv_def)
  have cons: "?o t + mset (map oc_job (wp_after t)) + mset (wp_dropped t) = ?o s + mset (map oc_job (wp_after s))"
    using step_all_jobs [OF assms(2)] dropped by (simp add: all_jobs_def)
  consider "wp_after t = wp_after s" "wp_dropped t = []"
    | r where "wp_after t = wp_after s @ [r]" "wp_dropped t = []"
    using assms(2,1) dropped by (cases rule: pool_step.cases) (auto simp: pool_good_def)
  then show ?thesis
  proof cases
    case 1
    then have "?o t = ?o s" using cons by simp
    then show ?thesis using 1 by (simp add: pool_bag_def)
  next
    case 2
    then have "?o s = add_mset (oc_job r) (?o t)" using cons by (simp add: add.assoc)
    then show ?thesis using 2 close_one.intros [of "oc_job r" "?o t"] by (simp add: pool_bag_def)
  qed
qed

interpretation pool: measured_system "pool_step policy" "pool_good policy M" "pool_weight M" for policy M
  by unfold_locales (auto simp: pool_good_def pool_inv_step pool_weight_step pool_step_cancelled)

interpretation pool: simulation "pool_step policy" "pool_good policy M" pool_bag close_one for policy M
  by unfold_locales (rule pool_bag_step)

interpretation cpool: measured_system "run_step policy" "\<lambda>s. bounded_policy policy M \<and> pool_inv policy M s" "pool_weight M" for policy M
  by unfold_locales (auto intro: pool_inv_run_step pool_weight_run_step)

lemma sum_list_0: "sum_list (replicate n 0) = (0 :: 'a :: comm_monoid_add)"
  by (induction n) auto

lemma NewWorkerPool_parts:
  "wp_jobs (NewWorkerPool w q js) = []" "wp_submit (NewWorkerPool w q js) = js" "\<not> wp_cancelled (NewWorkerPool w q js)"
  "\<not> wp_closed (NewWorkerPool w q js)" "wp_after (NewWorkerPool w q js) = []" "wp_dropped (NewWorkerPool w q js) = []"
  "wp_workers (NewWorkerPool w q js) = replicate (max 1 (nat w)) Idle" "holding (NewWorkerPool w q js) = {#}"
  "wp_wg (NewWorkerPool w q js) = 0" "0 < wp_cap (NewWorkerPool w q js)"
  "nat q \<le> wp_cap (NewWorkerPool w q js)"
  by (auto simp: NewWorkerPool_def Let_def holding_def max_def sum_list_0)

lemma NewWorkerPool_inv: "pool_inv policy M (NewWorkerPool w (int (length js)) js)"
  using NewWorkerPool_parts [of _ _ js] NewWorkerPool_parts(11) [of "int (length js)" w js]
  by (auto simp: pool_inv_def all_jobs_def QueueLen_def ActiveWorkers_holding list_all_iff)

lemma all_jobs_New: "all_jobs (NewWorkerPool w q js) = mset js"
  by (simp add: all_jobs_def NewWorkerPool_parts)

lemma pool_weight_New: "pool_weight M (NewWorkerPool w q js) = length js * (5 * M + 6) + max 1 (nat w) + 2"
  by (simp add: pool_weight_def NewWorkerPool_parts sum_list_replicate)

lemma run_step_frame: "run_step policy s t \<Longrightarrow> all_jobs t = all_jobs s \<and> NumWorkers t = NumWorkers s \<and> wp_cap t = wp_cap s"
  by (elim run_stepE) (auto simp: step_all_jobs all_jobs_cancel NumWorkers_def dest: pool_step_workers)

lemma run_frame: "(run_step policy)\<^sup>*\<^sup>* s t \<Longrightarrow> all_jobs t = all_jobs s \<and> NumWorkers t = NumWorkers s \<and> wp_cap t = wp_cap s"
  by (induction rule: rtranclp_induct) (auto dest: run_step_frame)

lemma run_step_of_pool: "(pool_step policy)\<^sup>*\<^sup>* s t \<Longrightarrow> (run_step policy)\<^sup>*\<^sup>* s t"
  by (induction rule: rtranclp_induct) (auto intro: run_step.pool rtranclp.rtrancl_into_rtrancl)

section \<open>Properties\<close>

text \<open>
  C6: the pool returns. With a policy that gives up after \<open>M\<close> retries and a context that is
  not cancelled, every run of the pool that \<open>Execute\<close> starts is finite, with an explicit
  bound on its steps, and a run that cannot go on has called the after-hook exactly once for
  every submitted job, has closed the channel and has ended every worker.
\<close>

theorem pool_returns:
  assumes "bounded_policy policy M"
  shows "((pool_step policy ^^ n) (NewWorkerPool w (int (length js)) js) s \<longrightarrow>
      n \<le> length js * (5 * M + 6) + max 1 (nat w) + 2) \<and>
    ((pool_step policy)\<^sup>*\<^sup>* (NewWorkerPool w (int (length js)) js) s \<and> stuck (pool_step policy) s \<longrightarrow>
      mset (map oc_job (wp_after s)) = mset js \<and> wp_closed s \<and> wp_wg s = 0 \<and> set (wp_workers s) = {Exited})"
proof -
  let ?s0 = "NewWorkerPool w (int (length js)) js"
  have g: "pool_good policy M ?s0"
    using assms by (simp add: pool_good_def NewWorkerPool_inv NewWorkerPool_parts)
  have "n \<le> length js * (5 * M + 6) + max 1 (nat w) + 2" if "(pool_step policy ^^ n) ?s0 s"
    using pool.run_length [OF that g] pool_weight_New [of M w "int (length js)" js] by simp
  moreover have "mset (map oc_job (wp_after s)) = mset js \<and> wp_closed s \<and> wp_wg s = 0 \<and> set (wp_workers s) = {Exited}"
    if r: "(pool_step policy)\<^sup>*\<^sup>* ?s0 s" and st: "stuck (pool_step policy) s"
  proof -
    have iv: "pool_inv policy M s" "\<not> wp_cancelled s" using pool.run_good [OF r g] by (simp_all add: pool_good_def)
    have "all_jobs s = mset js" using run_frame [OF run_step_of_pool [OF r]] by (simp add: all_jobs_New)
    then show ?thesis using stuck_is_done [OF iv st] iv(1) by (simp add: all_jobs_def pool_inv_def)
  qed
  ultimately show ?thesis by blast
qed

theorem pool_returns_witness:
  "\<exists>s. (pool_step (\<lambda>j err a. (a < 3, 0)))\<^sup>*\<^sup>* (NewWorkerPool 2 2 [7, 8 :: nat]) s \<and> mset (map oc_job (wp_after s)) = {#7, 8#}"
proof -
  let ?p = "(\<lambda>j err a. (a < 3, 0)) :: nat RetryPolicy"
  have b: "bounded_policy ?p 3" by (simp add: bounded_policy_def)
  have "pool_good ?p 3 (NewWorkerPool 2 2 [7, 8])"
    using b NewWorkerPool_inv [of ?p 3 2 "[7, 8]"] by (simp add: pool_good_def NewWorkerPool_parts)
  then obtain s where "(pool_step ?p)\<^sup>*\<^sup>* (NewWorkerPool 2 2 [7, 8]) s" "stuck (pool_step ?p) s"
    using pool.run_ends by blast
  then show ?thesis using pool_returns [OF b, of 0 2 "[7, 8]" s] by auto
qed

text \<open>
  C7: the pool is safe whenever the caller cancels. No job is lost from sight or handled
  twice at a time: submitted, queued, running, reported and dropped jobs together are the jobs
  given to it; no more workers are active than it has and no more jobs queued than the channel
  holds; a worker that puts a job back never blocks and never meets a closed channel; and a
  failure is reported only for an error the policy does not retry, after at most \<open>M\<close> retries.
\<close>

theorem pool_safe:
  assumes "bounded_policy policy M" "(run_step policy)\<^sup>*\<^sup>* (NewWorkerPool w (int (length js)) js) s"
  shows "all_jobs s = mset js \<and> ActiveWorkers s \<le> NumWorkers s \<and> NumWorkers s = max 1 (nat w) \<and> QueueLen s \<le> wp_cap s \<and>
    (at_worker s i (Resend e err) \<longrightarrow> \<not> wp_closed s \<and> QueueLen s < wp_cap s \<and> env_attempt e \<le> M) \<and>
    list_all (outcome_ok policy M) (wp_after s)"
proof -
  let ?s0 = "NewWorkerPool w (int (length js)) js"
  have iv: "pool_inv policy M s"
    using cpool.run_good [OF assms(2)] assms(1) NewWorkerPool_inv by blast
  have "at_worker s i (Resend e err) \<Longrightarrow> worker_attempts M (Resend e err)"
    using iv at_worker_attempts [of s i "Resend e err" M] unfolding pool_inv_def by blast
  then have "at_worker s i (Resend e err) \<Longrightarrow> \<not> wp_closed s \<and> QueueLen s < wp_cap s \<and> env_attempt e \<le> M"
    using busy_not_closed [OF iv, of i "Resend e err"] queue_bound [OF iv] busy_le_active [of s i "Resend e err"] by simp
  then show ?thesis
    using run_frame [OF assms(2)] all_jobs_New [of w "int (length js)" js] queue_bound [OF iv] ActiveWorkers_le [of s] iv
    by (auto simp: pool_inv_def NumWorkers_def NewWorkerPool_parts)
qed

theorem pool_safe_witness: "all_jobs (NewWorkerPool 1 1 [''x'']) = {#''x''#}"
proof -
  have "bounded_policy (\<lambda>j err a. (False, 0)) 0" by (simp add: bounded_policy_def)
  from pool_safe [OF this, of 1 "[''x'']" "NewWorkerPool 1 1 [''x'']"] show ?thesis by simp
qed

text \<open>
  C8: the pool refines a bag of jobs: seen through its open jobs and the reported ones, a run
  of the pool is a sequence of steps that each close one open job with one status.
\<close>

theorem pool_refines_bag:
  assumes "bounded_policy policy M" "(pool_step policy)\<^sup>*\<^sup>* (NewWorkerPool w (int (length js)) js) s"
  shows "close_one\<^sup>*\<^sup>* (mset js, {#}) (pool_bag s)"
proof -
  have g: "pool_good policy M (NewWorkerPool w (int (length js)) js)"
    using assms(1) by (simp add: pool_good_def NewWorkerPool_inv NewWorkerPool_parts)
  have "pool_bag (NewWorkerPool w (int (length js)) js) = (mset js, {#})"
    by (simp add: pool_bag_def NewWorkerPool_parts)
  then show ?thesis using pool.run_sim [OF assms(2) g] by simp
qed

theorem pool_refines_bag_witness:
  "close_one\<^sup>*\<^sup>* ({#''x''#}, {#}) (pool_bag (finish 0 \<lparr>payload = ''x'', env_attempt = 0\<rparr> Success None
     (set_worker 0 (Handling \<lparr>payload = ''x'', env_attempt = 0\<rparr>) ((NewWorkerPool 1 1 [''x''])\<lparr>wp_submit := [], wp_wg := 1\<rparr>))))"
proof -
  let ?p = "(\<lambda>j err a. (False, 0)) :: string RetryPolicy"
  let ?e = "\<lparr>payload = ''x'', env_attempt = 0\<rparr>"
  let ?s0 = "NewWorkerPool 1 1 [''x'']" and ?s3 = "set_worker 0 (Handling ?e) ((NewWorkerPool 1 1 [''x''])\<lparr>wp_submit := [], wp_wg := 1\<rparr>)"
  have b: "bounded_policy ?p 0" by (simp add: bounded_policy_def)
  have 1: "pool_step ?p ?s0 (?s0\<lparr>wp_submit := [], wp_wg := 1, wp_jobs := [?e]\<rparr>)"
    using pool_step.submit [of ?s0 "''x''" "[]" ?p] by (simp add: NewWorkerPool_parts QueueLen_def)
  have 2: "pool_step ?p (?s0\<lparr>wp_submit := [], wp_wg := 1, wp_jobs := [?e]\<rparr>) ?s3"
    using pool_step.take_job [of "?s0\<lparr>wp_submit := [], wp_wg := 1, wp_jobs := [?e]\<rparr>" 0 ?e "[]" ?p]
    by (simp add: at_worker_def NewWorkerPool_parts set_worker_def) (simp add: NewWorkerPool_def)
  have "pool_step ?p ?s3 (finish 0 ?e Success None ?s3)"
    by (rule pool_step.success) (simp add: at_worker_def NewWorkerPool_parts)
  then have "(pool_step ?p)\<^sup>*\<^sup>* ?s0 (finish 0 ?e Success None ?s3)" using 1 2
    by (meson converse_rtranclp_into_rtranclp r_into_rtranclp)
  then show ?thesis using pool_refines_bag [OF b, of 1 "[''x'']"] by simp
qed

text \<open>
  C38: a cancelled context can leave the caller waiting for ever. There is a run in which the
  only worker gives up the retry of the only job after the cancellation and ends, while the
  wait group still counts the job: no step is possible any more and the channel was never
  closed, so \<open>Execute\<close> does not return.
\<close>

theorem pool_cancel_hangs:
  "\<exists>s. (run_step (\<lambda>j err a. (a < 3, 0)))\<^sup>*\<^sup>* (NewWorkerPool 1 1 [j]) s \<and>
     stuck (run_step (\<lambda>j err a. (a < 3, 0))) s \<and> wp_wg s = 1 \<and> \<not> wp_closed s \<and> wp_after s = [] \<and> wp_dropped s = [j]"
proof -
  let ?p = "(\<lambda>j err a. (a < 3, 0)) :: 'a RetryPolicy"
  let ?e = "\<lparr>payload = j, env_attempt = 0\<rparr>" and ?err = "PlainError ''x''"
  define s where "s ws q c d = \<lparr>wp_jobs = q, wp_cap = 1, wp_closed = False, wp_workers = ws, wp_cancelled = c,
    wp_submit = [], wp_wg = 1, wp_after = [], wp_dropped = d\<rparr>" for ws q c and d :: "'a list"
  have parts: "wp_submit (s ws q c d) = []" "wp_wg (s ws q c d) = 1" "wp_workers (s ws q c d) = ws" "wp_jobs (s ws q c d) = q"
    "wp_cancelled (s ws q c d) = c" "wp_dropped (s ws q c d) = d" "\<not> wp_closed (s ws q c d)" "wp_after (s ws q c d) = []" for ws q c d
    by (simp_all add: s_def NewWorkerPool_parts)
  have 1: "run_step ?p (NewWorkerPool 1 1 [j]) (s [Idle] [?e] False [])"
    using pool_step.submit [of "NewWorkerPool 1 1 [j]" j "[]" ?p]
    by (intro run_step.pool) (simp add: s_def NewWorkerPool_def QueueLen_def)
  have 2: "run_step ?p (s [Idle] [?e] False []) (s [Handling ?e] [] False [])"
    using pool_step.take_job [of "s [Idle] [?e] False []" 0 ?e "[]" ?p]
    by (intro run_step.pool) (simp add: at_worker_def parts set_worker_def, simp add: s_def)
  have 3: "run_step ?p (s [Handling ?e] [] False []) (s [Backoff ?e ?err] [] False [])"
    using pool_step.retry [of "s [Handling ?e] [] False []" 0 ?e ?p ?err]
    by (intro run_step.pool) (simp add: at_worker_def parts set_worker_def, simp add: s_def)
  have 4: "run_step ?p (s [Backoff ?e ?err] [] False []) (s [Backoff ?e ?err] [] True [])"
    using run_step.cancel [of "s [Backoff ?e ?err] [] False []" ?p] by (simp add: s_def NewWorkerPool_parts)
  have 5: "run_step ?p (s [Backoff ?e ?err] [] True []) (s [Idle] [] True [j])"
    using pool_step.backoff_cancelled [of "s [Backoff ?e ?err] [] True []" 0 ?e ?err ?p]
    by (intro run_step.pool) (simp add: at_worker_def parts set_worker_def, simp add: s_def)
  have 6: "run_step ?p (s [Idle] [] True [j]) (s [Exited] [] True [j])"
    using pool_step.worker_exit [of "s [Idle] [] True [j]" 0 ?p]
    by (intro run_step.pool) (simp add: at_worker_def parts set_worker_def, simp add: s_def)
  have "(run_step ?p)\<^sup>*\<^sup>* (NewWorkerPool 1 1 [j]) (s [Exited] [] True [j])"
    using 1 2 3 4 5 6 by (meson converse_rtranclp_into_rtranclp r_into_rtranclp)
  moreover have "stuck (run_step ?p) (s [Exited] [] True [j])"
    unfolding stuck_def by (auto elim!: run_stepE pool_step.cases simp: at_worker_def parts)
  ultimately show ?thesis by (intro exI [of _ "s [Exited] [] True [j]"] conjI) (simp_all add: parts)
qed

end
