(* ===== verification/Configure.thy ===== *)
theory Configure
  imports Duration Drift Worker_Pool
begin

text \<open>
  \<open>internal/application/usecases\<close>: \<open>configure_network.go\<close>, \<open>orchestrator.go\<close>,
  \<open>processing_decision.go\<close>, \<open>system_checks.go\<close> and \<open>error_helpers.go\<close>, the use case that
  configures the interfaces of a node, over the interface \<open>NetworkInterfaceRepository\<close> of
  \<open>domain/interfaces/repository.go\<close>. The job of one interface is one step: jobs of different
  workers interleave as wholes. Contexts and their deadlines, metrics and logging are left
  out; floats are real numbers.
\<close>

section \<open>Interfaces and data\<close>

record 'w Repository =
  rp_GetPendingInterfaces :: "string \<Rightarrow> 'w \<Rightarrow> (go_error, NetworkInterface list) result"
  rp_GetConfiguredInterfaces :: "string \<Rightarrow> 'w \<Rightarrow> (go_error, NetworkInterface list) result"
  rp_UpdateInterfaceStatus :: "int \<Rightarrow> InterfaceStatus \<Rightarrow> 'w \<Rightarrow> go_error option \<times> 'w"
  rp_GetInterfaceByID :: "int \<Rightarrow> 'w \<Rightarrow> (go_error, NetworkInterface) result"
  rp_GetActiveInterfaces :: "string \<Rightarrow> 'w \<Rightarrow> (go_error, NetworkInterface list) result"
  rp_GetAllNodeInterfaces :: "string \<Rightarrow> 'w \<Rightarrow> (go_error, NetworkInterface list) result"

text \<open>
  The use case: its dependencies and settings. \<open>uc_env\<close> is the environment, \<open>uc_big\<close> what the
  platform converts a float to that is no 64-bit integer.
\<close>

record 'w ConfigureNetworkUseCase =
  uc_repository :: "'w Repository"
  uc_manager :: "'w NetworkManager"
  uc_host :: "'w Host"
  uc_unmarshal :: decoder
  uc_detect :: "'w \<Rightarrow> (go_error, OSType) result"
  uc_env :: "string \<Rightarrow> string"
  uc_maxConcurrentTasks :: int
  uc_maxRetries :: int
  uc_backoffMultiplier :: real
  uc_big :: int

record InterfaceFailure =
  fl_ID :: int
  fl_MAC :: string
  fl_Name :: string
  fl_ErrorType :: string
  fl_Reason :: string

record InterfaceResult =
  rs_ID :: int
  rs_MAC :: string
  rs_Name :: string
  rs_Status :: string

record ConfigureNetworkOutput =
  ProcessedCount :: int
  FailedCount :: int
  TotalCount :: int
  Failures :: "InterfaceFailure list"
  Results :: "InterfaceResult list"

definition DefaultBackoffMultiplier :: real where "DefaultBackoffMultiplier = 2"

text \<open>
  The drift detector and the naming service carry no settings: the decoder of the former is a
  field, the reservations of the latter are part of the running state.
\<close>

definition NewConfigureNetworkUseCaseWithDetector :: "int \<Rightarrow> 'w Repository \<Rightarrow> 'w NetworkManager \<Rightarrow> 'w NetworkManager \<Rightarrow> 'w Host
    \<Rightarrow> ('w \<Rightarrow> (go_error, OSType) result) \<Rightarrow> (string \<Rightarrow> string) \<Rightarrow> int \<Rightarrow> decoder \<Rightarrow> int \<Rightarrow> real \<Rightarrow> 'w ConfigureNetworkUseCase" where
  "NewConfigureNetworkUseCaseWithDetector big repo configurer rollbacker host detect env maxConcurrentTasks drift maxRetries backoffMultiplier =
     \<lparr>uc_repository = repo, uc_manager = configurer\<lparr>nm_Rollback := nm_Rollback rollbacker\<rparr>, uc_host = host, uc_unmarshal = drift,
      uc_detect = detect, uc_env = env, uc_maxConcurrentTasks = maxConcurrentTasks, uc_maxRetries = maxRetries,
      uc_backoffMultiplier = backoffMultiplier, uc_big = big\<rparr>"

definition NewConfigureNetworkUseCase :: "int \<Rightarrow> 'w Repository \<Rightarrow> 'w NetworkManager \<Rightarrow> 'w NetworkManager \<Rightarrow> 'w Host
    \<Rightarrow> ('w \<Rightarrow> (go_error, OSType) result) \<Rightarrow> (string \<Rightarrow> string) \<Rightarrow> int \<Rightarrow> decoder \<Rightarrow> 'w ConfigureNetworkUseCase" where
  "NewConfigureNetworkUseCase big repo configurer rollbacker host detect env maxConcurrentTasks drift =
     NewConfigureNetworkUseCaseWithDetector big repo configurer rollbacker host detect env maxConcurrentTasks drift
       DefaultMaxRetries DefaultBackoffMultiplier"

section \<open>Pre-flight check\<close>

definition uc_isInterfaceUp :: "'w ConfigureNetworkUseCase \<Rightarrow> 'w \<Rightarrow> string \<Rightarrow> bool" where
  "uc_isInterfaceUp uc w name = (case IsInterfaceUp (uc_host uc) w name of Inl _ \<Rightarrow> False | Inr up \<Rightarrow> up)"

definition uc_checkSystemInterfaceDrift :: "'w ConfigureNetworkUseCase \<Rightarrow> 'w \<Rightarrow> NetworkInterface \<Rightarrow> bool" where
  "uc_checkSystemInterfaceDrift uc w dbIface =
     (case FindInterfaceNameByMAC (uc_host uc) w (MacAddress dbIface) of
        Inl _ \<Rightarrow> True
      | Inr foundName \<Rightarrow> (if TrimSpace foundName = [] then True else uc_isInterfaceUp uc w foundName))"

definition envBool :: "(string \<Rightarrow> string) \<Rightarrow> string \<Rightarrow> bool" where
  "envBool env key \<longleftrightarrow> List.member [''1'', ''true'', ''yes'', ''on''] (ToLower (TrimSpace (env key)))"

definition hasGlobalIPv4 :: "'w ConfigureNetworkUseCase \<Rightarrow> 'w \<Rightarrow> string \<Rightarrow> bool" where
  "hasGlobalIPv4 uc w ifName = (case GetIPv4WithPrefix (uc_host uc) w ifName of Inl _ \<Rightarrow> False | Inr a \<Rightarrow> TrimSpace a \<noteq> [])"

definition isEnslaved :: "'w ConfigureNetworkUseCase \<Rightarrow> 'w \<Rightarrow> string \<Rightarrow> bool" where
  "isEnslaved uc w ifName = fs_Exists (uc_host uc) (''/sys/class/net/'' @ ifName @ ''/master'') w"

definition route_line :: "string \<Rightarrow> bool \<times> bool \<Rightarrow> string \<Rightarrow> bool \<times> bool" where
  "route_line ifName acc line =
     (let fields = Fields line
      in if TrimSpace line = [] \<or> length fields < 11 \<or> fields ! 0 \<noteq> ifName then acc
         else (True, snd acc \<or> EqualFold (fields ! 1) ''00000000''))"

definition hasRoutesForIface :: "'w ConfigureNetworkUseCase \<Rightarrow> 'w \<Rightarrow> string \<Rightarrow> bool \<times> bool" where
  "hasRoutesForIface uc w ifName =
     (case fs_ReadFile (uc_host uc) ''/proc/net/route'' w of
        Inl _ \<Rightarrow> (False, False)
      | Inr data \<Rightarrow> foldl (route_line ifName) (False, False) (tl (Split data NL)))"

definition preflightCheck :: "'w ConfigureNetworkUseCase \<Rightarrow> 'w \<Rightarrow> NetworkInterface \<Rightarrow> go_error option" where
  "preflightCheck uc w iface =
     (case FindInterfaceNameByMAC (uc_host uc) w (MacAddress iface) of
        Inl err \<Rightarrow> Some (NewValidationError ''preflight: MAC not present on system'' (Some err))
      | Inr foundName \<Rightarrow>
          (if TrimSpace foundName = [] then Some (NewValidationError ''preflight: MAC not present on system'' None)
           else if HasPrefix foundName ''multinic'' then None
           else if \<not> uc_isInterfaceUp uc w foundName then None
           else if envBool (uc_env uc) ''PREFLIGHT_ALLOW_UP'' then None
           else
             let hasIPv4 = hasGlobalIPv4 uc w foundName; enslaved = isEnslaved uc w foundName;
                 (hasRoute, defaultOn) = hasRoutesForIface uc w foundName;
                 reason = (if hasIPv4 then [''has_ipv4''] else []) @ (if enslaved then [''enslaved''] else []) @
                   (if hasRoute then [''has_routes''] else []) @ (if defaultOn then [''default_route''] else [])
             in if hasIPv4 \<or> enslaved \<or> hasRoute \<or> defaultOn then
                  Some (NewValidationError (''preflight: target interface in use ('' @ Join reason '','' @ '')'')
                    (Some (PlainError (''interface '' @ foundName @ '' considered in-use''))))
                else None))"

section \<open>Whether there is anything to do\<close>

definition checkRHELNeedProcessing :: "'w ConfigureNetworkUseCase \<Rightarrow> 'w \<Rightarrow> NetworkInterface \<Rightarrow> InterfaceName \<Rightarrow> bool \<times> string" where
  "checkRHELNeedProcessing uc w iface name =
     (let configPath = FindIfcfgFile (uc_host uc) w (nm_GetConfigDir (uc_manager uc)) (name_value name);
          fileExists = (configPath \<noteq> []);
          isDrifted = (fileExists \<and> IsIfcfgDrift (uc_host uc) w iface configPath)
      in (\<not> fileExists \<or> isDrifted \<or> Status iface = StatusPending, configPath))"

definition checkNetplanNeedProcessing :: "'w ConfigureNetworkUseCase \<Rightarrow> 'w \<Rightarrow> NetworkInterface \<Rightarrow> InterfaceName \<Rightarrow> bool \<times> string" where
  "checkNetplanNeedProcessing uc w iface name =
     (let dir = nm_GetConfigDir (uc_manager uc);
          found = FindNetplanFileForInterface (uc_host uc) w dir (name_value name);
          configPath = (if found = [] then path_Join [dir, ''9'' @ Itoa (name_index name) @ ''-'' @ name_value name @ ''.yaml''] else found);
          fileExists = fs_Exists (uc_host uc) configPath w;
          isDrifted = (fileExists \<and> IsNetplanDrift (uc_host uc) (uc_unmarshal uc) w iface configPath)
      in (\<not> fileExists \<or> isDrifted \<or> Status iface = StatusPending, configPath))"

definition checkNeedProcessing :: "'w ConfigureNetworkUseCase \<Rightarrow> 'w \<Rightarrow> NetworkInterface \<Rightarrow> InterfaceName \<Rightarrow> OSType \<Rightarrow> bool \<times> string" where
  "checkNeedProcessing uc w iface name osType =
     (if osType = OSTypeRHEL then checkRHELNeedProcessing uc w iface name else checkNetplanNeedProcessing uc w iface name)"

section \<open>Applying with rollback\<close>

definition performRollback :: "'w ConfigureNetworkUseCase \<Rightarrow> string \<Rightarrow> 'w \<Rightarrow> go_error option \<times> 'w" where
  "performRollback uc name w = nm_Rollback (uc_manager uc) name w"

definition applyConfiguration :: "'w ConfigureNetworkUseCase \<Rightarrow> NetworkInterface \<Rightarrow> InterfaceName \<Rightarrow> 'w \<Rightarrow> go_error option \<times> 'w" where
  "applyConfiguration uc iface name w =
     (case nm_Configure (uc_manager uc) iface name w of
        (None, w1) \<Rightarrow> (None, w1)
      | (Some err, w1) \<Rightarrow>
          (case performRollback uc (name_value name) w1 of
             (Some rollbackErr, w2) \<Rightarrow>
               (Some (NewNetworkError (''Failed to apply configuration and rollback also failed: '' @ Error rollbackErr) (Some err)), w2)
           | (None, w2) \<Rightarrow> (Some (NewNetworkError ''Failed to apply network configuration'' (Some err)), w2)))"

definition validateConfiguration :: "'w ConfigureNetworkUseCase \<Rightarrow> NetworkInterface \<Rightarrow> InterfaceName \<Rightarrow> 'w \<Rightarrow> go_error option \<times> 'w" where
  "validateConfiguration uc iface name w =
     (let (foundName, macErr) = (case FindInterfaceNameByMAC (uc_host uc) w (MacAddress iface) of
              Inl e \<Rightarrow> ([], Some e) | Inr n \<Rightarrow> (n, None));
          notUp = PlainError (''interface '' @ foundName @ '' not UP'')
      in if macErr \<noteq> None \<or> TrimSpace foundName = [] then
           (case performRollback uc (name_value name) w of
              (Some rollbackErr, w2) \<Rightarrow>
                (Some (NewNetworkError (''System MAC presence check failed and rollback also failed: '' @ Error rollbackErr) macErr), w2)
            | (None, w2) \<Rightarrow> (Some (NewNetworkError ''System MAC presence check failed'' macErr), w2))
         else if \<not> uc_isInterfaceUp uc w foundName then
           (case performRollback uc (name_value name) w of
              (Some _, w2) \<Rightarrow> (Some (NewNetworkError ''Interface not UP and rollback also failed'' (Some notUp)), w2)
            | (None, w2) \<Rightarrow> (Some (NewNetworkError ''Interface is not UP after apply'' (Some notUp)), w2))
         else (None, w))"

definition Process :: "'w ConfigureNetworkUseCase \<Rightarrow> NetworkInterface \<Rightarrow> InterfaceName \<Rightarrow> 'w \<Rightarrow> go_error option \<times> 'w" where
  "Process uc iface name w =
     andThen (applyConfiguration uc iface name w) (\<lambda>w.
     andThen (validateConfiguration uc iface name w) (\<lambda>w.
     rp_UpdateInterfaceStatus (uc_repository uc) (ID iface) StatusConfigured w))"

definition processInterface :: "'w ConfigureNetworkUseCase \<Rightarrow> NetworkInterface \<Rightarrow> InterfaceName \<Rightarrow> 'w \<Rightarrow> go_error option \<times> 'w" where
  "processInterface uc iface name w =
     (case Validate iface of
        Some err \<Rightarrow> (Some (NewValidationError ''Interface validation failed'' (Some err)), w)
      | None \<Rightarrow> Process uc iface name w)"

section \<open>Retries\<close>

fun pow :: "real \<Rightarrow> nat \<Rightarrow> real" where
  "pow a 0 = 1"
| "pow a (Suc n) = pow a n * a"

definition retryPolicy :: "'w ConfigureNetworkUseCase \<Rightarrow> NetworkInterface RetryPolicy" where
  "retryPolicy uc =
     (let maxRetries = (if uc_maxRetries uc \<le> 0 then DefaultMaxRetries else uc_maxRetries uc);
          multiplier = (if uc_backoffMultiplier uc \<le> 0 then DefaultBackoffMultiplier else uc_backoffMultiplier uc);
          base = 100 * 1000000
      in (\<lambda>job err attempt.
           if maxRetries \<le> int attempt then (False, 0)
           else case err of
             DomainError derr _ \<Rightarrow>
               (if List.member [ErrorTypeTimeout, ErrorTypeNetwork, ErrorTypeSystem, ErrorTypeResource] (err_Type derr)
                then (True, to_duration (uc_big uc) (base * pow multiplier attempt)) else (False, 0))
           | _ \<Rightarrow> (False, 0)))"

section \<open>The job of one interface\<close>

text \<open>
  What the jobs share: the world, the naming service and the collected counts and lists of
  \<open>Execute\<close>.
\<close>

record 'w exec_state =
  xs_world :: 'w
  xs_naming :: NamingService
  xs_processed :: int
  xs_failed :: int
  xs_failures :: "InterfaceFailure list"
  xs_results :: "InterfaceResult list"

definition configured :: "NetworkInterface \<Rightarrow> InterfaceName \<Rightarrow> InterfaceResult" where
  "configured job name = \<lparr>rs_ID = ID job, rs_MAC = MacAddress job, rs_Name = name_value name, rs_Status = ''Configured''\<rparr>"

definition handleJob :: "'w ConfigureNetworkUseCase \<Rightarrow> OSType \<Rightarrow> NetworkInterface \<Rightarrow> 'w exec_state \<Rightarrow> go_error option \<times> 'w exec_state" where
  "handleJob uc osType job x =
     (case preflightCheck uc (xs_world x) job of
        Some err \<Rightarrow> (Some err, x)
      | None \<Rightarrow>
          (case GenerateNextNameForMAC (uc_host uc) (xs_world x) (MacAddress job) (xs_naming x) of
             (Inl err, ns) \<Rightarrow> (Some err, x\<lparr>xs_naming := ns\<rparr>)
           | (Inr name, ns) \<Rightarrow>
               (if \<not> fst (checkNeedProcessing uc (xs_world x) job name osType) then
                  (None, x\<lparr>xs_naming := ns, xs_results := xs_results x @ [configured job name]\<rparr>)
                else
                  (case Process uc job name (xs_world x) of
                     (Some err, w) \<Rightarrow> (Some err, x\<lparr>xs_world := w, xs_naming := ns\<rparr>)
                   | (None, w) \<Rightarrow> (None, x\<lparr>xs_world := w, xs_naming := ns, xs_results := xs_results x @ [configured job name]\<rparr>)))))"

definition failure :: "NetworkInterface \<Rightarrow> (go_error, InterfaceName) result \<Rightarrow> go_error option \<Rightarrow> InterfaceFailure" where
  "failure job name lastErr =
     \<lparr>fl_ID = ID job, fl_MAC = MacAddress job, fl_Name = (case name of Inl _ \<Rightarrow> [] | Inr n \<Rightarrow> name_value n),
      fl_ErrorType = (case lastErr of None \<Rightarrow> ''unknown'' | Some e \<Rightarrow> getErrorType e),
      fl_Reason = (case lastErr of None \<Rightarrow> ''final failure'' | Some e \<Rightarrow> Error e)\<rparr>"

definition afterHook :: "'w ConfigureNetworkUseCase \<Rightarrow> NetworkInterface \<Rightarrow> job_status \<Rightarrow> go_error option \<Rightarrow> 'w exec_state \<Rightarrow> 'w exec_state" where
  "afterHook uc job status lastErr x =
     (if status = Success then
        x\<lparr>xs_processed := xs_processed x + 1,
          xs_world := snd (rp_UpdateInterfaceStatus (uc_repository uc) (ID job) StatusConfigured (xs_world x))\<rparr>
      else
        (case GenerateNextNameForMAC (uc_host uc) (xs_world x) (MacAddress job) (xs_naming x) of
           (name, ns) \<Rightarrow>
             x\<lparr>xs_failed := xs_failed x + 1, xs_naming := ns,
               xs_world := snd (rp_UpdateInterfaceStatus (uc_repository uc) (ID job) StatusFailed (xs_world x)),
               xs_failures := xs_failures x @ [failure job name lastErr]\<rparr>))"

section \<open>The sequential form\<close>

text \<open>
  \<open>processInterfaceWithCheck\<close>, the variant without the pool, and its error handler.
\<close>

text \<open>An entry of the log: its level, message and fields.\<close>

datatype log_level = Debug | Info | Warn | Error_level

record log_entry =
  lg_level :: log_level
  lg_message :: string
  lg_fields :: "(string \<times> string) list"

definition handleInterfaceError :: "string \<Rightarrow> int \<Rightarrow> string \<Rightarrow> go_error \<Rightarrow> log_entry" where
  "handleInterfaceError operation interfaceID macAddress err =
     (let (level, message) =
        (if IsValidationError err then (Warn, ''Validation error'')
         else if IsNetworkError err then (Error_level, ''Network error'')
         else if IsTimeoutError err then (Error_level, ''Timeout error'')
         else (Error_level, ''Operation failed''))
      in \<lparr>lg_level = level, lg_message = message,
           lg_fields = [(''operation'', operation), (''interface_id'', Itoa interfaceID), (''mac_address'', macAddress), (''error'', Error err)]\<rparr>)"

lemma handleInterfaceError_level:
  "lg_level (handleInterfaceError operation i mac err) = (if getErrorType err = ''validation'' then Warn else Error_level)"
  by (simp add: handleInterfaceError_def getErrorType_def Let_def)

definition handleProcessingError :: "'w ConfigureNetworkUseCase \<Rightarrow> NetworkInterface \<Rightarrow> 'w \<Rightarrow> 'w" where
  "handleProcessingError uc iface w = snd (rp_UpdateInterfaceStatus (uc_repository uc) (ID iface) StatusFailed w)"

definition processInterfaceWithCheck :: "'w ConfigureNetworkUseCase \<Rightarrow> NetworkInterface \<Rightarrow> OSType \<Rightarrow> 'w exec_state \<Rightarrow> 'w exec_state" where
  "processInterfaceWithCheck uc iface osType x =
     (case GenerateNextNameForMAC (uc_host uc) (xs_world x) (MacAddress iface) (xs_naming x) of
        (Inl err, ns) \<Rightarrow> x\<lparr>xs_naming := ns, xs_failed := xs_failed x + 1\<rparr>
      | (Inr name, ns) \<Rightarrow>
          (if \<not> fst (checkNeedProcessing uc (xs_world x) iface name osType) then x\<lparr>xs_naming := ns\<rparr>
           else
             (case processInterface uc iface name (xs_world x) of
                (Some err, w) \<Rightarrow> x\<lparr>xs_naming := ns, xs_world := handleProcessingError uc iface w,
                  xs_failed := xs_failed x + 1, xs_failures := xs_failures x @ [failure iface (Inr name) (Some err)]\<rparr>
              | (None, w) \<Rightarrow> x\<lparr>xs_naming := ns, xs_world := w, xs_processed := xs_processed x + 1,
                  xs_results := xs_results x @ [configured iface name]\<rparr>)))"

section \<open>Execute\<close>

text \<open>
  The pool with the handler in it: a step in which a worker ends the handling of a job runs
  the job on the shared state, and the after-hook where the pool calls it. Every other step
  of the pool leaves the shared state alone.
\<close>

inductive exec_step :: "'w ConfigureNetworkUseCase \<Rightarrow> OSType \<Rightarrow> NetworkInterface WorkerPool \<times> 'w exec_state \<Rightarrow> NetworkInterface WorkerPool \<times> 'w exec_state \<Rightarrow> bool"
  for uc :: "'w ConfigureNetworkUseCase" and osType :: OSType where
  job_ok: "at_worker p i (Handling e) \<Longrightarrow> handleJob uc osType (payload e) x = (None, x') \<Longrightarrow>
    exec_step uc osType (p, x) (finish i e Success None p, afterHook uc (payload e) Success None x')"
| job_failed: "at_worker p i (Handling e) \<Longrightarrow> handleJob uc osType (payload e) x = (Some err, x') \<Longrightarrow>
    \<not> fst (retryPolicy uc (payload e) err (env_attempt e)) \<Longrightarrow>
    exec_step uc osType (p, x) (finish i e Failed (Some err) p, afterHook uc (payload e) Failed (Some err) x')"
| job_retried: "at_worker p i (Handling e) \<Longrightarrow> handleJob uc osType (payload e) x = (Some err, x') \<Longrightarrow>
    fst (retryPolicy uc (payload e) err (env_attempt e)) \<Longrightarrow>
    exec_step uc osType (p, x) (set_worker i (Backoff e err) p, x')"
| pool_only: "pool_step (retryPolicy uc) p p' \<Longrightarrow> \<forall>i e. at_worker p i (Handling e) \<longrightarrow> at_worker p' i (Handling e) \<Longrightarrow>
    exec_step uc osType (p, x) (p', x)"

text \<open>
  The run of one worker, job after job: the executable form. The fuel counts the handler
  calls; a job that is retried goes to the back of the queue.
\<close>

fun drain :: "'w ConfigureNetworkUseCase \<Rightarrow> OSType \<Rightarrow> nat \<Rightarrow> NetworkInterface jobEnvelope list \<Rightarrow> 'w exec_state \<Rightarrow> 'w exec_state option" where
  "drain uc osType fuel [] x = Some x"
| "drain uc osType 0 (e # q) x = None"
| "drain uc osType (Suc fuel) (e # q) x =
     (case handleJob uc osType (payload e) x of
        (None, x') \<Rightarrow> drain uc osType fuel q (afterHook uc (payload e) Success None x')
      | (Some err, x') \<Rightarrow>
          (if fst (retryPolicy uc (payload e) err (env_attempt e))
           then drain uc osType fuel (q @ [e\<lparr>env_attempt := env_attempt e + 1\<rparr>]) x'
           else drain uc osType fuel q (afterHook uc (payload e) Failed (Some err) x')))"

definition max_attempts :: "'w ConfigureNetworkUseCase \<Rightarrow> nat" where
  "max_attempts uc = nat (if uc_maxRetries uc \<le> 0 then DefaultMaxRetries else uc_maxRetries uc)"

definition exec_start :: "'w \<Rightarrow> NamingService \<Rightarrow> 'w exec_state" where
  "exec_start w ns = \<lparr>xs_world = w, xs_naming = ns, xs_processed = 0, xs_failed = 0, xs_failures = [], xs_results = []\<rparr>"

definition exec_output :: "NetworkInterface list \<Rightarrow> 'w exec_state \<Rightarrow> ConfigureNetworkOutput" where
  "exec_output ifaces x = \<lparr>ProcessedCount = xs_processed x, FailedCount = xs_failed x, TotalCount = int (length ifaces),
     Failures = xs_failures x, Results = xs_results x\<rparr>"

text \<open>
  \<open>Execute\<close> with one worker, the default of \<open>maxConcurrentTasks\<close>: the result, the world and the
  naming service it leaves.
\<close>

definition Execute :: "'w ConfigureNetworkUseCase \<Rightarrow> string \<Rightarrow> 'w \<Rightarrow> NamingService \<Rightarrow> (go_error, ConfigureNetworkOutput) result \<times> 'w \<times> NamingService" where
  "Execute uc nodeName w ns =
     (case uc_detect uc w of
        Inl err \<Rightarrow> (Inl (NewSystemError ''failed to detect OS type'' (Some err)), w, ns)
      | Inr osType \<Rightarrow>
          (case rp_GetAllNodeInterfaces (uc_repository uc) nodeName w of
             Inl err \<Rightarrow> (Inl (NewSystemError ''failed to get node interfaces'' (Some err)), w, ns)
           | Inr ifaces \<Rightarrow>
               (let ns1 = snd (ReserveNamesForInterfaces (uc_host uc) w ifaces ns);
                    q = map (\<lambda>j. \<lparr>payload = j, env_attempt = 0\<rparr>) ifaces
                in case drain uc osType (length ifaces * (max_attempts uc + 1)) q (exec_start w ns1) of
                     None \<Rightarrow> (Inl (PlainError ''out of fuel''), w, ns1)
                   | Some x \<Rightarrow> (Inr (exec_output ifaces x), xs_world x, xs_naming x))))"

section \<open>The policy bounds the pool\<close>

lemma pow_power: "pow a n = a ^ n"
  by (induction n) auto

lemma retry_bound: "fst (retryPolicy uc j err a) \<Longrightarrow> a < max_attempts uc"
  by (auto simp: retryPolicy_def max_attempts_def Let_def DefaultMaxRetries_def split: if_splits)

lemma retryPolicy_bounded: "bounded_policy (retryPolicy uc) (max_attempts uc)"
  using retry_bound by (auto simp: bounded_policy_def)

lemma exec_step_pool: "exec_step uc osType s s' \<Longrightarrow> pool_step (retryPolicy uc) (fst s) (fst s')"
  by (induction rule: exec_step.induct) (auto intro: pool_step.intros)

lemma exec_run_pool: "(exec_step uc osType)\<^sup>*\<^sup>* s s' \<Longrightarrow> (pool_step (retryPolicy uc))\<^sup>*\<^sup>* (fst s) (fst s')"
  by (induction rule: rtranclp_induct) (auto dest: exec_step_pool intro: rtranclp.rtrancl_into_rtrancl)

section \<open>The counts are those of the after-hook\<close>

text \<open>A result and a failure name their interface by its identifier and hardware address.\<close>

definition job_key :: "NetworkInterface \<Rightarrow> int \<times> string" where "job_key job = (ID job, MacAddress job)"
definition rs_key :: "InterfaceResult \<Rightarrow> int \<times> string" where "rs_key r = (rs_ID r, rs_MAC r)"
definition fl_key :: "InterfaceFailure \<Rightarrow> int \<times> string" where "fl_key f = (fl_ID f, fl_MAC f)"

lemmas key_defs = job_key_def rs_key_def fl_key_def

definition successes :: "NetworkInterface WorkerPool \<Rightarrow> NetworkInterface outcome list" where
  "successes p = filter (\<lambda>r. oc_status r = Success) (wp_after p)"

definition losses :: "NetworkInterface WorkerPool \<Rightarrow> NetworkInterface outcome list" where
  "losses p = filter (\<lambda>r. oc_status r \<noteq> Success) (wp_after p)"

definition exec_inv :: "NetworkInterface WorkerPool \<times> 'w exec_state \<Rightarrow> bool" where
  "exec_inv s \<longleftrightarrow>
     xs_processed (snd s) = int (length (successes (fst s))) \<and> xs_failed (snd s) = int (length (losses (fst s))) \<and>
     map rs_key (xs_results (snd s)) = map (\<lambda>r. job_key (oc_job r)) (successes (fst s)) \<and>
     map fl_key (xs_failures (snd s)) = map (\<lambda>r. job_key (oc_job r)) (losses (fst s))"

lemma handleJob_counts:
  assumes "handleJob uc osType job x = (r, x')"
  shows "xs_processed x' = xs_processed x \<and> xs_failed x' = xs_failed x \<and> xs_failures x' = xs_failures x \<and>
    map rs_key (xs_results x') = map rs_key (xs_results x) @ (if r = None then [job_key job] else [])"
proof (cases "preflightCheck uc (xs_world x) job")
  case None
  then show ?thesis using assms by (auto simp: handleJob_def configured_def key_defs split: prod.splits sum.splits if_splits option.splits)
next
  case (Some err)
  then have "r = Some err" "x' = x" using assms by (auto simp: handleJob_def)
  then show ?thesis by simp
qed

lemma afterHook_counts:
  "xs_processed (afterHook uc job st err x) = xs_processed x + (if st = Success then 1 else 0) \<and>
   xs_failed (afterHook uc job st err x) = xs_failed x + (if st = Success then 0 else 1) \<and>
   xs_results (afterHook uc job st err x) = xs_results x \<and>
   map fl_key (xs_failures (afterHook uc job st err x)) = map fl_key (xs_failures x) @ (if st = Success then [] else [job_key job])"
  by (simp add: afterHook_def failure_def key_defs split: prod.splits)

lemma pool_only_after:
  assumes "pool_step policy p p'" "\<forall>i e. at_worker p i (Handling e) \<longrightarrow> at_worker p' i (Handling e)" "pool_inv policy M p"
  shows "wp_after p' = wp_after p"
  using assms(1)
proof (cases rule: pool_step.cases)
  case (success i e)
  then show ?thesis using assms(2) by (force simp: at_worker_def)
next
  case (failed i e err)
  then show ?thesis using assms(2) by (force simp: at_worker_def)
next
  case (panicked i e)
  then show ?thesis using assms(2) by (force simp: at_worker_def)
next
  case (resend_closed i e err)
  then show ?thesis using busy_not_closed [OF assms(3) resend_closed(2)] by simp
qed auto

definition exec_good :: "'w ConfigureNetworkUseCase \<Rightarrow> NetworkInterface WorkerPool \<times> 'w exec_state \<Rightarrow> bool" where
  "exec_good uc s \<longleftrightarrow> pool_good (retryPolicy uc) (max_attempts uc) (fst s) \<and> exec_inv s"

lemma exec_good_step:
  assumes "exec_good uc s" "exec_step uc osType s s'"
  shows "exec_good uc s'"
proof -
  have iv: "pool_inv (retryPolicy uc) (max_attempts uc) (fst s)" using assms(1) by (simp add: exec_good_def pool_good_def)
  have "pool_good (retryPolicy uc) (max_attempts uc) (fst s')"
    using pool.step_good [OF _ exec_step_pool [OF assms(2)]] assms(1) by (simp add: exec_good_def)
  moreover have "exec_inv s'"
    using assms(2)
  proof (cases rule: exec_step.cases)
    case (job_ok p i e x x')
    then show ?thesis using assms(1) handleJob_counts [OF job_ok(4)] afterHook_counts [of uc "payload e" Success None x']
      by (simp add: exec_good_def exec_inv_def successes_def losses_def)
  next
    case (job_failed p i e x err x')
    then show ?thesis using assms(1) handleJob_counts [OF job_failed(4)] afterHook_counts [of uc "payload e" Failed "Some err" x']
      by (simp add: exec_good_def exec_inv_def successes_def losses_def)
  next
    case (job_retried p i e x err x')
    then show ?thesis using assms(1) handleJob_counts [OF job_retried(4)]
      by (simp add: exec_good_def exec_inv_def successes_def losses_def)
  next
    case (pool_only p p' x)
    then show ?thesis using assms(1) iv pool_only_after [OF pool_only(3,4)]
      by (simp add: exec_good_def exec_inv_def successes_def losses_def)
  qed
  ultimately show ?thesis by (simp add: exec_good_def)
qed

lemma exec_weight:
  "exec_good uc s \<Longrightarrow> exec_step uc osType s s' \<Longrightarrow> pool_weight (max_attempts uc) (fst s') < pool_weight (max_attempts uc) (fst s)"
  using pool.step_weight exec_step_pool unfolding exec_good_def by blast

interpretation exec: measured_system "exec_step uc osType" "exec_good uc" "\<lambda>s. pool_weight (max_attempts uc) (fst s)" for uc osType
  by unfold_locales (rule exec_good_step, assumption+, rule exec_weight)

lemma exec_good_start: "exec_good uc (NewWorkerPool n (int (length js)) js, exec_start w ns)"
  by (simp add: exec_good_def pool_good_def retryPolicy_bounded NewWorkerPool_inv NewWorkerPool_parts exec_inv_def
      successes_def losses_def exec_start_def)

text \<open>A run of the use case that cannot go on is one of the pool that cannot go on.\<close>

lemma exec_stuck_pool:
  assumes "stuck (exec_step uc osType) (p, x)"
  shows "stuck (pool_step (retryPolicy uc)) p"
proof -
  have none: "\<not> exec_step uc osType (p, x) s'" for s' using assms unfolding stuck_def by blast
  have nh: "\<not> at_worker p i (Handling e)" for i e
  proof
    assume h: "at_worker p i (Handling e)"
    obtain r x' where r: "handleJob uc osType (payload e) x = (r, x')" by fastforce
    show False
    proof (cases r)
      case None
      then show False using exec_step.job_ok [OF h] r none by blast
    next
      case (Some err)
      then show False using exec_step.job_failed [OF h] exec_step.job_retried [OF h] r none by blast
    qed
  qed
  then show ?thesis using exec_step.pool_only none unfolding stuck_def by metis
qed

section \<open>The sequential run\<close>

definition drain_weight :: "nat \<Rightarrow> NetworkInterface jobEnvelope list \<Rightarrow> nat" where
  "drain_weight M q = sum_list (map (\<lambda>e. M + 1 - env_attempt e) q)"

lemma drain_returns:
  assumes "list_all (\<lambda>e. env_attempt e \<le> max_attempts uc) q" "drain_weight (max_attempts uc) q \<le> fuel"
  shows "\<exists>x'. drain uc osType fuel q x = Some x'"
  using assms
proof (induction fuel arbitrary: q x)
  case 0
  then have "q = []" by (cases q) (auto simp: drain_weight_def)
  then show ?case by simp
next
  case (Suc fuel)
  show ?case
  proof (cases q)
    case (Cons e q')
    obtain r x1 where h: "handleJob uc osType (payload e) x = (r, x1)" by fastforce
    have q': "list_all (\<lambda>e. env_attempt e \<le> max_attempts uc) q'" "drain_weight (max_attempts uc) q' \<le> fuel"
      using Suc.prems Cons by (auto simp: drain_weight_def)
    have again: "list_all (\<lambda>e. env_attempt e \<le> max_attempts uc) (q' @ [e\<lparr>env_attempt := env_attempt e + 1\<rparr>]) \<and>
        drain_weight (max_attempts uc) (q' @ [e\<lparr>env_attempt := env_attempt e + 1\<rparr>]) \<le> fuel"
      if "fst (retryPolicy uc (payload e) err (env_attempt e))" for err
      using q' retry_bound [OF that] Suc.prems Cons by (simp add: drain_weight_def)
    show ?thesis
      using h Suc.IH [OF q'] Suc.IH again Cons by (cases r) (auto split: if_splits)
  qed simp
qed

text \<open>
  A pool with one worker, which is idle, and the queue \<open>q\<close>: the run of \<open>drain\<close> is a run of it.
\<close>

definition one_worker :: "NetworkInterface jobEnvelope list \<Rightarrow> NetworkInterface WorkerPool \<Rightarrow> bool" where
  "one_worker q p \<longleftrightarrow> wp_workers p = [Idle] \<and> wp_jobs p = q \<and> wp_submit p = [] \<and> \<not> wp_closed p \<and> \<not> wp_cancelled p \<and> length q \<le> wp_cap p"

lemma one_worker_take:
  assumes "one_worker (e # q) p"
  shows "exec_step uc osType (p, x) (set_worker 0 (Handling e) (p\<lparr>wp_jobs := q\<rparr>), x) \<and>
    at_worker (set_worker 0 (Handling e) (p\<lparr>wp_jobs := q\<rparr>)) 0 (Handling e)"
proof -
  have "at_worker p 0 Idle" "wp_jobs p = e # q" using assms by (auto simp: one_worker_def at_worker_def)
  then show ?thesis using assms
    by (auto intro!: exec_step.pool_only pool_step.take_job simp: at_worker_def one_worker_def)
qed

lemma one_worker_retry:
  assumes "one_worker (e # q) p" "fst (retryPolicy uc (payload e) err (env_attempt e))"
    and "handleJob uc osType (payload e) x = (Some err, x1)"
  shows "\<exists>p'. (exec_step uc osType)\<^sup>*\<^sup>* (p, x) (p', x1) \<and> one_worker (q @ [e\<lparr>env_attempt := env_attempt e + 1\<rparr>]) p' \<and> wp_after p' = wp_after p"
proof -
  let ?e = "e\<lparr>env_attempt := env_attempt e + 1\<rparr>"
  let ?p1 = "set_worker 0 (Handling e) (p\<lparr>wp_jobs := q\<rparr>)"
  let ?p2 = "set_worker 0 (Backoff e err) ?p1" and ?p3 = "set_worker 0 (Resend ?e err) (set_worker 0 (Backoff e err) ?p1)"
  let ?p4 = "set_worker 0 Idle (?p3\<lparr>wp_jobs := wp_jobs ?p3 @ [?e]\<rparr>)"
  note p = assms(1)[unfolded one_worker_def]
  note cons = converse_rtranclp_into_rtranclp [where r = "exec_step uc osType"]
  have 1: "exec_step uc osType (p, x) (?p1, x)" using one_worker_take [OF assms(1)] by blast
  have 2: "exec_step uc osType (?p1, x) (?p2, x1)"
    using one_worker_take [OF assms(1)] assms(2,3) by (intro exec_step.job_retried) auto
  have "pool_step (retryPolicy uc) ?p2 ?p3" using p by (intro pool_step.backoff_over) (auto simp: at_worker_def)
  then have 3: "exec_step uc osType (?p2, x1) (?p3, x1)"
    using p by (intro exec_step.pool_only) (auto simp: at_worker_def)
  have "pool_step (retryPolicy uc) ?p3 ?p4" using p by (intro pool_step.resend) (auto simp: at_worker_def QueueLen_def)
  then have 4: "exec_step uc osType (?p3, x1) (?p4, x1)"
    using p by (intro exec_step.pool_only) (auto simp: at_worker_def)
  have "(exec_step uc osType)\<^sup>*\<^sup>* (p, x) (?p4, x1)"
    by (rule cons [OF 1], rule cons [OF 2], rule cons [OF 3], rule cons [OF 4], rule rtranclp.rtrancl_refl)
  moreover have "one_worker (q @ [?e]) ?p4" using p by (auto simp: one_worker_def)
  moreover have "wp_after ?p4 = wp_after p" by simp
  ultimately show ?thesis by blast
qed

lemma one_worker_finish:
  assumes "one_worker (e # q) p" "handleJob uc osType (payload e) x = (r, x1)"
    and "\<And>err. r = Some err \<Longrightarrow> \<not> fst (retryPolicy uc (payload e) err (env_attempt e))"
  shows "\<exists>p'. (exec_step uc osType)\<^sup>*\<^sup>* (p, x) (p', afterHook uc (payload e) (if r = None then Success else Failed) r x1) \<and> one_worker q p'"
proof -
  let ?p1 = "set_worker 0 (Handling e) (p\<lparr>wp_jobs := q\<rparr>)"
  let ?p2 = "finish 0 e (if r = None then Success else Failed) r ?p1"
  have "exec_step uc osType (?p1, x) (?p2, afterHook uc (payload e) (if r = None then Success else Failed) r x1)"
    using one_worker_take [OF assms(1)] assms(2,3) exec_step.job_ok [of ?p1 0 e uc osType x x1]
      exec_step.job_failed [of ?p1 0 e uc osType x _ x1] by (cases r) auto
  moreover have "one_worker q ?p2" using assms(1) by (auto simp: one_worker_def)
  ultimately show ?thesis using one_worker_take [OF assms(1), of uc osType x]
    by (meson converse_rtranclp_into_rtranclp rtranclp.rtrancl_refl)
qed

lemma drain_is_run:
  assumes "drain uc osType fuel q x = Some x'" "one_worker q p"
  shows "\<exists>p'. (exec_step uc osType)\<^sup>*\<^sup>* (p, x) (p', x') \<and> one_worker [] p'"
  using assms
proof (induction uc osType fuel q x arbitrary: p rule: drain.induct)
  case (3 uc osType fuel e q x)
  obtain r x1 where h: "handleJob uc osType (payload e) x = (r, x1)" by fastforce
  show ?case
  proof (cases "\<exists>err. r = Some err \<and> fst (retryPolicy uc (payload e) err (env_attempt e))")
    case True
    then obtain err where err: "r = Some err" "fst (retryPolicy uc (payload e) err (env_attempt e))" by blast
    obtain p1 where p1: "(exec_step uc osType)\<^sup>*\<^sup>* (p, x) (p1, x1)" "one_worker (q @ [e\<lparr>env_attempt := env_attempt e + 1\<rparr>]) p1"
      using one_worker_retry [OF 3(5) err(2)] h err(1) by blast
    have "drain uc osType fuel (q @ [e\<lparr>env_attempt := env_attempt e + 1\<rparr>]) x1 = Some x'" using 3(4) h err by simp
    from 3(2) [OF h [symmetric] err this p1(2)] show ?thesis using p1(1) by (auto intro: rtranclp_trans)
  next
    case False
    then obtain p1 where p1: "(exec_step uc osType)\<^sup>*\<^sup>* (p, x) (p1, afterHook uc (payload e) (if r = None then Success else Failed) r x1)" "one_worker q p1"
      using one_worker_finish [OF 3(5) h] by blast
    then show ?thesis
    proof (cases r)
      case None
      then have "drain uc osType fuel q (afterHook uc (payload e) Success None x1) = Some x'" using 3(4) h by simp
      from 3(1) [OF h [symmetric] None this p1(2)] show ?thesis using p1(1) None by (auto intro: rtranclp_trans)
    next
      case (Some err)
      then have nr: "\<not> fst (retryPolicy uc (payload e) err (env_attempt e))" using False by simp
      then have "drain uc osType fuel q (afterHook uc (payload e) Failed (Some err) x1) = Some x'" using 3(4) h Some by simp
      from 3(3) [OF h [symmetric] Some nr this p1(2)] show ?thesis using p1(1) Some by (auto intro: rtranclp_trans)
    qed
  qed
qed auto

abbreviation fresh :: "'j \<Rightarrow> 'j jobEnvelope" where
  "fresh j \<equiv> \<lparr>payload = j, env_attempt = 0\<rparr>"

lemma submit_run:
  assumes "wp_workers p = [Idle]" "wp_submit p = js" "\<not> wp_closed p" "\<not> wp_cancelled p" "length (wp_jobs p) + length js \<le> wp_cap p"
  shows "\<exists>p'. (exec_step uc osType)\<^sup>*\<^sup>* (p, x) (p', x) \<and> one_worker (wp_jobs p @ map fresh js) p'"
  using assms
proof (induction js arbitrary: p)
  case Nil
  then have "one_worker (wp_jobs p @ map fresh []) p" by (simp add: one_worker_def)
  then show ?case by blast
next
  case (Cons j js)
  let ?p = "p\<lparr>wp_submit := js, wp_wg := wp_wg p + 1, wp_jobs := wp_jobs p @ [fresh j]\<rparr>"
  have "pool_step (retryPolicy uc) p ?p" using Cons.prems by (intro pool_step.submit) (auto simp: QueueLen_def)
  then have st: "exec_step uc osType (p, x) (?p, x)" by (intro exec_step.pool_only) (auto simp: at_worker_def)
  obtain p' where "(exec_step uc osType)\<^sup>*\<^sup>* (?p, x) (p', x)" "one_worker (wp_jobs ?p @ map fresh js) p'"
    using Cons.IH [of ?p] Cons.prems by auto
  then show ?case using st by (auto intro: converse_rtranclp_into_rtranclp)
qed

lemma Execute_run:
  assumes "drain uc osType fuel (map fresh js) (exec_start w ns) = Some x"
  shows "\<exists>p. (exec_step uc osType)\<^sup>*\<^sup>* (NewWorkerPool 1 (int (length js)) js, exec_start w ns) (p, x) \<and> one_worker [] p"
proof -
  obtain p0 where "(exec_step uc osType)\<^sup>*\<^sup>* (NewWorkerPool 1 (int (length js)) js, exec_start w ns) (p0, exec_start w ns)" "one_worker (map fresh js) p0"
    using submit_run [of "NewWorkerPool 1 (int (length js)) js" js uc osType "exec_start w ns"]
      NewWorkerPool_parts(11) [of "int (length js)" 1 js] by (auto simp: NewWorkerPool_parts)
  then show ?thesis using drain_is_run [OF assms] by (meson rtranclp_trans)
qed

lemma mset_outcomes: "mset (map f (successes p)) + mset (map f (losses p)) = mset (map f (wp_after p))"
  by (simp add: successes_def losses_def flip: image_mset_union multiset_partition)

lemma exec_counts:
  assumes "exec_good uc (p, x)" "mset (map oc_job (wp_after p)) = mset js"
  shows "xs_processed x + xs_failed x = int (length js) \<and> xs_processed x = int (length (xs_results x)) \<and>
    xs_failed x = int (length (xs_failures x)) \<and>
    mset (map rs_key (xs_results x)) + mset (map fl_key (xs_failures x)) = mset (map job_key js)"
proof -
  have iv: "exec_inv (p, x)" using assms(1) by (simp add: exec_good_def)
  have "mset (map rs_key (xs_results x)) + mset (map fl_key (xs_failures x)) = mset (map (\<lambda>r. job_key (oc_job r)) (wp_after p))"
    using iv mset_outcomes [of "\<lambda>r. job_key (oc_job r)" p] by (simp add: exec_inv_def)
  also have "\<dots> = image_mset job_key (mset (map oc_job (wp_after p)))" by (simp add: image_mset.compositionality comp_def)
  finally have m: "mset (map rs_key (xs_results x)) + mset (map fl_key (xs_failures x)) = mset (map job_key js)" using assms(2) by simp
  have len: "length (successes p) = length (xs_results x)" "length (losses p) = length (xs_failures x)"
    using iv unfolding exec_inv_def by (metis fst_conv snd_conv length_map)+
  have "length (xs_results x) + length (xs_failures x) = length js" using arg_cong [OF m, of size] by simp
  then show ?thesis using iv len m by (simp add: exec_inv_def flip: of_nat_add)
qed

lemma drain_counts:
  assumes "drain uc osType fuel (map fresh js) (exec_start w ns) = Some x"
  shows "\<exists>p. exec_good uc (p, x) \<and> mset (map oc_job (wp_after p)) = mset js"
proof -
  obtain p where p: "(exec_step uc osType)\<^sup>*\<^sup>* (NewWorkerPool 1 (int (length js)) js, exec_start w ns) (p, x)" "one_worker [] p"
    using Execute_run [OF assms] by blast
  have g: "exec_good uc (p, x)" by (rule exec.run_good [OF p(1) exec_good_start])
  have "all_jobs p = mset js"
    using run_frame [OF run_step_of_pool [OF exec_run_pool [OF p(1)]]] by (simp add: all_jobs_New)
  moreover have "wp_dropped p = []" using g p(2) by (auto simp: exec_good_def pool_good_def pool_inv_def)
  moreover have "holding p = {#}" using p(2) by (simp add: one_worker_def holding_def)
  ultimately have "mset (map oc_job (wp_after p)) = mset js" using p(2) by (simp add: all_jobs_def one_worker_def)
  then show ?thesis using g by blast
qed

lemma drain_enough_fuel: "\<exists>x. drain uc osType (length js * (max_attempts uc + 1)) (map fresh js) y = Some x"
  by (rule drain_returns) (simp_all add: drain_weight_def list_all_iff comp_def sum_list_triv)

section \<open>What the use case touches\<close>

definition is_interface_name :: "string \<Rightarrow> bool" where
  "is_interface_name n = is_ok (NewInterfaceName n)"

lemma generated_name_valid:
  assumes "GenerateNextNameForMAC h w mac s = (Inr name, s')"
  shows "is_interface_name (name_value name)"
proof -
  have "\<exists>n. NewInterfaceName n = Inr name"
    using assms by (auto simp: GenerateNextNameForMAC_def generateNextNameInternal_def Let_def split: option.splits sum.splits)
  then show ?thesis using NewInterfaceName_value by (fastforce simp: is_interface_name_def)
qed

text \<open>
  The use case over a network manager that only touches the files a name owns, and a
  repository whose status updates touch no file.
\<close>

locale configure_uc = network_manager "uc_host uc" iv "uc_manager uc" owns
  for uc :: "'w ConfigureNetworkUseCase" and iv :: "'w \<Rightarrow> bool" and owns :: "string \<Rightarrow> string set" +
  assumes update_keeps: "keeps (uc_host uc) iv w (snd (rp_UpdateInterfaceStatus (uc_repository uc) i st w))"
begin

abbreviation same_files :: "string set \<Rightarrow> 'w \<Rightarrow> 'w \<Rightarrow> bool" where
  "same_files P \<equiv> keeps_except P (uc_host uc) iv"

lemma rollback_same: "same_files (owns n) w (snd (performRollback uc n w))"
  by (simp add: performRollback_def rollback_frame)

lemma apply_same: "same_files (owns (name_value name)) w (snd (applyConfiguration uc iface name w))"
proof -
  obtain r w1 where c: "nm_Configure (uc_manager uc) iface name w = (r, w1)" by fastforce
  obtain r2 w2 where b: "performRollback uc (name_value name) w1 = (r2, w2)" by fastforce
  have "same_files (owns (name_value name)) w w1" "same_files (owns (name_value name)) w1 w2"
    using configure_frame [of name w iface] rollback_same [of "name_value name" w1] c b by simp_all
  then show ?thesis using c b by (auto simp: applyConfiguration_def split: option.splits intro: keeps_except_trans)
qed

lemma validate_same: "same_files (owns (name_value name)) w (snd (validateConfiguration uc iface name w))"
proof -
  obtain r2 w2 where b: "performRollback uc (name_value name) w = (r2, w2)" by fastforce
  have "same_files (owns (name_value name)) w w2" using rollback_same [of "name_value name" w] b by simp
  then show ?thesis using b by (auto simp: validateConfiguration_def Let_def split: option.splits sum.splits)
qed

lemma Process_same: "same_files (owns (name_value name)) w (snd (Process uc iface name w))"
  unfolding Process_def
  by (intro keeps_except_andThen apply_same validate_same keeps_imp_except update_keeps)

definition managed :: "string set" where
  "managed = (\<Union>n \<in> {n. is_interface_name n}. owns n)"

lemma handleJob_same: "same_files managed (xs_world x) (xs_world (snd (handleJob uc osType job x)))"
proof -
  have "same_files managed (xs_world x) w'"
    if "GenerateNextNameForMAC (uc_host uc) (xs_world x) (MacAddress job) (xs_naming x) = (Inr name, ns)"
      "Process uc job name (xs_world x) = (r, w')" for name ns r w'
  proof -
    have "owns (name_value name) \<subseteq> managed" using generated_name_valid [OF that(1)] by (auto simp: managed_def)
    then show ?thesis using Process_same [of name "xs_world x" job] that(2) by (auto intro: keeps_except_mono)
  qed
  then show ?thesis by (auto simp: handleJob_def split: option.splits prod.splits sum.splits)
qed

lemma afterHook_same: "same_files managed (xs_world x) (xs_world (afterHook uc job st err x))"
  by (auto simp: afterHook_def update_keeps split: prod.splits intro: keeps_imp_except)

lemma exec_step_same: "exec_step uc osType s s' \<Longrightarrow> same_files managed (xs_world (snd s)) (xs_world (snd s'))"
proof (induction rule: exec_step.induct)
  case (job_ok p i e x x')
  then show ?case using handleJob_same [of x osType "payload e"] afterHook_same [of x'] by (auto intro: keeps_except_trans)
next
  case (job_failed p i e x err x')
  then show ?case using handleJob_same [of x osType "payload e"] afterHook_same [of x'] by (auto intro: keeps_except_trans)
next
  case (job_retried p i e x err x')
  then show ?case using handleJob_same [of x osType "payload e"] by simp
qed simp

lemma exec_run_same: "(exec_step uc osType)\<^sup>*\<^sup>* s s' \<Longrightarrow> same_files managed (xs_world (snd s)) (xs_world (snd s'))"
  by (induction rule: rtranclp_induct) (auto dest: exec_step_same intro: keeps_except_trans)

lemma Execute_same:
  assumes "Execute uc nodeName w ns = (r, w', ns')"
  shows "same_files managed w w'"
proof -
  have "same_files managed w (xs_world x)"
    if d: "drain uc osType fuel (map fresh js) (exec_start w ns1) = Some x" for osType fuel js ns1 x
  proof -
    obtain p where "(exec_step uc osType)\<^sup>*\<^sup>* (NewWorkerPool 1 (int (length js)) js, exec_start w ns1) (p, x)"
      using Execute_run [OF d] by blast
    from exec_run_same [OF this] show ?thesis by (simp add: exec_start_def)
  qed
  then show ?thesis using assms by (auto simp: Execute_def Let_def split: sum.splits option.splits)
qed

end

text \<open>
  A manager whose rollback creates no file and, when it succeeds, leaves none of the name's.
\<close>

locale removing_manager = network_manager +
  assumes rollback_shrinks: "iv w \<Longrightarrow> fs_ReadFile h q (snd (nm_Rollback nm n w)) = Inr c \<Longrightarrow> fs_ReadFile h q w = Inr c"
    and rollback_clears: "iv w \<Longrightarrow> nm_Rollback nm n w = (None, w') \<Longrightarrow> Clean q \<in> owns n \<Longrightarrow> fs_ReadFile h q w' \<noteq> Inr c"
begin

lemma rollback_inv: "iv w \<Longrightarrow> iv (snd (nm_Rollback nm n w))"
  using rollback_frame [of n w] by (simp add: keeps_except_def)

lemma rollback_all_shrinks:
  "iv w \<Longrightarrow> fs_ReadFile h q (foldl (\<lambda>w n. snd (nm_Rollback nm n w)) w ns) = Inr c \<Longrightarrow> fs_ReadFile h q w = Inr c"
proof (induction ns arbitrary: w)
  case (Cons n ns)
  then have "fs_ReadFile h q (snd (nm_Rollback nm n w)) = Inr c" using rollback_inv by simp
  then show ?case by (rule rollback_shrinks [OF Cons.prems(1)])
qed simp

end

text \<open>
  With such a manager a failed job leaves none of the name's files, unless the rollback
  itself failed or only the status update did.
\<close>

locale rollback_uc = configure_uc uc iv owns + removing_manager "uc_host uc" iv "uc_manager uc" owns for uc iv owns
begin

lemma applied_or_rolled_back:
  assumes "iv w" "applyConfiguration uc iface name w = (Some err, w')" "Clean q \<in> owns (name_value name)"
  shows "fs_ReadFile (uc_host uc) q w' \<noteq> Inr c \<or> (\<exists>w1 e. performRollback uc (name_value name) w1 = (Some e, w'))"
proof -
  obtain e w1 r where c: "nm_Configure (uc_manager uc) iface name w = (Some e, w1)" "performRollback uc (name_value name) w1 = (r, w')"
    using assms(2) by (auto simp: applyConfiguration_def split: prod.splits option.splits)
  have "iv w1" using configure_frame [of name w iface] c(1) assms(1) by (simp add: keeps_except_def)
  then show ?thesis using c rollback_clears [of w1 "name_value name" w' q c] assms(3) by (cases r) (auto simp: performRollback_def)
qed

lemma validated_or_rolled_back:
  assumes "iv w" "validateConfiguration uc iface name w = (Some err, w')" "Clean q \<in> owns (name_value name)"
  shows "fs_ReadFile (uc_host uc) q w' \<noteq> Inr c \<or> (\<exists>w1 e. performRollback uc (name_value name) w1 = (Some e, w'))"
proof -
  obtain r where c: "performRollback uc (name_value name) w = (r, w')"
    using assms(2) by (auto simp: validateConfiguration_def Let_def split: prod.splits option.splits sum.splits if_splits)
  then show ?thesis using rollback_clears [of w "name_value name" w' q c] assms(1,3) by (cases r) (auto simp: performRollback_def)
qed

lemma Process_failure:
  assumes "iv w" "Process uc iface name w = (Some err, w')" "Clean q \<in> owns (name_value name)"
  shows "fs_ReadFile (uc_host uc) q w' \<noteq> Inr c \<or> (\<exists>w1 e. performRollback uc (name_value name) w1 = (Some e, w')) \<or>
    (\<exists>w1. rp_UpdateInterfaceStatus (uc_repository uc) (ID iface) StatusConfigured w1 = (Some err, w'))"
proof -
  obtain ra w1 where a: "applyConfiguration uc iface name w = (ra, w1)" by fastforce
  show ?thesis
  proof (cases ra)
    case (Some e)
    then show ?thesis using a assms applied_or_rolled_back [OF assms(1)] by (auto simp: Process_def)
  next
    case None
    have "iv w1" using apply_same [of name w iface] a assms(1) by (simp add: keeps_except_def)
    moreover obtain rv w2 where v: "validateConfiguration uc iface name w1 = (rv, w2)" by fastforce
    ultimately show ?thesis
      using a None assms(2,3) validated_or_rolled_back [of w1 iface name _ w2 q c] by (cases rv) (auto simp: Process_def)
  qed
qed

end

section \<open>Properties\<close>

text \<open>The run of one worker never lacks fuel, and its output counts every interface once.\<close>

lemma Execute_counts:
  assumes a: "uc_detect uc w = Inr osType" "rp_GetAllNodeInterfaces (uc_repository uc) nodeName w = Inr ifaces"
  shows "\<exists>out. fst (Execute uc nodeName w ns) = Inr out \<and> TotalCount out = int (length ifaces) \<and>
      ProcessedCount out + FailedCount out = TotalCount out \<and> ProcessedCount out = int (length (Results out)) \<and>
      FailedCount out = int (length (Failures out)) \<and>
      mset (map rs_key (Results out)) + mset (map fl_key (Failures out)) = mset (map job_key ifaces)"
proof -
  let ?ns = "snd (ReserveNamesForInterfaces (uc_host uc) w ifaces ns)"
  obtain x where x: "drain uc osType (length ifaces * (max_attempts uc + 1)) (map fresh ifaces) (exec_start w ?ns) = Some x"
    using drain_enough_fuel by blast
  then obtain p where "exec_good uc (p, x)" "mset (map oc_job (wp_after p)) = mset ifaces" using drain_counts [OF x] by blast
  then show ?thesis
    using exec_counts a x by (intro exI [of _ "exec_output ifaces x"]) (simp add: Execute_def exec_output_def)
qed

text \<open>
  C4: the use case always returns, and accounts for every interface. When the operating
  system is recognised and the node's interfaces are read, \<open>Execute\<close> gives an output (the
  number of handler calls it may take is enough) in which processed and failed interfaces add
  up to all of them, with one result for each processed and one failure for each failed one,
  and the identifiers and addresses of both are together those of the node's interfaces. Otherwise it
  returns a system error and leaves the world as it was.
\<close>

theorem Execute_accounts:
  "(\<forall>osType ifaces. uc_detect uc w = Inr osType \<longrightarrow> rp_GetAllNodeInterfaces (uc_repository uc) nodeName w = Inr ifaces \<longrightarrow>
      (\<exists>out. fst (Execute uc nodeName w ns) = Inr out \<and> TotalCount out = int (length ifaces) \<and>
        ProcessedCount out + FailedCount out = TotalCount out \<and> ProcessedCount out = int (length (Results out)) \<and>
        FailedCount out = int (length (Failures out)) \<and>
        mset (map rs_key (Results out)) + mset (map fl_key (Failures out)) = mset (map job_key ifaces))) \<and>
   (\<forall>err. fst (Execute uc nodeName w ns) = Inl err \<longrightarrow> IsSystemError err \<and> snd (Execute uc nodeName w ns) = (w, ns))"
proof (intro conjI allI impI)
  fix osType ifaces
  assume a: "uc_detect uc w = Inr osType" "rp_GetAllNodeInterfaces (uc_repository uc) nodeName w = Inr ifaces"
  show "\<exists>out. fst (Execute uc nodeName w ns) = Inr out \<and> TotalCount out = int (length ifaces) \<and>
      ProcessedCount out + FailedCount out = TotalCount out \<and> ProcessedCount out = int (length (Results out)) \<and>
      FailedCount out = int (length (Failures out)) \<and>
      mset (map rs_key (Results out)) + mset (map fl_key (Failures out)) = mset (map job_key ifaces)"
    by (rule Execute_counts [OF a])
next
  fix err
  assume e: "fst (Execute uc nodeName w ns) = Inl err"
  have nf: "drain uc osType (length js + length js * max_attempts uc) (map fresh js) y = None \<Longrightarrow> False" for osType js y
    using drain_enough_fuel [of uc osType js y] by simp
  show "IsSystemError err" "snd (Execute uc nodeName w ns) = (w, ns)"
    using e by (auto simp: Execute_def Let_def NewSystemError_def NewError_def IsSystemError_def dest: nf split: sum.splits option.splits)
qed

definition sample_repository :: "NetworkInterface list \<Rightarrow> os_state Repository" where
  "sample_repository js = \<lparr>rp_GetPendingInterfaces = \<lambda>n w. Inr js, rp_GetConfiguredInterfaces = \<lambda>n w. Inr [],
     rp_UpdateInterfaceStatus = \<lambda>i st w. (None, w), rp_GetInterfaceByID = \<lambda>i w. Inl (NewNotFoundError ''no interface''),
     rp_GetActiveInterfaces = \<lambda>n w. Inr js, rp_GetAllNodeInterfaces = \<lambda>n w. Inr js\<rparr>"

definition sample_uc :: "os_state Host \<Rightarrow> NetworkInterface list \<Rightarrow> os_state ConfigureNetworkUseCase" where
  "sample_uc h js = \<lparr>uc_repository = sample_repository js,
     uc_manager = NetplanAdapter h (\<lambda>y. Inr ''yaml'') DefaultOptions, uc_host = h, uc_unmarshal = \<lambda>s. Inl (PlainError s),
     uc_detect = \<lambda>w. Inr OSTypeUbuntu, uc_env = \<lambda>k. [], uc_maxConcurrentTasks = 1, uc_maxRetries = 3, uc_backoffMultiplier = 2, uc_big = min_int64\<rparr>"

theorem Execute_accounts_witness:
  "\<exists>out. fst (Execute (sample_uc mute_host [example_iface 1 ''fa:16:3e:00:00:01'' [250, 22, 62, 0, 0, 1] False]) ''node-1'' fresh_os
       (NewInterfaceNamingService mute_host fresh_os)) = Inr out \<and> ProcessedCount out + FailedCount out = 1"
  using Execute_accounts [of "sample_uc mute_host [example_iface 1 ''fa:16:3e:00:00:01'' [250, 22, 62, 0, 0, 1] False]" fresh_os "''node-1''"
    "NewInterfaceNamingService mute_host fresh_os"]
  by (fastforce simp: sample_uc_def sample_repository_def)

text \<open>
  C5: with any number of workers the account is the same. Every run of the pool with the
  use case's handler is finite, and when it cannot go on the counts, results and failures
  collected by the hooks account for every interface exactly once; the run of one worker that
  \<open>Execute\<close> computes is one of these runs.
\<close>

theorem Execute_concurrent:
  "((exec_step uc osType)\<^sup>*\<^sup>* (NewWorkerPool n (int (length js)) js, exec_start w ns) (p, x) \<and> stuck (exec_step uc osType) (p, x) \<longrightarrow>
      wp_closed p \<and> xs_processed x + xs_failed x = int (length js) \<and>
      mset (map rs_key (xs_results x)) + mset (map fl_key (xs_failures x)) = mset (map job_key js)) \<and>
   (\<exists>s. (exec_step uc osType)\<^sup>*\<^sup>* (NewWorkerPool n (int (length js)) js, exec_start w ns) s \<and> stuck (exec_step uc osType) s) \<and>
   (drain uc osType fuel (map fresh js) (exec_start w ns) = Some y \<longrightarrow>
      (\<exists>p. (exec_step uc osType)\<^sup>*\<^sup>* (NewWorkerPool 1 (int (length js)) js, exec_start w ns) (p, y)))"
proof (intro conjI impI)
  let ?s0 = "(NewWorkerPool n (int (length js)) js, exec_start w ns)"
  assume a: "(exec_step uc osType)\<^sup>*\<^sup>* ?s0 (p, x) \<and> stuck (exec_step uc osType) (p, x)"
  have g: "exec_good uc (p, x)" using exec.run_good [OF conjunct1 [OF a] exec_good_start] .
  have "stuck (pool_step (retryPolicy uc)) p" using exec_stuck_pool a by blast
  then have d: "wp_closed p \<and> wp_submit p = [] \<and> wp_jobs p = [] \<and> holding p = {#} \<and> wp_dropped p = []"
    using stuck_is_done [of "retryPolicy uc" "max_attempts uc" p] g by (simp add: exec_good_def pool_good_def)
  have "all_jobs p = mset js"
    using run_frame [OF run_step_of_pool [OF exec_run_pool [OF conjunct1 [OF a]]]] by (simp add: all_jobs_New)
  then have "mset (map oc_job (wp_after p)) = mset js" using d by (simp add: all_jobs_def)
  then show "wp_closed p" "xs_processed x + xs_failed x = int (length js)"
    "mset (map rs_key (xs_results x)) + mset (map fl_key (xs_failures x)) = mset (map job_key js)"
    using exec_counts [OF g] d by blast+
next
  show "\<exists>s. (exec_step uc osType)\<^sup>*\<^sup>* (NewWorkerPool n (int (length js)) js, exec_start w ns) s \<and> stuck (exec_step uc osType) s"
    by (rule exec.run_ends [OF exec_good_start])
next
  assume d: "drain uc osType fuel (map fresh js) (exec_start w ns) = Some y"
  show "\<exists>p. (exec_step uc osType)\<^sup>*\<^sup>* (NewWorkerPool 1 (int (length js)) js, exec_start w ns) (p, y)"
    using Execute_run [OF d] by blast
qed

theorem Execute_concurrent_witness:
  "\<exists>p x. (exec_step (sample_uc mute_host [example_iface 1 [] [] False]) OSTypeUbuntu)\<^sup>*\<^sup>*
       (NewWorkerPool 4 1 [example_iface 1 [] [] False], exec_start fresh_os (NewInterfaceNamingService mute_host fresh_os)) (p, x) \<and>
     xs_processed x + xs_failed x = 1"
proof -
  let ?j = "example_iface 1 [] [] False" and ?ns = "NewInterfaceNamingService mute_host fresh_os"
  let ?u = "sample_uc mute_host [?j]"
  note E = Execute_concurrent [of ?u OSTypeUbuntu 4 "[?j]" fresh_os ?ns]
  obtain s where s: "(exec_step ?u OSTypeUbuntu)\<^sup>*\<^sup>* (NewWorkerPool 4 (int (length [?j])) [?j], exec_start fresh_os ?ns) s"
    "stuck (exec_step ?u OSTypeUbuntu) s"
    using conjunct1 [OF conjunct2 [OF E]] by blast
  obtain p x where px: "s = (p, x)" by fastforce
  then have "xs_processed x + xs_failed x = 1" using s conjunct1 [OF E, of p x] by simp
  then show ?thesis using s(1) px by auto
qed

text \<open>
  C19: a device in use is not touched. When the pre-flight check refuses an interface, its job
  changes nothing at all, fails with a validation error, and is not retried; a job that does
  change something has found the hardware address on a device that is managed already, is
  down, was released by \<open>PREFLIGHT_ALLOW_UP\<close>, or carries no IPv4 address, no route and no
  default route and is not enslaved.
\<close>

theorem preflight_guards:
  "(\<forall>err. preflightCheck uc (xs_world x) job = Some err \<longrightarrow>
      handleJob uc osType job x = (Some err, x) \<and> IsValidationError err \<and> \<not> fst (retryPolicy uc job err a)) \<and>
   (snd (handleJob uc osType job x) \<noteq> x \<longrightarrow>
      (\<exists>dev. FindInterfaceNameByMAC (uc_host uc) (xs_world x) (MacAddress job) = Inr dev \<and>
        (HasPrefix dev ''multinic'' \<or> \<not> uc_isInterfaceUp uc (xs_world x) dev \<or> envBool (uc_env uc) ''PREFLIGHT_ALLOW_UP'' \<or>
         (\<not> hasGlobalIPv4 uc (xs_world x) dev \<and> \<not> isEnslaved uc (xs_world x) dev \<and> hasRoutesForIface uc (xs_world x) dev = (False, False)))))"
proof -
  have err: "\<exists>m c. err = NewValidationError m c" if "preflightCheck uc (xs_world x) job = Some err" for err
    using that by (auto simp: preflightCheck_def Let_def split: sum.splits if_splits prod.splits)
  have "IsValidationError e \<and> \<not> fst (retryPolicy uc job e a)" if "e = NewValidationError m c" for e m c
    using that by (auto simp: NewValidationError_def NewError_def IsValidationError_def retryPolicy_def Let_def)
  then have 1: "handleJob uc osType job x = (Some e, x) \<and> IsValidationError e \<and> \<not> fst (retryPolicy uc job e a)"
    if "preflightCheck uc (xs_world x) job = Some e" for e
    using err [OF that] that by (auto simp: handleJob_def)
  have 2: "\<exists>dev. FindInterfaceNameByMAC (uc_host uc) (xs_world x) (MacAddress job) = Inr dev \<and>
        (HasPrefix dev ''multinic'' \<or> \<not> uc_isInterfaceUp uc (xs_world x) dev \<or> envBool (uc_env uc) ''PREFLIGHT_ALLOW_UP'' \<or>
         (\<not> hasGlobalIPv4 uc (xs_world x) dev \<and> \<not> isEnslaved uc (xs_world x) dev \<and> hasRoutesForIface uc (xs_world x) dev = (False, False)))"
    if "preflightCheck uc (xs_world x) job = None"
    using that by (auto simp: preflightCheck_def Let_def split: sum.splits if_splits prod.splits)
  show ?thesis using 1 2 by (cases "preflightCheck uc (xs_world x) job") auto
qed

theorem preflight_guards_witness:
  "handleJob (sample_uc mute_host []) OSTypeUbuntu (example_iface 1 ''fa:16:3e:00:00:01'' [250, 22, 62, 0, 0, 1] False)
     (exec_start fresh_os (NewInterfaceNamingService mute_host fresh_os)) =
   (preflightCheck (sample_uc mute_host []) fresh_os (example_iface 1 ''fa:16:3e:00:00:01'' [250, 22, 62, 0, 0, 1] False),
    exec_start fresh_os (NewInterfaceNamingService mute_host fresh_os))"
proof -
  let ?uc = "sample_uc mute_host []" and ?j = "example_iface 1 ''fa:16:3e:00:00:01'' [250, 22, 62, 0, 0, 1] False"
  let ?x = "exec_start fresh_os (NewInterfaceNamingService mute_host fresh_os)"
  obtain err where "preflightCheck ?uc (xs_world ?x) ?j = Some err"
    by (simp add: preflightCheck_def sample_uc_def FindInterfaceNameByMAC_def ex_query_def mute_host_def RealHost_def scripted_def)
  then show ?thesis using preflight_guards [of ?uc ?x ?j OSTypeUbuntu 0] by (simp add: exec_start_def)
qed

text \<open>The wait with multiplier two, in nanoseconds: it fits a duration up to attempt 36.\<close>

lemma wait_duration: "to_duration big (100000000 * 2 ^ b) = (if b \<le> 36 then 100000000 * 2 ^ b else big)"
proof (cases "b \<le> 36")
  case True
  have "(2 :: real) ^ b \<le> 2 ^ 36" using True by (intro power_increasing) auto
  then have "100000000 * (2 :: real) ^ b < 2 ^ 63" by simp
  then show ?thesis using True to_duration_nonneg [of "100000000 * 2 ^ b" big] floor_scaled_power [of _ b] by simp
next
  case False
  have "(2 :: real) ^ 37 \<le> 2 ^ b" using False by (intro power_increasing) auto
  then have "(2 :: real) ^ 63 \<le> 100000000 * 2 ^ b" by simp
  then show ?thesis using False by (simp add: to_duration_def)
qed

text \<open>
  With more attempts than the default the back-off leaves the durations: on amd64 the wait
  after attempt 37 is negative, so that a timer with it fires at once.
\<close>

lemma wait_overflows:
  assumes "uc_big uc = min_int64" "uc_backoffMultiplier uc = 2" "37 < uc_maxRetries uc"
  shows "snd (retryPolicy uc job (NewNetworkError msg c) 37) < 0"
  using assms by (simp add: retryPolicy_def Let_def NewNetworkError_def NewError_def pow_power to_duration_def min_int64_def)

text \<open>
  C20: which failures are tried again, and how long. A job is retried exactly while its attempt
  is below the limit and the error itself is a domain error of type timeout, network, system
  or resource; a domain error that another error wraps is not. With the default multiplier the
  wait after attempt \<open>a\<close> is \<open>100 ms * 2^a\<close> up to attempt 36; from attempt 37 on the product does
  not fit a duration and the wait is whatever the platform converts it to. While the limit is
  at most 37 attempts, all waits of a job together are therefore less than \<open>100 ms * 2^M\<close>.
\<close>

theorem retryPolicy_decides:
  "(fst (retryPolicy uc job err a) \<longleftrightarrow> a < max_attempts uc \<and>
      (\<exists>d c. err = DomainError d c \<and> err_Type d \<in> {ErrorTypeTimeout, ErrorTypeNetwork, ErrorTypeSystem, ErrorTypeResource})) \<and>
   \<not> fst (retryPolicy uc job (WrappedError m err) a) \<and>
   (uc_backoffMultiplier uc = 2 \<or> uc_backoffMultiplier uc \<le> 0 \<longrightarrow>
      (fst (retryPolicy uc job err a) \<longrightarrow> snd (retryPolicy uc job err a) = (if a \<le> 36 then 100000000 * 2 ^ a else uc_big uc)) \<and>
      (max_attempts uc \<le> 37 \<longrightarrow> (\<Sum>b<max_attempts uc. snd (retryPolicy uc job err b)) < 100000000 * 2 ^ max_attempts uc))"
proof -
  have yes: "fst (retryPolicy uc job err b) \<longleftrightarrow> b < max_attempts uc \<and>
      (\<exists>d c. err = DomainError d c \<and> err_Type d \<in> {ErrorTypeTimeout, ErrorTypeNetwork, ErrorTypeSystem, ErrorTypeResource})" for b
    by (cases err) (auto simp: retryPolicy_def Let_def max_attempts_def DefaultMaxRetries_def)
  have wait: "snd (retryPolicy uc job err b) =
      (if fst (retryPolicy uc job err b) then (if b \<le> 36 then 100000000 * 2 ^ b else uc_big uc) else 0)"
    if "uc_backoffMultiplier uc = 2 \<or> uc_backoffMultiplier uc \<le> 0" for b
    using that by (cases err) (auto simp: retryPolicy_def Let_def DefaultBackoffMultiplier_def pow_power wait_duration)
  have "(\<Sum>b<n. (100000000 * 2 ^ b :: int)) < 100000000 * 2 ^ n" for n :: nat
    by (induction n) auto
  moreover have "(\<Sum>b<max_attempts uc. snd (retryPolicy uc job err b)) \<le> (\<Sum>b<max_attempts uc. 100000000 * 2 ^ b)"
    if "uc_backoffMultiplier uc = 2 \<or> uc_backoffMultiplier uc \<le> 0" "max_attempts uc \<le> 37"
    using that(2) by (intro sum_mono) (auto simp: wait [OF that(1)])
  ultimately have "(\<Sum>b<max_attempts uc. snd (retryPolicy uc job err b)) < 100000000 * 2 ^ max_attempts uc"
    if "uc_backoffMultiplier uc = 2 \<or> uc_backoffMultiplier uc \<le> 0" "max_attempts uc \<le> 37"
    using that by (meson le_less_trans)
  then show ?thesis using yes wait by (auto simp: retryPolicy_def Let_def)
qed

theorem retryPolicy_decides_witness:
  "fst (retryPolicy (sample_uc mute_host []) (example_iface 1 [] [] False) (NewNetworkError ''x'' None) 2) \<and>
   snd (retryPolicy (sample_uc mute_host []) (example_iface 1 [] [] False) (NewNetworkError ''x'' None) 2) = 400000000"
  using retryPolicy_decides [of "sample_uc mute_host []" "example_iface 1 [] [] False" "NewNetworkError ''x'' None" 2]
  by (simp add: NewNetworkError_def NewError_def sample_uc_def max_attempts_def)

end
