(* ===== verification/Delete.thy ===== *)
theory Delete
  imports Configure
begin

text \<open>
  \<open>internal/application/usecases/delete_network.go\<close>: the use case that removes the
  configuration of interfaces the node no longer has, or of all interfaces in cleanup mode.
  The YAML decoder is a parameter that yields, for each entry of the file's ethernets in the
  order the runtime visits them, its name and hardware address. Contexts, metrics and logging
  are left out.
\<close>

section \<open>Data\<close>

record DeleteNetworkInput =
  di_NodeName :: string
  di_FullCleanup :: bool

record DeleteNetworkOutput =
  DeletedInterfaces :: "string list"
  TotalDeleted :: int
  Errors :: "go_error list"

type_synonym mac_decoder = "string \<Rightarrow> (go_error, (string \<times> string) list) result"

record 'w DeleteNetworkUseCase =
  du_detect :: "'w \<Rightarrow> (go_error, OSType) result"
  du_manager :: "'w NetworkManager"
  du_repository :: "'w Repository"
  du_host :: "'w Host"
  du_decode :: mac_decoder
  du_env :: "string \<Rightarrow> string"

definition NewDeleteNetworkUseCase :: "('w \<Rightarrow> (go_error, OSType) result) \<Rightarrow> 'w NetworkManager \<Rightarrow> 'w Repository \<Rightarrow> 'w Host
    \<Rightarrow> mac_decoder \<Rightarrow> (string \<Rightarrow> string) \<Rightarrow> 'w DeleteNetworkUseCase" where
  "NewDeleteNetworkUseCase detect rollbacker repository host decode env =
     \<lparr>du_detect = detect, du_manager = rollbacker, du_repository = repository, du_host = host, du_decode = decode, du_env = env\<rparr>"

definition no_output :: DeleteNetworkOutput where
  "no_output = \<lparr>DeletedInterfaces = [], TotalDeleted = 0, Errors = []\<rparr>"

definition wrap :: "string \<Rightarrow> go_error \<Rightarrow> go_error" where
  "wrap msg err = WrappedError (msg @ '': '' @ Error err) err"

section \<open>File names\<close>

definition isMultinicNetplanFile :: "string \<Rightarrow> bool" where
  "isMultinicNetplanFile fileName \<longleftrightarrow>
     Contains fileName ''multinic'' \<and> HasSuffix fileName ''.yaml'' \<and> HasPrefix fileName ''9'' \<and> Contains fileName ''-''"

definition extractInterfaceNameFromFile :: "string \<Rightarrow> string" where
  "extractInterfaceNameFromFile fileName =
     (if \<not> Contains fileName ''multinic'' then []
      else let nameWithoutExt = TrimSuffix fileName ''.yaml''
           in case find (\<lambda>part. HasPrefix part ''multinic'') (Split nameWithoutExt (CHR ''-'')) of
                Some part \<Rightarrow> part
              | None \<Rightarrow> (if HasPrefix nameWithoutExt ''multinic'' then nameWithoutExt else []))"

definition isMultinicIfcfgFile :: "string \<Rightarrow> bool" where
  "isMultinicIfcfgFile fileName = HasPrefix fileName ''ifcfg-multinic''"

definition extractInterfaceNameFromIfcfgFile :: "string \<Rightarrow> string" where
  "extractInterfaceNameFromIfcfgFile fileName = (if HasPrefix fileName ''ifcfg-'' then TrimPrefix fileName ''ifcfg-'' else [])"

section \<open>Hardware addresses of the files\<close>

definition trimQuotes :: "string \<Rightarrow> string" where
  "trimQuotes s = Trim (\<lambda>c. c = CHR 0x22 \<or> c = CHR 0x27) s"

definition getMACAddressFromIfcfgFile :: "'w DeleteNetworkUseCase \<Rightarrow> 'w \<Rightarrow> string \<Rightarrow> (go_error, string) result" where
  "getMACAddressFromIfcfgFile uc w filePath =
     (case fs_ReadFile (du_host uc) filePath w of
        Inl err \<Rightarrow> Inl (wrap ''failed to read file'' err)
      | Inr content \<Rightarrow>
          (case find (\<lambda>line. HasPrefix line ''HWADDR='') (map TrimSpace (Split content NL)) of
             Some line \<Rightarrow> Inr (trimQuotes (TrimPrefix line ''HWADDR=''))
           | None \<Rightarrow> Inl (PlainError ''HWADDR not found in ifcfg file'')))"

definition getMACAddressFromNetplanFile :: "'w DeleteNetworkUseCase \<Rightarrow> 'w \<Rightarrow> string \<Rightarrow> (go_error, string) result" where
  "getMACAddressFromNetplanFile uc w filePath =
     (case fs_ReadFile (du_host uc) filePath w of
        Inl err \<Rightarrow> Inl (wrap ''failed to read file'' err)
      | Inr content \<Rightarrow>
          (case du_decode uc content of
             Inl err \<Rightarrow> Inl (wrap ''failed to parse YAML'' err)
           | Inr eths \<Rightarrow>
               (case find (\<lambda>eth. snd eth \<noteq> []) eths of
                  Some eth \<Rightarrow> Inr (snd eth)
                | None \<Rightarrow> Inl (PlainError ''MAC address not found''))))"

section \<open>Orphans\<close>

text \<open>The files whose address could be read and is not among the active ones.\<close>

definition activeMACs :: "NetworkInterface list \<Rightarrow> string list" where
  "activeMACs ifaces = map (\<lambda>i. ToLower (MacAddress i)) ifaces"

definition is_orphan :: "(string \<Rightarrow> (go_error, string) result) \<Rightarrow> string list \<Rightarrow> string \<Rightarrow> bool" where
  "is_orphan getMAC active path = (case getMAC path of Inl _ \<Rightarrow> False | Inr mac \<Rightarrow> \<not> List.member active (ToLower mac))"

definition findOrphanedNetplanFiles :: "'w DeleteNetworkUseCase \<Rightarrow> 'w \<Rightarrow> (go_error, string list) result" where
  "findOrphanedNetplanFiles uc w =
     (case ListNetplanFiles (du_host uc) w ''/etc/netplan'' of
        Inl err \<Rightarrow> Inl (wrap ''failed to scan netplan directory'' err)
      | Inr files \<Rightarrow>
          (case GetHostname (du_host uc) w of
             Inl err \<Rightarrow> Inl (wrap ''failed to get hostname'' err)
           | Inr hostname \<Rightarrow>
               (case rp_GetAllNodeInterfaces (du_repository uc) hostname w of
                  Inl err \<Rightarrow> Inl (wrap ''failed to get active interfaces'' err)
                | Inr ifaces \<Rightarrow>
                    Inr (filter (\<lambda>f. isMultinicNetplanFile f \<and>
                      is_orphan (getMACAddressFromNetplanFile uc w) (activeMACs ifaces) (''/etc/netplan'' @ ''/'' @ f)) files))))"

definition findOrphanedIfcfgFiles :: "'w DeleteNetworkUseCase \<Rightarrow> 'w \<Rightarrow> string list \<Rightarrow> string \<Rightarrow> (go_error, string list) result" where
  "findOrphanedIfcfgFiles uc w files ifcfgDir =
     (case GetHostname (du_host uc) w of
        Inl err \<Rightarrow> Inl (wrap ''failed to get hostname'' err)
      | Inr hostname \<Rightarrow>
          (case rp_GetAllNodeInterfaces (du_repository uc) hostname w of
             Inl err \<Rightarrow> Inl (wrap ''failed to get active interfaces'' err)
           | Inr ifaces \<Rightarrow>
               Inr (filter (\<lambda>f. isMultinicIfcfgFile f \<and>
                 is_orphan (getMACAddressFromIfcfgFile uc w) (activeMACs ifaces) (ifcfgDir @ ''/'' @ f)) files)))"

section \<open>Deleting\<close>

definition record_deletion :: "string \<Rightarrow> string \<Rightarrow> string \<Rightarrow> go_error option \<Rightarrow> DeleteNetworkOutput \<Rightarrow> DeleteNetworkOutput" where
  "record_deletion kind fileName interfaceName r out =
     (case r of
        Some err \<Rightarrow> out\<lparr>Errors := Errors out @ [wrap (''failed to delete '' @ kind @ '' file '' @ fileName) err]\<rparr>
      | None \<Rightarrow> out\<lparr>DeletedInterfaces := DeletedInterfaces out @ [interfaceName], TotalDeleted := TotalDeleted out + 1\<rparr>)"

definition deleteNetplanFile :: "'w DeleteNetworkUseCase \<Rightarrow> string \<Rightarrow> 'w \<Rightarrow> go_error option \<times> 'w" where
  "deleteNetplanFile uc interfaceName w =
     (case nm_Rollback (du_manager uc) interfaceName w of
        (Some err, w') \<Rightarrow> (Some (wrap ''failed to rollback netplan file'' err), w')
      | (None, w') \<Rightarrow> (None, w'))"

fun deleteNetplanFiles :: "'w DeleteNetworkUseCase \<Rightarrow> string list \<Rightarrow> DeleteNetworkOutput \<Rightarrow> 'w \<Rightarrow> DeleteNetworkOutput \<times> 'w" where
  "deleteNetplanFiles uc [] out w = (out, w)"
| "deleteNetplanFiles uc (f # fs) out w =
     (case deleteNetplanFile uc (extractInterfaceNameFromFile f) w of
        (r, w') \<Rightarrow> deleteNetplanFiles uc fs (record_deletion ''netplan'' f (extractInterfaceNameFromFile f) r out) w')"

fun deleteIfcfgFiles :: "'w DeleteNetworkUseCase \<Rightarrow> string list \<Rightarrow> DeleteNetworkOutput \<Rightarrow> 'w \<Rightarrow> DeleteNetworkOutput \<times> 'w" where
  "deleteIfcfgFiles uc [] out w = (out, w)"
| "deleteIfcfgFiles uc (f # fs) out w =
     (if extractInterfaceNameFromIfcfgFile f = [] then deleteIfcfgFiles uc fs out w
      else case nm_Rollback (du_manager uc) (extractInterfaceNameFromIfcfgFile f) w of
        (r, w') \<Rightarrow> deleteIfcfgFiles uc fs (record_deletion ''ifcfg'' f (extractInterfaceNameFromIfcfgFile f) r out) w')"

text \<open>
  Giving left-over devices an alternative name of theirs: only devices that exist, are known
  to be down and have an alternative name that is not in use.
\<close>

definition releaseName :: "'w DeleteNetworkUseCase \<Rightarrow> 'w \<Rightarrow> string \<Rightarrow> 'w" where
  "releaseName uc w name =
     (if \<not> InterfaceExists (du_host uc) w name then w
      else case IsInterfaceUp (du_host uc) w name of
        Inl _ \<Rightarrow> w
      | Inr up \<Rightarrow>
          (if up then w
           else case GetAltNames (du_host uc) w name of
             Inl _ \<Rightarrow> w
           | Inr alts \<Rightarrow>
               (case find (\<lambda>alt. \<not> InterfaceExists (du_host uc) w alt) alts of
                  None \<Rightarrow> w
                | Some alt \<Rightarrow> (if alt = [] then w else snd (RenameInterface (du_host uc) name alt w)))))"

definition cleanupMultinicInterfaceNames :: "'w DeleteNetworkUseCase \<Rightarrow> 'w \<Rightarrow> 'w" where
  "cleanupMultinicInterfaceNames uc w = foldl (releaseName uc) w (map multinic [0..<10])"

section \<open>The modes\<close>

definition executeNetplanCleanup :: "'w DeleteNetworkUseCase \<Rightarrow> 'w \<Rightarrow> (go_error, DeleteNetworkOutput) result \<times> 'w" where
  "executeNetplanCleanup uc w =
     (case findOrphanedNetplanFiles uc w of
        Inl err \<Rightarrow> (Inl (wrap ''failed to find orphaned netplan files'' err), w)
      | Inr orphanedFiles \<Rightarrow>
          (if orphanedFiles = [] then (Inr no_output, w)
           else case deleteNetplanFiles uc orphanedFiles no_output w of (out, w') \<Rightarrow> (Inr out, w')))"

definition executeFullNetplanCleanup :: "'w DeleteNetworkUseCase \<Rightarrow> 'w \<Rightarrow> (go_error, DeleteNetworkOutput) result \<times> 'w" where
  "executeFullNetplanCleanup uc w =
     (case ListNetplanFiles (du_host uc) w ''/etc/netplan'' of
        Inl err \<Rightarrow> (Inl (wrap ''failed to scan netplan directory'' err), w)
      | Inr files \<Rightarrow>
          (let multinicFiles = filter isMultinicNetplanFile files
           in if multinicFiles = [] then (Inr no_output, cleanupMultinicInterfaceNames uc w)
              else case deleteNetplanFiles uc multinicFiles no_output w of (out, w') \<Rightarrow> (Inr out, w')))"

text \<open>
  An error of \<open>os.ReadDir\<close> for a missing directory says so in its text, so \<open>os.IsNotExist\<close>
  adds nothing to the test of the text.
\<close>

definition executeIfcfgCleanup :: "'w DeleteNetworkUseCase \<Rightarrow> 'w \<Rightarrow> (go_error, DeleteNetworkOutput) result \<times> 'w" where
  "executeIfcfgCleanup uc w =
     (case ListNetplanFiles (du_host uc) w ''/etc/sysconfig/network-scripts'' of
        Inl err \<Rightarrow>
          (if Contains (Error err) ''no such file or directory'' then (Inr no_output, cleanupMultinicInterfaceNames uc w)
           else (Inl (wrap ''failed to list ifcfg files'' err), w))
      | Inr files \<Rightarrow>
          (case findOrphanedIfcfgFiles uc w files ''/etc/sysconfig/network-scripts'' of
             Inl err \<Rightarrow> (Inl (wrap ''failed to find orphaned ifcfg files'' err), w)
           | Inr orphanedFiles \<Rightarrow>
               (if orphanedFiles = [] then (Inr no_output, w)
                else case deleteIfcfgFiles uc orphanedFiles no_output w of (out, w') \<Rightarrow> (Inr out, w'))))"

definition executeFullIfcfgCleanup :: "'w DeleteNetworkUseCase \<Rightarrow> 'w \<Rightarrow> (go_error, DeleteNetworkOutput) result \<times> 'w" where
  "executeFullIfcfgCleanup uc w =
     (case ListNetplanFiles (du_host uc) w ''/etc/sysconfig/network-scripts'' of
        Inl err \<Rightarrow> (Inl (wrap ''failed to list ifcfg files'' err), w)
      | Inr files \<Rightarrow>
          (let multinicFiles = filter isMultinicIfcfgFile files
           in if multinicFiles = [] then (Inr no_output, cleanupMultinicInterfaceNames uc w)
              else case deleteIfcfgFiles uc multinicFiles no_output w of (out, w') \<Rightarrow> (Inr out, w')))"

definition Delete_Execute :: "'w DeleteNetworkUseCase \<Rightarrow> DeleteNetworkInput \<Rightarrow> 'w \<Rightarrow> (go_error, DeleteNetworkOutput) result \<times> 'w" where
  "Delete_Execute uc input w =
     (case du_detect uc w of
        Inl err \<Rightarrow> (Inl (wrap ''failed to detect OS'' err), w)
      | Inr osType \<Rightarrow>
          (if di_FullCleanup input \<or> du_env uc ''AGENT_ACTION'' = ''cleanup'' then
             (case osType of OSTypeUbuntu \<Rightarrow> executeFullNetplanCleanup uc w | OSTypeRHEL \<Rightarrow> executeFullIfcfgCleanup uc w)
           else
             (case osType of OSTypeUbuntu \<Rightarrow> executeNetplanCleanup uc w | OSTypeRHEL \<Rightarrow> executeIfcfgCleanup uc w)))"

section \<open>The deletion loop\<close>

lemma deleteNetplanFile_rollback:
  "snd (deleteNetplanFile uc n w) = snd (nm_Rollback (du_manager uc) n w)"
  "fst (deleteNetplanFile uc n w) = None \<longleftrightarrow> fst (nm_Rollback (du_manager uc) n w) = None"
  by (auto simp: deleteNetplanFile_def split: prod.splits option.splits)

lemma deleteNetplanFiles_world:
  "snd (deleteNetplanFiles uc fs out w) =
     foldl (\<lambda>w n. snd (nm_Rollback (du_manager uc) n w)) w (map extractInterfaceNameFromFile fs)"
  by (induction fs arbitrary: out w) (auto simp: deleteNetplanFile_rollback(1) [symmetric] split: prod.splits)

lemma record_deletion_parts:
  "TotalDeleted (record_deletion k f n r out) = TotalDeleted out + (if r = None then 1 else 0)"
  "DeletedInterfaces (record_deletion k f n r out) = DeletedInterfaces out @ (if r = None then [n] else [])"
  "length (Errors (record_deletion k f n r out)) = length (Errors out) + (if r = None then 0 else 1)"
  by (auto simp: record_deletion_def split: option.splits)

lemma deleteNetplanFiles_counts:
  assumes "deleteNetplanFiles uc fs out w = (out', w')"
  shows "\<exists>del. DeletedInterfaces out' = DeletedInterfaces out @ del \<and> subseq del (map extractInterfaceNameFromFile fs) \<and>
    TotalDeleted out' = TotalDeleted out + int (length del) \<and> length (Errors out') + length del = length (Errors out) + length fs"
  using assms
proof (induction fs arbitrary: out w)
  case (Cons f fs)
  obtain r w1 where r: "deleteNetplanFile uc (extractInterfaceNameFromFile f) w = (r, w1)" by fastforce
  let ?n = "extractInterfaceNameFromFile f" and ?o = "record_deletion ''netplan'' f (extractInterfaceNameFromFile f) r out"
  obtain del where d: "DeletedInterfaces out' = DeletedInterfaces ?o @ del" "subseq del (map extractInterfaceNameFromFile fs)"
    "TotalDeleted out' = TotalDeleted ?o + int (length del)" "length (Errors out') + length del = length (Errors ?o) + length fs"
    using Cons.IH [of ?o w1] Cons.prems r by auto
  show ?case
    by (rule exI [of _ "(if r = None then [?n] else []) @ del"]) (use d in \<open>auto simp: record_deletion_parts\<close>)
qed simp

text \<open>A deletion that is not reported as an error left no file of the name.\<close>

context removing_manager
begin

lemma deleted_files_gone:
  assumes "iv w" "deleteNetplanFiles uc fs out w = (out', w')" "du_manager uc = nm"
    and "f \<in> set fs" "Clean q \<in> owns (extractInterfaceNameFromFile f)" "length (Errors out') = length (Errors out)"
  shows "fs_ReadFile h q w' \<noteq> Inr c"
  using assms
proof (induction fs arbitrary: out w)
  case (Cons g gs)
  let ?n = "extractInterfaceNameFromFile g" and ?w1 = "snd (nm_Rollback nm (extractInterfaceNameFromFile g) w)"
  let ?r = "fst (deleteNetplanFile uc ?n w)" and ?o = "record_deletion ''netplan'' g ?n (fst (deleteNetplanFile uc ?n w)) out"
  have step: "deleteNetplanFiles uc gs ?o ?w1 = (out', w')"
    using Cons.prems deleteNetplanFile_rollback(1) [of uc ?n w] by (simp split: prod.splits)
  have iv1: "iv ?w1" by (rule rollback_inv [OF Cons.prems(1)])
  obtain del where "length (Errors out') + length del = length (Errors ?o) + length gs"
    "subseq del (map extractInterfaceNameFromFile gs)"
    using deleteNetplanFiles_counts [OF step] by blast
  moreover from this(2) have "length del \<le> length gs" using list_emb_length by fastforce
  ultimately have e: "?r = None" "length (Errors out') = length (Errors ?o)"
    using Cons.prems(6) by (auto simp: record_deletion_parts split: if_splits)
  show ?case
  proof (cases "f \<in> set gs")
    case True
    then show ?thesis using Cons.IH [OF iv1 step Cons.prems(3)] Cons.prems(5) e(2) by simp
  next
    case False
    then have f: "f = g" using Cons.prems(4) by simp
    have "fst (nm_Rollback nm ?n w) = None" using e(1) deleteNetplanFile_rollback(2) [of uc ?n w] Cons.prems(3) by simp
    then have "nm_Rollback nm ?n w = (None, ?w1)" by (simp add: prod_eq_iff)
    from rollback_clears [OF Cons.prems(1) this, of q c] f Cons.prems(5)
    have "fs_ReadFile h q ?w1 \<noteq> Inr c" by simp
    moreover have "w' = foldl (\<lambda>w n. snd (nm_Rollback nm n w)) ?w1 (map extractInterfaceNameFromFile gs)"
      using deleteNetplanFiles_world [of uc gs ?o ?w1] step Cons.prems(3) by simp
    ultimately show ?thesis using rollback_all_shrinks [OF iv1] by auto
  qed
qed simp

end

section \<open>The Netplan manager on a host\<close>

lemma RFS_Remove_shrinks: "RFS_Remove p w = (r, w') \<Longrightarrow> os_ReadFile q w' = Inr c \<Longrightarrow> os_ReadFile q w = Inr c"
  by (auto simp: RFS_Remove_def os_Remove_def os_ReadFile_ok delete_conv split: if_splits option.splits)

interpretation shn: removing_manager "RealHost (scripted answer)" os_inv "NetplanAdapter (RealHost (scripted answer)) marshal opts"
    "\<lambda>n. {Clean (netplanPath n)}" for answer marshal opts
proof
  fix w n q c w'
  let ?h = "RealHost (scripted answer)"
  have k: "keeps ?h os_inv v (cleanupRouting (ex_exec ?h) opt n v)" for v opt n
    by (rule quiet_cleanup [OF sh.quiet_direct])
  assume iv: "os_inv w"
  show "fs_ReadFile ?h q w = Inr c" if "fs_ReadFile ?h q (snd (nm_Rollback (NetplanAdapter ?h marshal opts) n w)) = Inr c"
    using that k iv RFS_Remove_shrinks
    by (auto simp: NetplanAdapter_def Netplan_Rollback_def keeps_def sysErr_def RealHost_def andThen_def split: prod.splits option.splits if_splits)
  show "fs_ReadFile ?h q w' \<noteq> Inr c" if "nm_Rollback (NetplanAdapter ?h marshal opts) n w = (None, w')" "Clean q \<in> {Clean (netplanPath n)}"
  proof -
    have "fs_ReadFile ?h (netplanPath n) w' \<noteq> Inr c"
      using sh.Netplan_Rollback_gone [OF iv, where answer = answer] that(1) by (simp add: NetplanAdapter_def)
    then show ?thesis using that(2) by (simp add: RealHost_def os_ReadFile_ok)
  qed
qed

section \<open>The names the adapter writes\<close>

lemma valid_name_shape:
  assumes "is_interface_name n"
  shows "HasPrefix n ''multinic''" "CHR ''-'' \<notin> set n" "CHR ''/'' \<notin> set n"
    "\<exists>k < 10. extractInterfaceIndex n = int k"
proof -
  obtain en where en: "NewInterfaceName n = Inr en" using assms by (auto simp: is_interface_name_def is_ok_iff)
  then obtain ds where ds: "n = ''multinic'' @ ds" "list_all is_digit ds" "dec_val ds < 10" "name_index en = int (dec_val ds)"
    by (auto simp: NewInterfaceName_ok InterfacePrefix_def)
  then show "HasPrefix n ''multinic''" by (simp add: HasPrefix_def)
  have "CHR ''-'' \<notin> set ds" using ds(2) not_digit_sign by (auto simp: list_all_iff)
  then show "CHR ''-'' \<notin> set n" using ds(1) by simp
  show "CHR ''/'' \<notin> set n" by (rule valid_name_chars(1) [OF en])
  show "\<exists>k < 10. extractInterfaceIndex n = int k" using extractInterfaceIndex_valid [OF en] ds(3,4) by metis
qed

lemma config_file_parts:
  assumes "is_interface_name n"
  shows "\<exists>d. CHR ''-'' \<notin> set d \<and> \<not> HasPrefix (''9'' @ d) ''multinic'' \<and> config_file n ''.yaml'' = ((''9'' @ d) @ CHR ''-'' # n) @ ''.yaml''"
proof -
  obtain k where k: "k < 10" "extractInterfaceIndex n = int k" using valid_name_shape(4) [OF assms] by blast
  have "CHR ''-'' \<notin> set (utoa k)" using set_utoa_digit [of "CHR ''-''" k] not_digit_sign by auto
  then show ?thesis using k by (intro exI [of _ "utoa k"]) (simp add: config_file_def Itoa_def HasPrefix_def)
qed

lemma extract_config_file:
  assumes "is_interface_name n"
  shows "extractInterfaceNameFromFile (config_file n ''.yaml'') = n" "isMultinicNetplanFile (config_file n ''.yaml'')"
    "extractInterfaceNameFromPath (netplanPath n) = n" "''/etc/netplan'' @ ''/'' @ config_file n ''.yaml'' = netplanPath n"
proof -
  obtain d where d: "CHR ''-'' \<notin> set d" "\<not> HasPrefix (''9'' @ d) ''multinic''"
    "config_file n ''.yaml'' = ((''9'' @ d) @ CHR ''-'' # n) @ ''.yaml''"
    using config_file_parts [OF assms] by blast
  note n = valid_name_shape [OF assms]
  obtain r where r: "n = ''multinic'' @ r" using n(1) by (auto simp: HasPrefix_iff)
  have c: "Contains (config_file n ''.yaml'') ''multinic''"
    unfolding Contains_iff using d(3) r by (intro exI [of _ "''9'' @ d @ ''-''"] exI [of _ "r @ ''.yaml''"]) simp
  have sp: "Split ((''9'' @ d) @ CHR ''-'' # n) (CHR ''-'') = [''9'' @ d, n]"
    using Split_append [of "CHR ''-''" "''9'' @ d" n] Split_none [OF n(2)] d(1) by simp
  have tr: "TrimSuffix (config_file n ''.yaml'') ''.yaml'' = (''9'' @ d) @ CHR ''-'' # n"
    unfolding d(3) by (rule TrimSuffix_append)
  show "extractInterfaceNameFromFile (config_file n ''.yaml'') = n"
    unfolding extractInterfaceNameFromFile_def Let_def tr sp using c d(2) n(1) by (simp del: append.simps)
  have suf: "HasSuffix (config_file n ''.yaml'') ''.yaml''" unfolding d(3) by (rule HasSuffix_append)
  have dash: "Contains (config_file n ''.yaml'') ''-''" unfolding Contains_singleton d(3) by simp
  have "HasPrefix (config_file n ''.yaml'') ''9''" unfolding d(3) by (simp add: HasPrefix_def)
  then show "isMultinicNetplanFile (config_file n ''.yaml'')" using c suf dash by (simp add: isMultinicNetplanFile_def)
  have p: "netplanPath n = CHR ''/'' # Join ([''etc'', ''netplan''] @ [config_file n ''.yaml'']) ''/''"
    using config_paths(1) [OF n(3)] by simp
  have "plain (config_file n ''.yaml'')" using n(3) by (intro config_file_plain) simp_all
  then have "Base (netplanPath n) = config_file n ''.yaml''" unfolding p by (intro Base_plain) simp_all
  then show "extractInterfaceNameFromPath (netplanPath n) = n"
    using suf dash tr sp by (simp add: extractInterfaceNameFromPath_def Let_def)
  show "''/etc/netplan'' @ ''/'' @ config_file n ''.yaml'' = netplanPath n" unfolding p by simp
qed

section \<open>Properties\<close>

text \<open>
  C35: the name of an interface can be read back from its Netplan file. For every interface
  name the file that the adapter writes is recognised as one of the program's, both the
  cleanup and the drift detector get the name back from it, and the path under which the
  cleanup looks at it is the adapter's.
\<close>

theorem netplan_file_name_roundtrip:
  assumes "is_interface_name n"
  shows "extractInterfaceNameFromFile (Base (netplanPath n)) = n \<and> isMultinicNetplanFile (Base (netplanPath n)) \<and>
    extractInterfaceNameFromPath (netplanPath n) = n \<and> ''/etc/netplan'' @ ''/'' @ Base (netplanPath n) = netplanPath n"
proof -
  have "plain (config_file n ''.yaml'')" using valid_name_shape(3) [OF assms] by (intro config_file_plain) simp_all
  moreover have "netplanPath n = CHR ''/'' # Join ([''etc'', ''netplan''] @ [config_file n ''.yaml'']) ''/''"
    using config_paths(1) [OF valid_name_shape(3) [OF assms]] by simp
  ultimately have "Base (netplanPath n) = config_file n ''.yaml''" using Base_plain [of "[''etc'', ''netplan'']"] by simp
  then show ?thesis using extract_config_file [OF assms] by simp
qed

theorem netplan_file_name_roundtrip_witness: "extractInterfaceNameFromFile (Base (netplanPath ''multinic3'')) = ''multinic3''"
proof -
  have "is_interface_name ''multinic3''" by code_simp
  from netplan_file_name_roundtrip [OF this] show ?thesis by (rule conjunct1)
qed


definition cleanup_uc :: "(string \<Rightarrow> string list \<Rightarrow> os_state \<Rightarrow> (go_error, string) result) \<Rightarrow> NetworkInterface list \<Rightarrow> os_state DeleteNetworkUseCase" where
  "cleanup_uc answer js = \<lparr>du_detect = \<lambda>w. Inr OSTypeUbuntu,
     du_manager = NetplanAdapter (RealHost (scripted answer)) (\<lambda>y. Inr ''yaml'') DefaultOptions,
     du_repository = sample_repository js, du_host = RealHost (scripted answer),
     du_decode = \<lambda>s. Inr [(''eth'', s)], du_env = \<lambda>k. []\<rparr>"

definition two_files :: os_state where
  "two_files = \<lparr>os_files = [(''/etc/netplan/91-multinic1.yaml'', ''fa:16:3e:00:00:01''), (''/etc/netplan/92-multinic2.yaml'', ''fa:16:3e:00:00:02'')],
     os_dirs = [''/'', ''/etc'', ''/etc/netplan''], os_fault = (\<lambda>_ _. None), os_log = []\<rparr>"


text \<open>
  The cleanup of an orphan whose file name does not carry its interface's index removes
  the wrong file. With a file \<open>95-multinic1.yaml\<close> of an address the node no longer has beside
  \<open>91-multinic1.yaml\<close> of an interface it has, the cleanup deletes the latter, keeps the orphan
  and reports \<open>multinic1\<close> as deleted.
\<close>

theorem misnumbered_orphan_deletes_active:
  "let w = two_files\<lparr>os_files := [(''/etc/netplan/91-multinic1.yaml'', ''fa:16:3e:00:00:01''), (''/etc/netplan/95-multinic1.yaml'', ''fa:16:3e:00:00:09'')]\<rparr>;
       r = executeNetplanCleanup (cleanup_uc (\<lambda>c a s. Inr ''node-1'') [example_iface 1 ''fa:16:3e:00:00:01'' [250, 22, 62, 0, 0, 1] False]) w
   in findOrphanedNetplanFiles (cleanup_uc (\<lambda>c a s. Inr ''node-1'') [example_iface 1 ''fa:16:3e:00:00:01'' [250, 22, 62, 0, 0, 1] False]) w = Inr [''95-multinic1.yaml''] \<and>
      fst r = Inr \<lparr>DeletedInterfaces = [''multinic1''], TotalDeleted = 1, Errors = []\<rparr> \<and>
      map fst (os_files (snd r)) = [''/etc/netplan/95-multinic1.yaml'']"
  by code_simp

end
