(* ===== verification/Drift_Check.thy ===== *)
theory Drift_Check
  imports Delete
begin

text \<open>
  The drift detector of \<open>drift_detector.go\<close> on the files that the Netplan adapter of
  \<open>netplan_adapter.go\<close> writes.
\<close>

section \<open>The generated configuration\<close>

lemma generated_keys:
  assumes "wf_interface iface" "Split (CIDR_of iface) (CHR ''/'') = [a, ds]"
  shows "\<exists>kvs. generateNetplanConfig opts iface name =
      YMap [(''network'', YMap [(''version'', YInt 2), (''ethernets'', YMap [(name, YMap kvs)])])] \<and>
    map_of kvs ''match'' = Some (YMap [(''macaddress'', YStr (MacAddress iface))]) \<and>
    map_of kvs ''addresses'' = Some (YSeq (map YStr [Address iface @ ''/'' @ ds])) \<and> map_of kvs ''mtu'' = Some (YInt (MTU_of iface))"
proof -
  have "CIDR_of iface \<noteq> []" using wf_CIDR [OF assms(1)] by metis
  then show ?thesis
    using assms wf_Address(2) [OF assms(1)] wf_interface_bounds(3) [OF assms(1)]
    by (simp add: generateNetplanConfig_def Let_def)
qed

section \<open>Property\<close>



end
