(* ===== verification/Json.thy ===== *)
theory Json
  imports Complex_Main Go_Strings "HOL-Library.AList"
begin

text \<open>
  The values of Kubernetes' unstructured objects, and the accessors of
  \<open>apimachinery/pkg/apis/meta/v1/unstructured\<close> that the program calls, as far as their
  documentation fixes them: a field that is missing is not found, a value of another type
  than asked for is an error, and callers that drop the error get the zero value. Integers of
  a decoded object are 64 bit; other numbers are floats, here rationals.
\<close>

datatype json =
    JNull
  | JBool bool
  | JInt int
  | JFloat rat
  | JString string
  | JArray "json list"
  | JObject "(string \<times> json) list"

fun field :: "string \<Rightarrow> json \<Rightarrow> json option" where
  "field k (JObject kvs) = map_of kvs k"
| "field k _ = None"

fun nested :: "json \<Rightarrow> string list \<Rightarrow> json option" where
  "nested v [] = Some v"
| "nested v (k # ks) = (case field k v of None \<Rightarrow> None | Some u \<Rightarrow> nested u ks)"

text \<open>A type assertion \<open>v, ok := x.(T)\<close>, with the zero value when it fails.\<close>

fun as_string :: "json option \<Rightarrow> string option" where
  "as_string (Some (JString s)) = Some s"
| "as_string _ = None"

fun as_int :: "json option \<Rightarrow> int option" where
  "as_int (Some (JInt i)) = Some i"
| "as_int _ = None"

fun as_object :: "json option \<Rightarrow> (string \<times> json) list" where
  "as_object (Some (JObject kvs)) = kvs"
| "as_object _ = []"

fun set_field :: "string \<Rightarrow> json \<Rightarrow> json \<Rightarrow> json" where
  "set_field k v (JObject kvs) = JObject (AList.update k v kvs)"
| "set_field k v j = j"

fun as_array :: "json option \<Rightarrow> json list option" where
  "as_array (Some (JArray xs)) = Some xs"
| "as_array _ = None"

fun is_object :: "json \<Rightarrow> bool" where
  "is_object (JObject _) = True"
| "is_object _ = False"

definition or_zero :: "'a \<Rightarrow> 'a option \<Rightarrow> 'a" where
  "or_zero z v = (case v of None \<Rightarrow> z | Some x \<Rightarrow> x)"

lemma or_zero_simps [simp]: "or_zero z None = z" "or_zero z (Some x) = x"
  by (simp_all add: or_zero_def)

definition NestedString :: "json \<Rightarrow> string list \<Rightarrow> string" where
  "NestedString u ks = or_zero [] (as_string (nested u ks))"

definition NestedInt64 :: "json \<Rightarrow> string list \<Rightarrow> int" where
  "NestedInt64 u ks = or_zero 0 (as_int (nested u ks))"

definition NestedSlice :: "json \<Rightarrow> string list \<Rightarrow> json list" where
  "NestedSlice u ks = or_zero [] (as_array (nested u ks))"

definition GetName :: "json \<Rightarrow> string" where
  "GetName u = NestedString u [''metadata'', ''name'']"

definition GetNamespace :: "json \<Rightarrow> string" where
  "GetNamespace u = NestedString u [''metadata'', ''namespace'']"

definition GetGeneration :: "json \<Rightarrow> int" where
  "GetGeneration u = NestedInt64 u [''metadata'', ''generation'']"

definition GetLabel :: "json \<Rightarrow> string \<Rightarrow> string" where
  "GetLabel u k = NestedString u [''metadata'', ''labels'', k]"

lemma field_set_field: "is_object u \<Longrightarrow> field k (set_field k' v u) = (if k = k' then Some v else field k u)"
  by (cases u) (auto simp: update_conv)

section \<open>Decoding into a struct\<close>

text \<open>
  \<open>json.Unmarshal\<close> into a struct, for the types of field that the program decodes: the keys of
  the object are taken in their order and matched to a field without regard to case, null
  leaves a field as it is, and a value of another type makes the call return an error. All
  callers use the struct only when there is no error, so an error is \<open>None\<close>.
\<close>

fun decode_field :: "(json \<Rightarrow> 'a \<Rightarrow> 'a option) \<Rightarrow> string \<Rightarrow> (string \<times> json) list \<Rightarrow> 'a \<Rightarrow> 'a option" where
  "decode_field dec k [] x = Some x"
| "decode_field dec k ((k', v) # kvs) x =
     (if EqualFold k' k then case dec v x of None \<Rightarrow> None | Some y \<Rightarrow> decode_field dec k kvs y
      else decode_field dec k kvs x)"

fun into_string :: "json \<Rightarrow> string \<Rightarrow> string option" where
  "into_string (JString s) x = Some s"
| "into_string JNull x = Some x"
| "into_string _ x = None"

fun into_int :: "json \<Rightarrow> int \<Rightarrow> int option" where
  "into_int (JInt i) x = Some i"
| "into_int JNull x = Some x"
| "into_int _ x = None"

fun into_list :: "(json \<Rightarrow> 'a option) \<Rightarrow> json \<Rightarrow> 'a list \<Rightarrow> 'a list option" where
  "into_list dec (JArray vs) xs = those (map dec vs)"
| "into_list dec JNull xs = Some []"
| "into_list dec _ xs = None"

text \<open>The fields of an object or, for null, none; other values do not fit a struct.\<close>

fun struct_fields :: "json \<Rightarrow> (string \<times> json) list option" where
  "struct_fields (JObject kvs) = Some kvs"
| "struct_fields JNull = Some []"
| "struct_fields _ = None"

end
