(* ===== verification/Repository.thy ===== *)
theory Repository
  imports Delete Json
begin

text \<open>
  \<open>internal/infrastructure/persistence\<close>: the repositories behind
  \<open>NetworkInterfaceRepository\<close>. The node custom resource is read from a source that is a
  parameter, decoded by \<open>unstructuredToNodeConfig\<close>; the MySQL server is a parameter that
  answers the four queries and the update of \<open>mysql_repository.go\<close> with rows. Metrics and
  logging are left out.
\<close>

section \<open>nodecr\_source\_k8s.go\<close>

record NodeInterface =
  nif_ID :: int
  nif_PortID :: string
  nif_Name :: string
  nif_MacAddress :: string
  nif_Address :: string
  nif_CIDR :: string
  nif_MTU :: int

record NodeConfig =
  nc_NodeName :: string
  nc_Interfaces :: "NodeInterface list"

definition decodeInterface :: "json \<Rightarrow> NodeInterface" where
  "decodeInterface m =
     \<lparr>nif_ID = or_zero 0 (as_int (field ''id'' m)), nif_PortID = or_zero [] (as_string (field ''portId'' m)),
      nif_Name = or_zero [] (as_string (field ''name'' m)), nif_MacAddress = or_zero [] (as_string (field ''macAddress'' m)),
      nif_Address = or_zero [] (as_string (field ''address'' m)), nif_CIDR = or_zero [] (as_string (field ''cidr'' m)),
      nif_MTU = or_zero 0 (as_int (field ''mtu'' m))\<rparr>"

definition unstructuredToNodeConfig :: "json \<Rightarrow> NodeConfig" where
  "unstructuredToNodeConfig u =
     (let v = NestedString u [''spec'', ''nodeName'']
      in \<lparr>nc_NodeName = (if v \<noteq> [] then v else GetName u),
          nc_Interfaces = map decodeInterface (filter is_object (NestedSlice u [''spec'', ''interfaces'']))\<rparr>)"

text \<open>\<open>get\<close> is the call of the Kubernetes client for the resource of a node.\<close>

definition GetNodeConfig :: "(string \<Rightarrow> 'w \<Rightarrow> (go_error, json) result) \<Rightarrow> string \<Rightarrow> string \<Rightarrow> 'w \<Rightarrow> (go_error, NodeConfig option) result" where
  "GetNodeConfig get namespace nodeName w =
     (case get nodeName w of
        Inl err \<Rightarrow> Inl (wrap (''failed to get MultiNicNodeConfig '' @ namespace @ ''/'' @ nodeName) err)
      | Inr u \<Rightarrow> Inr (Some (unstructuredToNodeConfig u)))"

section \<open>nodecr\_repository.go\<close>

definition entryId :: "nat \<Rightarrow> NodeInterface \<Rightarrow> int" where
  "entryId i ni =
     (let i0 = (if nif_Name ni \<noteq> [] then (case NewInterfaceName (nif_Name ni) of Inl _ \<Rightarrow> nif_ID ni | Inr parsed \<Rightarrow> name_index parsed)
                else nif_ID ni)
      in if i0 = 0 \<and> nif_Name ni = [] then int i + 1 else i0)"

definition entryEntity :: "string \<Rightarrow> nat \<Rightarrow> NodeInterface \<Rightarrow> (go_error, NetworkInterface) result" where
  "entryEntity nodeName i ni =
     (if nif_Name ni \<noteq> [] then
        NewNetworkInterfaceWithName (entryId i ni) (nif_Name ni) (nif_MacAddress ni) nodeName (nif_Address ni) (nif_CIDR ni) (nif_MTU ni)
      else NewNetworkInterface (entryId i ni) (nif_MacAddress ni) nodeName (nif_Address ni) (nif_CIDR ni) (nif_MTU ni))"

fun loadEntries :: "string \<Rightarrow> nat \<Rightarrow> NodeInterface list \<Rightarrow> NetworkInterface list" where
  "loadEntries nodeName i [] = []"
| "loadEntries nodeName i (ni # nis) =
     (case entryEntity nodeName i ni of
        Inl _ \<Rightarrow> loadEntries nodeName (i + 1) nis
      | Inr ent \<Rightarrow> ent # loadEntries nodeName (i + 1) nis)"

type_synonym 'w NodeConfigSource = "string \<Rightarrow> 'w \<Rightarrow> (go_error, NodeConfig option) result"

definition loadAll :: "'w NodeConfigSource \<Rightarrow> string \<Rightarrow> 'w \<Rightarrow> (go_error, NetworkInterface list) result" where
  "loadAll source nodeName w =
     (case source nodeName w of
        Inl err \<Rightarrow> Inl (NewSystemError ''failed to get node config'' (Some err))
      | Inr None \<Rightarrow> Inl (NewNotFoundError (''node config not found for node '' @ nodeName))
      | Inr (Some cfg) \<Rightarrow> Inr (loadEntries (nc_NodeName cfg) 0 (nc_Interfaces cfg)))"

definition NewNodeCRRepository :: "'w NodeConfigSource \<Rightarrow> 'w Repository" where
  "NewNodeCRRepository source =
     \<lparr>rp_GetPendingInterfaces = loadAll source, rp_GetConfiguredInterfaces = \<lambda>nodeName w. Inr [],
      rp_UpdateInterfaceStatus = \<lambda>i st w. (None, w),
      rp_GetInterfaceByID = \<lambda>i w. Inl (NewNotFoundError ''GetInterfaceByID not supported without nodeName context in NodeCRRepository''),
      rp_GetActiveInterfaces = loadAll source, rp_GetAllNodeInterfaces = loadAll source\<rparr>"

section \<open>mysql\_repository.go\<close>

text \<open>A row of the join of the two tables; SQL's NULL is \<open>None\<close>.\<close>

record row =
  row_id :: int
  row_mac :: string
  row_node :: string
  row_netplanSuccess :: int
  row_address :: "string option"
  row_mtu :: "int option"
  row_cidr :: "string option"

datatype query = QPending | QConfigured | QByNode

text \<open>
  The server: the rows of a query for a node, each with the possible failure of its scan, and
  the error \<open>rows.Err\<close> reports at the end; the row of an identifier; the number of rows an
  update of \<open>netplan_success\<close> affected.
\<close>

record 'w SQLServer =
  sql_query :: "query \<Rightarrow> string \<Rightarrow> 'w \<Rightarrow> (go_error, (go_error, row) result list \<times> go_error option) result"
  sql_row :: "int \<Rightarrow> 'w \<Rightarrow> (go_error, row option) result"
  sql_update :: "int \<Rightarrow> int \<Rightarrow> 'w \<Rightarrow> (go_error, (go_error, int) result) result \<times> 'w"

definition rowEntity :: "row \<Rightarrow> (go_error, NetworkInterface) result" where
  "rowEntity r = NewNetworkInterface (row_id r) (row_mac r) (row_node r) (or_zero [] (row_address r)) (or_zero [] (row_cidr r)) (or_zero 0 (row_mtu r))"

fun loadRows :: "(row \<Rightarrow> NetworkInterface \<Rightarrow> NetworkInterface) \<Rightarrow> (go_error, row) result list \<Rightarrow> NetworkInterface list" where
  "loadRows mark [] = []"
| "loadRows mark (Inl _ # rs) = loadRows mark rs"
| "loadRows mark (Inr r # rs) =
     (case rowEntity r of Inl _ \<Rightarrow> loadRows mark rs | Inr ni \<Rightarrow> mark r ni # loadRows mark rs)"

definition queryInterfaces ::
  "'w SQLServer \<Rightarrow> query \<Rightarrow> (row \<Rightarrow> NetworkInterface \<Rightarrow> NetworkInterface) \<Rightarrow> string \<Rightarrow> 'w \<Rightarrow> (go_error, NetworkInterface list) result" where
  "queryInterfaces db q mark nodeName w =
     (case sql_query db q nodeName w of
        Inl err \<Rightarrow> Inl (NewSystemError ''database query failed'' (Some err))
      | Inr (rows, rowsErr) \<Rightarrow>
          (case rowsErr of
             Some err \<Rightarrow> Inl (NewSystemError ''error processing results'' (Some err))
           | None \<Rightarrow> Inr (loadRows mark rows)))"

definition markBySuccess :: "row \<Rightarrow> NetworkInterface \<Rightarrow> NetworkInterface" where
  "markBySuccess r ni = (if row_netplanSuccess r = 1 then MarkAsConfigured ni else ni)"

definition MySQL_GetPendingInterfaces :: "'w SQLServer \<Rightarrow> string \<Rightarrow> 'w \<Rightarrow> (go_error, NetworkInterface list) result" where
  "MySQL_GetPendingInterfaces db = queryInterfaces db QPending (\<lambda>r ni. ni)"

definition MySQL_GetConfiguredInterfaces :: "'w SQLServer \<Rightarrow> string \<Rightarrow> 'w \<Rightarrow> (go_error, NetworkInterface list) result" where
  "MySQL_GetConfiguredInterfaces db = queryInterfaces db QConfigured (\<lambda>r ni. MarkAsConfigured ni)"

definition MySQL_GetActiveInterfaces :: "'w SQLServer \<Rightarrow> string \<Rightarrow> 'w \<Rightarrow> (go_error, NetworkInterface list) result" where
  "MySQL_GetActiveInterfaces db = queryInterfaces db QByNode markBySuccess"

definition MySQL_GetAllNodeInterfaces :: "'w SQLServer \<Rightarrow> string \<Rightarrow> 'w \<Rightarrow> (go_error, NetworkInterface list) result" where
  "MySQL_GetAllNodeInterfaces db = queryInterfaces db QByNode markBySuccess"

definition MySQL_GetInterfaceByID :: "'w SQLServer \<Rightarrow> int \<Rightarrow> 'w \<Rightarrow> (go_error, NetworkInterface) result" where
  "MySQL_GetInterfaceByID db i w =
     (case sql_row db i w of
        Inl err \<Rightarrow> Inl (NewSystemError ''database query failed'' (Some err))
      | Inr None \<Rightarrow> Inl (NewNotFoundError (''interface not found: ID='' @ Itoa i))
      | Inr (Some r) \<Rightarrow> rbind (rowEntity r) (\<lambda>ni. Inr (markBySuccess r ni)))"

definition MySQL_UpdateInterfaceStatus :: "'w SQLServer \<Rightarrow> int \<Rightarrow> InterfaceStatus \<Rightarrow> 'w \<Rightarrow> go_error option \<times> 'w" where
  "MySQL_UpdateInterfaceStatus db interfaceID status w =
     (let netplanSuccess = (case status of StatusConfigured \<Rightarrow> 1 | StatusFailed \<Rightarrow> 0 | StatusPending \<Rightarrow> 0)
      in case sql_update db netplanSuccess interfaceID w of
           (Inl err, w') \<Rightarrow> (Some (NewSystemError ''failed to update status'' (Some err)), w')
         | (Inr (Inl err), w') \<Rightarrow> (Some (NewSystemError ''failed to check affected rows'' (Some err)), w')
         | (Inr (Inr rowsAffected), w') \<Rightarrow>
             (if rowsAffected = 0 then (Some (NewNotFoundError (''interface not found: ID='' @ Itoa interfaceID)), w')
              else (None, w')))"

definition NewMySQLRepository :: "'w SQLServer \<Rightarrow> 'w Repository" where
  "NewMySQLRepository db =
     \<lparr>rp_GetPendingInterfaces = MySQL_GetPendingInterfaces db, rp_GetConfiguredInterfaces = MySQL_GetConfiguredInterfaces db,
      rp_UpdateInterfaceStatus = MySQL_UpdateInterfaceStatus db, rp_GetInterfaceByID = MySQL_GetInterfaceByID db,
      rp_GetActiveInterfaces = MySQL_GetActiveInterfaces db, rp_GetAllNodeInterfaces = MySQL_GetAllNodeInterfaces db\<rparr>"

section \<open>What the repositories load\<close>

lemma wf_entry: "entryEntity nodeName i ni = Inr ent \<Longrightarrow> wf_interface ent \<and> Status ent = StatusPending"
  by (auto simp: entryEntity_def NewNetworkInterface_ok NewNetworkInterfaceWithName_ok Status_def split: if_splits)

lemma wf_entries: "ent \<in> set (loadEntries nodeName i nis) \<Longrightarrow> wf_interface ent \<and> Status ent = StatusPending"
  by (induction nis arbitrary: i) (auto split: sum.splits dest: wf_entry)

lemma loaded_row:
  "rowEntity r = Inr ni \<Longrightarrow> wf_interface ni \<and> Status ni = StatusPending \<and> ID ni = row_id r \<and> MacAddress ni = row_mac r"
  by (simp add: rowEntity_def NewNetworkInterface_ok Status_def)

lemma marked_fields:
  "ID (MarkAsConfigured ni) = ID ni" "MacAddress (MarkAsConfigured ni) = MacAddress ni" "Status (MarkAsConfigured ni) = StatusConfigured"
  by (simp_all add: MarkAsConfigured_def getter_defs)

lemma marked_row:
  assumes "rowEntity r = Inr ni"
  shows "wf_interface (markBySuccess r ni) \<and> ID (markBySuccess r ni) = row_id r \<and> MacAddress (markBySuccess r ni) = row_mac r \<and>
    Status (markBySuccess r ni) = (if row_netplanSuccess r = 1 then StatusConfigured else StatusPending)"
  using loaded_row [OF assms] marked_fields [of ni] by (simp add: markBySuccess_def wf_intros)

lemma rows_loaded: "ent \<in> set (loadRows mark rs) \<Longrightarrow> \<exists>r ni. Inr r \<in> set rs \<and> rowEntity r = Inr ni \<and> ent = mark r ni"
  by (induction mark rs rule: loadRows.induct) (auto split: sum.splits)

lemma queried_row:
  assumes "queryInterfaces db q mark node w = Inr js"
  shows "\<exists>rows. sql_query db q node w = Inr (rows, None) \<and>
    (\<forall>j \<in> set js. \<exists>r ni. Inr r \<in> set rows \<and> rowEntity r = Inr ni \<and> j = mark r ni)"
  using assms rows_loaded [of _ mark] by (auto simp: queryInterfaces_def split: sum.splits option.splits)

section \<open>The agent's use case\<close>

text \<open>
  The use case as the agent runs it on Ubuntu against the node resource: the Netplan adapter
  on an amd64 host whose commands answer as \<open>answer\<close> says.
\<close>

definition agent_uc ::
  "(string \<Rightarrow> string list \<Rightarrow> os_state \<Rightarrow> (go_error, string) result) \<Rightarrow> (yaml \<Rightarrow> (go_error, string) result) \<Rightarrow> Options \<Rightarrow>
    os_state NodeConfigSource \<Rightarrow> decoder \<Rightarrow> (string \<Rightarrow> string) \<Rightarrow> os_state ConfigureNetworkUseCase" where
  "agent_uc answer marshal opts source unmarshal env =
     \<lparr>uc_repository = NewNodeCRRepository source,
      uc_manager = NetplanAdapter (RealHost (scripted answer)) marshal opts, uc_host = RealHost (scripted answer),
      uc_unmarshal = unmarshal, uc_detect = \<lambda>w. Inr OSTypeUbuntu, uc_env = env,
      uc_maxConcurrentTasks = DefaultMaxConcurrentTasks, uc_maxRetries = DefaultMaxRetries, uc_backoffMultiplier = DefaultBackoffMultiplier, uc_big = min_int64\<rparr>"

lemma agent_removing:
  "removing_manager (uc_host (agent_uc answer marshal opts source unmarshal env)) os_inv
     (uc_manager (agent_uc answer marshal opts source unmarshal env)) (\<lambda>n. {Clean (netplanPath n)})"
  by (simp add: agent_uc_def shn.removing_manager_axioms)

interpretation agent: rollback_uc "agent_uc answer marshal opts source unmarshal env" os_inv "\<lambda>n. {Clean (netplanPath n)}"
  for answer marshal opts source unmarshal env
  by (intro rollback_uc.intro configure_uc.intro configure_uc_axioms.intro agent_removing removing_manager.axioms(1) [OF agent_removing])
     (simp add: agent_uc_def NewNodeCRRepository_def)

section \<open>Properties\<close>

text \<open>
  C21: whatever the node resource or the database holds, the repositories hand out only
  well-formed interfaces: an entry or row that does not pass the entity's constructor is left
  out. Interfaces of the node resource and those of the query for pending ones are pending,
  those of the query for configured ones configured; an interface read for a node or by
  its identifier has the identifier and address of a row that the server answered with, and is
  configured when that row's \<open>netplan_success\<close> is 1, pending otherwise.
\<close>

theorem repositories_load_wf:
  "(loadAll source node w = Inr js \<longrightarrow> (\<forall>j \<in> set js. wf_interface j \<and> Status j = StatusPending)) \<and>
   (MySQL_GetPendingInterfaces db node w = Inr ps \<longrightarrow> (\<forall>j \<in> set ps. wf_interface j \<and> Status j = StatusPending)) \<and>
   (MySQL_GetConfiguredInterfaces db node w = Inr cs \<longrightarrow> (\<forall>j \<in> set cs. wf_interface j \<and> Status j = StatusConfigured)) \<and>
   (MySQL_GetAllNodeInterfaces db node w = Inr as \<or> MySQL_GetActiveInterfaces db node w = Inr as \<longrightarrow>
      (\<exists>rows. sql_query db QByNode node w = Inr (rows, None) \<and> (\<forall>j \<in> set as. wf_interface j \<and>
        (\<exists>r. Inr r \<in> set rows \<and> ID j = row_id r \<and> MacAddress j = row_mac r \<and>
          Status j = (if row_netplanSuccess r = 1 then StatusConfigured else StatusPending))))) \<and>
   (MySQL_GetInterfaceByID db i w = Inr one \<longrightarrow> wf_interface one \<and>
      (\<exists>r. sql_row db i w = Inr (Some r) \<and> ID one = row_id r \<and> MacAddress one = row_mac r \<and>
        Status one = (if row_netplanSuccess r = 1 then StatusConfigured else StatusPending)))"
proof (intro conjI impI)
  show "\<forall>j \<in> set js. wf_interface j \<and> Status j = StatusPending" if "loadAll source node w = Inr js"
    using that wf_entries by (auto simp: loadAll_def split: sum.splits option.splits)
  show "\<forall>j \<in> set ps. wf_interface j \<and> Status j = StatusPending" if "MySQL_GetPendingInterfaces db node w = Inr ps"
    using that by (auto simp: MySQL_GetPendingInterfaces_def dest!: queried_row dest: loaded_row)
  show "\<forall>j \<in> set cs. wf_interface j \<and> Status j = StatusConfigured" if "MySQL_GetConfiguredInterfaces db node w = Inr cs"
  proof -
    have "queryInterfaces db QConfigured (\<lambda>r. MarkAsConfigured) node w = Inr cs" using that by (simp add: MySQL_GetConfiguredInterfaces_def)
    from queried_row [OF this] show ?thesis using loaded_row wf_MarkAsConfigured marked_fields(3) by metis
  qed
  show "\<exists>rows. sql_query db QByNode node w = Inr (rows, None) \<and> (\<forall>j \<in> set as. wf_interface j \<and>
      (\<exists>r. Inr r \<in> set rows \<and> ID j = row_id r \<and> MacAddress j = row_mac r \<and>
        Status j = (if row_netplanSuccess r = 1 then StatusConfigured else StatusPending)))"
    if "MySQL_GetAllNodeInterfaces db node w = Inr as \<or> MySQL_GetActiveInterfaces db node w = Inr as"
  proof -
    have "queryInterfaces db QByNode markBySuccess node w = Inr as"
      using that by (auto simp: MySQL_GetAllNodeInterfaces_def MySQL_GetActiveInterfaces_def)
    from queried_row [OF this] show ?thesis using marked_row by metis
  qed
next
  assume "MySQL_GetInterfaceByID db i w = Inr one"
  then obtain r ni where r: "sql_row db i w = Inr (Some r)" "rowEntity r = Inr ni" "one = markBySuccess r ni"
    by (auto simp: MySQL_GetInterfaceByID_def rbind_eq_Inr split: sum.splits option.splits)
  from marked_row [OF r(2)] r show "wf_interface one" "\<exists>r. sql_row db i w = Inr (Some r) \<and> ID one = row_id r \<and> MacAddress one = row_mac r \<and>
      Status one = (if row_netplanSuccess r = 1 then StatusConfigured else StatusPending)" by blast+
qed

definition sample_entry :: "string \<Rightarrow> NodeInterface" where
  "sample_entry name = \<lparr>nif_ID = 0, nif_PortID = [], nif_Name = name, nif_MacAddress = ''fa:16:3e:00:00:01'',
     nif_Address = ''10.0.0.5'', nif_CIDR = ''10.0.0.0/24'', nif_MTU = 1450\<rparr>"

lemma sample_entry_loads:
  "entryEntity ''node-1'' 4 (sample_entry []) = Inr (example_iface 5 ''fa:16:3e:00:00:01'' [250, 22, 62, 0, 0, 1] False)"
proof -
  have "ParseMAC ''fa:16:3e:00:00:01'' = Some [250, 22, 62, 0, 0, 1]" by code_simp
  then have "wf_interface (example_iface 5 ''fa:16:3e:00:00:01'' [250, 22, 62, 0, 0, 1] False)" by (rule wf_example_iface) simp_all
  then show ?thesis
    by (simp add: entryEntity_def entryId_def sample_entry_def NewNetworkInterface_ok example_iface_def getter_defs)
qed

theorem repositories_load_wf_witness:
  "wf_interface (example_iface 5 ''fa:16:3e:00:00:01'' [250, 22, 62, 0, 0, 1] False)"
proof -
  let ?bad = "sample_entry ''eth0''" and ?e = "sample_entry []"
  let ?src = "\<lambda>n w. Inr (Some \<lparr>nc_NodeName = ''node-1'', nc_Interfaces = [?bad, ?bad, ?bad, ?bad, ?e]\<rparr>)"
  have "example_iface 5 ''fa:16:3e:00:00:01'' [250, 22, 62, 0, 0, 1] False \<in> set (loadEntries ''node-1'' 0 [?bad, ?bad, ?bad, ?bad, ?e])"
    using sample_entry_loads by (simp add: numeral_eq_Suc split: sum.splits)
  then show ?thesis
    using repositories_load_wf [of ?src "''node-1''" fresh_os "loadEntries ''node-1'' 0 [?bad, ?bad, ?bad, ?bad, ?e]"] by (simp add: loadAll_def del: loadEntries.simps)
qed

text \<open>
  Which identifier an entry of the node resource gets. A named entry is loaded under its
  own name, with the index the name carries, and counts as explicitly named; an unnamed one is
  loaded under its identifier, or under its position plus one when it has none, so that an
  unnamed entry without identifier is never loaded at the tenth position or later.
\<close>

theorem entry_identifier:
  assumes "entryEntity node i ni = Inr ent"
  shows "(nif_Name ni \<noteq> [] \<longrightarrow> InterfaceName_of ent = nif_Name ni \<and> HasExplicitName ent \<and>
      (\<forall>en. NewInterfaceName (nif_Name ni) = Inr en \<longrightarrow> ID ent = name_index en)) \<and>
    (nif_Name ni = [] \<longrightarrow> \<not> HasExplicitName ent \<and> InterfaceName_of ent = multinic (nat (ID ent)) \<and>
      ID ent = (if nif_ID ni = 0 then int i + 1 else nif_ID ni) \<and> (nif_ID ni = 0 \<longrightarrow> i < 9)) \<and>
    MacAddress ent = nif_MacAddress ni \<and> Address ent = nif_Address ni \<and> CIDR_of ent = nif_CIDR ni \<and> MTU_of ent = nif_MTU ni"
proof (cases "nif_Name ni = []")
  case True
  then have e: "NewNetworkInterface (entryId i ni) (nif_MacAddress ni) node (nif_Address ni) (nif_CIDR ni) (nif_MTU ni) = Inr ent"
    using assms by (simp add: entryEntity_def)
  then have wf: "wf_interface ent" "\<not> HasExplicitName ent" "ID ent = entryId i ni" by (auto simp: NewNetworkInterface_ok)
  have "InterfaceName_of ent = InterfacePrefix @ Itoa (ID ent)" "0 \<le> ID ent" "ID ent < 10"
    using wf by (auto simp: wf_interface_def ToInterfaceName_def ID_def NewInterfaceIndex_ok HasExplicitName_def InterfaceName_of_def NewInterfaceName_ok)
  then show ?thesis
    using True e wf by (auto simp: entryId_def NewNetworkInterface_ok multinic_def InterfacePrefix_def Itoa_def split: if_splits)
next
  case False
  then show ?thesis using assms by (auto simp: entryEntity_def entryId_def NewNetworkInterfaceWithName_ok)
qed

theorem entry_identifier_witness:
  "ID (example_iface 5 ''fa:16:3e:00:00:01'' [250, 22, 62, 0, 0, 1] False) = 5"
  using entry_identifier [OF sample_entry_loads] by (simp add: sample_entry_def)

text \<open>
  C17: configuring a node touches no file but the program's own. Whatever the node resource
  holds and however the commands answer, a run of \<open>Execute\<close> on Ubuntu leaves every file
  that is not the Netplan file of an interface name as it was.
\<close>

theorem Execute_touches_own_files:
  assumes "Execute (agent_uc answer marshal opts source unmarshal env) node w ns = (r, w', ns')"
    and "\<And>n. is_interface_name n \<Longrightarrow> Clean q \<noteq> Clean (netplanPath n)"
  shows "os_ReadFile q w' = Inr c \<longleftrightarrow> os_ReadFile q w = Inr c"
proof -
  have "Clean q \<notin> agent.managed" using assms(2) by (auto simp: agent.managed_def)
  then show ?thesis
    using agent.Execute_same [OF assms(1)] by (simp add: keeps_except_def agent_uc_def RealHost_def)
qed

definition silent_agent :: "os_state ConfigureNetworkUseCase" where
  "silent_agent = agent_uc (\<lambda>c a s. Inl (PlainError c)) (\<lambda>y. Inr ''yaml'') DefaultOptions
     (\<lambda>n w. Inr (Some \<lparr>nc_NodeName = n, nc_Interfaces = [sample_entry []]\<rparr>)) (\<lambda>s. Inl (PlainError s)) (\<lambda>k. [])"

theorem Execute_touches_own_files_witness:
  "os_ReadFile ''/etc/passwd'' (fst (snd (Execute silent_agent ''node-1'' (fresh_os\<lparr>os_files := [(''/etc/passwd'', ''root'')]\<rparr>)
     (NewInterfaceNamingService mute_host fresh_os)))) = Inr ''root''"
proof -
  let ?w = "fresh_os\<lparr>os_files := [(''/etc/passwd'', ''root'')]\<rparr>" and ?ns = "NewInterfaceNamingService mute_host fresh_os"
  obtain r w' ns' where x: "Execute silent_agent ''node-1'' ?w ?ns = (r, w', ns')" by (metis prod.exhaust)
  have p: "Clean ''/etc/passwd'' = ''/etc/passwd''" by code_simp
  have "Clean ''/etc/passwd'' \<noteq> Clean (netplanPath n)" if "is_interface_name n" for n
    using Clean_config_paths(1) [OF valid_name_shape(3) [OF that]] config_paths(1) [OF valid_name_shape(3) [OF that]] p by simp
  moreover have "os_ReadFile ''/etc/passwd'' ?w = Inr ''root''" by code_simp
  ultimately show ?thesis
    using Execute_touches_own_files [OF x [unfolded silent_agent_def], of "''/etc/passwd''" "''root''"] x by simp
qed



text \<open>
  With the database the case arises: an interface that is configured and found up, whose row is
  gone when its status is to be updated, counts as failed while its configuration stays.
\<close>

definition rowless_db :: "os_state SQLServer" where
  "rowless_db = \<lparr>sql_query = \<lambda>q n w. Inr ([], None), sql_row = \<lambda>i w. Inr None, sql_update = \<lambda>v i w. (Inr (Inr 0), w)\<rparr>"

definition up_answer :: "string \<Rightarrow> string list \<Rightarrow> os_state \<Rightarrow> (go_error, string) result" where
  "up_answer c a s = Inr (if take 2 a = [''-o'', ''link''] \<or> take 2 a = [''link'', ''show'']
     then ''2: multinic5: <BROADCAST,UP,LOWER_UP> mtu 1500 state UP link/ether fa:16:3e:00:00:01 brd ff:ff:ff:ff:ff:ff'' else [])"

theorem status_failure_keeps_file:
  "let uc = (agent_uc up_answer (\<lambda>y. Inr ''yaml'') DefaultOptions (\<lambda>n w. Inr None) (\<lambda>s. Inl (PlainError s)) (\<lambda>k. []))
       \<lparr>uc_repository := NewMySQLRepository rowless_db\<rparr>;
       r = Process uc (example_iface 5 ''fa:16:3e:00:00:01'' [250, 22, 62, 0, 0, 1] False) \<lparr>name_value = ''multinic5'', name_index = 5\<rparr> fresh_os
   in fst r = Some (NewNotFoundError ''interface not found: ID=5'') \<and> os_ReadFile (netplanPath ''multinic5'') (snd r) = Inr ''yaml''"
  by code_simp

end
