(* ===== verification/Polling.thy ===== *)
theory Polling
  imports Duration Domain_Errors
begin

text \<open>
  \<open>internal/application/polling/strategy.go\<close>: the two polling strategies and the controller
  that drives one. Durations are integers of nanoseconds and floats are real numbers;
  \<open>big\<close> is the value the platform gives to a float that does not fit 64 bits (\<open>to_duration\<close>). Metrics and logging are left out.
\<close>

section \<open>Exponential back-off\<close>

record ExponentialBackoffStrategy =
  eb_baseInterval :: int
  eb_maxInterval :: int
  eb_multiplier :: real
  eb_currentBackoff :: nat

definition NewExponentialBackoffStrategy :: "int \<Rightarrow> int \<Rightarrow> real \<Rightarrow> ExponentialBackoffStrategy" where
  "NewExponentialBackoffStrategy baseInterval maxInterval multiplier =
     \<lparr>eb_baseInterval = baseInterval, eb_maxInterval = maxInterval,
      eb_multiplier = (if multiplier \<le> 1 then 2 else multiplier), eb_currentBackoff = 0\<rparr>"

definition Exponential_NextInterval :: "int \<Rightarrow> bool \<Rightarrow> ExponentialBackoffStrategy \<Rightarrow> int \<times> ExponentialBackoffStrategy" where
  "Exponential_NextInterval big success s =
     (if success then (eb_baseInterval s, s\<lparr>eb_currentBackoff := 0\<rparr>)
      else
        let s' = s\<lparr>eb_currentBackoff := eb_currentBackoff s + 1\<rparr>;
            backoffDuration = of_int (eb_baseInterval s) * eb_multiplier s ^ (eb_currentBackoff s' - 1);
            nextInterval = to_duration big backoffDuration
        in (if eb_maxInterval s < nextInterval then eb_maxInterval s else nextInterval, s'))"

definition Exponential_Reset :: "ExponentialBackoffStrategy \<Rightarrow> ExponentialBackoffStrategy" where
  "Exponential_Reset s = s\<lparr>eb_currentBackoff := 0\<rparr>"

section \<open>Adaptive polling\<close>

record AdaptiveStrategy =
  ad_minInterval :: int
  ad_maxInterval :: int
  ad_idleInterval :: int
  ad_workDetectedCount :: nat
  ad_noWorkCount :: nat
  ad_thresholdForSlow :: nat
  ad_thresholdForFast :: nat
  ad_currentInterval :: int

definition NewAdaptiveStrategy :: "int \<Rightarrow> int \<Rightarrow> int \<Rightarrow> AdaptiveStrategy" where
  "NewAdaptiveStrategy minInterval maxInterval idleInterval =
     \<lparr>ad_minInterval = minInterval, ad_maxInterval = maxInterval, ad_idleInterval = idleInterval,
      ad_workDetectedCount = 0, ad_noWorkCount = 0, ad_thresholdForSlow = 5, ad_thresholdForFast = 2,
      ad_currentInterval = minInterval\<rparr>"

definition slower :: "int \<Rightarrow> AdaptiveStrategy \<Rightarrow> int" where
  "slower big s =
     (if ad_currentInterval s < ad_maxInterval s then
        (let c = to_duration big (of_int (ad_currentInterval s) * (3 / 2))
         in if ad_maxInterval s < c then ad_maxInterval s else c)
      else ad_currentInterval s)"

definition Adaptive_NextInterval :: "int \<Rightarrow> bool \<Rightarrow> AdaptiveStrategy \<Rightarrow> int \<times> AdaptiveStrategy" where
  "Adaptive_NextInterval big hasWork s =
     (let s' = (if hasWork then
                  let s1 = s\<lparr>ad_workDetectedCount := ad_workDetectedCount s + 1, ad_noWorkCount := 0\<rparr>
                  in if ad_thresholdForFast s1 \<le> ad_workDetectedCount s1 then s1\<lparr>ad_currentInterval := ad_minInterval s1\<rparr> else s1
                else
                  let s1 = s\<lparr>ad_noWorkCount := ad_noWorkCount s + 1, ad_workDetectedCount := 0\<rparr>
                  in if ad_noWorkCount s1 < ad_thresholdForSlow s1 then s1
                     else if ad_thresholdForSlow s1 * 3 \<le> ad_noWorkCount s1 then s1\<lparr>ad_currentInterval := ad_idleInterval s1\<rparr>
                     else s1\<lparr>ad_currentInterval := slower big s1\<rparr>)
      in (ad_currentInterval s', s'))"

definition Adaptive_Reset :: "AdaptiveStrategy \<Rightarrow> AdaptiveStrategy" where
  "Adaptive_Reset s = s\<lparr>ad_workDetectedCount := 0, ad_noWorkCount := 0, ad_currentInterval := ad_minInterval s\<rparr>"

section \<open>The controller\<close>

text \<open>
  \<open>PollingController.Start\<close> up to the cancellation of its context: the intervals it sets for
  a sequence of task results, or the panic of a ticker that is given an interval that is not
  positive.
\<close>

datatype ticks = Stopped "int list" | TickerPanic "int list"

fun poll :: "(bool \<Rightarrow> 's \<Rightarrow> int \<times> 's) \<Rightarrow> go_error option list \<Rightarrow> 's \<Rightarrow> int list \<Rightarrow> ticks" where
  "poll strat [] s out = Stopped out"
| "poll strat (r # rs) s out =
     (case strat (r = None) s of (i, s') \<Rightarrow> if i \<le> 0 then TickerPanic out else poll strat rs s' (out @ [i]))"

definition Polling_Start :: "(bool \<Rightarrow> 's \<Rightarrow> int \<times> 's) \<Rightarrow> go_error option list \<Rightarrow> 's \<Rightarrow> ticks" where
  "Polling_Start strat results s =
     (case strat True s of (i, s') \<Rightarrow> if i \<le> 0 then TickerPanic [] else poll strat results s' [i])"

section \<open>The contract of a strategy\<close>

locale strategy =
  fixes strat :: "bool \<Rightarrow> 's \<Rightarrow> int \<times> 's"
    and reset :: "'s \<Rightarrow> 's"
    and good :: "'s \<Rightarrow> bool"
    and lo hi :: "'s \<Rightarrow> int"
  assumes next_good: "good s \<Longrightarrow> good (snd (strat ok s)) \<and> lo (snd (strat ok s)) = lo s \<and> hi (snd (strat ok s)) = hi s"
    and next_bounds: "good s \<Longrightarrow> lo s \<le> fst (strat ok s) \<and> fst (strat ok s) \<le> hi s"
    and positive: "good s \<Longrightarrow> 0 < lo s"
    and reset_good: "good s \<Longrightarrow> good (reset s) \<and> lo (reset s) = lo s \<and> hi (reset s) = hi s"
begin

lemma poll_bounds:
  assumes "good s" "list_all (\<lambda>i. lo s \<le> i \<and> i \<le> hi s) out"
  shows "\<exists>is. poll strat rs s out = Stopped is \<and> length is = length out + length rs \<and> list_all (\<lambda>i. lo s \<le> i \<and> i \<le> hi s) is"
  using assms
proof (induction rs arbitrary: s out)
  case (Cons r rs)
  obtain i s' where i: "strat (r = None) s = (i, s')" by fastforce
  have "good s'" "lo s' = lo s" "hi s' = hi s" "lo s \<le> i" "i \<le> hi s" "0 < i"
    using next_good [OF Cons.prems(1), of "r = None"] next_bounds [OF Cons.prems(1), of "r = None"] positive [OF Cons.prems(1)] i by auto
  then show ?case using Cons.IH [of s' "out @ [i]"] Cons.prems(2) i by auto
qed simp

lemma Start_bounds:
  assumes "good s"
  shows "\<exists>is. Polling_Start strat rs s = Stopped is \<and> length is = length rs + 1 \<and> list_all (\<lambda>i. lo s \<le> i \<and> i \<le> hi s) is"
proof -
  obtain i s' where i: "strat True s = (i, s')" by fastforce
  then have "good s'" "lo s' = lo s" "hi s' = hi s" "lo s \<le> i" "i \<le> hi s" "0 < i"
    using next_good [OF assms, of True] next_bounds [OF assms, of True] positive [OF assms] by auto
  then show ?thesis using poll_bounds [of s' "[i]" rs] i by (simp add: Polling_Start_def)
qed

end

definition exp_good :: "ExponentialBackoffStrategy \<Rightarrow> bool" where
  "exp_good s \<longleftrightarrow> 0 < eb_baseInterval s \<and> eb_baseInterval s \<le> eb_maxInterval s \<and> 1 < eb_multiplier s"

lemma exp_interval:
  assumes "exp_good s" "eb_maxInterval s \<le> big"
  shows "fst (Exponential_NextInterval big False s) =
    (if of_int (eb_baseInterval s) * eb_multiplier s ^ eb_currentBackoff s < 2 ^ 63
     then min (eb_maxInterval s) \<lfloor>of_int (eb_baseInterval s) * eb_multiplier s ^ eb_currentBackoff s\<rfloor> else eb_maxInterval s)"
proof -
  let ?f = "of_int (eb_baseInterval s) * eb_multiplier s ^ eb_currentBackoff s"
  have "0 \<le> ?f" using assms(1) by (simp add: exp_good_def)
  then show ?thesis using assms to_duration_nonneg [of ?f big]
    by (auto simp: Exponential_NextInterval_def Let_def to_duration_def min_def)
qed

lemma exp_grows: "exp_good s \<Longrightarrow> eb_baseInterval s \<le> \<lfloor>of_int (eb_baseInterval s) * eb_multiplier s ^ n\<rfloor>"
  by (simp add: exp_good_def le_floor_iff mult_le_cancel_left1 one_le_power)

interpretation exponential: strategy "Exponential_NextInterval big" Exponential_Reset
    "\<lambda>s. exp_good s \<and> eb_maxInterval s \<le> big" eb_baseInterval eb_maxInterval for big
proof
  fix s ok
  assume g: "exp_good s \<and> eb_maxInterval s \<le> big"
  then show "(exp_good (snd (Exponential_NextInterval big ok s)) \<and> eb_maxInterval (snd (Exponential_NextInterval big ok s)) \<le> big) \<and>
      eb_baseInterval (snd (Exponential_NextInterval big ok s)) = eb_baseInterval s \<and> eb_maxInterval (snd (Exponential_NextInterval big ok s)) = eb_maxInterval s"
    by (simp add: Exponential_NextInterval_def Let_def exp_good_def)
  show "eb_baseInterval s \<le> fst (Exponential_NextInterval big ok s) \<and> fst (Exponential_NextInterval big ok s) \<le> eb_maxInterval s"
  proof (cases ok)
    case False
    then show ?thesis using g exp_interval [of s big] exp_grows [of s "eb_currentBackoff s"] by (simp add: exp_good_def)
  qed (use g in \<open>simp add: Exponential_NextInterval_def exp_good_def\<close>)
qed (auto simp: exp_good_def Exponential_Reset_def)

definition ad_lo :: "AdaptiveStrategy \<Rightarrow> int" where "ad_lo s = min (ad_minInterval s) (ad_idleInterval s)"
definition ad_hi :: "AdaptiveStrategy \<Rightarrow> int" where "ad_hi s = max (ad_maxInterval s) (ad_idleInterval s)"

definition ad_good :: "AdaptiveStrategy \<Rightarrow> bool" where
  "ad_good s \<longleftrightarrow> 0 < ad_minInterval s \<and> 0 < ad_idleInterval s \<and> ad_minInterval s \<le> ad_maxInterval s \<and>
     ad_lo s \<le> ad_currentInterval s \<and> ad_currentInterval s \<le> ad_hi s"

lemma slower_bounds:
  assumes "ad_good s" "ad_maxInterval s \<le> big \<or> ad_maxInterval s * 3 < 2 ^ 64"
  shows "ad_lo s \<le> slower big s \<and> slower big s \<le> ad_hi s"
proof (cases "ad_currentInterval s < ad_maxInterval s")
  case True
  let ?f = "of_int (ad_currentInterval s) * (3 / 2) :: real"
  have pos: "0 < ad_currentInterval s" using assms(1) by (auto simp: ad_good_def ad_lo_def)
  then have fl: "ad_currentInterval s \<le> \<lfloor>?f\<rfloor>" by (simp add: le_floor_iff)
  have td: "to_duration big ?f = (if ?f < 2 ^ 63 then \<lfloor>?f\<rfloor> else big)"
    using pos to_duration_nonneg [of ?f big] by (auto simp: to_duration_def)
  have fit: "?f < 2 ^ 63" if "ad_maxInterval s * 3 < 2 ^ 64"
  proof -
    have "ad_currentInterval s * 3 < 2 ^ 64" using True that by simp
    then show ?thesis using of_int_less_iff [of "ad_currentInterval s * 3" "2 ^ 64", where 'a = real] by simp
  qed
  have "ad_currentInterval s \<le> to_duration big ?f \<or> ad_maxInterval s \<le> to_duration big ?f"
    using assms(2) fit fl unfolding td by auto
  then show ?thesis using True assms(1) by (auto simp: slower_def Let_def ad_good_def ad_hi_def simp del: of_int_mult)
qed (use assms in \<open>auto simp: slower_def ad_good_def\<close>)

interpretation adaptive: strategy "Adaptive_NextInterval big" Adaptive_Reset
    "\<lambda>s. ad_good s \<and> (ad_maxInterval s \<le> big \<or> ad_maxInterval s * 3 < 2 ^ 64)" ad_lo ad_hi for big
proof
  fix s ok
  assume g: "ad_good s \<and> (ad_maxInterval s \<le> big \<or> ad_maxInterval s * 3 < 2 ^ 64)"
  have c: "ad_lo s \<le> ad_minInterval s" "ad_minInterval s \<le> ad_hi s" "ad_lo s \<le> ad_idleInterval s" "ad_idleInterval s \<le> ad_hi s"
    using g by (auto simp: ad_lo_def ad_hi_def ad_good_def)
  have sl: "slower big (s\<lparr>ad_noWorkCount := n, ad_workDetectedCount := m\<rparr>) = slower big s" for n m by (simp add: slower_def Let_def)
  have b: "ad_lo s \<le> fst (Adaptive_NextInterval big ok s) \<and> fst (Adaptive_NextInterval big ok s) \<le> ad_hi s"
    using g c slower_bounds [of s big] by (auto simp: Adaptive_NextInterval_def Let_def sl ad_good_def)
  then show "ad_lo s \<le> fst (Adaptive_NextInterval big ok s) \<and> fst (Adaptive_NextInterval big ok s) \<le> ad_hi s" .
  let ?t = "snd (Adaptive_NextInterval big ok s)"
  have fr: "ad_minInterval ?t = ad_minInterval s" "ad_maxInterval ?t = ad_maxInterval s" "ad_idleInterval ?t = ad_idleInterval s"
    "ad_currentInterval ?t = fst (Adaptive_NextInterval big ok s)"
    by (simp_all add: Adaptive_NextInterval_def Let_def)
  then show "(ad_good ?t \<and> (ad_maxInterval ?t \<le> big \<or> ad_maxInterval ?t * 3 < 2 ^ 64)) \<and> ad_lo ?t = ad_lo s \<and> ad_hi ?t = ad_hi s"
    using g b by (simp add: ad_good_def ad_lo_def ad_hi_def)
qed (auto simp: ad_good_def Adaptive_Reset_def ad_lo_def ad_hi_def)

section \<open>Runs of failures\<close>

text \<open>
  The highest back-off level of a run: the length of its longest sequence of failures, where
  \<open>k\<close> failures went before. While the product of that level fits a duration, the loop does
  not depend on the platform; when it does not fit, a platform that converts it to a value that
  is not positive makes the ticker panic.
\<close>

fun failure_run :: "go_error option list \<Rightarrow> nat \<Rightarrow> nat" where
  "failure_run [] k = k"
| "failure_run (r # rs) k = (if r = None then max k (failure_run rs 0) else failure_run rs (k + 1))"

lemma failure_run_ge: "k \<le> failure_run rs k"
  by (induction rs arbitrary: k) (auto intro: Suc_leD)

definition backoff_fits :: "ExponentialBackoffStrategy \<Rightarrow> nat \<Rightarrow> bool" where
  "backoff_fits s k \<longleftrightarrow> of_int (eb_baseInterval s) * eb_multiplier s ^ (k - 1) < 2 ^ 63"

lemma backoff_fits_mono:
  assumes "exp_good s" "backoff_fits s m" "k \<le> m"
  shows "backoff_fits s k"
proof -
  have "eb_multiplier s ^ (k - 1) \<le> eb_multiplier s ^ (m - 1)"
    using assms(1,3) by (intro power_increasing) (auto simp: exp_good_def)
  then have "of_int (eb_baseInterval s) * eb_multiplier s ^ (k - 1) \<le> of_int (eb_baseInterval s) * eb_multiplier s ^ (m - 1)"
    using assms(1) by (intro mult_left_mono) (auto simp: exp_good_def)
  then show ?thesis using assms(2) by (simp add: backoff_fits_def)
qed

lemma failed_step:
  assumes "exp_good s"
  shows "snd (Exponential_NextInterval big False s) = s\<lparr>eb_currentBackoff := eb_currentBackoff s + 1\<rparr>"
    and "backoff_fits s (eb_currentBackoff s + 1) \<Longrightarrow> fst (Exponential_NextInterval big False s) =
      min (eb_maxInterval s) \<lfloor>of_int (eb_baseInterval s) * eb_multiplier s ^ eb_currentBackoff s\<rfloor>"
    and "\<not> backoff_fits s (eb_currentBackoff s + 1) \<Longrightarrow> fst (Exponential_NextInterval big False s) = min (eb_maxInterval s) big"
proof -
  let ?f = "of_int (eb_baseInterval s) * eb_multiplier s ^ eb_currentBackoff s"
  have "0 \<le> ?f" using assms by (simp add: exp_good_def)
  then show "backoff_fits s (eb_currentBackoff s + 1) \<Longrightarrow> fst (Exponential_NextInterval big False s) = min (eb_maxInterval s) \<lfloor>?f\<rfloor>"
    and "\<not> backoff_fits s (eb_currentBackoff s + 1) \<Longrightarrow> fst (Exponential_NextInterval big False s) = min (eb_maxInterval s) big"
    using to_duration_nonneg [of ?f big] by (auto simp: Exponential_NextInterval_def Let_def min_def backoff_fits_def to_duration_def)
qed (simp add: Exponential_NextInterval_def Let_def)

lemma run_levels [simp]:
  "exp_good (s\<lparr>eb_currentBackoff := k\<rparr>) = exp_good s" "backoff_fits (s\<lparr>eb_currentBackoff := k\<rparr>) = backoff_fits s"
  by (simp_all add: exp_good_def backoff_fits_def [abs_def])

lemma poll_fits:
  assumes "exp_good s" "backoff_fits s (failure_run rs (eb_currentBackoff s))"
  shows "poll (Exponential_NextInterval big) rs s out = poll (Exponential_NextInterval big') rs s out"
  using assms
proof (induction rs arbitrary: s out)
  case (Cons r rs)
  let ?s = "s\<lparr>eb_currentBackoff := eb_currentBackoff s + 1\<rparr>"
  show ?case
  proof (cases r)
    case None
    have "backoff_fits s (failure_run rs 0)" by (rule backoff_fits_mono [OF Cons.prems]) (simp add: None)
    then show ?thesis using None Cons.IH [of "s\<lparr>eb_currentBackoff := 0\<rparr>"] Cons.prems(1) by (simp add: Exponential_NextInterval_def)
  next
    case (Some e)
    then have f: "backoff_fits s (failure_run rs (eb_currentBackoff s + 1))" using Cons.prems(2) by simp
    have "backoff_fits s (eb_currentBackoff s + 1)" by (rule backoff_fits_mono [OF Cons.prems(1) f failure_run_ge])
    note n = failed_step(1,2) [OF Cons.prems(1)] this
    have nx: "Exponential_NextInterval b False s =
        (min (eb_maxInterval s) \<lfloor>of_int (eb_baseInterval s) * eb_multiplier s ^ eb_currentBackoff s\<rfloor>, ?s)" for b
      using n by (simp add: prod_eq_iff)
    show ?thesis using Some Cons.IH [of ?s] Cons.prems(1) f by (simp add: nx)
  qed
qed simp

lemma poll_overflow:
  assumes "exp_good s" "backoff_fits s (eb_currentBackoff s)" "\<not> backoff_fits s (failure_run rs (eb_currentBackoff s))" "big \<le> 0"
  shows "\<exists>is. poll (Exponential_NextInterval big) rs s out = TickerPanic is"
  using assms(1-3)
proof (induction rs arbitrary: s out)
  case (Cons r rs)
  let ?s = "s\<lparr>eb_currentBackoff := eb_currentBackoff s + 1\<rparr>"
  show ?case
  proof (cases r)
    case None
    have "\<not> backoff_fits s (failure_run rs 0)" using Cons.prems(2,3) None by (auto simp: max_def split: if_splits)
    moreover have "backoff_fits s 0" by (rule backoff_fits_mono [OF Cons.prems(1,2)]) simp
    ultimately show ?thesis using None Cons.IH [of "s\<lparr>eb_currentBackoff := 0\<rparr>"] Cons.prems(1)
      by (simp add: Exponential_NextInterval_def exp_good_def)
  next
    case (Some e)
    show ?thesis
    proof (cases "backoff_fits s (eb_currentBackoff s + 1)")
      case True
      obtain i where i: "Exponential_NextInterval big False s = (i, ?s)"
        using failed_step(1) [OF Cons.prems(1), of big] by (metis prod.collapse)
      show ?thesis using Some True i Cons.IH [of ?s "out @ [i]"] Cons.prems(1,3) by simp
    next
      case ovf: False
      then have "fst (Exponential_NextInterval big False s) \<le> 0" using failed_step(3) [OF Cons.prems(1) ovf] assms(4) by simp
      then show ?thesis using Some by (auto split: prod.splits)
    qed
  qed
qed simp

text \<open>A fresh exponential strategy: its loop ends well while the longest run of failures fits.\<close>

lemma fresh_run:
  assumes "exp_good s" "eb_currentBackoff s = 0" "eb_baseInterval s < 2 ^ 63"
  shows "backoff_fits s (failure_run rs 0) \<or> eb_maxInterval s \<le> big \<Longrightarrow>
      \<exists>is. Polling_Start (Exponential_NextInterval big) rs s = Stopped is \<and> length is = length rs + 1 \<and>
        list_all (\<lambda>i. eb_baseInterval s \<le> i \<and> i \<le> eb_maxInterval s) is"
    and "\<not> backoff_fits s (failure_run rs 0) \<Longrightarrow> big \<le> 0 \<Longrightarrow> \<exists>is. Polling_Start (Exponential_NextInterval big) rs s = TickerPanic is"
proof -
  have fresh: "s\<lparr>eb_currentBackoff := 0\<rparr> = s" using assms(2) by (cases s) simp
  have start: "Polling_Start (Exponential_NextInterval b) rs s = poll (Exponential_NextInterval b) rs s [eb_baseInterval s]" for b
    using assms(1) by (simp add: Polling_Start_def Exponential_NextInterval_def exp_good_def fresh)
  have "of_int (eb_baseInterval s) < (2 ^ 63 :: real)"
    using of_int_less_iff [of "eb_baseInterval s" "2 ^ 63", where 'a = real] assms(3) by simp
  then have zero: "backoff_fits s 0" by (simp add: backoff_fits_def)
  show "\<exists>is. Polling_Start (Exponential_NextInterval big) rs s = TickerPanic is" if "\<not> backoff_fits s (failure_run rs 0)" "big \<le> 0"
    unfolding start using poll_overflow [of s rs big] assms zero that by simp
  show "\<exists>is. Polling_Start (Exponential_NextInterval big) rs s = Stopped is \<and> length is = length rs + 1 \<and>
      list_all (\<lambda>i. eb_baseInterval s \<le> i \<and> i \<le> eb_maxInterval s) is"
    if "backoff_fits s (failure_run rs 0) \<or> eb_maxInterval s \<le> big"
  proof (cases "eb_maxInterval s \<le> big")
    case False
    then have "Polling_Start (Exponential_NextInterval big) rs s = Polling_Start (Exponential_NextInterval (eb_maxInterval s)) rs s"
      unfolding start using that assms(2) by (intro poll_fits [OF assms(1)]) simp
    then show ?thesis using exponential.Start_bounds [of s "eb_maxInterval s" rs] assms(1) by simp
  qed (use exponential.Start_bounds [of s big rs] assms(1) in simp)
qed

section \<open>Properties\<close>

text \<open>
  C30: the bounds of the polling loop, and the failure that breaks them. With the exponential
  strategy, positive settings and results whose longest run of failures has length \<open>k\<close>: while
  the base times the multiplier to the power \<open>k - 1\<close> fits a duration, on every platform, and
  beyond it on a platform that converts it to at least the maximal interval, the loop runs
  until it is stopped and every interval it sets lies between the base and the maximal
  interval; beyond it on a platform that converts it to a value that is not positive, as amd64
  does, the ticker panics. With the adaptive strategy every interval lies between the smaller
  and the larger of the configured ones, while one and a half times the maximal interval fits.
\<close>

theorem polling_bounds:
  assumes "0 < base" "base \<le> mx" "mx < 2 ^ 63" "0 < idle"
  shows "(backoff_fits (NewExponentialBackoffStrategy base mx mult) (failure_run rs 0) \<or> mx \<le> big \<longrightarrow>
      (\<exists>is. Polling_Start (Exponential_NextInterval big) rs (NewExponentialBackoffStrategy base mx mult) = Stopped is \<and>
        length is = length rs + 1 \<and> list_all (\<lambda>i. base \<le> i \<and> i \<le> mx) is)) \<and>
    (\<not> backoff_fits (NewExponentialBackoffStrategy base mx mult) (failure_run rs 0) \<and> big \<le> 0 \<longrightarrow>
      (\<exists>is. Polling_Start (Exponential_NextInterval big) rs (NewExponentialBackoffStrategy base mx mult) = TickerPanic is)) \<and>
    (mx * 3 < 2 ^ 64 \<longrightarrow>
      (\<exists>is. Polling_Start (Adaptive_NextInterval big) rs (NewAdaptiveStrategy base mx idle) = Stopped is \<and>
        length is = length rs + 1 \<and> list_all (\<lambda>i. min base idle \<le> i \<and> i \<le> max mx idle) is))"
proof (intro conjI impI)
  let ?s = "NewExponentialBackoffStrategy base mx mult"
  have s: "exp_good ?s" "eb_currentBackoff ?s = 0" "eb_baseInterval ?s < 2 ^ 63" "eb_maxInterval ?s = mx" "eb_baseInterval ?s = base"
    using assms(1-3) by (simp_all add: exp_good_def NewExponentialBackoffStrategy_def)
  show "\<exists>is. Polling_Start (Exponential_NextInterval big) rs ?s = Stopped is \<and>
      length is = length rs + 1 \<and> list_all (\<lambda>i. base \<le> i \<and> i \<le> mx) is" if "backoff_fits ?s (failure_run rs 0) \<or> mx \<le> big"
    using fresh_run(1) [OF s(1-3), of rs big] that unfolding s(4,5) by simp
  show "\<exists>is. Polling_Start (Exponential_NextInterval big) rs ?s = TickerPanic is" if "\<not> backoff_fits ?s (failure_run rs 0) \<and> big \<le> 0"
    using fresh_run(2) [OF s(1-3), of rs big] that by simp
next
  assume "mx * 3 < 2 ^ 64"
  then have "ad_good (NewAdaptiveStrategy base mx idle) \<and>
      (ad_maxInterval (NewAdaptiveStrategy base mx idle) \<le> big \<or> ad_maxInterval (NewAdaptiveStrategy base mx idle) * 3 < 2 ^ 64)"
    using assms by (simp add: ad_good_def NewAdaptiveStrategy_def ad_lo_def ad_hi_def)
  from adaptive.Start_bounds [OF this, of rs]
  show "\<exists>is. Polling_Start (Adaptive_NextInterval big) rs (NewAdaptiveStrategy base mx idle) = Stopped is \<and>
      length is = length rs + 1 \<and> list_all (\<lambda>i. min base idle \<le> i \<and> i \<le> max mx idle) is"
    by (simp add: NewAdaptiveStrategy_def ad_lo_def ad_hi_def)
qed

text \<open>On amd64, with the defaults: two failures are harmless, thirty in a row are not.\<close>

theorem polling_bounds_witness:
  "(\<exists>is. Polling_Start (Exponential_NextInterval (- (2 ^ 63))) [Some (PlainError ''x''), None, Some (PlainError ''y'')]
       (NewExponentialBackoffStrategy 30000000000 300000000000 2) = Stopped is \<and> length is = 4) \<and>
   (\<exists>is. Polling_Start (Exponential_NextInterval (- (2 ^ 63))) (replicate 30 (Some (PlainError ''x'')))
       (NewExponentialBackoffStrategy 30000000000 300000000000 2) = TickerPanic is)"
proof
  have s: "(0 :: int) < 30000000000" "(30000000000 :: int) \<le> 300000000000" "(300000000000 :: int) < 2 ^ 63" "(0 :: int) < 1" by simp_all
  note two = polling_bounds [OF s, of 2 "[Some (PlainError ''x''), None, Some (PlainError ''y'')]" "- (2 ^ 63)"]
  show "\<exists>is. Polling_Start (Exponential_NextInterval (- (2 ^ 63))) [Some (PlainError ''x''), None, Some (PlainError ''y'')]
       (NewExponentialBackoffStrategy 30000000000 300000000000 2) = Stopped is \<and> length is = 4"
    using conjunct1 [OF two] by (auto simp: backoff_fits_def NewExponentialBackoffStrategy_def)
  have r: "failure_run (replicate n (Some e)) k = n + k" for n k and e :: go_error by (induction n arbitrary: k) auto
  note thirty = polling_bounds [OF s, of 2 "replicate 30 (Some (PlainError ''x''))" "- (2 ^ 63)"]
  show "\<exists>is. Polling_Start (Exponential_NextInterval (- (2 ^ 63))) (replicate 30 (Some (PlainError ''x'')))
       (NewExponentialBackoffStrategy 30000000000 300000000000 2) = TickerPanic is"
    using conjunct1 [OF conjunct2 [OF thirty]] by (simp add: r backoff_fits_def NewExponentialBackoffStrategy_def del: replicate.simps)
qed

text \<open>
  Where the conversion of a too large float gives the least integer, as on amd64, the
  agent's polling loop does not survive a long outage: with the default of thirty seconds and
  the multiplier two, the thirtieth failure in a row gives a negative interval and the ticker
  panics, although the strategy has a maximal interval.
\<close>

theorem exponential_backoff_overflows:
  "\<exists>is. Polling_Start (Exponential_NextInterval (- (2 ^ 63))) (replicate 30 (Some err))
     (NewExponentialBackoffStrategy 30000000000 300000000000 2) = TickerPanic is"
proof -
  let ?s = "NewExponentialBackoffStrategy 30000000000 300000000000 2"
  have s: "exp_good ?s" "eb_currentBackoff ?s = 0" "eb_baseInterval ?s < 2 ^ 63"
    by (simp_all add: exp_good_def NewExponentialBackoffStrategy_def)
  have "failure_run (replicate n (Some err)) k = n + k" for n k by (induction n arbitrary: k) auto
  then have "\<not> backoff_fits ?s (failure_run (replicate 30 (Some err)) 0)"
    by (simp add: backoff_fits_def NewExponentialBackoffStrategy_def)
  from fresh_run(2) [OF s this] show ?thesis by simp
qed

end
