(* ===== verification/Health.thy ===== *)
theory Health
  imports Domain_Errors Json "HOL-Library.Signed_Division"
begin

text \<open>
  \<open>infrastructure/health/health_service.go\<close>: the state behind the health endpoint. Times are
  nanoseconds and the clock's reading is an argument; its printed form is a parameter. The
  failure rate and the hours of a duration, floats in the code, are exact here, and the counters
  do not wrap.
\<close>

section \<open>State\<close>

record HealthService =
  hs_startTime :: int
  hs_dbHealthy :: bool
  hs_dbError :: "go_error option"
  hs_processedVMs :: int
  hs_failedConfigs :: int
  hs_networkManager :: string

datatype HealthStatus = StatusHealthy | StatusDegraded | StatusUnhealthy

fun HealthStatus_string :: "HealthStatus \<Rightarrow> string" where
  "HealthStatus_string StatusHealthy = ''healthy''"
| "HealthStatus_string StatusDegraded = ''degraded''"
| "HealthStatus_string StatusUnhealthy = ''unhealthy''"

record HealthResponse =
  hr_Status :: HealthStatus
  hr_Timestamp :: string
  hr_LastCheck :: string
  hr_Components :: json
  hr_Statistics :: json

section \<open>Operations\<close>

definition NewHealthService :: "int \<Rightarrow> HealthService" where
  "NewHealthService now = \<lparr>hs_startTime = now, hs_dbHealthy = False, hs_dbError = None, hs_processedVMs = 0, hs_failedConfigs = 0,
     hs_networkManager = []\<rparr>"

definition UpdateDBHealth :: "bool \<Rightarrow> go_error option \<Rightarrow> HealthService \<Rightarrow> HealthService" where
  "UpdateDBHealth healthy err h = h\<lparr>hs_dbHealthy := healthy, hs_dbError := err\<rparr>"

definition IncrementProcessedVMs :: "HealthService \<Rightarrow> HealthService" where
  "IncrementProcessedVMs h = h\<lparr>hs_processedVMs := hs_processedVMs h + 1\<rparr>"

definition IncrementFailedConfigs :: "HealthService \<Rightarrow> HealthService" where
  "IncrementFailedConfigs h = h\<lparr>hs_failedConfigs := hs_failedConfigs h + 1\<rparr>"

definition SetNetworkManager :: "string \<Rightarrow> HealthService \<Rightarrow> HealthService" where
  "SetNetworkManager managerType h = h\<lparr>hs_networkManager := managerType\<rparr>"

definition determineOverallStatus :: "HealthService \<Rightarrow> HealthStatus" where
  "determineOverallStatus h =
     (if \<not> hs_dbHealthy h then StatusUnhealthy
      else if 0 < hs_processedVMs h \<and> 0 < hs_failedConfigs h \<and>
        1 / 2 \<le> (rat_of_int (hs_failedConfigs h) / rat_of_int (hs_processedVMs h + hs_failedConfigs h)) then StatusDegraded
      else StatusHealthy)"

definition formatError :: "go_error option \<Rightarrow> string" where
  "formatError err = (case err of None \<Rightarrow> [] | Some e \<Rightarrow> Error e)"

definition hour :: int where "hour = 3600000000000"
definition minute :: int where "minute = 60000000000"

text \<open>Go's integer division and remainder round to zero, as \<open>sdiv\<close> and \<open>smod\<close>.\<close>

definition uptime :: "int \<Rightarrow> int \<times> int \<times> int" where
  "uptime duration = ((duration sdiv hour) sdiv 24, (duration sdiv hour) smod 24, (duration sdiv minute) smod 60)"

definition formatUptime :: "int \<Rightarrow> string" where
  "formatUptime duration =
     (case uptime duration of (days, hours, minutes) \<Rightarrow>
        if 0 < days then Itoa days @ ''d'' @ Itoa hours @ ''h'' @ Itoa minutes @ ''m''
        else if 0 < hours then Itoa hours @ ''h'' @ Itoa minutes @ ''m''
        else Itoa minutes @ ''m'')"

definition buildHealthResponse :: "(int \<Rightarrow> string) \<Rightarrow> int \<Rightarrow> HealthService \<Rightarrow> HealthResponse" where
  "buildHealthResponse rfc3339 now h =
     \<lparr>hr_Status = determineOverallStatus h, hr_Timestamp = rfc3339 now, hr_LastCheck = rfc3339 now,
      hr_Components = JObject [(''database'', JObject [(''healthy'', JBool (hs_dbHealthy h)), (''error'', JString (formatError (hs_dbError h)))]),
        (''network_manager'', JObject [(''type'', JString (hs_networkManager h))])],
      hr_Statistics = JObject [(''processed_vms'', JInt (hs_processedVMs h)), (''failed_configs'', JInt (hs_failedConfigs h)),
        (''uptime'', JString (formatUptime (now - hs_startTime h)))]\<rparr>"

text \<open>The status code and, for a request that is served, the response.\<close>

definition ServeHTTP :: "(int \<Rightarrow> string) \<Rightarrow> int \<Rightarrow> string \<Rightarrow> HealthService \<Rightarrow> int \<times> HealthResponse option" where
  "ServeHTTP rfc3339 now method h =
     (if method \<noteq> ''GET'' then (405, None)
      else let response = buildHealthResponse rfc3339 now h
           in (if hr_Status response = StatusUnhealthy then 503 else 200, Some response))"

section \<open>Facts\<close>

lemma determineOverallStatus_cases:
  assumes "0 \<le> hs_processedVMs h" "0 \<le> hs_failedConfigs h"
  shows "determineOverallStatus h = StatusUnhealthy \<longleftrightarrow> \<not> hs_dbHealthy h"
    "determineOverallStatus h = StatusDegraded \<longleftrightarrow> hs_dbHealthy h \<and> 0 < hs_processedVMs h \<and> hs_processedVMs h \<le> hs_failedConfigs h"
proof -
  let ?p = "hs_processedVMs h" and ?f = "hs_failedConfigs h"
  have "1 / 2 \<le> (rat_of_int ?f / rat_of_int (?p + ?f)) \<longleftrightarrow> ?p \<le> ?f" if "0 < ?p" "0 < ?f"
  proof -
    have "1 / 2 \<le> (rat_of_int ?f / rat_of_int (?p + ?f)) \<longleftrightarrow> rat_of_int (?p + ?f) \<le> rat_of_int (2 * ?f)"
      using that by (simp add: field_simps)
    also have "\<dots> \<longleftrightarrow> ?p \<le> ?f" unfolding of_int_le_iff by simp
    finally show ?thesis .
  qed
  then show "determineOverallStatus h = StatusUnhealthy \<longleftrightarrow> \<not> hs_dbHealthy h"
    "determineOverallStatus h = StatusDegraded \<longleftrightarrow> hs_dbHealthy h \<and> 0 < ?p \<and> ?p \<le> ?f"
    by (auto simp: determineOverallStatus_def)
qed

lemma uptime_parts:
  assumes "0 \<le> d" "uptime d = (days, hours, minutes)"
  shows "0 \<le> days" "0 \<le> hours" "hours < 24" "0 \<le> minutes" "minutes < 60"
    "days * (24 * hour) + hours * hour + minutes * minute \<le> d" "d < days * (24 * hour) + hours * hour + (minutes + 1) * minute"
proof -
  have s: "a sdiv b = a div b" "a smod b = a mod b" if "0 \<le> a" "0 < b" for a b :: int
    using that by (auto simp: signed_divide_int_def signed_modulo_int_def sgn_if)
  have p: "days = (d div hour) div 24" "hours = (d div hour) mod 24" "minutes = (d div minute) mod 60"
    using assms by (auto simp: uptime_def s hour_def minute_def)
  show "0 \<le> days" "0 \<le> hours" "hours < 24" "0 \<le> minutes" "minutes < 60"
    using assms(1) unfolding p by (simp_all add: hour_def minute_def)
  have "d div hour = (d div minute) div 60" by (simp add: hour_def minute_def div_mult2_eq [symmetric] zdiv_zmult2_eq [symmetric])
  then have m: "d div minute = 60 * (d div hour) + minutes" unfolding p(3) by simp
  have h: "d div hour = 24 * days + hours" unfolding p(1,2) by simp
  have "minute * (d div minute) \<le> d" "d < minute * (d div minute + 1)"
    using div_mult_mod_eq [of d minute] pos_mod_bound [of minute d] pos_mod_sign [of minute d] by (auto simp: minute_def algebra_simps)
  then show "days * (24 * hour) + hours * hour + minutes * minute \<le> d" "d < days * (24 * hour) + hours * hour + (minutes + 1) * minute"
    unfolding m h by (simp_all add: hour_def minute_def algebra_simps)
qed

text \<open>
  The rate counts only when something was processed: a service all of whose configurations
  failed is healthy as long as its last cycle did not fail.
\<close>

theorem all_failed_healthy:
  "hs_dbHealthy h \<Longrightarrow> hs_processedVMs h = 0 \<Longrightarrow> determineOverallStatus h = StatusHealthy"
  by (simp add: determineOverallStatus_def)

end
