(* ===== verification/Go_Parse.thy ===== *)
theory Go_Parse
  imports Go_Strings
begin

text \<open>
  \<open>strconv.ParseBool\<close> and \<open>time.ParseDuration\<close> of Go's library, with the overflow checks of the
  latter. A duration is a number of nanoseconds. The fraction of a unit, which the library
  computes in floats, is exact here.
\<close>

definition ParseBool :: "string \<Rightarrow> bool option" where
  "ParseBool s =
     (if List.member [''1'', ''t'', ''T'', ''true'', ''TRUE'', ''True''] s then Some True
      else if List.member [''0'', ''f'', ''F'', ''false'', ''FALSE'', ''False''] s then Some False
      else None)"

fun leadingInt :: "nat \<Rightarrow> string \<Rightarrow> (nat \<times> string) option" where
  "leadingInt x [] = Some (x, [])"
| "leadingInt x (c # s) =
     (if \<not> is_digit c then Some (x, c # s)
      else if 2 ^ 63 div 10 < x then None
      else if 2 ^ 63 < x * 10 + digit_val c then None
      else leadingInt (x * 10 + digit_val c) s)"

text \<open>The digits of a fraction as a number, its scale, and the rest; further digits are dropped on overflow.\<close>

fun leadingFraction :: "bool \<Rightarrow> nat \<Rightarrow> nat \<Rightarrow> string \<Rightarrow> nat \<times> nat \<times> string" where
  "leadingFraction overflow x scale [] = (x, scale, [])"
| "leadingFraction overflow x scale (c # s) =
     (if \<not> is_digit c then (x, scale, c # s)
      else if overflow then leadingFraction True x scale s
      else if (2 ^ 63 - 1) div 10 < x \<or> 2 ^ 63 < x * 10 + digit_val c then leadingFraction True x scale s
      else leadingFraction False (x * 10 + digit_val c) (scale * 10) s)"

lemma leadingInt_length: "leadingInt x s = Some (v, t) \<Longrightarrow> length t \<le> length s"
  by (induction x s rule: leadingInt.induct) (auto split: if_splits)

lemma leadingFraction_length: "leadingFraction ov x sc s = (f, sc', t) \<Longrightarrow> length t \<le> length s"
  by (induction ov x sc s rule: leadingFraction.induct) (auto split: if_splits)

definition durationUnit :: "string \<Rightarrow> nat option" where
  "durationUnit u = map_of
     [(''ns'', 1), (''us'', 1000), ([CHR 0xC2, CHR 0xB5, CHR ''s''], 1000), ([CHR 0xCE, CHR 0xBC, CHR ''s''], 1000),
      (''ms'', 1000000), (''s'', 1000000000), (''m'', 60000000000), (''h'', 3600000000000)] u"

definition number_char :: "char \<Rightarrow> bool" where
  "number_char c \<longleftrightarrow> c = CHR ''.'' \<or> is_digit c"

text \<open>The fraction after a point, with whether it has a digit.\<close>

definition fraction :: "string \<Rightarrow> nat \<times> nat \<times> string \<times> bool" where
  "fraction s =
     (case s of [] \<Rightarrow> (0, 1, [], False)
      | c # t \<Rightarrow> if c = CHR ''.'' then (case leadingFraction False 0 1 t of (f, scale, r) \<Rightarrow> (f, scale, r, length r \<noteq> length t))
          else (0, 1, s, False))"

lemma fraction_length: "fraction s = (f, sc, t, post) \<Longrightarrow> length t \<le> length s"
  by (auto simp: fraction_def split: list.splits if_splits prod.splits dest!: leadingFraction_length)

text \<open>One part, a number with its unit, in nanoseconds, and the rest of the text.\<close>

definition durationPart :: "string \<Rightarrow> (nat \<times> string) option" where
  "durationPart s =
     (if \<not> number_char (hd s) then None
      else case leadingInt 0 s of
        None \<Rightarrow> None
      | Some (v, s1) \<Rightarrow>
          (case fraction s1 of (f, scale, s2, post) \<Rightarrow>
             if length s1 = length s \<and> \<not> post then None
             else if takeWhile (\<lambda>c. \<not> number_char c) s2 = [] then None
             else case durationUnit (takeWhile (\<lambda>c. \<not> number_char c) s2) of
               None \<Rightarrow> None
             | Some unit \<Rightarrow>
                 if 2 ^ 63 div unit < v then None
                 else if 2 ^ 63 < v * unit + (if 0 < f then f * unit div scale else 0) then None
                 else Some (v * unit + (if 0 < f then f * unit div scale else 0), dropWhile (\<lambda>c. \<not> number_char c) s2)))"

lemma dropWhile_shorter: "takeWhile P s \<noteq> [] \<Longrightarrow> length (dropWhile P s) < length s"
  by (cases s) (auto simp: length_dropWhile_le le_imp_less_Suc split: if_splits)

lemma durationPart_shorter:
  assumes "durationPart s = Some (v, t)"
  shows "length t < length s" "v \<le> 2 ^ 63"
proof -
  obtain v1 s1 f sc s2 post where l: "leadingInt 0 s = Some (v1, s1)" "fraction s1 = (f, sc, s2, post)"
    and p: "takeWhile (\<lambda>c. \<not> number_char c) s2 \<noteq> []" "t = dropWhile (\<lambda>c. \<not> number_char c) s2" "v \<le> 2 ^ 63"
    using assms by (auto simp: durationPart_def split: if_splits option.splits prod.splits)
  show "length t < length s" "v \<le> 2 ^ 63"
    using leadingInt_length [OF l(1)] fraction_length [OF l(2)] dropWhile_shorter [OF p(1)] p(2,3) by auto
qed

text \<open>The sum of the parts of a duration without its sign.\<close>

function durationLoop :: "string \<Rightarrow> nat \<Rightarrow> nat option" where
  "durationLoop s d =
     (if s = [] then Some d
      else case durationPart s of
        None \<Rightarrow> None
      | Some (v, t) \<Rightarrow> if 2 ^ 63 < (d + v) mod 2 ^ 64 then None else durationLoop t ((d + v) mod 2 ^ 64))"
  by pat_completeness auto

termination
  by (relation "measure (\<lambda>(s, d). length s)") (auto dest: durationPart_shorter(1))

declare durationLoop.simps [simp del, code del]

lemma durationLoop_simps [simp, code]:
  "durationLoop [] d = Some d"
  "durationLoop (c # s) d = (case durationPart (c # s) of
     None \<Rightarrow> None
   | Some (v, t) \<Rightarrow> if 2 ^ 63 < (d + v) mod 2 ^ 64 then None else durationLoop t ((d + v) mod 2 ^ 64))"
  by (simp_all add: durationLoop.simps)

definition ParseDuration :: "string \<Rightarrow> int option" where
  "ParseDuration s =
     (let signed = (s \<noteq> [] \<and> (hd s = CHR ''-'' \<or> hd s = CHR ''+'')); t = (if signed then tl s else s)
      in if t = ''0'' then Some 0
         else if t = [] then None
         else case durationLoop t 0 of
           None \<Rightarrow> None
         | Some d \<Rightarrow>
             if signed \<and> hd s = CHR ''-'' then Some (- int d)
             else if 2 ^ 63 - 1 < d then None
             else Some (int d))"

lemma durationLoop_bound: "durationLoop s d = Some e \<Longrightarrow> d \<le> 2 ^ 63 \<Longrightarrow> e \<le> 2 ^ 63"
proof (induction s d rule: durationLoop.induct)
  case (1 s d)
  show ?case
  proof (cases "s = []")
    case True
    then show ?thesis using 1(2,3) by simp
  next
    case False
    then obtain v t where v: "durationPart s = Some (v, t)" "(d + v) mod 2 ^ 64 \<le> 2 ^ 63" "durationLoop t ((d + v) mod 2 ^ 64) = Some e"
      using 1(2) by (auto simp: durationLoop.simps [of s] split: option.splits if_splits)
    then show ?thesis using 1(1) [OF False v(1) refl] by simp
  qed
qed

text \<open>A duration that is accepted fits 64 bits.\<close>

lemma ParseDuration_int64:
  assumes "ParseDuration s = Some d"
  shows "- (2 ^ 63) \<le> d" "d < 2 ^ 63"
proof -
  have "- (2 ^ 63) \<le> d \<and> d < 2 ^ 63"
  proof (cases "\<exists>t e. durationLoop t 0 = Some e \<and> (d = - int e \<or> d = int e \<and> e \<le> 2 ^ 63 - 1)")
    case True
    then obtain t e where e: "durationLoop t 0 = Some e" "d = - int e \<or> d = int e \<and> e \<le> 2 ^ 63 - 1" by blast
    have "e \<le> 2 ^ 63" using durationLoop_bound [OF e(1)] by simp
    then show ?thesis using e(2) by auto
  next
    case False
    then have "d = 0" using assms by (auto simp: ParseDuration_def Let_def split: if_splits option.splits)
    then show ?thesis by simp
  qed
  then show "- (2 ^ 63) \<le> d" "d < 2 ^ 63" by simp_all
qed

lemma ParseDuration_examples:
  "ParseDuration ''30s'' = Some 30000000000" "ParseDuration ''-1.5h'' = Some (- 5400000000000)" "ParseDuration ''1h2m3.5s'' = Some 3723500000000"
  "ParseDuration ''1'' = None" "ParseDuration ''.s'' = None" "ParseDuration ''9223372036854775808ns'' = None"
  by (simp_all add: ParseDuration_def durationPart_def fraction_def durationUnit_def number_char_def is_digit_def digit_val_def)

end
