(* ===== verification/Config.thy ===== *)
theory Config
  imports Go_Parse Polling Entities
begin

text \<open>
  \<open>infrastructure/config/config.go\<close>: the configuration the agent reads from its environment. The
  environment is a function from names to values, with the empty text for an unset one, as
  \<open>os.Getenv\<close> has it; \<open>strconv.ParseFloat\<close> is a parameter, since floats are reals here.
\<close>

section \<open>Data\<close>

type_synonym environ = "string \<Rightarrow> string"

record DatabaseConfig =
  db_Host :: string
  db_Port :: string
  db_User :: string
  db_Password :: string
  db_Database :: string
  db_MaxOpenConns :: int
  db_MaxIdleConns :: int
  db_MaxLifetime :: int

record BackoffConfig =
  bo_Enabled :: bool
  bo_MaxInterval :: int
  bo_Multiplier :: real

record AgentConfig =
  ag_PollInterval :: int
  ag_MaxRetries :: int
  ag_RetryDelay :: int
  ag_CommandTimeout :: int
  ag_BackupDirectory :: string
  ag_Backoff :: BackoffConfig
  ag_MaxConcurrentTasks :: int
  ag_DataSource :: string
  ag_NodeCRNamespace :: string
  ag_RunMode :: string

record NetworkConfig =
  nw_PolicyRoutingEnabled :: bool
  nw_RoutingTableBase :: int
  nw_RouteMetric :: int
  nw_UseNoPrefixRoute :: bool
  nw_SetArpSysctls :: bool
  nw_SetLooseRPFilter :: bool

record Config =
  cf_Database :: DatabaseConfig
  cf_Agent :: AgentConfig
  cf_HealthPort :: string
  cf_Network :: NetworkConfig

section \<open>Reading the environment\<close>

definition getEnvOrDefault :: "environ \<Rightarrow> string \<Rightarrow> string \<Rightarrow> string" where
  "getEnvOrDefault env key defaultValue = (if env key \<noteq> [] then env key else defaultValue)"

definition getEnvParsed :: "(string \<Rightarrow> 'a option) \<Rightarrow> environ \<Rightarrow> string \<Rightarrow> 'a \<Rightarrow> 'a" where
  "getEnvParsed parse env key defaultValue =
     (if env key \<noteq> [] then (case parse (env key) of Some v \<Rightarrow> v | None \<Rightarrow> defaultValue) else defaultValue)"

definition getEnvIntOrDefault :: "environ \<Rightarrow> string \<Rightarrow> int \<Rightarrow> int" where
  "getEnvIntOrDefault = getEnvParsed Atoi"

definition getEnvDurationOrDefault :: "environ \<Rightarrow> string \<Rightarrow> int \<Rightarrow> int" where
  "getEnvDurationOrDefault = getEnvParsed ParseDuration"

definition getEnvBoolOrDefault :: "environ \<Rightarrow> string \<Rightarrow> bool \<Rightarrow> bool" where
  "getEnvBoolOrDefault = getEnvParsed ParseBool"

definition getEnvFloatOrDefault :: "(string \<Rightarrow> real option) \<Rightarrow> environ \<Rightarrow> string \<Rightarrow> real \<Rightarrow> real" where
  "getEnvFloatOrDefault parseFloat = getEnvParsed parseFloat"

section \<open>Load\<close>

definition second :: int where "second = 1000000000"

text \<open>The product of two 64-bit durations wraps around.\<close>

definition wrap64 :: "int \<Rightarrow> int" where "wrap64 i = (i + 2 ^ 63) mod 2 ^ 64 - 2 ^ 63"

text \<open>The defaults of \<open>constants/paths.go\<close> and \<open>enums.go\<close>.\<close>

definition DefaultCommandTimeout :: int where "DefaultCommandTimeout = 30"
definition DefaultPollInterval :: int where "DefaultPollInterval = 30"
definition DefaultRetryDelay :: int where "DefaultRetryDelay = 2"
definition DefaultNodeCRNamespace :: string where "DefaultNodeCRNamespace = ''multinic-system''"
definition DefaultDBHost :: string where "DefaultDBHost = ''localhost''"
definition DefaultDBPort :: string where "DefaultDBPort = ''3306''"
definition DefaultDBName :: string where "DefaultDBName = ''multinic''"
definition DefaultHealthPort :: string where "DefaultHealthPort = ''8080''"
definition RunModeService :: string where "RunModeService = ''service''"
definition RunModeJob :: string where "RunModeJob = ''job''"

lemmas default_defs [simp] = DefaultCommandTimeout_def DefaultPollInterval_def DefaultRetryDelay_def DefaultNodeCRNamespace_def
  DefaultDBHost_def DefaultDBPort_def DefaultDBName_def DefaultHealthPort_def RunModeService_def RunModeJob_def DefaultMaxRetries_def
  DefaultMaxConcurrentTasks_def

definition readConfig :: "(string \<Rightarrow> real option) \<Rightarrow> environ \<Rightarrow> Config" where
  "readConfig parseFloat env =
     \<lparr>cf_Database = \<lparr>db_Host = getEnvOrDefault env ''DB_HOST'' DefaultDBHost, db_Port = getEnvOrDefault env ''DB_PORT'' DefaultDBPort,
        db_User = getEnvOrDefault env ''DB_USER'' ''root'', db_Password = getEnvOrDefault env ''DB_PASSWORD'' [],
        db_Database = getEnvOrDefault env ''DB_NAME'' DefaultDBName, db_MaxOpenConns = getEnvIntOrDefault env ''DB_MAX_OPEN_CONNS'' 10,
        db_MaxIdleConns = getEnvIntOrDefault env ''DB_MAX_IDLE_CONNS'' 5,
        db_MaxLifetime = getEnvDurationOrDefault env ''DB_MAX_LIFETIME'' (300 * second)\<rparr>,
      cf_Agent = \<lparr>ag_PollInterval = getEnvDurationOrDefault env ''POLL_INTERVAL'' (DefaultPollInterval * second),
        ag_MaxRetries = getEnvIntOrDefault env ''MAX_RETRIES'' DefaultMaxRetries, ag_RetryDelay = getEnvDurationOrDefault env ''RETRY_DELAY'' (DefaultRetryDelay * second),
        ag_CommandTimeout = getEnvDurationOrDefault env ''COMMAND_TIMEOUT'' (DefaultCommandTimeout * second),
        ag_BackupDirectory = getEnvOrDefault env ''BACKUP_DIR'' DefaultBackupDir,
        ag_Backoff = \<lparr>bo_Enabled = getEnvBoolOrDefault env ''BACKOFF_ENABLED'' True,
          bo_MaxInterval = getEnvDurationOrDefault env ''BACKOFF_MAX_INTERVAL'' (wrap64 (getEnvDurationOrDefault env ''POLL_INTERVAL'' (DefaultPollInterval * second) * 10)),
          bo_Multiplier = getEnvFloatOrDefault parseFloat env ''BACKOFF_MULTIPLIER'' 2\<rparr>,
        ag_MaxConcurrentTasks = getEnvIntOrDefault env ''MAX_CONCURRENT_TASKS'' DefaultMaxConcurrentTasks,
        ag_DataSource = getEnvOrDefault env ''DATA_SOURCE'' ''db'',
        ag_NodeCRNamespace = getEnvOrDefault env ''NODE_CR_NAMESPACE'' DefaultNodeCRNamespace,
        ag_RunMode = getEnvOrDefault env ''RUN_MODE'' RunModeService\<rparr>,
      cf_HealthPort = getEnvOrDefault env ''HEALTH_PORT'' DefaultHealthPort,
      cf_Network = \<lparr>nw_PolicyRoutingEnabled = getEnvBoolOrDefault env ''NETWORK_POLICY_ROUTING_ENABLED'' True,
        nw_RoutingTableBase = getEnvIntOrDefault env ''NETWORK_ROUTING_TABLE_BASE'' 100,
        nw_RouteMetric = getEnvIntOrDefault env ''NETWORK_ROUTE_METRIC'' 100,
        nw_UseNoPrefixRoute = getEnvBoolOrDefault env ''NETWORK_NOPREFIXROUTE'' True,
        nw_SetArpSysctls = getEnvBoolOrDefault env ''NETWORK_SET_ARP_SYSCTLS'' True,
        nw_SetLooseRPFilter = getEnvBoolOrDefault env ''NETWORK_SET_RP_FILTER_LOOSE'' True\<rparr>\<rparr>"

definition invalid :: "string \<Rightarrow> go_error option" where
  "invalid msg = Some (NewValidationError msg None)"

definition config_validate :: "Config \<Rightarrow> go_error option" where
  "config_validate c =
     (let dataSource = (if ag_DataSource (cf_Agent c) = [] then ''db'' else ag_DataSource (cf_Agent c))
      in if dataSource = ''db'' \<and> db_Host (cf_Database c) = [] then invalid ''database host not configured''
         else if dataSource = ''db'' \<and> db_Port (cf_Database c) = [] then invalid ''database port not configured''
         else if dataSource = ''db'' \<and> db_User (cf_Database c) = [] then invalid ''database user not configured''
         else if dataSource = ''db'' \<and> db_Database (cf_Database c) = [] then invalid ''database name not configured''
         else if ag_PollInterval (cf_Agent c) \<le> 0 then invalid ''invalid polling interval''
         else if ag_MaxRetries (cf_Agent c) < 0 then invalid ''invalid max retry count''
         else if nw_RoutingTableBase (cf_Network c) \<le> 0 then invalid ''invalid routing table base''
         else if nw_RouteMetric (cf_Network c) < 0 then invalid ''invalid routing metric''
         else if cf_HealthPort c = [] then invalid ''health check port not configured''
         else None)"

definition Load :: "(string \<Rightarrow> real option) \<Rightarrow> environ \<Rightarrow> (go_error, Config) result" where
  "Load parseFloat env =
     (case config_validate (readConfig parseFloat env) of Some err \<Rightarrow> Inl err | None \<Rightarrow> Inr (readConfig parseFloat env))"

section \<open>Facts\<close>

lemmas getEnv_defs = getEnvOrDefault_def getEnvParsed_def getEnvIntOrDefault_def getEnvDurationOrDefault_def getEnvBoolOrDefault_def
  getEnvFloatOrDefault_def

lemma getEnvOrDefault_nonempty: "d \<noteq> [] \<Longrightarrow> getEnvOrDefault env k d \<noteq> []"
  by (simp add: getEnvOrDefault_def)

lemma getEnvParsed_bounds:
  "(\<And>v. parse (env k) = Some v \<Longrightarrow> P v) \<Longrightarrow> P d \<Longrightarrow> P (getEnvParsed parse env k d)"
  by (auto simp: getEnvParsed_def split: option.splits)

text \<open>Only four values can make the configuration invalid; no text is ever missing.\<close>

lemma Load_cases:
  "is_ok (Load parseFloat env) \<longleftrightarrow>
     0 < getEnvDurationOrDefault env ''POLL_INTERVAL'' (30 * second) \<and> 0 \<le> getEnvIntOrDefault env ''MAX_RETRIES'' 3 \<and>
     0 < getEnvIntOrDefault env ''NETWORK_ROUTING_TABLE_BASE'' 100 \<and> 0 \<le> getEnvIntOrDefault env ''NETWORK_ROUTE_METRIC'' 100"
  by (auto simp: Load_def config_validate_def Let_def invalid_def readConfig_def getEnvOrDefault_nonempty split: option.splits if_splits)

lemma Load_readConfig: "Load parseFloat env = Inr c \<Longrightarrow> c = readConfig parseFloat env"
  by (auto simp: Load_def split: option.splits)

lemma ParseDuration_zero: "ParseDuration ''0s'' = Some 0"
  by (simp add: ParseDuration_def durationPart_def fraction_def durationUnit_def number_char_def is_digit_def digit_val_def)

lemma wrap64_small: "- (2 ^ 63) \<le> i \<Longrightarrow> i < 2 ^ 63 \<Longrightarrow> wrap64 i = i"
  by (simp add: wrap64_def)

section \<open>Properties\<close>

text \<open>The strategy the agent polls with when back-off is enabled.\<close>

definition configured_strategy :: "Config \<Rightarrow> ExponentialBackoffStrategy" where
  "configured_strategy c = NewExponentialBackoffStrategy (ag_PollInterval (cf_Agent c)) (bo_MaxInterval (ag_Backoff (cf_Agent c)))
     (bo_Multiplier (ag_Backoff (cf_Agent c)))"

text \<open>The strategy that a loaded configuration gives, while the maximal back-off is the default.\<close>

lemma loaded_strategy:
  assumes l: "Load parseFloat env = Inr c" and b: "env ''BACKOFF_MAX_INTERVAL'' = []" "ag_PollInterval (cf_Agent c) \<le> max_int64 div 10"
  shows "0 < ag_PollInterval (cf_Agent c)"
    "exp_good (configured_strategy c)" "eb_currentBackoff (configured_strategy c) = 0" "eb_baseInterval (configured_strategy c) < 2 ^ 63"
    "eb_baseInterval (configured_strategy c) = ag_PollInterval (cf_Agent c)" "eb_maxInterval (configured_strategy c) = 10 * ag_PollInterval (cf_Agent c)"
proof -
  let ?p = "ag_PollInterval (cf_Agent c)"
  show p: "0 < ?p" using l Load_cases [of parseFloat env] Load_readConfig [OF l] by (simp add: readConfig_def)
  have m: "bo_MaxInterval (ag_Backoff (cf_Agent c)) = wrap64 (?p * 10)"
    using b(1) Load_readConfig [OF l] by (simp add: readConfig_def getEnv_defs)
  have "wrap64 (?p * 10) = 10 * ?p" using wrap64_small [of "?p * 10"] p b(2) by (simp add: max_int64_def)
  then have s: "configured_strategy c = NewExponentialBackoffStrategy ?p (10 * ?p) (bo_Multiplier (ag_Backoff (cf_Agent c)))"
    by (simp add: configured_strategy_def m)
  show "exp_good (configured_strategy c)" "eb_currentBackoff (configured_strategy c) = 0" "eb_baseInterval (configured_strategy c) < 2 ^ 63"
    using p b(2) by (simp_all add: s exp_good_def NewExponentialBackoffStrategy_def max_int64_def)
  show "eb_baseInterval (configured_strategy c) = ?p" "eb_maxInterval (configured_strategy c) = 10 * ?p"
    by (simp_all add: s NewExponentialBackoffStrategy_def)
qed

text \<open>
  C29: what the environment must say for the agent to start, and how long it can then poll. The
  configuration loads exactly when the four numbers that are checked have values in range, a
  text that does not parse counting as the default. When the maximal back-off is then not set
  and the interval is at most a tenth of the largest duration, the polling loop with back-off
  keeps between the interval and its tenfold and never panics, for results whose longest run
  of failures gives a back-off that fits a duration, on every platform, and for all results
  on a platform that converts a larger float to at least the tenfold; for the other results on
  a platform that converts it to a value that is not positive, as amd64 does, the ticker panics.
\<close>

theorem Load_and_poll:
  "(is_ok (Load parseFloat env) \<longleftrightarrow>
      0 < getEnvDurationOrDefault env ''POLL_INTERVAL'' (30 * second) \<and> 0 \<le> getEnvIntOrDefault env ''MAX_RETRIES'' 3 \<and>
      0 < getEnvIntOrDefault env ''NETWORK_ROUTING_TABLE_BASE'' 100 \<and> 0 \<le> getEnvIntOrDefault env ''NETWORK_ROUTE_METRIC'' 100) \<and>
   (\<forall>c. Load parseFloat env = Inr c \<and> env ''BACKOFF_MAX_INTERVAL'' = [] \<and> ag_PollInterval (cf_Agent c) \<le> max_int64 div 10 \<longrightarrow>
      (backoff_fits (configured_strategy c) (failure_run rs 0) \<or> 10 * ag_PollInterval (cf_Agent c) \<le> big \<longrightarrow>
        (\<exists>is. Polling_Start (Exponential_NextInterval big) rs (configured_strategy c) = Stopped is \<and> length is = length rs + 1 \<and>
          list_all (\<lambda>i. ag_PollInterval (cf_Agent c) \<le> i \<and> i \<le> 10 * ag_PollInterval (cf_Agent c)) is)) \<and>
      (\<not> backoff_fits (configured_strategy c) (failure_run rs 0) \<and> big \<le> 0 \<longrightarrow>
        (\<exists>is. Polling_Start (Exponential_NextInterval big) rs (configured_strategy c) = TickerPanic is)))"
proof (intro conjI allI impI, goal_cases)
  case 1
  show ?case by (rule Load_cases)
next
  case (2 c)
  then have l: "Load parseFloat env = Inr c" and b: "env ''BACKOFF_MAX_INTERVAL'' = []" "ag_PollInterval (cf_Agent c) \<le> max_int64 div 10"
    by auto
  note s = loaded_strategy [OF l b]
  from fresh_run(1) [OF s(2-4), of rs big] 2(2) show ?case by (simp add: s(5,6))
next
  case (3 c)
  then have l: "Load parseFloat env = Inr c" and b: "env ''BACKOFF_MAX_INTERVAL'' = []" "ag_PollInterval (cf_Agent c) \<le> max_int64 div 10"
    by auto
  from fresh_run(2) [OF loaded_strategy(2-4) [OF l b], of rs big] 3(2) show ?case by simp
qed

theorem Load_and_poll_witness:
  "\<exists>c. Load (\<lambda>s. None) (\<lambda>k. []) = Inr c \<and>
     (\<exists>is. Polling_Start (Exponential_NextInterval min_int64) [Some (PlainError ''x'')] (configured_strategy c) = Stopped is \<and> length is = 2) \<and>
     (\<exists>is. Polling_Start (Exponential_NextInterval min_int64) (replicate 30 (Some (PlainError ''x''))) (configured_strategy c) = TickerPanic is)"
proof -
  have "is_ok (Load (\<lambda>s. None) (\<lambda>k. []))" unfolding Load_cases by (simp add: getEnv_defs second_def)
  then obtain c where c: "Load (\<lambda>s. None) (\<lambda>k. []) = Inr c" by (auto simp: is_ok_iff)
  have p: "ag_PollInterval (cf_Agent c) \<le> max_int64 div 10"
    using Load_readConfig [OF c] by (simp add: readConfig_def getEnv_defs second_def max_int64_def)
  have s: "configured_strategy c = NewExponentialBackoffStrategy (30 * second) (10 * (30 * second)) 2"
    using Load_readConfig [OF c] by (simp add: configured_strategy_def readConfig_def getEnv_defs second_def wrap64_def)
  have one: "backoff_fits (configured_strategy c) (failure_run [Some (PlainError ''x'')] 0)"
    by (simp add: s backoff_fits_def NewExponentialBackoffStrategy_def second_def)
  have "failure_run (replicate n (Some e)) k = n + k" for n k and e :: go_error by (induction n arbitrary: k) auto
  then have thirty: "\<not> backoff_fits (configured_strategy c) (failure_run (replicate 30 (Some (PlainError ''x''))) 0)"
    by (simp add: s backoff_fits_def NewExponentialBackoffStrategy_def second_def del: replicate.simps)
  show ?thesis
    using Load_and_poll [of "\<lambda>s. None" "\<lambda>k. []" "[Some (PlainError ''x'')]" min_int64]
      Load_and_poll [of "\<lambda>s. None" "\<lambda>k. []" "replicate 30 (Some (PlainError ''x''))" min_int64] c p one thirty
    by (intro exI [of _ c]) (fastforce simp: min_int64_def simp del: replicate.simps)
qed

text \<open>
  The maximal back-off is not checked: with the value 0s the configuration loads, and after
  the first failed cycle the ticker panics.
\<close>

theorem zero_backoff_panics:
  "\<exists>c is. Load (\<lambda>s. None) ((\<lambda>k. [])(''BACKOFF_MAX_INTERVAL'' := ''0s'')) = Inr c \<and>
     Polling_Start (Exponential_NextInterval max_int64) [Some (PlainError ''x'')] (configured_strategy c) = TickerPanic is"
proof -
  let ?env = "(\<lambda>k. [])(''BACKOFF_MAX_INTERVAL'' := ''0s'') :: environ"
  have "is_ok (Load (\<lambda>s. None) ?env)" unfolding Load_cases by (simp add: getEnv_defs second_def)
  then obtain c where c: "Load (\<lambda>s. None) ?env = Inr c" by (auto simp: is_ok_iff)
  have "configured_strategy c = NewExponentialBackoffStrategy (30 * second) 0 2"
    using Load_readConfig [OF c] by (simp add: configured_strategy_def readConfig_def getEnv_defs ParseDuration_zero)
  then have "Polling_Start (Exponential_NextInterval max_int64) [Some (PlainError ''x'')] (configured_strategy c) = TickerPanic [30 * second]"
    by (simp add: Polling_Start_def NewExponentialBackoffStrategy_def Exponential_NextInterval_def to_duration_def second_def Let_def)
  then show ?thesis using c by blast
qed

end
