(* ===== verification/Job_Factory.thy ===== *)
theory Job_Factory
  imports Network
begin

text \<open>
  \<open>internal/controller/jobfactory.go\<close>: the manifest of the job that runs the agent on a node,
  as the program fills it in. The types of \<open>k8s.io/api\<close> are records of the fields the program
  sets or reads.
\<close>

section \<open>Data\<close>

datatype OSFamily = OSUbuntu | OSRHEL

record JobParams =
  jp_Namespace :: string
  jp_Name :: string
  jp_Image :: string
  jp_PullPolicy :: string
  jp_ServiceAccountName :: string
  jp_NodeName :: string
  jp_NodeCRNamespace :: string
  jp_TTLSecondsAfterDone :: "int option"
  jp_Action :: string

text \<open>An environment variable has a value or takes it from a field of the pod.\<close>

datatype env_value = Value string | FieldRef string

record volume =
  vol_name :: string
  vol_hostPath :: string
  vol_type :: string

record mount =
  mnt_name :: string
  mnt_path :: string

record probe =
  pr_path :: string
  pr_port :: int
  pr_initialDelaySeconds :: int
  pr_periodSeconds :: int

record toleration =
  tol_key :: string
  tol_operator :: string
  tol_value :: string
  tol_effect :: string

record container =
  ct_name :: string
  ct_image :: string
  ct_pullPolicy :: string
  ct_command :: "string list"
  ct_env :: "(string \<times> env_value) list"
  ct_liveness :: probe
  ct_readiness :: probe
  ct_privileged :: bool
  ct_capabilities :: "string list"
  ct_mounts :: "mount list"

record Job =
  job_Name :: string
  job_Namespace :: string
  job_Labels :: "(string \<times> string) list"
  job_ttl :: "int option"
  job_backoffLimit :: int
  job_podLabels :: "(string \<times> string) list"
  job_serviceAccount :: string
  job_restartPolicy :: string
  job_hostNetwork :: bool
  job_hostPID :: bool
  job_nodeSelector :: "(string \<times> string) list"
  job_containers :: "container list"
  job_volumes :: "volume list"
  job_tolerations :: "toleration list"
  job_Succeeded :: int
  job_Failed :: int

section \<open>Operations\<close>

definition OSFamilyFromOSImage :: "string \<Rightarrow> OSFamily" where
  "OSFamilyFromOSImage osImage =
     (let s = ToLower osImage
      in if Contains s ''ubuntu'' then OSUbuntu
         else if list_ex (Contains s) [''red hat'', ''rhel'', ''centos'', ''rocky'', ''alma'', ''oracle''] then OSRHEL
         else OSRHEL)"

definition hostDir :: "string \<Rightarrow> string \<Rightarrow> volume \<times> mount" where
  "hostDir name path = (\<lparr>vol_name = name, vol_hostPath = path, vol_type = ''DirectoryOrCreate''\<rparr>, \<lparr>mnt_name = name, mnt_path = path\<rparr>)"

definition hostDirs :: "OSFamily \<Rightarrow> (volume \<times> mount) list" where
  "hostDirs family =
     (if family = OSUbuntu then [hostDir ''netplan'' ''/etc/netplan'']
      else [hostDir ''nm-connections'' ''/etc/NetworkManager/system-connections'',
            hostDir ''systemd-network'' ''/etc/systemd/network''])"

definition healthPort :: int where "healthPort = 18080"

definition agentEnv :: "JobParams \<Rightarrow> (string \<times> env_value) list" where
  "agentEnv p =
     [(''RUN_MODE'', Value ''job''), (''DATA_SOURCE'', Value ''nodecr''), (''NODE_CR_NAMESPACE'', Value (jp_NodeCRNamespace p)),
      (''NODE_NAME'', FieldRef ''spec.nodeName''), (''LOG_LEVEL'', Value ''info''), (''POLL_INTERVAL'', Value ''30s''),
      (''HEALTH_PORT'', Value (Itoa healthPort)), (''AGENT_ACTION'', Value (jp_Action p))]"

definition noSchedule :: "string \<Rightarrow> string \<Rightarrow> string \<Rightarrow> toleration" where
  "noSchedule key oper value = \<lparr>tol_key = key, tol_operator = oper, tol_value = value, tol_effect = ''NoSchedule''\<rparr>"

definition httpGet :: "int \<Rightarrow> int \<Rightarrow> probe" where
  "httpGet initial period = \<lparr>pr_path = ''/'', pr_port = healthPort, pr_initialDelaySeconds = initial, pr_periodSeconds = period\<rparr>"

definition BuildAgentJob :: "string \<Rightarrow> JobParams \<Rightarrow> Job" where
  "BuildAgentJob osImage p =
     (let family = OSFamilyFromOSImage osImage; action = (if TrimSpace (jp_Action p) = [] then ''apply'' else jp_Action p)
      in \<lparr>job_Name = jp_Name p, job_Namespace = jp_Namespace p,
          job_Labels = [(''app.kubernetes.io/name'', ''multinic-agent''), (''app.kubernetes.io/managed-by'', ''multinic-controller''),
            (''multinic.io/node-name'', jp_NodeName p), (''multinic.io/action'', action)],
          job_ttl = jp_TTLSecondsAfterDone p, job_backoffLimit = 1,
          job_podLabels = [(''app.kubernetes.io/name'', ''multinic-agent'')],
          job_serviceAccount = jp_ServiceAccountName p, job_restartPolicy = ''OnFailure'', job_hostNetwork = True, job_hostPID = True,
          job_nodeSelector = [(''kubernetes.io/hostname'', jp_NodeName p)],
          job_containers = [\<lparr>ct_name = ''multinic-agent'', ct_image = jp_Image p, ct_pullPolicy = jp_PullPolicy p,
            ct_command = [''./multinic-agent''], ct_env = agentEnv p, ct_liveness = httpGet 30 30, ct_readiness = httpGet 5 10,
            ct_privileged = True, ct_capabilities = [''NET_ADMIN'', ''SYS_ADMIN''], ct_mounts = map snd (hostDirs family)\<rparr>],
          job_volumes = map fst (hostDirs family),
          job_tolerations = [noSchedule ''node-role.kubernetes.io/control-plane'' ''Exists'' [],
            noSchedule ''node-role.kubernetes.io/master'' ''Exists'' [], noSchedule ''node'' ''Equal'' ''infra''],
          job_Succeeded = 0, job_Failed = 0\<rparr>)"

section \<open>Property\<close>

text \<open>A path lies in one of the directories of the host that the job's container sees.\<close>

definition sees :: "Job \<Rightarrow> string \<Rightarrow> bool" where
  "sees job path \<longleftrightarrow> list_ex (\<lambda>c. list_ex (\<lambda>m. Dir path = mnt_path m \<and>
     list_ex (\<lambda>v. vol_name v = mnt_name m \<and> vol_hostPath v = mnt_path m) (job_volumes job)) (ct_mounts c)) (job_containers job)"

lemma config_dirs:
  assumes "NewInterfaceName n = Inr en"
  shows "Dir (netplanPath n) = ''/etc/netplan''" "Dir (linkPath n) = ''/etc/systemd/network''"
    "Dir (nmPath n) = ''/etc/NetworkManager/system-connections''"
proof -
  have s: "CHR ''/'' \<notin> set n" by (rule valid_name_chars(1) [OF assms])
  have d: "Dir (CHR ''/'' # Join (ds @ [config_file n e]) ''/'') = CHR ''/'' # Join ds ''/''"
    if "list_all plain ds" "ds \<noteq> []" "CHR ''/'' \<notin> set e" for ds e
    using Dir_plain [OF that(1,2) config_file_plain [OF s that(3)]] .
  show "Dir (netplanPath n) = ''/etc/netplan''"
    using config_paths(1) [OF s] d [of "[''etc'', ''netplan'']" "''.yaml''"] by (simp add: plain_def)
  show "Dir (linkPath n) = ''/etc/systemd/network''"
    using config_paths(2) [OF s] d [of "[''etc'', ''systemd'', ''network'']" "''.link''"] by (simp add: plain_def)
  show "Dir (nmPath n) = ''/etc/NetworkManager/system-connections''"
    using config_paths(3) [OF s] d [of "[''etc'', ''NetworkManager'', ''system-connections'']" "''.nmconnection''"] by (simp add: plain_def)
qed

text \<open>
  C34: the job the controller builds fits the agent it runs. On a node of either family the
  container sees the host directory of every configuration file that the adapter of that
  family writes for an interface name; the job is bound to the node, tells the agent to work
  as a job from the node resource, and carries the labels the controller later selects it by;
  and the RHEL container does not see the network-scripts directory that the agent's cleanup
  lists.
\<close>

theorem job_fits_agent:
  assumes "NewInterfaceName n = Inr en"
  shows "(OSFamilyFromOSImage img = OSUbuntu \<longrightarrow> sees (BuildAgentJob img p) (netplanPath n)) \<and>
    (OSFamilyFromOSImage img = OSRHEL \<longrightarrow> sees (BuildAgentJob img p) (linkPath n) \<and> sees (BuildAgentJob img p) (nmPath n) \<and>
      \<not> sees (BuildAgentJob img p) (''/etc/sysconfig/network-scripts/ifcfg-'' @ n)) \<and>
    map_of (job_nodeSelector (BuildAgentJob img p)) ''kubernetes.io/hostname'' = Some (jp_NodeName p) \<and>
    map_of (job_Labels (BuildAgentJob img p)) ''multinic.io/node-name'' = Some (jp_NodeName p) \<and>
    map_of (job_Labels (BuildAgentJob img p)) ''app.kubernetes.io/name'' = Some ''multinic-agent'' \<and>
    list_all (\<lambda>c. map_of (ct_env c) ''RUN_MODE'' = Some (Value ''job'') \<and> map_of (ct_env c) ''DATA_SOURCE'' = Some (Value ''nodecr'') \<and>
      map_of (ct_env c) ''AGENT_ACTION'' = Some (Value (jp_Action p))) (job_containers (BuildAgentJob img p))"
proof -
  have s: "CHR ''/'' \<notin> set (''ifcfg-'' @ n)" using valid_name_chars(1) [OF assms] by simp
  have "plain (''ifcfg-'' @ n)" using s by (auto simp: plain_def)
  then have "Dir (CHR ''/'' # Join ([''etc'', ''sysconfig'', ''network-scripts''] @ [''ifcfg-'' @ n]) ''/'') = CHR ''/'' # Join [''etc'', ''sysconfig'', ''network-scripts''] ''/''"
    by (intro Dir_plain) (simp_all add: plain_def)
  then have "Dir (''/etc/sysconfig/network-scripts/ifcfg-'' @ n) = ''/etc/sysconfig/network-scripts''" by simp
  then show ?thesis
    using config_dirs [OF assms] by (simp add: sees_def BuildAgentJob_def Let_def hostDirs_def hostDir_def agentEnv_def)
qed

theorem job_fits_agent_witness:
  "sees (BuildAgentJob ''Ubuntu 22.04'' \<lparr>jp_Namespace = ''ns'', jp_Name = ''j'', jp_Image = ''i'', jp_PullPolicy = [], jp_ServiceAccountName = [],
     jp_NodeName = ''node-1'', jp_NodeCRNamespace = ''ns'', jp_TTLSecondsAfterDone = None, jp_Action = []\<rparr>) (netplanPath ''multinic2'')"
proof -
  have "NewInterfaceName ''multinic2'' = Inr \<lparr>name_value = ''multinic2'', name_index = 2\<rparr>" by code_simp
  moreover have "OSFamilyFromOSImage ''Ubuntu 22.04'' = OSUbuntu" by code_simp
  ultimately show ?thesis using job_fits_agent [of "''multinic2''" _ "''Ubuntu 22.04''"] by blast
qed

end
