(* ===== verification/Kube_API.thy ===== *)
theory Kube_API
  imports Json Job_Factory
begin

text \<open>
  The part of the Kubernetes API that \<open>internal/controller\<close> calls, as a record of operations
  over a cluster: reads give a value and leave the cluster as it is, writes may fail. The
  locale \<open>kube_api\<close> states what the controller relies on of the documented behaviour of the
  API server, \<open>writable_api\<close> what it needs for a status to be stored; \<open>memory_api\<close> and \<open>plain_api\<close> are
  clusters in memory that meet both, with and without status subresource.
\<close>

section \<open>Objects\<close>

record Node =
  nd_Name :: string
  nd_OSImage :: string
  nd_SystemUUID :: string
  nd_Addresses :: "(string \<times> string) list"
  nd_Conditions :: "(string \<times> string) list"

text \<open>The terminated state of a container, with the time as a number of seconds.\<close>

record terminated =
  tm_FinishedAt :: int
  tm_Message :: string
  tm_ExitCode :: int

record Pod =
  pod_Namespace :: string
  pod_Labels :: "(string \<times> string) list"
  pod_Containers :: "terminated option list"

definition label :: "(string \<times> string) list \<Rightarrow> string \<Rightarrow> string" where
  "label ls k = (case map_of ls k of None \<Rightarrow> [] | Some v \<Rightarrow> v)"

definition selected :: "(string \<times> string) list \<Rightarrow> (string \<times> string) list \<Rightarrow> bool" where
  "selected sel ls \<longleftrightarrow> list_all (\<lambda>(k, v). map_of ls k = Some v) sel"

section \<open>Operations\<close>

record 'w KubeAPI =
  k_getCR :: "string \<Rightarrow> string \<Rightarrow> 'w \<Rightarrow> (go_error, json) result"
  k_listCR :: "string \<Rightarrow> 'w \<Rightarrow> (go_error, json list) result"
  k_UpdateStatus :: "string \<Rightarrow> json \<Rightarrow> 'w \<Rightarrow> go_error option \<times> 'w"
  k_Update :: "string \<Rightarrow> json \<Rightarrow> 'w \<Rightarrow> go_error option \<times> 'w"
  k_getNode :: "string \<Rightarrow> 'w \<Rightarrow> (go_error, Node) result"
  k_getJob :: "string \<Rightarrow> string \<Rightarrow> 'w \<Rightarrow> (go_error, Job) result"
  k_createJob :: "string \<Rightarrow> Job \<Rightarrow> 'w \<Rightarrow> go_error option \<times> 'w"
  k_listJobs :: "string \<Rightarrow> (string \<times> string) list \<Rightarrow> 'w \<Rightarrow> (go_error, Job list) result"
  k_deleteJob :: "string \<Rightarrow> string \<Rightarrow> 'w \<Rightarrow> go_error option \<times> 'w"
  k_listPods :: "string \<Rightarrow> (string \<times> string) list \<Rightarrow> 'w \<Rightarrow> (go_error, Pod list) result"
  k_Now :: "'w \<Rightarrow> string"

definition found :: "('e, 'a) result \<Rightarrow> 'a option" where
  "found r = (case r of Inl _ \<Rightarrow> None | Inr v \<Rightarrow> Some v)"

lemma found_simps [simp]: "found (Inl e) = None" "found (Inr v) = Some v"
  by (simp_all add: found_def)

lemma found_eq: "found r = Some v \<longleftrightarrow> r = Inr v" "found r = None \<longleftrightarrow> (\<exists>e. r = Inl e)"
  by (cases r; simp)+

text \<open>
  Two states of a node resource with the same specification and the metadata the controller
  reads. An update of the status keeps them, while the server may change the rest of the
  metadata, for example the resource version.
\<close>

definition same_spec :: "json \<Rightarrow> json \<Rightarrow> bool" where
  "same_spec u v \<longleftrightarrow> is_object v \<and> field ''spec'' v = field ''spec'' u \<and> GetName v = GetName u \<and> GetNamespace v = GetNamespace u \<and>
     GetGeneration v = GetGeneration u \<and> (\<forall>k. GetLabel v k = GetLabel u k)"

text \<open>
  What a job operation keeps of the cluster, and a status update: everything that can be read
  but the jobs and the resource of that name.
\<close>

definition keeps_resources :: "'w KubeAPI \<Rightarrow> 'w \<Rightarrow> 'w \<Rightarrow> bool" where
  "keeps_resources K w w' \<longleftrightarrow> (\<forall>ns n. k_getCR K ns n w' = k_getCR K ns n w) \<and>
     (\<forall>n. k_getNode K n w' = k_getNode K n w) \<and> (\<forall>ns sel. k_listPods K ns sel w' = k_listPods K ns sel w)"

definition keeps_jobs :: "'w KubeAPI \<Rightarrow> 'w \<Rightarrow> 'w \<Rightarrow> bool" where
  "keeps_jobs K w w' \<longleftrightarrow> (\<forall>ns n. k_getJob K ns n w' = k_getJob K ns n w) \<and> (\<forall>ns sel. k_listJobs K ns sel w' = k_listJobs K ns sel w) \<and>
     (\<forall>n. k_getNode K n w' = k_getNode K n w) \<and> (\<forall>ns sel. k_listPods K ns sel w' = k_listPods K ns sel w)"

section \<open>What the controller relies on\<close>

locale kube_api =
  fixes K :: "'w KubeAPI"
  assumes getCR_object: "k_getCR K ns n w = Inr u \<Longrightarrow> is_object u \<and> GetName u = n \<and> GetNamespace u = ns"
    and getJob_name: "k_getJob K ns n w = Inr j \<Longrightarrow> job_Name j = n"
    and listJobs: "k_listJobs K ns sel w = Inr js \<Longrightarrow>
      j \<in> set js \<longleftrightarrow> k_getJob K ns (job_Name j) w = Inr j \<and> selected sel (job_Labels j)"
    and UpdateStatus_frame: "k_UpdateStatus K ns u w = (r, w') \<Longrightarrow> keeps_jobs K w w'"
    and UpdateStatus_ok: "k_UpdateStatus K ns u w = (None, w') \<Longrightarrow> k_getCR K ns (GetName u) w = Inr u0 \<Longrightarrow>
      \<exists>v. k_getCR K ns (GetName u) w' = Inr v \<and> same_spec u0 v \<and> field ''status'' v = field ''status'' u"
    and UpdateStatus_spec: "k_UpdateStatus K ns u w = (r, w') \<Longrightarrow> k_getCR K ns' n w = Inr u0 \<Longrightarrow>
      \<exists>v. k_getCR K ns' n w' = Inr v \<and> same_spec u0 v"
    and Update_frame: "k_Update K ns u w = (r, w') \<Longrightarrow> keeps_jobs K w w'"
    and Update_spec: "k_Update K ns u w = (r, w') \<Longrightarrow> k_getCR K ns (GetName u) w = Inr u0 \<Longrightarrow> same_spec u0 u \<Longrightarrow>
      \<exists>v. k_getCR K ns (GetName u) w' = Inr v \<and> same_spec u0 v"
    and Update_other: "k_Update K ns u w = (r, w') \<Longrightarrow> (ns', n) \<noteq> (ns, GetName u) \<Longrightarrow> k_getCR K ns' n w' = k_getCR K ns' n w"
    and createJob_frame: "k_createJob K ns j w = (r, w') \<Longrightarrow> keeps_resources K w w' \<and>
      (\<forall>ns' n. (ns', n) \<noteq> (ns, job_Name j) \<longrightarrow> k_getJob K ns' n w' = k_getJob K ns' n w)"
    and createJob_ok: "k_createJob K ns j w = (None, w') \<Longrightarrow> k_getJob K ns (job_Name j) w' = Inr j"
    and deleteJob_frame: "k_deleteJob K ns n w = (r, w') \<Longrightarrow> keeps_resources K w w' \<and>
      (\<forall>ns' n'. (ns', n') \<noteq> (ns, n) \<longrightarrow> k_getJob K ns' n' w' = k_getJob K ns' n' w)"
    and deleteJob_gone: "k_deleteJob K ns n w = (r, w') \<Longrightarrow> found (k_getJob K ns n w') = None \<or> k_getJob K ns n w' = k_getJob K ns n w \<and> r \<noteq> None"

text \<open>
  An API server that can also store the status of a resource it has, one way or the other: where
  the resource has a status subresource its update is accepted, and where it has none, that
  request is refused and an update of the whole resource stores the status with the rest. Either
  request concerns one resource only.
\<close>

locale writable_api = kube_api K for K :: "'w KubeAPI" +
  assumes UpdateStatus_other: "k_UpdateStatus K ns u w = (r, w') \<Longrightarrow> (ns', n) \<noteq> (ns, GetName u) \<Longrightarrow> k_getCR K ns' n w' = k_getCR K ns' n w"
    and status_stored: "k_getCR K ns (GetName u) w = Inr u0 \<Longrightarrow> same_spec u0 u \<Longrightarrow> field ''status'' u \<noteq> None \<Longrightarrow>
      k_UpdateStatus K ns u w = (Some e, w1) \<Longrightarrow>
      \<exists>w2 v. k_Update K ns u w1 = (None, w2) \<and> k_getCR K ns (GetName u) w2 = Inr v \<and> field ''status'' v = field ''status'' u"

text \<open>A change of the cluster that only removes jobs of the names \<open>J\<close> in one namespace.\<close>

definition removes_only :: "'w KubeAPI \<Rightarrow> string \<Rightarrow> string set \<Rightarrow> 'w \<Rightarrow> 'w \<Rightarrow> bool" where
  "removes_only K ns J w w' \<longleftrightarrow> keeps_resources K w w' \<and>
     (\<forall>ns' n. k_getJob K ns' n w' = k_getJob K ns' n w \<or> ns' = ns \<and> n \<in> J \<and> found (k_getJob K ns' n w') = None)"

lemma removes_only_refl: "removes_only K ns J w w"
  by (simp add: removes_only_def keeps_resources_def)

lemma removes_onlyD:
  "removes_only K ns J w w' \<Longrightarrow> k_getJob K ns' n w' = k_getJob K ns' n w \<or> ns' = ns \<and> n \<in> J \<and> found (k_getJob K ns' n w') = None"
  "removes_only K ns J w w' \<Longrightarrow> n \<notin> J \<Longrightarrow> k_getJob K ns' n w' = k_getJob K ns' n w"
  by (auto simp: removes_only_def)

lemma removes_only_mono: "removes_only K ns J w w' \<Longrightarrow> J \<subseteq> J' \<Longrightarrow> removes_only K ns J' w w'"
  by (auto simp: removes_only_def)

lemma removes_only_trans: "removes_only K ns J w w' \<Longrightarrow> removes_only K ns J w' w'' \<Longrightarrow> removes_only K ns J w w''"
  unfolding removes_only_def keeps_resources_def by metis

lemma keeps_jobs_refl: "keeps_jobs K w w"
  by (simp add: keeps_jobs_def)

lemma keeps_jobs_trans: "keeps_jobs K w w' \<Longrightarrow> keeps_jobs K w' w'' \<Longrightarrow> keeps_jobs K w w''"
  by (simp add: keeps_jobs_def)

section \<open>A cluster in memory\<close>

record Cluster =
  cl_crs :: "((string \<times> string) \<times> json) list"
  cl_nodes :: "(string \<times> Node) list"
  cl_jobs :: "((string \<times> string) \<times> Job) list"
  cl_pods :: "Pod list"
  cl_clock :: string

definition not_found :: go_error where "not_found = PlainError ''not found''"

definition or_not_found :: "'a option \<Rightarrow> (go_error, 'a) result" where
  "or_not_found v = (case v of None \<Rightarrow> Inl not_found | Some x \<Rightarrow> Inr x)"

text \<open>An entry is served only under the name and namespace it carries.\<close>

definition mem_getCR :: "string \<Rightarrow> string \<Rightarrow> Cluster \<Rightarrow> (go_error, json) result" where
  "mem_getCR ns n w = (case map_of (cl_crs w) (ns, n) of None \<Rightarrow> Inl not_found
     | Some u \<Rightarrow> if is_object u \<and> GetName u = n \<and> GetNamespace u = ns then Inr u else Inl not_found)"

definition mem_UpdateStatus :: "string \<Rightarrow> json \<Rightarrow> Cluster \<Rightarrow> go_error option \<times> Cluster" where
  "mem_UpdateStatus ns u w = (case mem_getCR ns (GetName u) w of Inl e \<Rightarrow> (Some e, w)
     | Inr u0 \<Rightarrow> (case field ''status'' u of None \<Rightarrow> (Some not_found, w)
         | Some s \<Rightarrow> (None, w\<lparr>cl_crs := AList.update (ns, GetName u) (set_field ''status'' s u0) (cl_crs w)\<rparr>)))"

definition mem_Update :: "string \<Rightarrow> json \<Rightarrow> Cluster \<Rightarrow> go_error option \<times> Cluster" where
  "mem_Update ns u w = (case mem_getCR ns (GetName u) w of Inl e \<Rightarrow> (Some e, w)
     | Inr u0 \<Rightarrow> (None, w\<lparr>cl_crs := AList.update (ns, GetName u) u (cl_crs w)\<rparr>))"

definition mem_getJob :: "string \<Rightarrow> string \<Rightarrow> Cluster \<Rightarrow> (go_error, Job) result" where
  "mem_getJob ns n w = (case map_of (cl_jobs w) (ns, n) of None \<Rightarrow> Inl not_found
     | Some j \<Rightarrow> if job_Name j = n then Inr j else Inl not_found)"

definition mem_createJob :: "string \<Rightarrow> Job \<Rightarrow> Cluster \<Rightarrow> go_error option \<times> Cluster" where
  "mem_createJob ns j w = (case mem_getJob ns (job_Name j) w of Inr _ \<Rightarrow> (Some (PlainError ''already exists''), w)
     | Inl _ \<Rightarrow> (None, w\<lparr>cl_jobs := AList.update (ns, job_Name j) j (cl_jobs w)\<rparr>))"

definition mem_deleteJob :: "string \<Rightarrow> string \<Rightarrow> Cluster \<Rightarrow> go_error option \<times> Cluster" where
  "mem_deleteJob ns n w = (case mem_getJob ns n w of Inl e \<Rightarrow> (Some e, w)
     | Inr _ \<Rightarrow> (None, w\<lparr>cl_jobs := AList.delete (ns, n) (cl_jobs w)\<rparr>))"

definition mem_listJobs :: "string \<Rightarrow> (string \<times> string) list \<Rightarrow> Cluster \<Rightarrow> (go_error, Job list) result" where
  "mem_listJobs ns sel w = Inr (filter (\<lambda>j. mem_getJob ns (job_Name j) w = Inr j \<and> selected sel (job_Labels j)) (map snd (cl_jobs w)))"

definition memory_api :: "Cluster KubeAPI" where
  "memory_api =
     \<lparr>k_getCR = mem_getCR,
      k_listCR = (\<lambda>ns w. Inr (map snd (filter (\<lambda>((ns', n), u). ns' = ns) (cl_crs w)))),
      k_UpdateStatus = mem_UpdateStatus, k_Update = mem_Update,
      k_getNode = (\<lambda>n w. or_not_found (map_of (cl_nodes w) n)),
      k_getJob = mem_getJob, k_createJob = mem_createJob, k_listJobs = mem_listJobs, k_deleteJob = mem_deleteJob,
      k_listPods = (\<lambda>ns sel w. Inr (filter (\<lambda>p. pod_Namespace p = ns \<and> selected sel (pod_Labels p)) (cl_pods w))),
      k_Now = cl_clock\<rparr>"

lemma nested_set_field: "is_object u \<Longrightarrow> k \<noteq> k' \<Longrightarrow> nested (set_field k v u) (k' # ks) = nested u (k' # ks)"
  by (simp add: field_set_field)

lemma set_status_same_spec: "is_object u \<Longrightarrow> same_spec u (set_field ''status'' s u)"
  by (cases u) (auto simp: same_spec_def GetName_def GetNamespace_def GetGeneration_def GetLabel_def NestedString_def NestedInt64_def update_conv)

lemma is_object_set_field [simp]: "is_object (set_field k v u) = is_object u"
  by (cases u) auto

lemma same_spec_set_field_name:
  "is_object u \<Longrightarrow> GetName (set_field ''status'' s u) = GetName u \<and> GetNamespace (set_field ''status'' s u) = GetNamespace u"
  using set_status_same_spec [of u s] by (simp add: same_spec_def)

lemmas mem_defs = memory_api_def mem_getCR_def mem_UpdateStatus_def mem_Update_def mem_getJob_def mem_createJob_def
  mem_deleteJob_def mem_listJobs_def

lemma mem_getJob_entry: "mem_getJob ns (job_Name j) w = Inr j \<Longrightarrow> j \<in> set (map snd (cl_jobs w))"
  by (auto simp: mem_getJob_def image_iff split: option.splits if_splits dest!: map_of_SomeD intro: bexI [rotated])

lemma mem_frames [simp]:
  "mem_getJob ns n (w\<lparr>cl_crs := x\<rparr>) = mem_getJob ns n w"
  "mem_listJobs ns sel (w\<lparr>cl_crs := x\<rparr>) = mem_listJobs ns sel w"
  "mem_getCR ns n (w\<lparr>cl_jobs := y\<rparr>) = mem_getCR ns n w"
  by (simp_all add: mem_getJob_def mem_listJobs_def mem_getCR_def)

lemma mem_getJob_update:
  "mem_getJob ns n (w\<lparr>cl_jobs := AList.update (ns', job_Name j) j (cl_jobs w)\<rparr>) = (if (ns, n) = (ns', job_Name j) then Inr j else mem_getJob ns n w)"
  "mem_getJob ns n (w\<lparr>cl_jobs := AList.delete (ns', n') (cl_jobs w)\<rparr>) = (if (ns, n) = (ns', n') then Inl not_found else mem_getJob ns n w)"
  by (auto simp: mem_getJob_def update_conv delete_conv restrict_map_def)

lemma mem_getCR_object: "mem_getCR ns n w = Inr u \<Longrightarrow> is_object u \<and> GetName u = n \<and> GetNamespace u = ns"
  by (auto simp: mem_getCR_def split: option.splits if_splits)

lemma mem_getCR_update:
  "is_object u \<Longrightarrow> GetName u = n \<Longrightarrow> GetNamespace u = ns \<Longrightarrow> mem_getCR ns n (w\<lparr>cl_crs := AList.update (ns, n) (set_field ''status'' s u) (cl_crs w)\<rparr>) = Inr (set_field ''status'' s u)"
  by (simp add: mem_getCR_def update_conv same_spec_set_field_name)

lemma same_spec_refl: "is_object u \<Longrightarrow> same_spec u u"
  by (simp add: same_spec_def)

lemma same_spec_trans: "same_spec u v \<Longrightarrow> same_spec v x \<Longrightarrow> same_spec u x"
  by (simp add: same_spec_def)

lemma same_spec_sym: "is_object u \<Longrightarrow> same_spec u v \<Longrightarrow> same_spec v u"
  by (simp add: same_spec_def)

lemma mem_getCR_other:
  "(ns', n') \<noteq> (ns, n) \<Longrightarrow> mem_getCR ns' n' (w\<lparr>cl_crs := AList.update (ns, n) u (cl_crs w)\<rparr>) = mem_getCR ns' n' w"
  by (auto simp: mem_getCR_def update_conv)

lemma memory_api_simps [simp]:
  "k_getCR memory_api = mem_getCR" "k_UpdateStatus memory_api = mem_UpdateStatus" "k_Update memory_api = mem_Update"
  "k_getJob memory_api = mem_getJob" "k_createJob memory_api = mem_createJob" "k_listJobs memory_api = mem_listJobs"
  "k_deleteJob memory_api = mem_deleteJob" "k_getNode memory_api n w = or_not_found (map_of (cl_nodes w) n)"
  "k_listPods memory_api ns sel w = Inr (filter (\<lambda>p. pod_Namespace p = ns \<and> selected sel (pod_Labels p)) (cl_pods w))"
  "k_Now memory_api = cl_clock"
  by (simp_all add: memory_api_def)

interpretation memory: kube_api memory_api
proof (unfold_locales, goal_cases)
  case 1
  then show ?case using mem_getCR_object by simp
next
  case 2
  then show ?case by (auto simp: mem_getJob_def split: option.splits if_splits)
next
  case 3
  then show ?case using mem_getJob_entry by (auto simp: mem_listJobs_def)
next
  case (5 ns u w w' u0)
  then obtain s where s: "field ''status'' u = Some s" "w' = w\<lparr>cl_crs := AList.update (ns, GetName u) (set_field ''status'' s u0) (cl_crs w)\<rparr>"
    by (auto simp: mem_UpdateStatus_def split: option.splits)
  from 5(2) have u0: "is_object u0" "GetName u0 = GetName u" "GetNamespace u0 = ns" using mem_getCR_object by auto
  show ?case using s mem_getCR_update [OF u0] set_status_same_spec [OF u0(1)] u0(1) by (simp add: field_set_field)
next
  case (6 ns u w r w' ns' n u0)
  have i: "is_object u0" "GetName u0 = n" "GetNamespace u0 = ns'" using 6(2) mem_getCR_object by auto
  show ?case
  proof (cases "(ns', n) = (ns, GetName u) \<and> w' \<noteq> w")
    case True
    then obtain s where "w' = w\<lparr>cl_crs := AList.update (ns', n) (set_field ''status'' s u0) (cl_crs w)\<rparr>"
      using 6 by (auto simp: mem_UpdateStatus_def split: option.splits sum.splits)
    then show ?thesis using mem_getCR_update [OF i] set_status_same_spec [OF i(1)] by simp
  next
    case False
    then have "mem_getCR ns' n w' = Inr u0"
      using 6 mem_getCR_other [of ns' n ns "GetName u"] by (auto simp: mem_UpdateStatus_def split: option.splits sum.splits)
    then show ?thesis using same_spec_refl [OF i(1)] by simp
  qed
next
  case (8 ns u w r w' u0)
  then have "is_object u" "GetNamespace u = ns" using mem_getCR_object by (auto simp: same_spec_def)
  then have "mem_getCR ns (GetName u) (w\<lparr>cl_crs := AList.update (ns, GetName u) u (cl_crs w)\<rparr>) = Inr u"
    by (simp add: mem_getCR_def update_conv)
  then show ?case using 8 by (auto simp: mem_Update_def)
next
  case (9 ns u w r w' ns' n)
  then show ?case using mem_getCR_other [of ns' n ns "GetName u"] by (auto simp: mem_Update_def split: sum.splits)
qed (auto simp: mem_UpdateStatus_def mem_Update_def mem_createJob_def mem_deleteJob_def keeps_jobs_def keeps_resources_def
  mem_getJob_update split: option.splits sum.splits)

interpretation memory: writable_api memory_api
  using mem_getCR_other by unfold_locales (auto simp: mem_UpdateStatus_def split: sum.splits option.splits)

text \<open>The same cluster for a resource without status subresource: the whole resource is written.\<close>

definition plain_api :: "Cluster KubeAPI" where
  "plain_api = memory_api\<lparr>k_UpdateStatus := \<lambda>ns u w. (Some not_found, w)\<rparr>"

lemma plain_api_simps [simp]:
  "k_getCR plain_api = mem_getCR" "k_UpdateStatus plain_api = (\<lambda>ns u w. (Some not_found, w))" "k_Update plain_api = mem_Update"
  "k_getJob plain_api = mem_getJob" "k_createJob plain_api = mem_createJob" "k_listJobs plain_api = mem_listJobs"
  "k_deleteJob plain_api = mem_deleteJob" "k_getNode plain_api = k_getNode memory_api" "k_listPods plain_api = k_listPods memory_api"
  by (simp_all add: plain_api_def memory_api_def)

lemma plain_keeps: "keeps_resources plain_api = keeps_resources memory_api" "keeps_jobs plain_api = keeps_jobs memory_api"
  by (intro ext; simp add: keeps_resources_def keeps_jobs_def)+

interpretation plain: kube_api plain_api
proof (unfold_locales, goal_cases)
  case (3 ns sel w js j)
  then show ?case using memory.listJobs [of ns sel w js j] by simp
next
  case (6 ns u w r w' ns' n u0)
  then show ?case using mem_getCR_object [of ns' n w u0] same_spec_refl by simp
next
  case (8 ns u w r w' u0)
  then show ?case using memory.Update_spec [of ns u w r w' u0] by simp
next
  case (9 ns u w r w' ns' n)
  then show ?case using memory.Update_other [of ns u w r w' ns' n] by simp
next
  case (10 ns j w r w')
  then show ?case using memory.createJob_frame [of ns j w r w'] by (simp add: plain_keeps)
next
  case (12 ns n w r w')
  then show ?case using memory.deleteJob_frame [of ns n w r w'] by (simp add: plain_keeps)
next
  case (13 ns n w r w')
  then show ?case using memory.deleteJob_gone [of ns n w r w'] by simp
qed (use mem_getCR_object memory.getJob_name memory.Update_frame memory.createJob_ok in \<open>simp_all add: plain_keeps keeps_jobs_refl\<close>)

lemma mem_Update_stores:
  assumes "mem_getCR ns (GetName u) w = Inr u0" "same_spec u0 u"
  shows "mem_Update ns u w = (None, w\<lparr>cl_crs := AList.update (ns, GetName u) u (cl_crs w)\<rparr>) \<and>
    mem_getCR ns (GetName u) (w\<lparr>cl_crs := AList.update (ns, GetName u) u (cl_crs w)\<rparr>) = Inr u"
  using assms mem_getCR_object [OF assms(1)] by (simp add: mem_Update_def mem_getCR_def [of ns "GetName u" "w\<lparr>cl_crs := y\<rparr>" for y] update_conv same_spec_def)

interpretation plain: writable_api plain_api
  using mem_Update_stores by unfold_locales auto

end
