(* ===== verification/Controller.thy ===== *)
theory Controller
  imports Kube_API
begin

text \<open>
  \<open>internal/controller/reconciler.go\<close>: the controller that turns node resources into agent
  jobs and the outcome of the jobs into the status of the resources. The cluster is an
  argument of every operation; the parser of JSON texts and the digest of a specification are
  parameters. The clock is read once for each status that is written.
\<close>

section \<open>Data\<close>

record 'w Controller =
  c_api :: "'w KubeAPI"
  c_AgentImage :: string
  c_ImagePullPolicy :: string
  c_ServiceAccount :: string
  c_NodeCRNamespace :: string
  c_JobTTLSeconds :: "int option"
  c_JobDeleteDelaySeconds :: int
  c_json :: "string \<Rightarrow> json option"
  c_digest :: "json \<Rightarrow> string"

text \<open>
  The cluster and the deletions that goroutines of the controller still wait to issue, each
  with its delay in seconds.
\<close>

record 'w Cluster_state =
  cs_world :: 'w
  cs_pending :: "(int \<times> string \<times> string) list"

record Failure =
  jf_ID :: int
  jf_MAC :: string
  jf_Name :: string
  jf_ErrorType :: string
  jf_Reason :: string

record Result =
  jr_ID :: int
  jr_MAC :: string
  jr_Name :: string
  jr_Status :: string

section \<open>Reading objects\<close>

definition nestedString :: "json \<Rightarrow> string list \<Rightarrow> string" where
  "nestedString u path = NestedString u path"

definition normalizeUUID :: "string \<Rightarrow> string" where
  "normalizeUUID s = ToLower (TrimSpace s)"

definition getStringFromMap :: "(string \<times> json) list \<Rightarrow> string \<Rightarrow> string" where
  "getStringFromMap m key = (case map_of m key of Some (JString s) \<Rightarrow> s | _ \<Rightarrow> [])"

definition getIntFromMap :: "(string \<times> json) list \<Rightarrow> string \<Rightarrow> int" where
  "getIntFromMap m key = (case map_of m key of Some (JInt i) \<Rightarrow> i
     | Some (JFloat f) \<Rightarrow> (if 0 \<le> f then \<lfloor>f\<rfloor> else \<lceil>f\<rceil>) | _ \<Rightarrow> 0)"

definition computeSpecHash :: "'w Controller \<Rightarrow> json \<Rightarrow> string" where
  "computeSpecHash c u = (case field ''spec'' u of Some (JObject kvs) \<Rightarrow> c_digest c (JObject kvs) | _ \<Rightarrow> [])"

definition interfaces :: "json \<Rightarrow> json list" where
  "interfaces u = NestedSlice u [''spec'', ''interfaces'']"

text \<open>The lists of a termination summary; \<open>None\<close> when the text does not decode.\<close>

definition decodeFailure :: "json \<Rightarrow> Failure option" where
  "decodeFailure v = Option.bind (struct_fields v) (\<lambda>kvs.
     Option.bind (decode_field into_int ''id'' kvs 0) (\<lambda>i.
     Option.bind (decode_field into_string ''mac'' kvs []) (\<lambda>mac.
     Option.bind (decode_field into_string ''name'' kvs []) (\<lambda>name.
     Option.bind (decode_field into_string ''errorType'' kvs []) (\<lambda>ty.
     Option.bind (decode_field into_string ''reason'' kvs []) (\<lambda>reason.
       Some \<lparr>jf_ID = i, jf_MAC = mac, jf_Name = name, jf_ErrorType = ty, jf_Reason = reason\<rparr>))))))"

definition decodeResult :: "json \<Rightarrow> Result option" where
  "decodeResult v = Option.bind (struct_fields v) (\<lambda>kvs.
     Option.bind (decode_field into_int ''id'' kvs 0) (\<lambda>i.
     Option.bind (decode_field into_string ''mac'' kvs []) (\<lambda>mac.
     Option.bind (decode_field into_string ''name'' kvs []) (\<lambda>name.
     Option.bind (decode_field into_string ''status'' kvs []) (\<lambda>st.
       Some \<lparr>jr_ID = i, jr_MAC = mac, jr_Name = name, jr_Status = st\<rparr>)))))"

definition summaryFailures :: "'w Controller \<Rightarrow> string \<Rightarrow> Failure list option" where
  "summaryFailures c msg = Option.bind (c_json c msg) (\<lambda>v. Option.bind (struct_fields v)
     (\<lambda>kvs. decode_field (into_list decodeFailure) ''failures'' kvs []))"

definition summaryResults :: "'w Controller \<Rightarrow> string \<Rightarrow> Result list option" where
  "summaryResults c msg = Option.bind (c_json c msg) (\<lambda>v. Option.bind (struct_fields v)
     (\<lambda>kvs. decode_field (into_list decodeResult) ''results'' kvs []))"

section \<open>Status lists\<close>

definition describe :: "nat \<Rightarrow> (string \<times> json) list \<Rightarrow> (string \<times> json) list" where
  "describe i m = [(''name'', JString (multinic i)), (''interfaceIndex'', JInt (int i)), (''id'', JInt (getIntFromMap m ''id'')),
     (''macAddress'', JString (getStringFromMap m ''macAddress'')), (''address'', JString (getStringFromMap m ''address'')),
     (''cidr'', JString (getStringFromMap m ''cidr'')), (''mtu'', JInt (getIntFromMap m ''mtu''))]"

text \<open>One entry for each interface that is an object, numbered by its place in the list.\<close>

definition numbered :: "'a list \<Rightarrow> (nat \<times> 'a) list" where
  "numbered xs = zip [0..<length xs] xs"

definition buildInterfaceStatuses :: "string \<Rightarrow> json \<Rightarrow> string \<Rightarrow> string \<Rightarrow> json list" where
  "buildInterfaceStatuses now u status reason =
     map (\<lambda>(i, iface). JObject (describe i (as_object (Some iface)) @
        [(''status'', JString status), (''reason'', JString reason), (''lastUpdated'', JString now)]))
       (filter (\<lambda>(i, iface). is_object iface) (numbered (interfaces u)))"

definition isNodeReady :: "Node \<Rightarrow> bool" where
  "isNodeReady node = (case map_of (nd_Conditions node) ''Ready'' of None \<Rightarrow> False | Some s \<Rightarrow> s = ''True'')"

definition getActualInterfaceState :: "Node \<Rightarrow> string \<Rightarrow> string \<Rightarrow> string" where
  "getActualInterfaceState node macAddress interfaceName =
     (if \<not> isNodeReady node then ''NodeNotReady''
      else if list_ex (\<lambda>(ty, addr). ty = ''InternalIP'') (nd_Addresses node) then ''Configured'' else ''Unknown'')"

definition buildEnhancedInterfaceStatuses :: "string \<Rightarrow> json \<Rightarrow> Node \<Rightarrow> json list" where
  "buildEnhancedInterfaceStatuses now u node =
     map (\<lambda>(i, iface). (let m = as_object (Some iface) in JObject (describe i m @
        [(''actualState'', JString (getActualInterfaceState node (getStringFromMap m ''macAddress'') (multinic i))), (''lastChecked'', JString now)])))
       (filter (\<lambda>(i, iface). is_object iface) (numbered (interfaces u)))"

definition failByID :: "Failure list \<Rightarrow> int \<rightharpoonup> Failure" where
  "failByID fs = fold (\<lambda>f m. m(jf_ID f \<mapsto> f)) fs Map.empty"

definition macKey :: "string \<Rightarrow> string" where
  "macKey mac = ToLower (TrimSpace mac)"

definition failByMAC :: "Failure list \<Rightarrow> string \<rightharpoonup> Failure" where
  "failByMAC fs = fold (\<lambda>f m. if TrimSpace (jf_MAC f) \<noteq> [] then m(macKey (jf_MAC f) \<mapsto> f) else m) fs Map.empty"

text \<open>
  The status of one interface after a job with failures. Three places of the program build
  it, with their own reasons for a failed and for another interface.
\<close>

definition blamed :: "Failure list \<Rightarrow> (string \<times> json) list \<Rightarrow> Failure option" where
  "blamed fs m =
     (let i = getIntFromMap m ''id''; mac = ToLower (getStringFromMap m ''macAddress'')
      in case failByID fs i of
           Some f \<Rightarrow> if i \<noteq> 0 then Some f else if mac \<noteq> [] then failByMAC fs mac else None
         | None \<Rightarrow> if mac \<noteq> [] then failByMAC fs mac else None)"

definition outcome_status :: "string \<Rightarrow> string \<Rightarrow> string \<Rightarrow> Failure list \<Rightarrow> nat \<Rightarrow> json \<Rightarrow> json" where
  "outcome_status now failReason okReason fs i iface =
     (let m = as_object (Some iface); mac = ToLower (getStringFromMap m ''macAddress'')
      in case blamed fs m of
           Some f \<Rightarrow> JObject [(''name'', JString (multinic i)), (''interfaceIndex'', JInt (int i)), (''id'', JInt (jf_ID f)),
             (''macAddress'', JString mac), (''status'', JString ''Failed''), (''reason'', JString failReason),
             (''message'', JString (jf_Reason f)), (''lastUpdated'', JString now)]
         | None \<Rightarrow> JObject [(''name'', JString (multinic i)), (''interfaceIndex'', JInt (int i)), (''id'', JInt (getIntFromMap m ''id'')),
             (''macAddress'', JString mac), (''status'', JString ''Configured''), (''reason'', JString okReason),
             (''lastUpdated'', JString now)])"

definition outcome_statuses :: "string \<Rightarrow> string \<Rightarrow> string \<Rightarrow> Failure list \<Rightarrow> json list \<Rightarrow> json list" where
  "outcome_statuses now failReason okReason fs ifaces =
     map (\<lambda>(i, iface). outcome_status now failReason okReason fs i iface) (numbered ifaces)"

text \<open>The status of one result, completed from the interface with its identifier or address.\<close>

definition matches :: "Result \<Rightarrow> json \<Rightarrow> bool" where
  "matches r it =
     (let m = as_object (Some it); mac = ToLower (getStringFromMap m ''macAddress'')
      in getIntFromMap m ''id'' = jr_ID r \<or> mac \<noteq> [] \<and> mac = macKey (jr_MAC r))"

definition resultStatus :: "string \<Rightarrow> json list \<Rightarrow> nat \<Rightarrow> Result \<Rightarrow> json" where
  "resultStatus now ifaces n r =
     (let name = TrimSpace (jr_Name r);
          rest = [(''id'', JInt (jr_ID r)), (''macAddress'', JString (macKey (jr_MAC r))), (''status'', JString ''Configured''),
                  (''reason'', JString ''JobSucceeded''), (''lastUpdated'', JString now)]
      in case find (\<lambda>(i, it). matches r it) (numbered ifaces) of
           None \<Rightarrow> JObject ((''name'', JString (if name = [] then multinic n else name)) # rest)
         | Some (i, it) \<Rightarrow> (let m = as_object (Some it) in
             JObject ((''name'', JString (if name = [] then multinic i else name)) # rest @
               [(''interfaceIndex'', JInt (int i)), (''address'', JString (getStringFromMap m ''address'')),
                (''cidr'', JString (getStringFromMap m ''cidr'')), (''mtu'', JInt (getIntFromMap m ''mtu''))])))"

definition resultStatuses :: "string \<Rightarrow> json list \<Rightarrow> Result list \<Rightarrow> json list" where
  "resultStatuses now ifaces rs = map (\<lambda>(n, r). resultStatus now ifaces n r) (numbered rs)"

section \<open>Jobs\<close>

definition onCluster :: "('w \<Rightarrow> 'r \<times> 'w) \<Rightarrow> 'w Cluster_state \<Rightarrow> 'r \<times> 'w Cluster_state" where
  "onCluster f st = (case f (cs_world st) of (r, w) \<Rightarrow> (r, st\<lparr>cs_world := w\<rparr>))"

definition deleteJob :: "'w Controller \<Rightarrow> string \<Rightarrow> string \<Rightarrow> 'w Cluster_state \<Rightarrow> go_error option \<times> 'w Cluster_state" where
  "deleteJob c ns name st = onCluster (k_deleteJob (c_api c) ns name) st"

definition scheduleJobDeletion :: "'w Controller \<Rightarrow> string \<Rightarrow> string \<Rightarrow> 'w Cluster_state \<Rightarrow> 'w Cluster_state" where
  "scheduleJobDeletion c ns name st =
     (if c_JobDeleteDelaySeconds c \<le> 0 then snd (deleteJob c ns name st)
      else st\<lparr>cs_pending := cs_pending st @ [(c_JobDeleteDelaySeconds c, ns, name)]\<rparr>)"

text \<open>A goroutine of \<open>scheduleJobDeletion\<close> whose delay is over.\<close>

definition fireDeletion :: "'w Controller \<Rightarrow> nat \<Rightarrow> 'w Cluster_state \<Rightarrow> 'w Cluster_state" where
  "fireDeletion c i st =
     (if i < length (cs_pending st) then
        (case cs_pending st ! i of (delay, ns, name) \<Rightarrow>
           snd (deleteJob c ns name (st\<lparr>cs_pending := take i (cs_pending st) @ drop (Suc i) (cs_pending st)\<rparr>)))
      else st)"

definition DeleteJobForNode :: "'w Controller \<Rightarrow> string \<Rightarrow> string \<Rightarrow> 'w Cluster_state \<Rightarrow> 'w Cluster_state" where
  "DeleteJobForNode c ns nodeName st = snd (deleteJob c ns (''multinic-agent-'' @ nodeName) st)"

definition agentJobName :: "string \<Rightarrow> int \<Rightarrow> string" where
  "agentJobName nodeName gen = ''multinic-agent-'' @ nodeName @ ''-g'' @ Itoa gen"

definition agentJob :: "'w Controller \<Rightarrow> string \<Rightarrow> string \<Rightarrow> string \<Rightarrow> string \<Rightarrow> string \<Rightarrow> Job" where
  "agentJob c ns osImage name nodeName action = BuildAgentJob osImage
     \<lparr>jp_Namespace = ns, jp_Name = name, jp_Image = c_AgentImage c, jp_PullPolicy = c_ImagePullPolicy c,
      jp_ServiceAccountName = c_ServiceAccount c, jp_NodeName = nodeName, jp_NodeCRNamespace = c_NodeCRNamespace c,
      jp_TTLSecondsAfterDone = c_JobTTLSeconds c, jp_Action = action\<rparr>"

definition LaunchCleanupJob :: "'w Controller \<Rightarrow> string \<Rightarrow> string \<Rightarrow> 'w Cluster_state \<Rightarrow> go_error option \<times> 'w Cluster_state" where
  "LaunchCleanupJob c ns nodeName st =
     (case k_getNode (c_api c) nodeName (cs_world st) of
        Inl err \<Rightarrow> (Some err, st)
      | Inr node \<Rightarrow>
          (let job = agentJob c ns (nd_OSImage node) (''multinic-agent-cleanup-'' @ nodeName) nodeName ''cleanup''
           in case k_getJob (c_api c) ns (job_Name job) (cs_world st) of
                Inr _ \<Rightarrow> (None, st)
              | Inl _ \<Rightarrow> onCluster (k_createJob (c_api c) ns job) st))"

fun latestMessage :: "terminated option list \<Rightarrow> int \<Rightarrow> string \<Rightarrow> string" where
  "latestMessage [] latest msg = msg"
| "latestMessage (None # ts) latest msg = latestMessage ts latest msg"
| "latestMessage (Some t # ts) latest msg =
     (if msg = [] \<or> latest < tm_FinishedAt t then latestMessage ts (tm_FinishedAt t) (tm_Message t) else latestMessage ts latest msg)"

definition getJobTerminationMessage :: "'w Controller \<Rightarrow> string \<Rightarrow> string \<Rightarrow> 'w \<Rightarrow> string" where
  "getJobTerminationMessage c ns jobName w =
     (case k_listPods (c_api c) ns [(''job-name'', jobName)] w of
        Inl _ \<Rightarrow> []
      | Inr pods \<Rightarrow> latestMessage (concat (map pod_Containers pods)) 0 [])"

section \<open>Status of a resource\<close>

text \<open>
  The new status is merged into the one that was read; when the status subresource cannot be
  updated the whole resource is.
\<close>

definition merge_status :: "json \<Rightarrow> (string \<times> json) list \<Rightarrow> json" where
  "merge_status u status = set_field ''status'' (JObject (fold (\<lambda>(k, v) m. AList.update k v m) status (as_object (field ''status'' u)))) u"

definition updateCRStatus :: "'w Controller \<Rightarrow> json \<Rightarrow> (string \<times> json) list \<Rightarrow> 'w Cluster_state \<Rightarrow> go_error option \<times> 'w Cluster_state" where
  "updateCRStatus c u status st =
     (case onCluster (k_UpdateStatus (c_api c) (GetNamespace u) (merge_status u status)) st of
        (None, st') \<Rightarrow> (None, st')
      | (Some _, st') \<Rightarrow> onCluster (k_Update (c_api c) (GetNamespace u) (merge_status u status)) st')"

definition condition :: "string \<Rightarrow> string \<Rightarrow> string \<Rightarrow> json" where
  "condition ty status reason = JArray [JObject [(''type'', JString ty), (''status'', JString status), (''reason'', JString reason)]]"

definition now :: "'w Controller \<Rightarrow> 'w Cluster_state \<Rightarrow> string" where
  "now c st = k_Now (c_api c) (cs_world st)"

section \<open>Reconcile\<close>

definition nodeOf :: "json \<Rightarrow> string" where
  "nodeOf u = (if nestedString u [''spec'', ''nodeName''] = [] then GetName u else nestedString u [''spec'', ''nodeName''])"

definition stateOf :: "json \<Rightarrow> string" where
  "stateOf u = NestedString u [''status'', ''state'']"

definition specChanged :: "json \<Rightarrow> bool" where
  "specChanged u \<longleftrightarrow> NestedInt64 u [''status'', ''observedGeneration''] = 0 \<or> GetGeneration u \<noteq> NestedInt64 u [''status'', ''observedGeneration'']"

definition instanceID :: "json \<Rightarrow> string" where
  "instanceID u = (if nestedString u [''spec'', ''instanceId''] = [] then GetLabel u ''multinic.io/instance-id'' else nestedString u [''spec'', ''instanceId''])"

definition inProgress :: "'w Controller \<Rightarrow> json \<Rightarrow> Job \<Rightarrow> 'w Cluster_state \<Rightarrow> (string \<times> json) list" where
  "inProgress c u job st =
     (let reason = (if specChanged u then ''SpecChanged'' else ''JobScheduled'')
      in [(''state'', JString ''InProgress''), (''observedGeneration'', JInt (GetGeneration u)),
          (''observedSpecHash'', JString (computeSpecHash c u)), (''lastJobName'', JString (job_Name job)),
          (''conditions'', condition ''InProgress'' ''True'' reason),
          (''interfaceStatuses'', JArray (buildInterfaceStatuses (now c st) u ''InProgress'' reason)),
          (''lastUpdated'', JString (now c st))])"

text \<open>The jobs of the node in the order they are listed; a failing list gives none.\<close>

definition nodeJobs :: "'w Controller \<Rightarrow> string \<Rightarrow> string \<Rightarrow> 'w \<Rightarrow> Job list" where
  "nodeJobs c ns nodeName w =
     (case k_listJobs (c_api c) ns [(''app.kubernetes.io/name'', ''multinic-agent''), (''multinic.io/node-name'', nodeName)] w of
        Inl _ \<Rightarrow> [] | Inr js \<Rightarrow> js)"

definition deleteStale :: "'w Controller \<Rightarrow> string \<Rightarrow> string \<Rightarrow> Job list \<Rightarrow> 'w Cluster_state \<Rightarrow> 'w Cluster_state" where
  "deleteStale c ns name js st = fold (\<lambda>j. if job_Name j \<noteq> name then scheduleJobDeletion c ns (job_Name j) else id) js st"

definition ensureJob :: "'w Controller \<Rightarrow> string \<Rightarrow> string \<Rightarrow> Job \<Rightarrow> 'w Cluster_state \<Rightarrow> go_error option \<times> 'w Cluster_state" where
  "ensureJob c ns nodeName job st =
     (case k_getJob (c_api c) ns (job_Name job) (cs_world st) of
        Inr _ \<Rightarrow> (None, st)
      | Inl _ \<Rightarrow>
          (case onCluster (k_createJob (c_api c) ns job) st of
             (Some err, st') \<Rightarrow> (Some err, st')
           | (None, st') \<Rightarrow> (None, deleteStale c ns (job_Name job) (nodeJobs c ns nodeName (cs_world st')) st')))"

definition Reconcile :: "'w Controller \<Rightarrow> string \<Rightarrow> string \<Rightarrow> 'w Cluster_state \<Rightarrow> go_error option \<times> 'w Cluster_state" where
  "Reconcile c ns name st =
     (case k_getCR (c_api c) ns name (cs_world st) of
        Inl err \<Rightarrow> (Some err, st)
      | Inr u \<Rightarrow>
          if (stateOf u = ''Configured'' \<or> stateOf u = ''Failed'') \<and> \<not> specChanged u then (None, st)
          else case k_getNode (c_api c) (nodeOf u) (cs_world st) of
            Inl err \<Rightarrow> (Some (WrappedError (''failed to get node '' @ nodeOf u @ '': '' @ Error err) err), st)
          | Inr node \<Rightarrow>
              if instanceID u \<noteq> [] \<and> normalizeUUID (instanceID u) \<noteq> normalizeUUID (nd_SystemUUID node)
              then (Some (PlainError (''instance-id mismatch: cr='' @ instanceID u @ '' node='' @ nd_SystemUUID node)), st)
              else
                (let job = agentJob c ns (nd_OSImage node) (agentJobName (nodeOf u) (GetGeneration u)) (nodeOf u) [];
                     st1 = snd (updateCRStatus c u (inProgress c u job st) st)
                 in ensureJob c ns (nodeOf u) job st1))"

definition updateInterfaceStates :: "'w Controller \<Rightarrow> string \<Rightarrow> string \<Rightarrow> 'w Cluster_state \<Rightarrow> go_error option \<times> 'w Cluster_state" where
  "updateInterfaceStates c ns nodeName st =
     (case k_getCR (c_api c) ns nodeName (cs_world st) of
        Inl err \<Rightarrow> (Some err, st)
      | Inr u \<Rightarrow>
          (case k_getNode (c_api c) nodeName (cs_world st) of
             Inl err \<Rightarrow> (Some err, st)
           | Inr node \<Rightarrow> (None, snd (updateCRStatus c u
               [(''interfaceStatuses'', JArray (buildEnhancedInterfaceStatuses (now c st) u node)),
                (''lastInterfaceCheck'', JString (now c st)), (''nodeReady'', JBool (isNodeReady node))] st))))"

fun processNames :: "'w Controller \<Rightarrow> string \<Rightarrow> string list \<Rightarrow> 'w Cluster_state \<Rightarrow> go_error option \<times> 'w Cluster_state" where
  "processNames c ns [] st = (None, st)"
| "processNames c ns (name # names) st =
     (case Reconcile c ns name st of
        (Some err, st') \<Rightarrow> (Some err, st')
      | (None, st') \<Rightarrow> processNames c ns names (snd (updateInterfaceStates c ns name st')))"

definition ProcessAll :: "'w Controller \<Rightarrow> string \<Rightarrow> 'w Cluster_state \<Rightarrow> go_error option \<times> 'w Cluster_state" where
  "ProcessAll c ns st =
     (case k_listCR (c_api c) ns (cs_world st) of
        Inl err \<Rightarrow> (Some err, st)
      | Inr us \<Rightarrow> processNames c ns (map GetName us) st)"

section \<open>ProcessJobs\<close>

definition partialFailure :: "'w Controller \<Rightarrow> json \<Rightarrow> Failure list \<Rightarrow> 'w Cluster_state \<Rightarrow> 'w Cluster_state" where
  "partialFailure c u fs st = snd (updateCRStatus c u
     [(''state'', JString ''Failed''), (''conditions'', condition ''Ready'' ''False'' ''JobFailedPartial''),
      (''interfaceStatuses'', JArray (outcome_statuses (now c st) ''JobFailedPartial'' ''JobSucceeded'' fs (interfaces u))),
      (''lastUpdated'', JString (now c st))] st)"

definition successStatuses :: "'w Controller \<Rightarrow> json \<Rightarrow> string \<Rightarrow> 'w Cluster_state \<Rightarrow> json list" where
  "successStatuses c u msg st =
     (case (if TrimSpace msg \<noteq> [] then summaryResults c msg else None) of
        Some (r # rs) \<Rightarrow> resultStatuses (now c st) (interfaces u) (r # rs)
      | _ \<Rightarrow> buildInterfaceStatuses (now c st) u ''Configured'' ''JobSucceeded'')"

definition fullSuccess :: "'w Controller \<Rightarrow> json \<Rightarrow> string \<Rightarrow> 'w Cluster_state \<Rightarrow> 'w Cluster_state" where
  "fullSuccess c u msg st = snd (updateCRStatus c u
     [(''state'', JString ''Configured''), (''conditions'', condition ''Ready'' ''True'' ''JobSucceeded''),
      (''interfaceStatuses'', JArray (successStatuses c u msg st)), (''lastUpdated'', JString (now c st))] st)"

definition jobSucceeded :: "'w Controller \<Rightarrow> string \<Rightarrow> Job \<Rightarrow> json \<Rightarrow> 'w Cluster_state \<Rightarrow> 'w Cluster_state" where
  "jobSucceeded c ns job u st =
     (let msg = getJobTerminationMessage c ns (job_Name job) (cs_world st)
      in scheduleJobDeletion c ns (job_Name job)
           (case (if TrimSpace msg \<noteq> [] then summaryFailures c msg else None) of
              Some (f # fs) \<Rightarrow> partialFailure c u (f # fs) st
            | _ \<Rightarrow> fullSuccess c u msg st))"

text \<open>The reason and the entries of a failed job, from its summary when it names failures.\<close>

definition failureStatuses :: "'w Controller \<Rightarrow> json \<Rightarrow> string \<Rightarrow> 'w Cluster_state \<Rightarrow> string \<times> json list" where
  "failureStatuses c u msg st =
     (case (case (if TrimSpace msg \<noteq> [] then summaryFailures c msg else None) of
              Some (f # fs) \<Rightarrow> (if length (f # fs) < length (interfaces u) then ''JobFailedPartial'' else ''JobFailed'',
                outcome_statuses (now c st) ''JobFailed'' ''JobPartialSuccess'' (f # fs) (interfaces u))
            | _ \<Rightarrow> (''JobFailed'', [])) of
        (reason, statuses) \<Rightarrow>
          (reason, if statuses = [] then buildInterfaceStatuses (now c st) u ''Failed'' reason else statuses))"

definition jobFailed :: "'w Controller \<Rightarrow> string \<Rightarrow> Job \<Rightarrow> json \<Rightarrow> 'w Cluster_state \<Rightarrow> 'w Cluster_state" where
  "jobFailed c ns job u st =
     (case failureStatuses c u (getJobTerminationMessage c ns (job_Name job) (cs_world st)) st of
        (reason, statuses) \<Rightarrow>
          scheduleJobDeletion c ns (job_Name job) (snd (updateCRStatus c u
            [(''state'', JString ''Failed''), (''conditions'', condition ''Ready'' ''False'' reason),
             (''lastUpdated'', JString (now c st)), (''interfaceStatuses'', JArray statuses)] st)))"

definition processJob :: "'w Controller \<Rightarrow> string \<Rightarrow> Job \<Rightarrow> 'w Cluster_state \<Rightarrow> 'w Cluster_state" where
  "processJob c ns job st =
     (let action = label (job_Labels job) ''multinic.io/action''; nodeName = label (job_Labels job) ''multinic.io/node-name''
      in if EqualFold (TrimSpace action) ''cleanup'' then st
         else if nodeName = [] then st
         else case k_getCR (c_api c) ns nodeName (cs_world st) of
           Inl _ \<Rightarrow> (if action = ''cleanup'' \<and> (0 < job_Succeeded job \<or> 0 < job_Failed job)
             then scheduleJobDeletion c ns (job_Name job) st else st)
         | Inr u \<Rightarrow>
             if 0 < job_Succeeded job then
               (if stateOf u = ''Configured'' then st
                else if action = ''cleanup'' then scheduleJobDeletion c ns (job_Name job) st
                else jobSucceeded c ns job u st)
             else if 0 < job_Failed job \<and> stateOf u \<noteq> ''Failed'' then jobFailed c ns job u st
             else st)"

definition ProcessJobs :: "'w Controller \<Rightarrow> string \<Rightarrow> 'w Cluster_state \<Rightarrow> go_error option \<times> 'w Cluster_state" where
  "ProcessJobs c ns st =
     (case k_listJobs (c_api c) ns [(''app.kubernetes.io/name'', ''multinic-agent'')] (cs_world st) of
        Inl err \<Rightarrow> (Some err, st)
      | Inr jobs \<Rightarrow> (None, fold (processJob c ns) jobs st))"

definition ApplyTerminationSummary :: "'w Controller \<Rightarrow> string \<Rightarrow> string \<Rightarrow> string \<Rightarrow> string \<Rightarrow> 'w Cluster_state
    \<Rightarrow> go_error option \<times> 'w Cluster_state" where
  "ApplyTerminationSummary c ns nodeName jobName msg st =
     (case k_getCR (c_api c) ns nodeName (cs_world st) of
        Inl err \<Rightarrow> (Some err, st)
      | Inr u \<Rightarrow>
          (case summaryFailures c msg of
             None \<Rightarrow> (None, st)
           | Some fs \<Rightarrow>
               (let reason = (if length fs < length (interfaces u) then ''JobFailedPartial'' else ''JobFailed'')
                in updateCRStatus c u
                     [(''state'', JString ''Failed''), (''conditions'', condition ''Ready'' ''False'' reason),
                      (''interfaceStatuses'', JArray (outcome_statuses (now c st) ''JobFailed'' ''JobPartialSuccess'' fs (interfaces u))),
                      (''lastUpdated'', JString (now c st)), (''lastJobName'', JString jobName)] st)))"

section \<open>What a status update does\<close>

lemma map_of_fold_update:
  "map_of (fold (\<lambda>(k, v) m. AList.update k v m) s kvs) k = (case map_of (rev s) k of None \<Rightarrow> map_of kvs k | Some v \<Rightarrow> Some v)"
  by (induction s arbitrary: kvs) (auto simp: update_conv map_add_def split: option.splits)

lemma merge_status_spec: "is_object u \<Longrightarrow> same_spec u (merge_status u s)"
  by (simp add: merge_status_def set_status_same_spec)

lemma merge_status_names: "is_object u \<Longrightarrow> GetName (merge_status u s) = GetName u"
  using merge_status_spec [of u s] by (simp add: same_spec_def)

lemma merge_status_lookup:
  assumes "is_object u" "field ''status'' v = field ''status'' (merge_status u s)"
  shows "nested v [''status'', k] = (case map_of (rev s) k of None \<Rightarrow> nested u [''status'', k] | Some x \<Rightarrow> Some x)"
proof -
  have "map_of (as_object (field ''status'' u)) k = (case field ''status'' u of None \<Rightarrow> None | Some x \<Rightarrow> field k x)"
    by (cases "field ''status'' u"; cases "the (field ''status'' u)"; simp)
  then show ?thesis using assms
    by (auto simp: merge_status_def field_set_field map_of_fold_update split: option.splits)
qed

lemma same_spec_reads:
  assumes "same_spec u v"
  shows "nodeOf v = nodeOf u" "instanceID v = instanceID u" "GetGeneration v = GetGeneration u" "interfaces v = interfaces u"
  using assms by (simp_all add: same_spec_def nodeOf_def instanceID_def interfaces_def nestedString_def NestedString_def NestedSlice_def)

lemma onCluster_eq: "onCluster f st = (r, st') \<longleftrightarrow> f (cs_world st) = (r, cs_world st') \<and> cs_pending st' = cs_pending st"
  by (cases "f (cs_world st)") (auto simp: onCluster_def intro: Cluster_state.equality)

context kube_api
begin

lemma updateCRStatus_keeps:
  assumes "c_api c = K" "updateCRStatus c u s st = (r, st')"
  shows "keeps_jobs K (cs_world st) (cs_world st') \<and> cs_pending st' = cs_pending st"
  using assms UpdateStatus_frame Update_frame keeps_jobs_trans
  by (fastforce simp: updateCRStatus_def onCluster_eq split: prod.splits option.splits)

lemma updateCRStatus_spec:
  assumes c: "c_api c = K" and g: "k_getCR K ns n (cs_world st) = Inr u" and u: "updateCRStatus c u s st = (r, st')"
  shows "\<exists>v. k_getCR K ns n (cs_world st') = Inr v \<and> same_spec u v"
proof -
  have o: "is_object u" "GetName u = n" "GetNamespace u = ns" using getCR_object [OF g] by auto
  obtain r1 w1 where s1: "k_UpdateStatus K ns (merge_status u s) (cs_world st) = (r1, w1)" by fastforce
  obtain v1 where v1: "k_getCR K ns n w1 = Inr v1" "same_spec u v1" using UpdateStatus_spec [OF s1 g] by auto
  show ?thesis
  proof (cases r1)
    case None
    then show ?thesis using s1 v1 u o c by (auto simp: updateCRStatus_def onCluster_def)
  next
    case (Some e)
    then have "k_Update K ns (merge_status u s) w1 = (r, cs_world st')"
      using s1 u o c by (auto simp: updateCRStatus_def onCluster_def split: prod.splits)
    moreover have "same_spec v1 (merge_status u s)"
      using same_spec_trans same_spec_sym [OF o(1) v1(2)] merge_status_spec [OF o(1)] by blast
    ultimately show ?thesis
      using Update_spec [of ns "merge_status u s" w1] v1 o same_spec_trans merge_status_names by metis
  qed
qed

lemma updateCRStatus_ok:
  assumes c: "c_api c = K" and g: "k_getCR K ns n (cs_world st) = Inr u" and u: "updateCRStatus c u s st = (r, st')"
    and ok: "fst (k_UpdateStatus K ns (merge_status u s) (cs_world st)) = None"
  shows "r = None \<and> (\<exists>v. k_getCR K ns n (cs_world st') = Inr v \<and> same_spec u v \<and>
    (\<forall>k. nested v [''status'', k] = (case map_of (rev s) k of None \<Rightarrow> nested u [''status'', k] | Some x \<Rightarrow> Some x)))"
proof -
  have o: "is_object u" "GetName u = n" "GetNamespace u = ns" using getCR_object [OF g] by auto
  obtain w1 where s1: "k_UpdateStatus K ns (merge_status u s) (cs_world st) = (None, w1)" using ok by (metis prod.collapse)
  then have e: "r = None" "cs_world st' = w1" using u o c by (auto simp: updateCRStatus_def onCluster_def)
  obtain v where "k_getCR K ns n w1 = Inr v" "same_spec u v" "field ''status'' v = field ''status'' (merge_status u s)"
    using UpdateStatus_ok [OF s1] g o merge_status_names by metis
  then show ?thesis using e merge_status_lookup o by metis
qed

lemma deleteJob_removes:
  assumes "c_api c = K" "deleteJob c ns n st = (r, st')"
  shows "removes_only K ns {n} (cs_world st) (cs_world st') \<and> cs_pending st' = cs_pending st"
proof -
  have d: "k_deleteJob K ns n (cs_world st) = (r, cs_world st')" "cs_pending st' = cs_pending st"
    using assms by (auto simp: deleteJob_def onCluster_eq)
  have "k_getJob K ns' n' (cs_world st') = k_getJob K ns' n' (cs_world st) \<or> ns' = ns \<and> n' = n \<and> found (k_getJob K ns' n' (cs_world st')) = None" for ns' n'
    using deleteJob_frame [OF d(1)] deleteJob_gone [OF d(1)] by (cases "(ns', n') = (ns, n)") auto
  then show ?thesis using deleteJob_frame [OF d(1)] d(2) by (simp add: removes_only_def)
qed

lemma scheduleJobDeletion_removes:
  "c_api c = K \<Longrightarrow> removes_only K ns {n} (cs_world st) (cs_world (scheduleJobDeletion c ns n st))"
  using deleteJob_removes [of c ns n st] removes_only_refl
  by (cases "deleteJob c ns n st") (auto simp: scheduleJobDeletion_def)

lemma deleteStale_removes:
  "c_api c = K \<Longrightarrow> removes_only K ns {job_Name j |j. j \<in> set js \<and> job_Name j \<noteq> name} (cs_world st) (cs_world (deleteStale c ns name js st))"
proof (induction js arbitrary: st)
  case (Cons j js)
  let ?J = "{job_Name x |x. x \<in> set (j # js) \<and> job_Name x \<noteq> name}"
  let ?st = "if job_Name j \<noteq> name then scheduleJobDeletion c ns (job_Name j) st else st"
  have "removes_only K ns ?J (cs_world st) (cs_world ?st)"
    using removes_only_mono [OF scheduleJobDeletion_removes [OF Cons.prems, of ns "job_Name j" st], where J' = ?J] removes_only_refl by auto
  moreover have "removes_only K ns ?J (cs_world ?st) (cs_world (deleteStale c ns name js ?st))"
    by (rule removes_only_mono [OF Cons.IH [OF Cons.prems]]) auto
  ultimately have "removes_only K ns ?J (cs_world st) (cs_world (deleteStale c ns name js ?st))" by (rule removes_only_trans)
  moreover have "deleteStale c ns name (j # js) st = deleteStale c ns name js ?st" by (simp add: deleteStale_def)
  ultimately show ?case by (simp only:)
qed (simp add: deleteStale_def removes_only_refl)

text \<open>The ways through \<open>Reconcile\<close>, for a resource that is there.\<close>

lemma Reconcile_cases:
  assumes c: "c_api c = K" and g: "k_getCR K ns n (cs_world st) = Inr u" and r: "Reconcile c ns n st = (r, st')"
  obtains (idle) "st' = st" "r = None \<longleftrightarrow> (stateOf u = ''Configured'' \<or> stateOf u = ''Failed'') \<and> \<not> specChanged u"
  | (scheduled) node job r1 st1 where "k_getNode K (nodeOf u) (cs_world st) = Inr node"
      "instanceID u = [] \<or> normalizeUUID (instanceID u) = normalizeUUID (nd_SystemUUID node)"
      "job = agentJob c ns (nd_OSImage node) (agentJobName (nodeOf u) (GetGeneration u)) (nodeOf u) []"
      "updateCRStatus c u (inProgress c u job st) st = (r1, st1)"
      "ensureJob c ns (nodeOf u) job st1 = (r, st')"
proof (cases "((stateOf u = ''Configured'' \<or> stateOf u = ''Failed'') \<and> \<not> specChanged u) \<or> (\<exists>e. k_getNode K (nodeOf u) (cs_world st) = Inl e)
    \<or> (\<exists>node. k_getNode K (nodeOf u) (cs_world st) = Inr node \<and> instanceID u \<noteq> [] \<and> normalizeUUID (instanceID u) \<noteq> normalizeUUID (nd_SystemUUID node))")
  case True
  then have "st' = st" "r = None \<longleftrightarrow> (stateOf u = ''Configured'' \<or> stateOf u = ''Failed'') \<and> \<not> specChanged u"
    using r g c by (auto simp: Reconcile_def split: if_splits)
  then show ?thesis by (rule idle)
next
  case False
  then obtain node where node: "k_getNode K (nodeOf u) (cs_world st) = Inr node" by (cases "k_getNode K (nodeOf u) (cs_world st)") auto
  let ?job = "agentJob c ns (nd_OSImage node) (agentJobName (nodeOf u) (GetGeneration u)) (nodeOf u) []"
  obtain r1 st1 where u: "updateCRStatus c u (inProgress c u ?job st) st = (r1, st1)" by fastforce
  have s1: "snd (updateCRStatus c u (inProgress c u ?job st) st) = st1" using u by simp
  show ?thesis
  proof (rule scheduled [OF node _ refl u])
    show "instanceID u = [] \<or> normalizeUUID (instanceID u) = normalizeUUID (nd_SystemUUID node)" using False node by auto
    show "ensureJob c ns (nodeOf u) ?job st1 = (r, st')"
      using r g c node False unfolding Reconcile_def by (auto simp: Let_def s1 split: if_splits)
  qed
qed

text \<open>After \<open>ensureJob\<close> without error the job is there, and only stale jobs may have gone.\<close>

lemma ensureJob_effect:
  assumes c: "c_api c = K" and e: "ensureJob c ns nodeName job st = (None, st')"
  shows "keeps_resources K (cs_world st) (cs_world st') \<and>
    (\<exists>j. k_getJob K ns (job_Name job) (cs_world st') = Inr j \<and> (k_getJob K ns (job_Name job) (cs_world st) = Inr j \<or> j = job)) \<and>
    (\<forall>ns' n. (ns', n) \<noteq> (ns, job_Name job) \<longrightarrow> k_getJob K ns' n (cs_world st') = k_getJob K ns' n (cs_world st) \<or>
       ns' = ns \<and> found (k_getJob K ns' n (cs_world st')) = None \<and>
       (\<exists>j. k_getJob K ns n (cs_world st) = Inr j \<and> selected [(''app.kubernetes.io/name'', ''multinic-agent''), (''multinic.io/node-name'', nodeName)] (job_Labels j)))"
proof (cases "k_getJob K ns (job_Name job) (cs_world st)")
  case (Inr j)
  then show ?thesis using e c by (auto simp: ensureJob_def keeps_resources_def)
next
  case (Inl err)
  then obtain st2 where cr: "onCluster (k_createJob K ns job) st = (None, st2)"
    and st': "st' = deleteStale c ns (job_Name job) (nodeJobs c ns nodeName (cs_world st2)) st2"
    using e c by (auto simp: ensureJob_def split: prod.splits option.splits)
  let ?sel = "[(''app.kubernetes.io/name'', ''multinic-agent''), (''multinic.io/node-name'', nodeName)]"
  let ?J = "{job_Name j |j. j \<in> set (nodeJobs c ns nodeName (cs_world st2)) \<and> job_Name j \<noteq> job_Name job}"
  have created: "k_createJob K ns job (cs_world st) = (None, cs_world st2)" using cr by (simp add: onCluster_eq)
  have rem: "removes_only K ns ?J (cs_world st2) (cs_world st')" unfolding st' by (rule deleteStale_removes [OF c])
  have stale: "\<exists>j. k_getJob K ns n (cs_world st2) = Inr j \<and> selected ?sel (job_Labels j) \<and> n \<noteq> job_Name job" if "n \<in> ?J" for n
    using that listJobs [of ns ?sel "cs_world st2"] c by (auto simp: nodeJobs_def split: sum.splits)
  have "job_Name job \<notin> ?J" by auto
  then have "k_getJob K ns (job_Name job) (cs_world st') = Inr job"
    using removes_onlyD(2) [OF rem] createJob_ok [OF created] by simp
  moreover have "keeps_resources K (cs_world st) (cs_world st')"
    using rem createJob_frame [OF created] by (auto simp: removes_only_def keeps_resources_def)
  moreover have "k_getJob K ns' n (cs_world st') = k_getJob K ns' n (cs_world st) \<or> ns' = ns \<and> found (k_getJob K ns' n (cs_world st')) = None \<and>
      (\<exists>j. k_getJob K ns n (cs_world st) = Inr j \<and> selected ?sel (job_Labels j))" if ne: "(ns', n) \<noteq> (ns, job_Name job)" for ns' n
  proof -
    have same: "k_getJob K ns' n (cs_world st2) = k_getJob K ns' n (cs_world st)" using createJob_frame [OF created] ne by blast
    show ?thesis
    proof (cases "k_getJob K ns' n (cs_world st') = k_getJob K ns' n (cs_world st2)")
      case False
      with removes_onlyD(1) [OF rem, of ns' n]
      have r: "ns' = ns \<and> n \<in> ?J \<and> found (k_getJob K ns' n (cs_world st')) = None" by argo
      then obtain j where "k_getJob K ns n (cs_world st2) = Inr j" "selected ?sel (job_Labels j)" using stale by blast
      then show ?thesis using conjunct1 [OF r] conjunct2 [OF conjunct2 [OF r]] same by auto
    qed (simp add: same)
  qed
  ultimately show ?thesis by blast
qed

lemma job_Name_agentJob [simp]: "job_Name (agentJob c ns img name node action) = name"
  by (simp add: agentJob_def BuildAgentJob_def Let_def)

lemma Reconcile_again:
  assumes c: "c_api c = K" and g: "k_getCR K ns n (cs_world st) = Inr v"
    and j: "k_getJob K ns (agentJobName (nodeOf v) (GetGeneration v)) (cs_world st) = Inr j"
  shows "keeps_jobs K (cs_world st) (cs_world (snd (Reconcile c ns n st)))"
proof -
  obtain r st' where r: "Reconcile c ns n st = (r, st')" by fastforce
  show ?thesis
  proof (cases rule: Reconcile_cases [OF c g r, case_names idle scheduled])
    case idle
    then show ?thesis using r keeps_jobs_refl by simp
  next
    case (scheduled node job r1 st1)
    have k: "keeps_jobs K (cs_world st) (cs_world st1)" using updateCRStatus_keeps [OF c scheduled(4)] by simp
    then have "k_getJob K ns (job_Name job) (cs_world st1) = Inr j" using j scheduled(3) by (simp add: keeps_jobs_def)
    then have "st' = st1" using scheduled(5) c by (simp add: ensureJob_def)
    then show ?thesis using k r by simp
  qed
qed

lemma Reconcile_schedules:
  assumes c: "c_api c = K" and g: "k_getCR K ns n (cs_world st) = Inr u" and r: "Reconcile c ns n st = (None, st')"
    and active: "stateOf u \<notin> {''Configured'', ''Failed''} \<or> specChanged u"
  obtains node job r1 st1 v where "k_getNode K (nodeOf u) (cs_world st) = Inr node"
    "job = agentJob c ns (nd_OSImage node) (agentJobName (nodeOf u) (GetGeneration u)) (nodeOf u) []"
    "updateCRStatus c u (inProgress c u job st) st = (r1, st1)" "ensureJob c ns (nodeOf u) job st1 = (None, st')"
    "keeps_jobs K (cs_world st) (cs_world st1)"
    "k_getCR K ns n (cs_world st1) = Inr v" "k_getCR K ns n (cs_world st') = Inr v" "same_spec u v"
proof -
  show ?thesis
  proof (cases rule: Reconcile_cases [OF c g r, case_names idle scheduled])
    case idle
    then show ?thesis using active by simp
  next
    case (scheduled node job r1 st1)
    obtain v where v: "k_getCR K ns n (cs_world st1) = Inr v" "same_spec u v" using updateCRStatus_spec [OF c g scheduled(4)] by auto
    have "k_getCR K ns n (cs_world st') = Inr v"
      using ensureJob_effect [OF c scheduled(5)] v(1) by (simp add: keeps_resources_def)
    then show ?thesis
      using that [OF scheduled(1,3,4,5) _ v(1) _ v(2)] updateCRStatus_keeps [OF c scheduled(4)] by simp
  qed
qed

lemma Reconcile_effect:
  assumes c: "c_api c = K" and g: "k_getCR K ns n (cs_world st) = Inr u" and r: "Reconcile c ns n st = (None, st')"
    and active: "stateOf u \<notin> {''Configured'', ''Failed''} \<or> specChanged u"
  shows "(\<exists>v. k_getCR K ns n (cs_world st') = Inr v \<and> same_spec u v) \<and>
    (\<exists>node j. k_getNode K (nodeOf u) (cs_world st) = Inr node \<and>
       k_getJob K ns (agentJobName (nodeOf u) (GetGeneration u)) (cs_world st') = Inr j \<and>
       (k_getJob K ns (agentJobName (nodeOf u) (GetGeneration u)) (cs_world st) = Inr j \<or>
        j = agentJob c ns (nd_OSImage node) (agentJobName (nodeOf u) (GetGeneration u)) (nodeOf u) [])) \<and>
    (\<forall>ns' m. (ns', m) \<noteq> (ns, agentJobName (nodeOf u) (GetGeneration u)) \<longrightarrow>
       k_getJob K ns' m (cs_world st') = k_getJob K ns' m (cs_world st) \<or>
       ns' = ns \<and> found (k_getJob K ns' m (cs_world st')) = None \<and>
       (\<exists>j. k_getJob K ns m (cs_world st) = Inr j \<and>
         selected [(''app.kubernetes.io/name'', ''multinic-agent''), (''multinic.io/node-name'', nodeOf u)] (job_Labels j))) \<and>
    keeps_jobs K (cs_world st') (cs_world (snd (Reconcile c ns n st')))"
proof -
  obtain node job r1 st1 v where s: "k_getNode K (nodeOf u) (cs_world st) = Inr node"
    "job = agentJob c ns (nd_OSImage node) (agentJobName (nodeOf u) (GetGeneration u)) (nodeOf u) []"
    "updateCRStatus c u (inProgress c u job st) st = (r1, st1)" "ensureJob c ns (nodeOf u) job st1 = (None, st')"
    and k: "keeps_jobs K (cs_world st) (cs_world st1)"
    and v: "k_getCR K ns n (cs_world st1) = Inr v" "k_getCR K ns n (cs_world st') = Inr v" "same_spec u v"
    using Reconcile_schedules [OF c g r active] by metis
  note e = ensureJob_effect [OF c s(4)]
  have name: "job_Name job = agentJobName (nodeOf u) (GetGeneration u)" using s(2) by simp
  obtain j where j: "k_getJob K ns (job_Name job) (cs_world st') = Inr j" "k_getJob K ns (job_Name job) (cs_world st1) = Inr j \<or> j = job"
    using e by blast
  have "k_getJob K ns (agentJobName (nodeOf v) (GetGeneration v)) (cs_world st') = Inr j"
    using j(1) name same_spec_reads [OF v(3)] by simp
  from Reconcile_again [OF c v(2) this] have again: "keeps_jobs K (cs_world st') (cs_world (snd (Reconcile c ns n st')))" .
  have same: "k_getJob K ns' m (cs_world st1) = k_getJob K ns' m (cs_world st)" for ns' m using k by (simp add: keeps_jobs_def)
  show ?thesis
  proof (intro conjI)
    show "\<exists>v. k_getCR K ns n (cs_world st') = Inr v \<and> same_spec u v" using v by blast
    show "\<exists>node j. k_getNode K (nodeOf u) (cs_world st) = Inr node \<and>
       k_getJob K ns (agentJobName (nodeOf u) (GetGeneration u)) (cs_world st') = Inr j \<and>
       (k_getJob K ns (agentJobName (nodeOf u) (GetGeneration u)) (cs_world st) = Inr j \<or>
        j = agentJob c ns (nd_OSImage node) (agentJobName (nodeOf u) (GetGeneration u)) (nodeOf u) [])"
      using s(1,2) j same name by auto
    show "\<forall>ns' m. (ns', m) \<noteq> (ns, agentJobName (nodeOf u) (GetGeneration u)) \<longrightarrow>
       k_getJob K ns' m (cs_world st') = k_getJob K ns' m (cs_world st) \<or>
       ns' = ns \<and> found (k_getJob K ns' m (cs_world st')) = None \<and>
       (\<exists>j. k_getJob K ns m (cs_world st) = Inr j \<and>
         selected [(''app.kubernetes.io/name'', ''multinic-agent''), (''multinic.io/node-name'', nodeOf u)] (job_Labels j))"
      using conjunct2 [OF conjunct2 [OF e]] unfolding same name .
  qed (rule again)
qed

end

section \<open>Which interfaces a failed job blames\<close>

lemma numbered_simps [simp]: "length (numbered xs) = length xs" "i < length xs \<Longrightarrow> numbered xs ! i = (i, xs ! i)" "numbered [] = []"
  by (simp_all add: numbered_def)

text \<open>The failure names the interface, by its identifier or by its address.\<close>

definition names_interface :: "Failure \<Rightarrow> json \<Rightarrow> bool" where
  "names_interface f iface =
     (let m = as_object (Some iface); mac = ToLower (getStringFromMap m ''macAddress'')
      in getIntFromMap m ''id'' \<noteq> 0 \<and> jf_ID f = getIntFromMap m ''id'' \<or>
         mac \<noteq> [] \<and> TrimSpace (jf_MAC f) \<noteq> [] \<and> macKey (jf_MAC f) = mac)"

lemma fold_last_writer:
  "fold (\<lambda>f m. if P f then m(k f \<mapsto> f) else m) fs m0 i = (case find (\<lambda>f. P f \<and> k f = i) (rev fs) of None \<Rightarrow> m0 i | Some f \<Rightarrow> Some f)"
proof (induction fs arbitrary: m0)
  case (Cons f fs)
  have "find Q (xs @ [x]) = (case find Q xs of None \<Rightarrow> (if Q x then Some x else None) | Some y \<Rightarrow> Some y)" for Q xs and x :: 'a
    by (induction xs) auto
  then show ?case by (auto simp: Cons.IH split: option.splits)
qed simp

lemma failByID_find: "failByID fs i = find (\<lambda>f. jf_ID f = i) (rev fs)"
  using fold_last_writer [of "\<lambda>_. True" jf_ID fs Map.empty i] by (auto simp: failByID_def split: option.splits)

lemma failByMAC_find: "failByMAC fs mac = find (\<lambda>f. TrimSpace (jf_MAC f) \<noteq> [] \<and> macKey (jf_MAC f) = mac) (rev fs)"
  using fold_last_writer [of "\<lambda>f. TrimSpace (jf_MAC f) \<noteq> []" "\<lambda>f. macKey (jf_MAC f)" fs Map.empty mac]
  by (auto simp: failByMAC_def split: option.splits)

lemma blamed_iff: "blamed fs (as_object (Some iface)) \<noteq> None \<longleftrightarrow> (\<exists>f\<in>set fs. names_interface f iface)"
proof -
  let ?m = "as_object (Some iface)"
  let ?i = "getIntFromMap ?m ''id''" and ?mac = "ToLower (getStringFromMap ?m ''macAddress'')"
  have last: "find P (rev fs) \<noteq> None \<longleftrightarrow> (\<exists>f\<in>set fs. P f)" for P :: "Failure \<Rightarrow> bool" by (auto simp: find_None_iff)
  have "blamed fs ?m \<noteq> None \<longleftrightarrow> ?i \<noteq> 0 \<and> failByID fs ?i \<noteq> None \<or> ?mac \<noteq> [] \<and> failByMAC fs ?mac \<noteq> None"
    by (auto simp: blamed_def Let_def split: option.splits)
  then show ?thesis unfolding failByID_find failByMAC_find last by (auto simp: names_interface_def Let_def)
qed

lemma outcome_entry:
  "nested (outcome_status t fr ok fs i iface) [''name''] = Some (JString (multinic i)) \<and>
   nested (outcome_status t fr ok fs i iface) [''status''] =
     Some (JString (if \<exists>f\<in>set fs. names_interface f iface then ''Failed'' else ''Configured''))"
  using blamed_iff [of fs iface] by (auto simp: outcome_status_def Let_def split: option.splits)

lemma outcome_statuses_simps [simp]:
  "length (outcome_statuses t fr ok fs ifaces) = length ifaces"
  "i < length ifaces \<Longrightarrow> outcome_statuses t fr ok fs ifaces ! i = outcome_status t fr ok fs i (ifaces ! i)"
  "outcome_statuses t fr ok fs ifaces = [] \<longleftrightarrow> ifaces = []"
  by (simp_all add: outcome_statuses_def numbered_def)

section \<open>What a finished job does\<close>

lemma stateOf_nested: "stateOf v = or_zero [] (as_string (nested v [''status'', ''state'']))"
  by (simp add: stateOf_def NestedString_def)

lemma specChanged_nested: "specChanged v \<longleftrightarrow> (let g = or_zero 0 (as_int (nested v [''status'', ''observedGeneration''])) in g = 0 \<or> GetGeneration v \<noteq> g)"
  by (simp add: specChanged_def NestedInt64_def Let_def)

lemma merge_status_writes: "is_object u \<Longrightarrow> field ''status'' (merge_status u s) \<noteq> None"
  by (simp add: merge_status_def field_set_field)

lemma not_cleanup: "\<not> EqualFold (TrimSpace action) ''cleanup'' \<Longrightarrow> action \<noteq> ''cleanup''"
  by (auto simp: EqualFold_def) (code_simp)

text \<open>
  A listed job that does not touch the resource of a node: a cleanup, a job of another node, or
  one that has not ended.
\<close>

definition inert_job :: "string \<Rightarrow> Job \<Rightarrow> bool" where
  "inert_job n job \<longleftrightarrow> EqualFold (TrimSpace (label (job_Labels job) ''multinic.io/action'')) ''cleanup'' \<or>
     label (job_Labels job) ''multinic.io/node-name'' \<noteq> n \<or> job_Succeeded job \<le> 0 \<and> job_Failed job \<le> 0"

context writable_api
begin

lemma updateCRStatus_written:
  assumes c: "c_api c = K" and g: "k_getCR K ns n (cs_world st) = Inr u"
  shows "\<exists>v. k_getCR K ns n (cs_world (snd (updateCRStatus c u s st))) = Inr v \<and> same_spec u v \<and>
    (\<forall>k. nested v [''status'', k] = (case map_of (rev s) k of None \<Rightarrow> nested u [''status'', k] | Some x \<Rightarrow> Some x))"
proof -
  obtain r st' where u: "updateCRStatus c u s st = (r, st')" by fastforce
  have o: "is_object u" "GetName u = n" "GetNamespace u = ns" using getCR_object [OF g] by auto
  have m: "GetName (merge_status u s) = n" "same_spec u (merge_status u s)" "field ''status'' (merge_status u s) \<noteq> None"
    using o merge_status_names merge_status_spec merge_status_writes by auto
  show ?thesis
  proof (cases "fst (k_UpdateStatus K ns (merge_status u s) (cs_world st))")
    case None
    from updateCRStatus_ok [OF c g u this] show ?thesis using u by auto
  next
    case (Some e)
    then obtain w1 where w1: "k_UpdateStatus K ns (merge_status u s) (cs_world st) = (Some e, w1)" by (metis prod.collapse)
    from status_stored [OF _ m(2,3) w1] obtain w2 v where v: "k_Update K ns (merge_status u s) w1 = (None, w2)"
        "k_getCR K ns n w2 = Inr v" "field ''status'' v = field ''status'' (merge_status u s)"
      using g m(1) by auto
    then have "cs_world st' = w2" using u w1 o c by (auto simp: updateCRStatus_def onCluster_def)
    then show ?thesis using v(2) updateCRStatus_spec [OF c g u] merge_status_lookup [OF o(1) v(3)] u by auto
  qed
qed

lemma updateCRStatus_other:
  assumes c: "c_api c = K" and g: "k_getCR K ns m (cs_world st) = Inr u" and n: "(ns', n) \<noteq> (ns, m)"
  shows "k_getCR K ns' n (cs_world (snd (updateCRStatus c u s st))) = k_getCR K ns' n (cs_world st)"
proof -
  have o: "is_object u" "GetName u = m" "GetNamespace u = ns" using getCR_object [OF g] by auto
  then have d: "(ns', n) \<noteq> (ns, GetName (merge_status u s))" using n merge_status_names by simp
  obtain r1 w1 where s1: "k_UpdateStatus K ns (merge_status u s) (cs_world st) = (r1, w1)" by fastforce
  obtain r2 w2 where s2: "k_Update K ns (merge_status u s) w1 = (r2, w2)" by fastforce
  show ?thesis using s1 s2 o c UpdateStatus_other [OF s1 d] Update_other [OF s2 d]
    by (auto simp: updateCRStatus_def onCluster_def split: option.splits)
qed

lemma scheduled_deletion_keeps_CR:
  "c_api c = K \<Longrightarrow> k_getCR K ns' n (cs_world (scheduleJobDeletion c ns m st)) = k_getCR K ns' n (cs_world st)"
  using scheduleJobDeletion_removes [of c ns m st] by (simp add: removes_only_def keeps_resources_def)

lemma success_configures:
  assumes c: "c_api c = K" and g: "k_getCR K ns n (cs_world st) = Inr u" and n: "n \<noteq> []"
    and l: "label (job_Labels job) ''multinic.io/node-name'' = n" "\<not> EqualFold (TrimSpace (label (job_Labels job) ''multinic.io/action'')) ''cleanup''"
    and d: "0 < job_Succeeded job" "stateOf u \<noteq> ''Configured''"
    and m: "summaryFailures c (getJobTerminationMessage c ns (job_Name job) (cs_world st)) \<in> {None, Some []}"
  shows "\<exists>v. k_getCR K ns n (cs_world (processJob c ns job st)) = Inr v \<and> same_spec u v \<and> stateOf v = ''Configured'' \<and>
    nested v [''status'', ''observedGeneration''] = nested u [''status'', ''observedGeneration'']"
proof -
  have act: "label (job_Labels job) ''multinic.io/action'' \<noteq> ''cleanup''" using l(2) not_cleanup by blast
  let ?msg = "getJobTerminationMessage c ns (job_Name job) (cs_world st)"
  have "processJob c ns job st = scheduleJobDeletion c ns (job_Name job) (fullSuccess c u ?msg st)"
    using l g n d c m act by (auto simp: processJob_def jobSucceeded_def Let_def split: option.splits list.splits)
  moreover let ?s = "[(''state'', JString ''Configured''), (''conditions'', condition ''Ready'' ''True'' ''JobSucceeded''),
     (''interfaceStatuses'', JArray (successStatuses c u ?msg st)), (''lastUpdated'', JString (now c st))]"
  obtain v where "k_getCR K ns n (cs_world (snd (updateCRStatus c u ?s st))) = Inr v" "same_spec u v"
    and k: "\<forall>k. nested v [''status'', k] = (case map_of (rev ?s) k of None \<Rightarrow> nested u [''status'', k] | Some x \<Rightarrow> Some x)"
    using updateCRStatus_written [OF c g] by blast
  moreover have "nested v [''status'', ''state''] = Some (JString ''Configured'')"
    "nested v [''status'', ''observedGeneration''] = nested u [''status'', ''observedGeneration'']"
    unfolding k [rule_format] by simp_all
  ultimately show ?thesis using scheduled_deletion_keeps_CR [OF c] by (auto simp: stateOf_nested fullSuccess_def)
qed

lemma failures_recorded:
  assumes c: "c_api c = K" and g: "k_getCR K ns n (cs_world st) = Inr u" and n: "n \<noteq> []"
    and l: "label (job_Labels job) ''multinic.io/node-name'' = n" "\<not> EqualFold (TrimSpace (label (job_Labels job) ''multinic.io/action'')) ''cleanup''"
    and d: "0 < job_Succeeded job \<and> stateOf u \<noteq> ''Configured'' \<or> job_Succeeded job \<le> 0 \<and> 0 < job_Failed job \<and> stateOf u \<noteq> ''Failed''"
    and m: "TrimSpace (getJobTerminationMessage c ns (job_Name job) (cs_world st)) \<noteq> []"
      "summaryFailures c (getJobTerminationMessage c ns (job_Name job) (cs_world st)) = Some fs" "fs \<noteq> []"
  shows "\<exists>v fr ok. k_getCR K ns n (cs_world (processJob c ns job st)) = Inr v \<and> same_spec u v \<and> stateOf v = ''Failed'' \<and>
    nested v [''status'', ''interfaceStatuses''] = Some (JArray (outcome_statuses (now c st) fr ok fs (interfaces u)))"
proof -
  have act: "label (job_Labels job) ''multinic.io/action'' \<noteq> ''cleanup''" using l(2) not_cleanup by blast
  let ?msg = "getJobTerminationMessage c ns (job_Name job) (cs_world st)"
  obtain s fr ok where p: "processJob c ns job st = scheduleJobDeletion c ns (job_Name job) (snd (updateCRStatus c u s st))"
    and s: "map_of (rev s) ''state'' = Some (JString ''Failed'')"
      "map_of (rev s) ''interfaceStatuses'' = Some (JArray (outcome_statuses (now c st) fr ok fs (interfaces u)))"
  proof (cases "0 < job_Succeeded job")
    case True
    have "processJob c ns job st = scheduleJobDeletion c ns (job_Name job) (partialFailure c u fs st)"
      using True l g n d c m act by (auto simp: processJob_def jobSucceeded_def Let_def split: option.splits list.splits)
    then show ?thesis unfolding partialFailure_def by (rule that [of _ "''JobFailedPartial''" "''JobSucceeded''"]) simp_all
  next
    case False
    obtain reason where r: "failureStatuses c u ?msg st = (reason, outcome_statuses (now c st) ''JobFailed'' ''JobPartialSuccess'' fs (interfaces u))"
    proof -
      obtain f fs' where "fs = f # fs'" using m(3) by (cases fs) auto
      moreover have "buildInterfaceStatuses t u s r = outcome_statuses t' fr ok gs (interfaces u)" if "interfaces u = []" for t s r t' fr ok gs
        using that by (simp add: buildInterfaceStatuses_def outcome_statuses_def)
      ultimately have "\<exists>reason. failureStatuses c u ?msg st = (reason, outcome_statuses (now c st) ''JobFailed'' ''JobPartialSuccess'' fs (interfaces u))"
        using m(1,2) by (cases "interfaces u = []") (simp_all add: failureStatuses_def)
      then show thesis using that by blast
    qed
    have "processJob c ns job st = jobFailed c ns job u st"
      using False l g n d c act by (simp add: processJob_def Let_def)
    then have "processJob c ns job st = scheduleJobDeletion c ns (job_Name job) (snd (updateCRStatus c u
        [(''state'', JString ''Failed''), (''conditions'', condition ''Ready'' ''False'' reason), (''lastUpdated'', JString (now c st)),
         (''interfaceStatuses'', JArray (outcome_statuses (now c st) ''JobFailed'' ''JobPartialSuccess'' fs (interfaces u)))] st))"
      by (simp add: jobFailed_def r)
    then show ?thesis by (rule that [of _ "''JobFailed''" "''JobPartialSuccess''"]) simp_all
  qed
  obtain v where "k_getCR K ns n (cs_world (snd (updateCRStatus c u s st))) = Inr v" "same_spec u v"
    and k: "\<forall>k. nested v [''status'', k] = (case map_of (rev s) k of None \<Rightarrow> nested u [''status'', k] | Some x \<Rightarrow> Some x)"
    using updateCRStatus_written [OF c g] by blast
  moreover have "nested v [''status'', ''state''] = Some (JString ''Failed'')"
    "nested v [''status'', ''interfaceStatuses''] = Some (JArray (outcome_statuses (now c st) fr ok fs (interfaces u)))"
    unfolding k [rule_format] s by simp_all
  ultimately show ?thesis using scheduled_deletion_keeps_CR [OF c] p by (auto simp: stateOf_nested)
qed

lemma agentJob_labels:
  "label (job_Labels ((agentJob c ns img name node [])\<lparr>job_Succeeded := k\<rparr>)) ''multinic.io/node-name'' = node"
  "label (job_Labels ((agentJob c ns img name node [])\<lparr>job_Succeeded := k\<rparr>)) ''multinic.io/action'' = ''apply''"
  by (simp_all add: agentJob_def BuildAgentJob_def Let_def label_def TrimSpace_def Trim_def)

lemma processJob_inert:
  assumes c: "c_api c = K" and i: "inert_job n job"
  shows "k_getCR K ns n (cs_world (processJob c ns job st)) = k_getCR K ns n (cs_world st)"
proof -
  let ?m = "label (job_Labels job) ''multinic.io/node-name''"
  note d = scheduled_deletion_keeps_CR [OF c]
  show ?thesis
  proof (cases "k_getCR K ns ?m (cs_world st)")
    case (Inl e)
    then show ?thesis using c d by (simp add: processJob_def Let_def)
  next
    case (Inr u)
    show ?thesis
    proof (cases "?m = n")
      case True
      then show ?thesis using i Inr c by (auto simp: processJob_def Let_def inert_job_def)
    next
      case False
      have o: "k_getCR K ns n (cs_world (snd (updateCRStatus c u s st))) = k_getCR K ns n (cs_world st)" for s
        by (rule updateCRStatus_other [OF c Inr]) (use False in simp)
      have "k_getCR K ns n (cs_world (jobSucceeded c ns job u st)) = k_getCR K ns n (cs_world st)"
        by (simp add: jobSucceeded_def Let_def d partialFailure_def fullSuccess_def o split: option.splits list.splits)
      moreover have "k_getCR K ns n (cs_world (jobFailed c ns job u st)) = k_getCR K ns n (cs_world st)"
        by (simp add: jobFailed_def d o split: prod.splits)
      ultimately show ?thesis using Inr c d by (simp add: processJob_def Let_def)
    qed
  qed
qed

lemma processJob_keeps_pods:
  assumes c: "c_api c = K"
  shows "k_listPods K ns' sel (cs_world (processJob c ns job st)) = k_listPods K ns' sel (cs_world st)"
proof -
  have d: "k_listPods K ns' sel (cs_world (scheduleJobDeletion c ns m st)) = k_listPods K ns' sel (cs_world st)" for m st
    using scheduleJobDeletion_removes [OF c, of ns m st] by (simp add: removes_only_def keeps_resources_def)
  have u: "k_listPods K ns' sel (cs_world (snd (updateCRStatus c v s st))) = k_listPods K ns' sel (cs_world st)" for v s
    using updateCRStatus_keeps [OF c, of v s st] by (cases "updateCRStatus c v s st") (simp add: keeps_jobs_def)
  have "k_listPods K ns' sel (cs_world (jobSucceeded c ns job v st)) = k_listPods K ns' sel (cs_world st)" for v
    by (simp add: jobSucceeded_def Let_def d partialFailure_def fullSuccess_def u split: option.splits list.splits)
  moreover have "k_listPods K ns' sel (cs_world (jobFailed c ns job v st)) = k_listPods K ns' sel (cs_world st)" for v
    by (simp add: jobFailed_def d u split: prod.splits)
  ultimately show ?thesis by (simp add: processJob_def Let_def d split: sum.splits)
qed

text \<open>
  The jobs of a list in which one job of the node has succeeded without failures and the others
  do not touch its resource, as often as it is listed.
\<close>

lemma jobs_configure:
  assumes c: "c_api c = K" and n: "n \<noteq> []"
    and l: "label (job_Labels job) ''multinic.io/node-name'' = n" "\<not> EqualFold (TrimSpace (label (job_Labels job) ''multinic.io/action'')) ''cleanup''"
    and s: "0 < job_Succeeded job" and others: "\<forall>j \<in> set jobs. j = job \<or> inert_job n j"
    and m: "summaryFailures c (getJobTerminationMessage c ns (job_Name job) (cs_world st)) \<in> {None, Some []}"
    and g: "k_getCR K ns n (cs_world st) = Inr u" "stateOf u \<noteq> ''Configured'' \<longrightarrow> job \<in> set jobs"
  shows "\<exists>v. k_getCR K ns n (cs_world (fold (processJob c ns) jobs st)) = Inr v \<and> same_spec u v \<and> stateOf v = ''Configured'' \<and>
    nested v [''status'', ''observedGeneration''] = nested u [''status'', ''observedGeneration'']"
  using others m g
proof (induction jobs arbitrary: st u)
  case Nil
  then show ?case using getCR_object [OF Nil.prems(3)] same_spec_refl by simp
next
  case (Cons j jobs)
  let ?st = "processJob c ns j st"
  have m': "summaryFailures c (getJobTerminationMessage c ns (job_Name job) (cs_world ?st)) \<in> {None, Some []}"
    using Cons.prems(2) by (simp add: getJobTerminationMessage_def processJob_keeps_pods [OF c] c)
  show ?case
  proof (cases "j = job \<and> stateOf u \<noteq> ''Configured''")
    case True
    then obtain v where v: "k_getCR K ns n (cs_world ?st) = Inr v" "same_spec u v" "stateOf v = ''Configured''"
      "nested v [''status'', ''observedGeneration''] = nested u [''status'', ''observedGeneration'']"
      using success_configures [OF c Cons.prems(3) n l s _ Cons.prems(2)] by blast
    have o: "\<forall>j \<in> set jobs. j = job \<or> inert_job n j" using Cons.prems(1) by simp
    from Cons.IH [OF o m' v(1)] v show ?thesis using same_spec_trans [OF v(2)] by (simp del: nested.simps) (metis (no_types))
  next
    case False
    have "k_getCR K ns n (cs_world ?st) = Inr u"
    proof (cases "j = job")
      case True
      then have "?st = st" using False l s Cons.prems(3) c n by (simp add: processJob_def Let_def)
      then show ?thesis using Cons.prems(3) by simp
    qed (use processJob_inert [OF c, of n j ns st] Cons.prems(1,3) in auto)
    then show ?thesis using Cons.IH [OF _ m'] Cons.prems(1,4) False by auto
  qed
qed

lemma configured_and_settled:
  assumes c: "c_api c = K" and g: "k_getCR K ns n (cs_world st) = Inr u" and n: "nodeOf u = n" "n \<noteq> []"
    and gen: "GetGeneration u \<noteq> 0" and active: "stateOf u \<notin> {''Configured'', ''Failed''} \<or> specChanged u"
    and node: "k_getNode K n (cs_world st) = Inr node" and r: "Reconcile c ns n st = (None, st1)"
    and cr: "k_getCR K ns n w2 = k_getCR K ns n (cs_world st1)" and k: "0 < k"
    and j: "job = (agentJob c ns (nd_OSImage node) (agentJobName n (GetGeneration u)) n [])\<lparr>job_Succeeded := k\<rparr>"
    and jobs: "k_listJobs K ns [(''app.kubernetes.io/name'', ''multinic-agent'')] w2 = Inr jobs" "job \<in> set jobs"
      "\<forall>j \<in> set jobs. j = job \<or> inert_job n j"
    and m: "summaryFailures c (getJobTerminationMessage c ns (agentJobName n (GetGeneration u)) w2) \<in> {None, Some []}"
  shows "\<exists>v st3. ProcessJobs c ns (st1\<lparr>cs_world := w2\<rparr>) = (None, st3) \<and> k_getCR K ns n (cs_world st3) = Inr v \<and> same_spec u v \<and>
    stateOf v = ''Configured'' \<and> Reconcile c ns n st3 = (None, st3)"
proof -
  obtain node' job' r1 s1 v where "k_getNode K (nodeOf u) (cs_world st) = Inr node'" and s: "job' = agentJob c ns (nd_OSImage node') (agentJobName (nodeOf u) (GetGeneration u)) (nodeOf u) []"
    "updateCRStatus c u (inProgress c u job' st) st = (r1, s1)"
      "ensureJob c ns (nodeOf u) job' s1 = (None, st1)" "keeps_jobs K (cs_world st) (cs_world s1)"
    and v: "k_getCR K ns n (cs_world s1) = Inr v" "k_getCR K ns n (cs_world st1) = Inr v" "same_spec u v"
    by (rule Reconcile_schedules [OF c g r active])
  have w: "nested v [''status'', ''state''] = Some (JString ''InProgress'')"
    "nested v [''status'', ''observedGeneration''] = Some (JInt (GetGeneration u))"
    using updateCRStatus_written [OF c g, of "inProgress c u job' st"] s(2) v(1) by (auto simp: inProgress_def Let_def)
  let ?st = "st1\<lparr>cs_world := w2\<rparr>"
  have g2: "k_getCR K ns n (cs_world ?st) = Inr v" using cr v(2) by simp
  have l: "label (job_Labels job) ''multinic.io/node-name'' = n" unfolding j by (rule agentJob_labels)
  have ap: "\<not> EqualFold (TrimSpace ''apply'') ''cleanup''" by code_simp
  have l': "\<not> EqualFold (TrimSpace (label (job_Labels job) ''multinic.io/action'')) ''cleanup''"
    unfolding j agentJob_labels by (rule ap)
  have d: "0 < job_Succeeded job" using j k by simp
  have m': "summaryFailures c (getJobTerminationMessage c ns (job_Name job) (cs_world ?st)) \<in> {None, Some []}" using m j by simp
  obtain v2 where v2: "k_getCR K ns n (cs_world (fold (processJob c ns) jobs ?st)) = Inr v2" "same_spec v v2"
    "stateOf v2 = ''Configured''" "nested v2 [''status'', ''observedGeneration''] = nested v [''status'', ''observedGeneration'']"
    using jobs_configure [OF c n(2) l l' d jobs(3) m' g2] jobs(2) by blast
  have "GetGeneration v2 = GetGeneration u" using same_spec_reads(3) v(3) v2(2) by simp
  then have "\<not> specChanged v2" using v2(4) w(2) gen unfolding specChanged_nested Let_def by simp
  then have "Reconcile c ns n (fold (processJob c ns) jobs (st1\<lparr>cs_world := w2\<rparr>)) = (None, fold (processJob c ns) jobs (st1\<lparr>cs_world := w2\<rparr>))"
    using v2(1,3) c by (simp add: Reconcile_def)
  moreover have "ProcessJobs c ns (st1\<lparr>cs_world := w2\<rparr>) = (None, fold (processJob c ns) jobs (st1\<lparr>cs_world := w2\<rparr>))"
    using jobs(1) c by (simp add: ProcessJobs_def)
  ultimately show ?thesis using v2 same_spec_trans [OF v(3) v2(2)] by blast
qed

end

end
