(* ===== verification/Reconciliation.thy ===== *)
theory Reconciliation
  imports Controller
begin

text \<open>
  What the controller of \<open>reconciler.go\<close> achieves on a cluster that keeps the contract of
  \<open>Kube_API\<close>: one job for each generation, a settled status after it, an entry for each
  interface; and where a job of an old generation gets in the way.
\<close>

section \<open>A finished job and the others\<close>

context kube_api
begin

lemma status_update_keeps_job: "c_api c = K \<Longrightarrow> k_getJob K ns n (cs_world (snd (updateCRStatus c u s st))) = k_getJob K ns n (cs_world st)"
  using updateCRStatus_keeps [of c u s st] by (cases "updateCRStatus c u s st") (simp add: keeps_jobs_def)

lemma scheduled_deletion_keeps_job:
  "c_api c = K \<Longrightarrow> (ns', m) \<noteq> (ns, n) \<Longrightarrow> k_getJob K ns' m (cs_world (scheduleJobDeletion c ns n st)) = k_getJob K ns' m (cs_world st)"
  using removes_onlyD(1) [OF scheduleJobDeletion_removes [of c ns n st], of ns' m] by auto

lemma processJob_other_jobs:
  assumes "c_api c = K" "(ns', m) \<noteq> (ns, job_Name job)"
  shows "k_getJob K ns' m (cs_world (processJob c ns job st)) = k_getJob K ns' m (cs_world st)"
proof -
  note d = scheduled_deletion_keeps_job [OF assms] and u = status_update_keeps_job [OF assms(1)]
  have "k_getJob K ns' m (cs_world (jobSucceeded c ns job v st)) = k_getJob K ns' m (cs_world st)" for v
    by (simp add: jobSucceeded_def Let_def d partialFailure_def fullSuccess_def u split: option.splits list.splits)
  moreover have "k_getJob K ns' m (cs_world (jobFailed c ns job v st)) = k_getJob K ns' m (cs_world st)" for v
    by (simp add: jobFailed_def d u split: prod.splits)
  ultimately show ?thesis by (simp add: processJob_def Let_def d split: sum.splits)
qed

end

section \<open>A cluster to run on\<close>

definition sample_cr :: "int \<Rightarrow> (string \<times> json) list \<Rightarrow> json" where
  "sample_cr gen status = JObject
     [(''metadata'', JObject [(''name'', JString ''n1''), (''namespace'', JString ''ns''), (''generation'', JInt gen),
        (''labels'', JObject [(''multinic.io/instance-id'', JString ''AB-1'')])]),
      (''spec'', JObject [(''nodeName'', JString ''n1''), (''interfaces'', JArray
        [JObject [(''id'', JInt 1), (''macAddress'', JString ''02:00:00:00:01:01'')],
         JObject [(''id'', JInt 2), (''macAddress'', JString ''02:00:00:00:01:02'')]])]),
      (''status'', JObject status)]"

definition sample_node :: Node where
  "sample_node = \<lparr>nd_Name = ''n1'', nd_OSImage = ''Ubuntu 22.04'', nd_SystemUUID = ''ab-1'', nd_Addresses = [(''InternalIP'', ''10.0.0.1'')],
     nd_Conditions = [(''Ready'', ''True'')]\<rparr>"

definition sample_cluster :: "json \<Rightarrow> (string \<times> Job) list \<Rightarrow> Pod list \<Rightarrow> Cluster Cluster_state" where
  "sample_cluster u jobs pods = \<lparr>cs_world = \<lparr>cl_crs = [((''ns'', ''n1''), u)], cl_nodes = [(''n1'', sample_node)],
     cl_jobs = map (\<lambda>(n, j). ((''ns'', n), j)) jobs, cl_pods = pods, cl_clock = ''t''\<rparr>, cs_pending = []\<rparr>"

text \<open>Its parser knows the text of one summary, with one failure, and the empty object.\<close>

definition sample_controller :: "int \<Rightarrow> Cluster Controller" where
  "sample_controller delay = \<lparr>c_api = memory_api, c_AgentImage = ''agent'', c_ImagePullPolicy = ''IfNotPresent'', c_ServiceAccount = ''sa'',
     c_NodeCRNamespace = ''ns'', c_JobTTLSeconds = Some 600, c_JobDeleteDelaySeconds = delay,
     c_json = (\<lambda>s. if s = ''summary'' then Some (JObject [(''failures'', JArray [JObject [(''id'', JInt 2), (''reason'', JString ''busy'')]])])
       else if s = ''{}'' then Some (JObject []) else None),
     c_digest = (\<lambda>v. ''digest'')\<rparr>"

definition sample_job :: "int \<Rightarrow> Job" where
  "sample_job gen = agentJob (sample_controller 0) ''ns'' ''Ubuntu 22.04'' (agentJobName ''n1'' gen) ''n1'' []"

definition sample_pod :: "string \<Rightarrow> string \<Rightarrow> Pod" where
  "sample_pod job msg = \<lparr>pod_Namespace = ''ns'', pod_Labels = [(''app.kubernetes.io/name'', ''multinic-agent''), (''job-name'', job)],
     pod_Containers = [Some \<lparr>tm_FinishedAt = 1, tm_Message = msg, tm_ExitCode = 1\<rparr>]\<rparr>"

text \<open>Evaluation on these objects.\<close>

lemma sample_api [simp]: "c_api (sample_controller d) = memory_api"
  by (simp add: sample_controller_def)

lemma sample_reads [simp]:
  "is_object (sample_cr gen s)" "GetName (sample_cr gen s) = ''n1''" "GetNamespace (sample_cr gen s) = ''ns''" "GetGeneration (sample_cr gen s) = gen"
  "nodeOf (sample_cr gen s) = ''n1''" "instanceID (sample_cr gen s) = ''AB-1''"
  "nested (sample_cr gen s) [''status'', k] = map_of s k"
  by (auto simp: sample_cr_def GetName_def GetNamespace_def GetGeneration_def nodeOf_def instanceID_def nestedString_def NestedString_def
    NestedInt64_def GetLabel_def split: option.splits)

lemma sample_getCR [simp]: "mem_getCR ''ns'' ''n1'' (cs_world (sample_cluster (sample_cr gen s) jobs pods)) = Inr (sample_cr gen s)"
  by (simp add: sample_cluster_def mem_getCR_def)

lemma sample_getNode [simp]: "or_not_found (map_of (cl_nodes (cs_world (sample_cluster u jobs pods))) ''n1'') = Inr sample_node"
  by (simp add: sample_cluster_def or_not_found_def)

lemma same_uuid: "normalizeUUID ''AB-1'' = normalizeUUID (nd_SystemUUID sample_node)"
  by code_simp

lemma job_names: "agentJobName ''n1'' 1 = ''multinic-agent-n1-g1''" "agentJobName ''n1'' 2 = ''multinic-agent-n1-g2''"
  by code_simp+

lemma sample_job_simps [simp]:
  "job_Name (sample_job gen) = agentJobName ''n1'' gen" "job_Succeeded (sample_job gen) = 0" "job_Failed (sample_job gen) = 0"
  "job_Labels (sample_job gen) = [(''app.kubernetes.io/name'', ''multinic-agent''), (''app.kubernetes.io/managed-by'', ''multinic-controller''),
     (''multinic.io/node-name'', ''n1''), (''multinic.io/action'', ''apply'')]"
  by (simp_all add: sample_job_def agentJob_def BuildAgentJob_def Let_def TrimSpace_def Trim_def)

text \<open>On the cluster in memory only a name that is taken makes the creation of a job fail.\<close>

lemma memory_ensureJob_ok: "c_api c = memory_api \<Longrightarrow> fst (ensureJob c ns node job st) = None"
  by (auto simp: ensureJob_def onCluster_def mem_createJob_def split: sum.splits option.splits)

lemma memory_Reconcile_ok:
  assumes "c_api c = memory_api" "mem_getCR ns n (cs_world st) = Inr u" "k_getNode memory_api (nodeOf u) (cs_world st) = Inr node"
    "normalizeUUID (instanceID u) = normalizeUUID (nd_SystemUUID node)"
  shows "Reconcile c ns n st = (None, snd (Reconcile c ns n st))"
  using assms memory_ensureJob_ok [OF assms(1)] unfolding Reconcile_def by (simp add: Let_def surjective_pairing [symmetric] prod_eq_iff)

section \<open>Properties\<close>

text \<open>
  C11: reconciling leaves a settled resource alone and gives a due one exactly one job for its
  generation. When \<open>Reconcile\<close> returns no error: a resource that is Configured or Failed and
  whose generation has been observed is settled, and nothing at all has changed. Any other
  resource is due, and there is then a job of the name of the node and the generation, the one
  that was there or the one built for the node's operating system; no other job has changed,
  except that jobs of the same node with another name may be gone; the specification of the
  resource is as before; and to reconcile again creates and deletes nothing, whatever happens
  to the status updates.
\<close>

theorem Reconcile_one_job:
  assumes "kube_api (c_api c)" "k_getCR (c_api c) ns n (cs_world st) = Inr u"
    and "Reconcile c ns n st = (None, st')"
  shows "(stateOf u \<in> {''Configured'', ''Failed''} \<and> \<not> specChanged u \<longrightarrow> st' = st) \<and>
    (stateOf u \<notin> {''Configured'', ''Failed''} \<or> specChanged u \<longrightarrow>
    (\<exists>v. k_getCR (c_api c) ns n (cs_world st') = Inr v \<and> same_spec u v) \<and>
    (\<exists>node j. k_getNode (c_api c) (nodeOf u) (cs_world st) = Inr node \<and>
       k_getJob (c_api c) ns (agentJobName (nodeOf u) (GetGeneration u)) (cs_world st') = Inr j \<and>
       (k_getJob (c_api c) ns (agentJobName (nodeOf u) (GetGeneration u)) (cs_world st) = Inr j \<or>
        j = agentJob c ns (nd_OSImage node) (agentJobName (nodeOf u) (GetGeneration u)) (nodeOf u) [])) \<and>
    (\<forall>ns' m. (ns', m) \<noteq> (ns, agentJobName (nodeOf u) (GetGeneration u)) \<longrightarrow>
       k_getJob (c_api c) ns' m (cs_world st') = k_getJob (c_api c) ns' m (cs_world st) \<or>
       ns' = ns \<and> found (k_getJob (c_api c) ns' m (cs_world st')) = None \<and>
       (\<exists>j. k_getJob (c_api c) ns m (cs_world st) = Inr j \<and>
         selected [(''app.kubernetes.io/name'', ''multinic-agent''), (''multinic.io/node-name'', nodeOf u)] (job_Labels j))) \<and>
    keeps_jobs (c_api c) (cs_world st') (cs_world (snd (Reconcile c ns n st'))))"
proof (rule conjI; rule impI)
  assume "stateOf u \<in> {''Configured'', ''Failed''} \<and> \<not> specChanged u"
  then show "st' = st" using assms(2,3) by (auto simp: Reconcile_def)
next
  assume "stateOf u \<notin> {''Configured'', ''Failed''} \<or> specChanged u"
  from kube_api.Reconcile_effect [OF assms(1) refl assms(2,3) this] show "(\<exists>v. k_getCR (c_api c) ns n (cs_world st') = Inr v \<and> same_spec u v) \<and>
    (\<exists>node j. k_getNode (c_api c) (nodeOf u) (cs_world st) = Inr node \<and>
       k_getJob (c_api c) ns (agentJobName (nodeOf u) (GetGeneration u)) (cs_world st') = Inr j \<and>
       (k_getJob (c_api c) ns (agentJobName (nodeOf u) (GetGeneration u)) (cs_world st) = Inr j \<or>
        j = agentJob c ns (nd_OSImage node) (agentJobName (nodeOf u) (GetGeneration u)) (nodeOf u) [])) \<and>
    (\<forall>ns' m. (ns', m) \<noteq> (ns, agentJobName (nodeOf u) (GetGeneration u)) \<longrightarrow>
       k_getJob (c_api c) ns' m (cs_world st') = k_getJob (c_api c) ns' m (cs_world st) \<or>
       ns' = ns \<and> found (k_getJob (c_api c) ns' m (cs_world st')) = None \<and>
       (\<exists>j. k_getJob (c_api c) ns m (cs_world st) = Inr j \<and>
         selected [(''app.kubernetes.io/name'', ''multinic-agent''), (''multinic.io/node-name'', nodeOf u)] (job_Labels j))) \<and>
    keeps_jobs (c_api c) (cs_world st') (cs_world (snd (Reconcile c ns n st')))" .
qed

theorem Reconcile_one_job_witness:
  "keeps_jobs memory_api (cs_world (snd (Reconcile (sample_controller 0) ''ns'' ''n1'' (sample_cluster (sample_cr 2 []) [(agentJobName ''n1'' 1, sample_job 1)] []))))
     (cs_world (snd (Reconcile (sample_controller 0) ''ns'' ''n1''
        (snd (Reconcile (sample_controller 0) ''ns'' ''n1'' (sample_cluster (sample_cr 2 []) [(agentJobName ''n1'' 1, sample_job 1)] []))))))"
proof -
  let ?c = "sample_controller 0" and ?st = "sample_cluster (sample_cr 2 []) [(agentJobName ''n1'' 1, sample_job 1)] []"
  have k: "kube_api (c_api ?c)" using memory.kube_api_axioms by simp
  have g: "k_getCR (c_api ?c) ''ns'' ''n1'' (cs_world ?st) = Inr (sample_cr 2 [])" by simp
  have r: "Reconcile ?c ''ns'' ''n1'' ?st = (None, snd (Reconcile ?c ''ns'' ''n1'' ?st))"
    by (rule memory_Reconcile_ok [where u = "sample_cr 2 []" and node = sample_node]) (simp_all add: same_uuid)
  have s: "stateOf (sample_cr 2 []) \<notin> {''Configured'', ''Failed''} \<or> specChanged (sample_cr 2 [])"
    by (simp add: specChanged_nested del: nested.simps)
  from mp [OF conjunct2 [OF Reconcile_one_job [OF k g r]] s] show ?thesis by simp
qed

text \<open>
  C12: a job without failures settles its resource. When the resource is named after its node and
  due, is reconciled without error, and the job then succeeds with a summary that names no
  failure, the next \<open>ProcessJobs\<close> puts the resource into the state Configured with the
  specification as it was, and reconciling it again does nothing. This is so for any list of
  jobs in which no other job of that node has ended, and on an API server that can store the
  status.
\<close>

theorem successful_job_settles:
  assumes "writable_api (c_api c)" "k_getCR (c_api c) ns n (cs_world st) = Inr u" "nodeOf u = n" "n \<noteq> []" "GetGeneration u \<noteq> 0"
    and "stateOf u \<notin> {''Configured'', ''Failed''} \<or> specChanged u" "k_getNode (c_api c) n (cs_world st) = Inr node"
    and "Reconcile c ns n st = (None, st1)" "k_getCR (c_api c) ns n w2 = k_getCR (c_api c) ns n (cs_world st1)" "0 < k"
    and "job = (agentJob c ns (nd_OSImage node) (agentJobName n (GetGeneration u)) n [])\<lparr>job_Succeeded := k\<rparr>"
    and "k_listJobs (c_api c) ns [(''app.kubernetes.io/name'', ''multinic-agent'')] w2 = Inr jobs" "job \<in> set jobs"
      "\<forall>j \<in> set jobs. j = job \<or> inert_job n j"
    and "summaryFailures c (getJobTerminationMessage c ns (agentJobName n (GetGeneration u)) w2) \<in> {None, Some []}"
  shows "\<exists>v st3. ProcessJobs c ns (st1\<lparr>cs_world := w2\<rparr>) = (None, st3) \<and> k_getCR (c_api c) ns n (cs_world st3) = Inr v \<and> same_spec u v \<and>
    stateOf v = ''Configured'' \<and> Reconcile c ns n st3 = (None, st3)"
  by (rule writable_api.configured_and_settled [OF assms(1) refl assms(2-15)])

theorem successful_job_settles_witness:
  "let st1 = snd (Reconcile (sample_controller 0) ''ns'' ''n1'' (sample_cluster (sample_cr 2 []) [] []));
       job = (sample_job 2)\<lparr>job_Succeeded := 1\<rparr>;
       other = (sample_job 2)\<lparr>job_Name := ''j'', job_Failed := 1, job_Labels := [(''app.kubernetes.io/name'', ''multinic-agent''), (''multinic.io/node-name'', ''n2'')]\<rparr>;
       w2 = (cs_world st1)\<lparr>cl_jobs := [((''ns'', ''j''), other), ((''ns'', agentJobName ''n1'' 2), job)], cl_pods := []\<rparr>
   in \<exists>v st3. ProcessJobs (sample_controller 0) ''ns'' (st1\<lparr>cs_world := w2\<rparr>) = (None, st3) \<and> mem_getCR ''ns'' ''n1'' (cs_world st3) = Inr v \<and>
     stateOf v = ''Configured'' \<and> Reconcile (sample_controller 0) ''ns'' ''n1'' st3 = (None, st3)"
proof -
  let ?c = "sample_controller 0" and ?st = "sample_cluster (sample_cr 2 []) [] []"
  let ?st1 = "snd (Reconcile ?c ''ns'' ''n1'' ?st)" and ?job = "(sample_job 2)\<lparr>job_Succeeded := 1\<rparr>"
  let ?other = "(sample_job 2)\<lparr>job_Name := ''j'', job_Failed := 1,
    job_Labels := [(''app.kubernetes.io/name'', ''multinic-agent''), (''multinic.io/node-name'', ''n2'')]\<rparr>"
  let ?w2 = "(cs_world ?st1)\<lparr>cl_jobs := [((''ns'', ''j''), ?other), ((''ns'', agentJobName ''n1'' 2), ?job)], cl_pods := []\<rparr>"
  have k: "writable_api (c_api ?c)" using memory.writable_api_axioms by simp
  have g: "k_getCR (c_api ?c) ''ns'' ''n1'' (cs_world ?st) = Inr (sample_cr 2 [])" by simp
  have r: "Reconcile ?c ''ns'' ''n1'' ?st = (None, ?st1)"
    by (rule memory_Reconcile_ok [where u = "sample_cr 2 []" and node = sample_node]) (simp_all add: same_uuid)
  have s: "stateOf (sample_cr 2 []) \<notin> {''Configured'', ''Failed''} \<or> specChanged (sample_cr 2 [])"
    by (simp add: specChanged_nested del: nested.simps)
  have cr: "k_getCR (c_api ?c) ''ns'' ''n1'' ?w2 = k_getCR (c_api ?c) ''ns'' ''n1'' (cs_world ?st1)" by (simp add: mem_getCR_def)
  have l: "k_listJobs (c_api ?c) ''ns'' [(''app.kubernetes.io/name'', ''multinic-agent'')] ?w2 = Inr [?other, ?job]"
    by (simp add: mem_listJobs_def selected_def mem_getJob_def job_names)
  have m: "summaryFailures ?c (getJobTerminationMessage ?c ''ns'' (agentJobName ''n1'' (GetGeneration (sample_cr 2 []))) ?w2) \<in> {None, Some []}"
    by (simp add: getJobTerminationMessage_def summaryFailures_def sample_controller_def)
  have j: "?job = (agentJob ?c ''ns'' (nd_OSImage sample_node) (agentJobName ''n1'' (GetGeneration (sample_cr 2 []))) ''n1'' [])\<lparr>job_Succeeded := 1\<rparr>"
    by (simp add: sample_job_def sample_node_def)
  have n: "k_getNode (c_api ?c) ''n1'' (cs_world ?st) = Inr sample_node" by simp
  have i: "\<forall>x \<in> set [?other, ?job]. x = ?job \<or> inert_job ''n1'' x" by (simp add: inert_job_def label_def)
  from successful_job_settles [OF k g _ _ _ s n r cr _ j l _ i m] show ?thesis unfolding Let_def by fastforce
qed

text \<open>
  C13: the outcome of a job is recorded interface by interface. Take a job of a node that has
  ended, whose summary names failures, on an API server that can store the status. When the
  resource is already in the state the counters of the job stand for, Configured for a job that
  succeeded and Failed for one that did not, processing the job changes nothing. Otherwise the resource ends in the
  state Failed, whether the job counts as
  succeeded or as failed, with one entry for each interface of its specification, in order and
  under its name, which says Failed exactly when some failure names the interface by its
  identifier or by its address.
\<close>

theorem job_outcome_recorded:
  assumes "writable_api (c_api c)" "k_getCR (c_api c) ns n (cs_world st) = Inr u" "n \<noteq> []"
    and "label (job_Labels job) ''multinic.io/node-name'' = n"
    and "\<not> EqualFold (TrimSpace (label (job_Labels job) ''multinic.io/action'')) ''cleanup''"
    and "0 < job_Succeeded job \<or> 0 < job_Failed job"
    and "TrimSpace (getJobTerminationMessage c ns (job_Name job) (cs_world st)) \<noteq> []"
    and "summaryFailures c (getJobTerminationMessage c ns (job_Name job) (cs_world st)) = Some fs" "fs \<noteq> []"
  shows "if stateOf u = (if 0 < job_Succeeded job then ''Configured'' else ''Failed'') then processJob c ns job st = st
    else \<exists>v es. k_getCR (c_api c) ns n (cs_world (processJob c ns job st)) = Inr v \<and> same_spec u v \<and> stateOf v = ''Failed'' \<and>
      nested v [''status'', ''interfaceStatuses''] = Some (JArray es) \<and> length es = length (interfaces u) \<and>
      (\<forall>i < length es. nested (es ! i) [''name''] = Some (JString (multinic i)) \<and>
         nested (es ! i) [''status''] = Some (JString (if \<exists>f\<in>set fs. names_interface f (interfaces u ! i) then ''Failed'' else ''Configured'')))"
proof (cases "stateOf u = (if 0 < job_Succeeded job then ''Configured'' else ''Failed'')")
  case True
  then have "processJob c ns job st = st" using assms(2-5) by (auto simp: processJob_def Let_def)
  then show ?thesis using True by simp
next
  case False
  then have due: "0 < job_Succeeded job \<and> stateOf u \<noteq> ''Configured'' \<or> job_Succeeded job \<le> 0 \<and> 0 < job_Failed job \<and> stateOf u \<noteq> ''Failed''"
    using assms(6) by (auto split: if_splits)
  then obtain v fr ok where v: "k_getCR (c_api c) ns n (cs_world (processJob c ns job st)) = Inr v" "same_spec u v" "stateOf v = ''Failed''"
    "nested v [''status'', ''interfaceStatuses''] = Some (JArray (outcome_statuses (now c st) fr ok fs (interfaces u)))"
    using writable_api.failures_recorded [OF assms(1) refl assms(2-5) due assms(7-9)] by blast
  have "\<exists>v es. k_getCR (c_api c) ns n (cs_world (processJob c ns job st)) = Inr v \<and> same_spec u v \<and> stateOf v = ''Failed'' \<and>
      nested v [''status'', ''interfaceStatuses''] = Some (JArray es) \<and> length es = length (interfaces u) \<and>
      (\<forall>i < length es. nested (es ! i) [''name''] = Some (JString (multinic i)) \<and>
         nested (es ! i) [''status''] = Some (JString (if \<exists>f\<in>set fs. names_interface f (interfaces u ! i) then ''Failed'' else ''Configured'')))"
    by (rule exI [of _ v], rule exI [of _ "outcome_statuses (now c st) fr ok fs (interfaces u)"])
      (use v outcome_entry in \<open>simp del: nested.simps\<close>)
  then show ?thesis using False by (simp del: nested.simps)
qed

theorem job_outcome_recorded_witness:
  "\<exists>v es. mem_getCR ''ns'' ''n1'' (cs_world (processJob (sample_controller 0) ''ns'' ((sample_job 2)\<lparr>job_Failed := 1\<rparr>)
       (sample_cluster (sample_cr 2 [(''state'', JString ''InProgress'')]) [] [sample_pod (agentJobName ''n1'' 2) ''summary'']))) = Inr v \<and>
     stateOf v = ''Failed'' \<and> nested v [''status'', ''interfaceStatuses''] = Some (JArray es) \<and> length es = 2 \<and>
     nested (es ! 0) [''status''] = Some (JString ''Configured'') \<and> nested (es ! 1) [''status''] = Some (JString ''Failed'')"
proof -
  let ?c = "sample_controller 0" and ?u = "sample_cr 2 [(''state'', JString ''InProgress'')]" and ?job = "(sample_job 2)\<lparr>job_Failed := 1\<rparr>"
  let ?st = "sample_cluster ?u [] [sample_pod (agentJobName ''n1'' 2) ''summary'']"
  let ?f = "\<lparr>jf_ID = 2, jf_MAC = [], jf_Name = [], jf_ErrorType = [], jf_Reason = ''busy''\<rparr>"
  have k: "writable_api (c_api ?c)" using memory.writable_api_axioms by simp
  have ap: "\<not> EqualFold (TrimSpace ''apply'') ''cleanup''" by code_simp
  have msg: "getJobTerminationMessage ?c ''ns'' (job_Name ?job) (cs_world ?st) = ''summary''"
    by (simp add: getJobTerminationMessage_def sample_cluster_def sample_pod_def selected_def)
  have sum: "summaryFailures ?c ''summary'' = Some [?f]"
    by (simp add: summaryFailures_def sample_controller_def decodeFailure_def EqualFold_def ToLower_def to_lower_char_def is_upper_def)
  have i: "interfaces ?u = [JObject [(''id'', JInt 1), (''macAddress'', JString ''02:00:00:00:01:01'')],
      JObject [(''id'', JInt 2), (''macAddress'', JString ''02:00:00:00:01:02'')]]"
    by (simp add: interfaces_def NestedSlice_def sample_cr_def)
  have b: "\<not> names_interface ?f (interfaces ?u ! 0)" "names_interface ?f (interfaces ?u ! 1)"
    unfolding i by (simp_all add: names_interface_def getIntFromMap_def TrimSpace_def Trim_def)
  have g: "k_getCR (c_api ?c) ''ns'' ''n1'' (cs_world ?st) = Inr ?u" by simp
  have st: "stateOf ?u \<noteq> (if 0 < job_Succeeded ?job then ''Configured'' else ''Failed'')" by (simp add: stateOf_nested del: nested.simps)
  have "\<exists>v es. k_getCR (c_api ?c) ''ns'' ''n1'' (cs_world (processJob ?c ''ns'' ?job ?st)) = Inr v \<and> same_spec ?u v \<and> stateOf v = ''Failed'' \<and>
    nested v [''status'', ''interfaceStatuses''] = Some (JArray es) \<and> length es = length (interfaces ?u) \<and>
    (\<forall>i < length es. nested (es ! i) [''name''] = Some (JString (multinic i)) \<and>
       nested (es ! i) [''status''] = Some (JString (if \<exists>f\<in>set [?f]. names_interface f (interfaces ?u ! i) then ''Failed'' else ''Configured'')))"
    using job_outcome_recorded [OF k g _ _ _ _ _ _ , of ?job "[?f]"] msg sum ap st
    by (simp add: label_def TrimSpace_def Trim_def is_space_def del: nested.simps)
  then show ?thesis using b by (force simp: i simp del: nested.simps)
qed

text \<open>
  The job of an old generation decides the fate of a new one. With a grace period before
  deletion the finished job of generation 1 is still listed while generation 2 is in progress;
  \<open>ProcessJobs\<close> then marks the resource Configured although the job of generation 2 is still
  running, and reconciling does not look at it again.
\<close>

theorem stale_job_decides:
  "\<exists>st' v. ProcessJobs (sample_controller 60) ''ns'' (sample_cluster (sample_cr 2 [(''state'', JString ''InProgress''), (''observedGeneration'', JInt 2)])
       [(agentJobName ''n1'' 1, (sample_job 1)\<lparr>job_Succeeded := 1\<rparr>), (agentJobName ''n1'' 2, sample_job 2)] []) = (None, st') \<and>
     mem_getJob ''ns'' (agentJobName ''n1'' 2) (cs_world st') = Inr (sample_job 2) \<and> job_Succeeded (sample_job 2) = 0 \<and>
     mem_getCR ''ns'' ''n1'' (cs_world st') = Inr v \<and> stateOf v = ''Configured'' \<and>
     Reconcile (sample_controller 60) ''ns'' ''n1'' st' = (None, st')"
proof -
  let ?c = "sample_controller 60" and ?u = "sample_cr 2 [(''state'', JString ''InProgress''), (''observedGeneration'', JInt 2)]"
  let ?old = "(sample_job 1)\<lparr>job_Succeeded := 1\<rparr>"
  let ?st = "sample_cluster ?u [(agentJobName ''n1'' 1, ?old), (agentJobName ''n1'' 2, sample_job 2)] []"
  let ?st' = "processJob ?c ''ns'' ?old ?st"
  have l: "mem_listJobs ''ns'' [(''app.kubernetes.io/name'', ''multinic-agent'')] (cs_world ?st) = Inr [?old, sample_job 2]"
    by (simp add: mem_listJobs_def sample_cluster_def selected_def mem_getJob_def job_names)
  have running: "processJob ?c ''ns'' (sample_job 2) st = st" for st
    by (simp add: processJob_def Let_def split: sum.splits)
  have p: "ProcessJobs ?c ''ns'' ?st = (None, ?st')" using l by (simp add: ProcessJobs_def running)
  have ap: "\<not> EqualFold (TrimSpace ''apply'') ''cleanup''" by code_simp
  have m: "summaryFailures ?c (getJobTerminationMessage ?c ''ns'' (job_Name ?old) (cs_world ?st)) \<in> {None, Some []}"
    by (simp add: getJobTerminationMessage_def sample_cluster_def summaryFailures_def sample_controller_def)
  obtain v where v: "mem_getCR ''ns'' ''n1'' (cs_world ?st') = Inr v" "same_spec ?u v" "stateOf v = ''Configured''"
    "nested v [''status'', ''observedGeneration''] = nested ?u [''status'', ''observedGeneration'']"
    using memory.success_configures [of ?c "''ns''" "''n1''" ?st ?u ?old] m ap
    by (auto simp: label_def stateOf_nested simp del: nested.simps)
  have "\<not> specChanged v" using v(2,4) by (simp add: specChanged_nested same_spec_def del: nested.simps)
  then have "Reconcile ?c ''ns'' ''n1'' ?st' = (None, ?st')" using v by (simp add: Reconcile_def)
  moreover have "mem_getJob ''ns'' (agentJobName ''n1'' 2) (cs_world ?st') = Inr (sample_job 2)"
    using memory.processJob_other_jobs [of ?c "''ns''" "agentJobName ''n1'' 2" "''ns''" ?old ?st]
    by (simp add: job_names sample_cluster_def mem_getJob_def)
  ultimately show ?thesis using p v by auto
qed

end
