(* ===== verification/Agent.thy ===== *)
theory Agent
  imports Repository Polling Health Config Reconciliation
begin

text \<open>
  \<open>cmd/agent/main.go\<close>: the agent as a job that runs once and as a service that polls. Its state is
  the world, the reservations of the naming service, the health service, and the text of the
  container's termination log. The encoder of JSON is a parameter. The HTTP server, the signals
  and the metrics are left out; a write to the termination log does not fail.
\<close>

section \<open>Data\<close>

record 'w Application =
  ap_config :: Config
  ap_configure :: "'w ConfigureNetworkUseCase"
  ap_delete :: "'w DeleteNetworkUseCase"
  ap_detect :: "'w \<Rightarrow> (go_error, OSType) result"
  ap_env :: environ
  ap_hostname :: "(go_error, string) result"
  ap_marshal :: "json \<Rightarrow> string option"
  ap_now :: "'w \<Rightarrow> string"

record 'w AgentState =
  as_world :: 'w
  as_naming :: NamingService
  as_health :: HealthService
  as_termination :: "string option"

section \<open>One cycle\<close>

definition cleanHostnameDomainSuffix :: "string \<Rightarrow> string" where
  "cleanHostnameDomainSuffix h = takeWhile (\<lambda>c. c \<noteq> CHR ''.'') h"

definition resolveNodeName :: "environ \<Rightarrow> (go_error, string) result \<Rightarrow> (go_error, string) result" where
  "resolveNodeName env hostname =
     (if TrimSpace (env ''NODE_NAME'') \<noteq> [] then Inr (env ''NODE_NAME'')
      else if TrimSpace (env ''MY_NODE_NAME'') \<noteq> [] then Inr (env ''MY_NODE_NAME'')
      else rbind hostname (\<lambda>hn. Inr (cleanHostnameDomainSuffix hn)))"

text \<open>A slice that no element was appended to is nil, and encoded as null.\<close>

definition json_slice :: "('a \<Rightarrow> json) \<Rightarrow> 'a list \<Rightarrow> json" where
  "json_slice enc xs = (if xs = [] then JNull else JArray (map enc xs))"

definition failure_json :: "InterfaceFailure \<Rightarrow> json" where
  "failure_json f = JObject [(''id'', JInt (fl_ID f)), (''mac'', JString (fl_MAC f)), (''name'', JString (fl_Name f)),
     (''errorType'', JString (fl_ErrorType f)), (''reason'', JString (fl_Reason f))]"

definition result_json :: "InterfaceResult \<Rightarrow> json" where
  "result_json r = JObject [(''id'', JInt (rs_ID r)), (''mac'', JString (rs_MAC r)), (''name'', JString (rs_Name r)),
     (''status'', JString (rs_Status r))]"

definition summary :: "string \<Rightarrow> ConfigureNetworkOutput \<Rightarrow> DeleteNetworkOutput \<Rightarrow> string \<Rightarrow> json" where
  "summary node out deleted timestamp = JObject
     [(''delete_errors'', JInt (int (length (Errors deleted)))), (''deleted_total'', JInt (TotalDeleted deleted)),
      (''failed'', JInt (FailedCount out)), (''failures'', json_slice failure_json (Failures out)), (''node'', JString node),
      (''processed'', JInt (ProcessedCount out)), (''results'', json_slice result_json (Results out)),
      (''timestamp'', JString timestamp), (''total'', JInt (TotalCount out))]"

definition completeOnPartial :: "environ \<Rightarrow> bool" where
  "completeOnPartial env \<longleftrightarrow> EqualFold (TrimSpace (env ''JOB_COMPLETE_ON_PARTIAL_FAILURE'')) ''true'' \<or> env ''JOB_COMPLETE_ON_PARTIAL_FAILURE'' = []"

definition of_total :: "ConfigureNetworkOutput \<Rightarrow> string" where
  "of_total out = Itoa (FailedCount out) @ ''/'' @ Itoa (TotalCount out) @ '' interfaces''"

definition resultErr :: "environ \<Rightarrow> ConfigureNetworkOutput \<Rightarrow> go_error option" where
  "resultErr env out =
     (if 0 < FailedCount out then
        (if ProcessedCount out = 0 then Some (PlainError (''network configuration failed for '' @ of_total out))
         else if 0 < ProcessedCount out \<and> 0 < FailedCount out then
           (if \<not> completeOnPartial env then Some (PlainError (''network configuration partially failed: '' @ of_total out)) else None)
         else Some (PlainError (''network configuration failed for '' @ of_total out)))
      else None)"

definition countInterfaces :: "ConfigureNetworkOutput \<Rightarrow> HealthService \<Rightarrow> HealthService" where
  "countInterfaces out h = (IncrementFailedConfigs ^^ nat (FailedCount out)) ((IncrementProcessedVMs ^^ nat (ProcessedCount out)) h)"

definition terminationLog :: "'w Application \<Rightarrow> string \<Rightarrow> ConfigureNetworkOutput \<Rightarrow> DeleteNetworkOutput \<Rightarrow> 'w \<Rightarrow> string option \<Rightarrow> string option" where
  "terminationLog a node out deleted w old =
     (if 0 < ProcessedCount out \<or> 0 < FailedCount out \<or> 0 < TotalDeleted deleted then
        (case ap_marshal a (summary node out deleted (ap_now a w)) of Some b \<Rightarrow> Some b | None \<Rightarrow> old)
      else old)"

definition deleteOrphans :: "'w Application \<Rightarrow> string \<Rightarrow> 'w \<Rightarrow> DeleteNetworkOutput \<times> 'w" where
  "deleteOrphans a node w =
     (case Delete_Execute (ap_delete a) \<lparr>di_NodeName = node, di_FullCleanup = False\<rparr> w of
        (Inl err, w') \<Rightarrow> (\<lparr>DeletedInterfaces = [], TotalDeleted = 0, Errors = [err]\<rparr>, w')
      | (Inr out, w') \<Rightarrow> (out, w'))"

definition processNetworkConfigurations :: "'w Application \<Rightarrow> 'w AgentState \<Rightarrow> go_error option \<times> 'w AgentState" where
  "processNetworkConfigurations a st =
     (case resolveNodeName (ap_env a) (ap_hostname a) of
        Inl err \<Rightarrow> (Some err, st)
      | Inr node \<Rightarrow>
          (case deleteOrphans a node (as_world st) of (deleted, w1) \<Rightarrow>
             (case Execute (ap_configure a) node w1 (as_naming st) of
                (Inl err, w2, ns) \<Rightarrow> (Some err, st\<lparr>as_world := w2, as_naming := ns\<rparr>)
              | (Inr out, w2, ns) \<Rightarrow> (resultErr (ap_env a) out,
                  st\<lparr>as_world := w2, as_naming := ns, as_health := countInterfaces out (as_health st),
                    as_termination := terminationLog a node out deleted w2 (as_termination st)\<rparr>))))"

section \<open>Running\<close>

definition fixed_NextInterval :: "int \<Rightarrow> bool \<Rightarrow> unit \<Rightarrow> int \<times> unit" where
  "fixed_NextInterval interval success u = (interval, u)"

text \<open>The task of the service: a cycle whose outcome is recorded in the health service.\<close>

definition service_task :: "'w Application \<Rightarrow> 'w AgentState \<Rightarrow> go_error option \<times> 'w AgentState" where
  "service_task a st =
     (case processNetworkConfigurations a st of
        (Some err, st') \<Rightarrow> (Some err, st'\<lparr>as_health := UpdateDBHealth False (Some err) (as_health st')\<rparr>)
      | (None, st') \<Rightarrow> (None, st'\<lparr>as_health := UpdateDBHealth True None (as_health st')\<rparr>))"

text \<open>
  The cycles until the context is cancelled, each after a change of the world that is not the
  agent's. The loop ends early when the ticker is given an interval that is not positive.
\<close>

fun serving :: "(bool \<Rightarrow> 's \<Rightarrow> int \<times> 's) \<Rightarrow> 'w Application \<Rightarrow> ('w \<Rightarrow> 'w) list \<Rightarrow> 's \<Rightarrow> 'w AgentState \<Rightarrow> int list
    \<Rightarrow> ticks \<times> 'w AgentState" where
  "serving strat a [] s st out = (Stopped out, st)"
| "serving strat a (env # envs) s st out =
     (case service_task a (st\<lparr>as_world := env (as_world st)\<rparr>) of (r, st') \<Rightarrow>
        (case strat (r = None) s of (i, s') \<Rightarrow> if i \<le> 0 then (TickerPanic out, st') else serving strat a envs s' st' (out @ [i])))"

definition serve :: "(bool \<Rightarrow> 's \<Rightarrow> int \<times> 's) \<Rightarrow> 'w Application \<Rightarrow> ('w \<Rightarrow> 'w) list \<Rightarrow> 's \<Rightarrow> 'w AgentState
    \<Rightarrow> ticks \<times> 'w AgentState" where
  "serve strat a envs s st = (case strat True s of (i, s') \<Rightarrow> if i \<le> 0 then (TickerPanic [], st) else serving strat a envs s' st [i])"

datatype run = Exit "go_error option" | Served ticks

definition runJob :: "'w Application \<Rightarrow> 'w AgentState \<Rightarrow> go_error option \<times> 'w AgentState" where
  "runJob a st =
     (if ap_env a ''AGENT_ACTION'' = ''cleanup'' then
        (case Delete_Execute (ap_delete a) \<lparr>di_NodeName = (case ap_hostname a of Inr h \<Rightarrow> h | Inl _ \<Rightarrow> []), di_FullCleanup = False\<rparr> (as_world st) of
           (Inl err, w') \<Rightarrow> (Some err, st\<lparr>as_world := w'\<rparr>)
         | (Inr _, w') \<Rightarrow> (None, st\<lparr>as_world := w'\<rparr>))
      else processNetworkConfigurations a st)"

definition Run :: "int \<Rightarrow> 'w Application \<Rightarrow> ('w \<Rightarrow> 'w) list \<Rightarrow> 'w AgentState \<Rightarrow> run \<times> 'w AgentState" where
  "Run big a envs st =
     (case ap_detect a (as_world st) of
        Inl err \<Rightarrow> (Exit (Some (WrappedError (''failed to detect OS type: '' @ Error err) err)), st)
      | Inr osType \<Rightarrow>
          if ag_RunMode (cf_Agent (ap_config a)) = RunModeJob then (case runJob a st of (r, st') \<Rightarrow> (Exit r, st'))
          else if bo_Enabled (ag_Backoff (cf_Agent (ap_config a))) then
            (case serve (Exponential_NextInterval big) a envs (configured_strategy (ap_config a)) st of (t, st') \<Rightarrow> (Served t, st'))
          else (case serve (fixed_NextInterval (ag_PollInterval (cf_Agent (ap_config a)))) a envs () st of (t, st') \<Rightarrow> (Served t, st')))"

section \<open>Facts\<close>

lemma counted [simp]:
  "hs_dbHealthy (countInterfaces out h) = hs_dbHealthy h"
  "hs_processedVMs (countInterfaces out h) = hs_processedVMs h + int (nat (ProcessedCount out))"
  "hs_failedConfigs (countInterfaces out h) = hs_failedConfigs h + int (nat (FailedCount out))"
proof -
  have p: "(IncrementProcessedVMs ^^ n) h = h\<lparr>hs_processedVMs := hs_processedVMs h + int n\<rparr>" for n and h :: HealthService
    by (induction n) (simp_all add: IncrementProcessedVMs_def)
  have f: "(IncrementFailedConfigs ^^ n) h = h\<lparr>hs_failedConfigs := hs_failedConfigs h + int n\<rparr>" for n and h :: HealthService
    by (induction n) (simp_all add: IncrementFailedConfigs_def)
  show "hs_dbHealthy (countInterfaces out h) = hs_dbHealthy h"
    "hs_processedVMs (countInterfaces out h) = hs_processedVMs h + int (nat (ProcessedCount out))"
    "hs_failedConfigs (countInterfaces out h) = hs_failedConfigs h + int (nat (FailedCount out))"
    by (simp_all add: countInterfaces_def p f)
qed

lemma cycle_health: "hs_dbHealthy (as_health (snd (processNetworkConfigurations a st))) = hs_dbHealthy (as_health st)"
  by (simp add: processNetworkConfigurations_def split: sum.splits prod.splits)

lemma runJob_health: "hs_dbHealthy (as_health (snd (runJob a st))) = hs_dbHealthy (as_health st)"
  by (auto simp: runJob_def cycle_health split: sum.splits prod.splits)

text \<open>The failure the controller reads is the failure the agent wrote.\<close>

definition read_failure :: "InterfaceFailure \<Rightarrow> Failure" where
  "read_failure f = \<lparr>jf_ID = fl_ID f, jf_MAC = fl_MAC f, jf_Name = fl_Name f, jf_ErrorType = fl_ErrorType f, jf_Reason = fl_Reason f\<rparr>"

definition read_result :: "InterfaceResult \<Rightarrow> Result" where
  "read_result r = \<lparr>jr_ID = rs_ID r, jr_MAC = rs_MAC r, jr_Name = rs_Name r, jr_Status = rs_Status r\<rparr>"

definition jf_key :: "Failure \<Rightarrow> int \<times> string" where "jf_key f = (jf_ID f, jf_MAC f)"
definition jr_key :: "Result \<Rightarrow> int \<times> string" where "jr_key r = (jr_ID r, jr_MAC r)"

lemma read_keys: "jf_key (read_failure f) = fl_key f" "jr_key (read_result r) = rs_key r"
  by (simp_all add: jf_key_def jr_key_def read_failure_def read_result_def key_defs)

lemmas fold_defs = EqualFold_def ToLower_def to_lower_char_def is_upper_def

lemma decode_failure_json: "decodeFailure (failure_json f) = Some (read_failure f)"
  by (simp add: failure_json_def decodeFailure_def read_failure_def fold_defs)

lemma decode_result_json: "decodeResult (result_json r) = Some (read_result r)"
  by (simp add: result_json_def decodeResult_def read_result_def fold_defs)

lemma into_list_slice: "(\<And>x. dec (enc x) = Some (rd x)) \<Longrightarrow> into_list dec (json_slice enc xs) [] = Some (map rd xs)"
  by (induction xs) (auto simp: json_slice_def split: if_splits)

lemma decode_summary:
  assumes "c_json c msg = Some (summary node out deleted t)"
  shows "summaryFailures c msg = Some (map read_failure (Failures out))" "summaryResults c msg = Some (map read_result (Results out))"
  using assms into_list_slice [of decodeFailure failure_json read_failure, OF decode_failure_json]
    into_list_slice [of decodeResult result_json read_result, OF decode_result_json]
  by (simp_all add: summaryFailures_def summaryResults_def summary_def fold_defs)

section \<open>The summary of a cycle\<close>

text \<open>
  A cycle of the agent says what it did, and the controller reads the same. Once the node's
  name and the system are known and the node has interfaces, the cycle leaves in the termination
  log the encoding of a summary from which the controller, when it decodes it, takes the failures and results of the
  use case: together they name every interface of the node once. The counters of the health
  service grow by their numbers, and the cycle succeeds exactly when nothing failed, or when
  something succeeded and partial failures are to complete the job.
\<close>

lemma cycle_reports:
  assumes node: "resolveNodeName (ap_env a) (ap_hostname a) = Inr node"
    and os: "uc_detect (ap_configure a) (snd (deleteOrphans a node (as_world st))) = Inr osType"
    and read: "rp_GetAllNodeInterfaces (uc_repository (ap_configure a)) node (snd (deleteOrphans a node (as_world st))) = Inr ifaces"
    and some: "ifaces \<noteq> []"
    and cycle: "processNetworkConfigurations a st = (r, st')"
  shows "\<exists>v fs rs. (\<forall>msg. ap_marshal a v = Some msg \<longrightarrow> as_termination st' = Some msg) \<and>
      (\<forall>(c :: 'k Controller) msg. c_json c msg = Some v \<longrightarrow> summaryFailures c msg = Some fs \<and> summaryResults c msg = Some rs) \<and>
      mset (map jr_key rs) + mset (map jf_key fs) = mset (map job_key ifaces) \<and>
      hs_processedVMs (as_health st') = hs_processedVMs (as_health st) + int (length rs) \<and>
      hs_failedConfigs (as_health st') = hs_failedConfigs (as_health st) + int (length fs) \<and>
      (r = None \<longleftrightarrow> fs = [] \<or> rs \<noteq> [] \<and> completeOnPartial (ap_env a))"
proof -
  obtain deleted w1 where d: "deleteOrphans a node (as_world st) = (deleted, w1)" by fastforce
  obtain out where out: "fst (Execute (ap_configure a) node w1 (as_naming st)) = Inr out" "TotalCount out = int (length ifaces)"
      "ProcessedCount out + FailedCount out = TotalCount out" "ProcessedCount out = int (length (Results out))"
      "FailedCount out = int (length (Failures out))"
      "mset (map rs_key (Results out)) + mset (map fl_key (Failures out)) = mset (map job_key ifaces)"
    using Execute_counts [of "ap_configure a" w1 osType node ifaces "as_naming st"] os read d by auto
  then obtain w2 ns where e: "Execute (ap_configure a) node w1 (as_naming st) = (Inr out, w2, ns)" by (metis prod.collapse)
  have st': "r = resultErr (ap_env a) out" "as_health st' = countInterfaces out (as_health st)"
      "as_termination st' = terminationLog a node out deleted w2 (as_termination st)"
    using cycle by (auto simp: processNetworkConfigurations_def node d e)
  let ?v = "summary node out deleted (ap_now a w2)"
  let ?fs = "map read_failure (Failures out)" and ?rs = "map read_result (Results out)"
  have "0 < ProcessedCount out \<or> 0 < FailedCount out" using out(2-5) some by (cases "Results out = []") auto
  then have "\<forall>msg. ap_marshal a ?v = Some msg \<longrightarrow> as_termination st' = Some msg" by (auto simp: st' terminationLog_def)
  moreover have "\<forall>(c :: 'k Controller) msg. c_json c msg = Some ?v \<longrightarrow> summaryFailures c msg = Some ?fs \<and> summaryResults c msg = Some ?rs"
    using decode_summary by blast
  moreover have "mset (map jr_key ?rs) + mset (map jf_key ?fs) = mset (map job_key ifaces)"
    using out(6) by (simp add: read_keys comp_def)
  moreover have "r = None \<longleftrightarrow> ?fs = [] \<or> ?rs \<noteq> [] \<and> completeOnPartial (ap_env a)"
    using out(4,5) by (auto simp: st' resultErr_def)
  ultimately show ?thesis using out(4,5) by (intro exI [of _ ?v] exI [of _ ?fs] exI [of _ ?rs]) (simp add: st')
qed

definition idle_delete :: "os_state DeleteNetworkUseCase" where
  "idle_delete = \<lparr>du_detect = \<lambda>w. Inl (PlainError ''no system''), du_manager = NetplanAdapter mute_host (\<lambda>y. Inr ''yaml'') DefaultOptions,
     du_repository = sample_repository [], du_host = mute_host, du_decode = \<lambda>s. Inl (PlainError s), du_env = \<lambda>k. []\<rparr>"

definition sample_app :: "Config \<Rightarrow> os_state Application" where
  "sample_app cfg = \<lparr>ap_config = cfg,
     ap_configure = sample_uc mute_host [example_iface 1 ''fa:16:3e:00:00:01'' [250, 22, 62, 0, 0, 1] False],
     ap_delete = idle_delete, ap_detect = \<lambda>w. Inr OSTypeUbuntu, ap_env = \<lambda>k. [], ap_hostname = Inr ''node-1.example.org'',
     ap_marshal = \<lambda>v. Some ''{}'', ap_now = \<lambda>w. []\<rparr>"

definition sample_state :: "int \<Rightarrow> os_state AgentState" where
  "sample_state t = \<lparr>as_world = fresh_os, as_naming = NewInterfaceNamingService mute_host fresh_os, as_health = NewHealthService t,
     as_termination = None\<rparr>"

section \<open>The job and its probes\<close>

text \<open>The environment of the job's container, where it sets nothing else that must be in range.\<close>

definition job_environ :: "JobParams \<Rightarrow> environ \<Rightarrow> bool" where
  "job_environ p env \<longleftrightarrow> list_all (\<lambda>(k, v). case v of Value x \<Rightarrow> env k = x | FieldRef path \<Rightarrow> True) (agentEnv p) \<and>
     env ''MAX_RETRIES'' = [] \<and> env ''NETWORK_ROUTING_TABLE_BASE'' = [] \<and> env ''NETWORK_ROUTE_METRIC'' = []"

lemma port_text: "Itoa i \<noteq> []"
  by (simp add: Itoa_def)

lemma ParseDuration_30s: "ParseDuration ''30s'' = Some (30 * second)"
  by (simp add: ParseDuration_def durationPart_def fraction_def durationUnit_def number_char_def is_digit_def digit_val_def second_def)

text \<open>
  C37: the agent that the controller starts reads what the controller wrote, and its health
  endpoint never passes the probes of its own container. The environment of the job loads: the agent works as
  a job, from the node resource in the namespace given, and listens on the port that the
  liveness and readiness probes ask. In that mode the run exits, whatever it does, and the state
  behind the endpoint, which starts as not connected, answers 503 before and after.
\<close>

theorem job_probe_never_passes:
  assumes env: "job_environ p env" "jp_NodeCRNamespace p \<noteq> []"
    and start: "ap_config a = readConfig parseFloat env" "as_health st = NewHealthService t0"
    and run: "Run big a envs st = (r, st')"
  shows "Load parseFloat env = Inr (ap_config a) \<and>
    ag_RunMode (cf_Agent (ap_config a)) = ''job'' \<and> ag_DataSource (cf_Agent (ap_config a)) = ''nodecr'' \<and>
    ag_NodeCRNamespace (cf_Agent (ap_config a)) = jp_NodeCRNamespace p \<and> ag_PollInterval (cf_Agent (ap_config a)) = 30 * second \<and>
    list_all (\<lambda>ct. list_all (\<lambda>pr. Itoa (pr_port pr) = cf_HealthPort (ap_config a) \<and> pr_path pr = ''/'') [ct_liveness ct, ct_readiness ct])
      (job_containers (BuildAgentJob img p)) \<and>
    (\<exists>res. r = Exit res) \<and>
    (\<forall>h \<in> {as_health st, as_health st'}. fst (ServeHTTP fmt t ''GET'' h) = 503)"
proof -
  note e = env(1) [unfolded job_environ_def agentEnv_def, simplified]
  have load: "Load parseFloat env = Inr (readConfig parseFloat env)"
    using Load_cases [of parseFloat env] e Load_readConfig [of parseFloat env]
    by (auto simp: is_ok_iff getEnv_defs ParseDuration_30s second_def)
  have job: "ag_RunMode (cf_Agent (ap_config a)) = ''job''" using e by (simp add: start readConfig_def getEnv_defs)
  have x: "\<exists>res. r = Exit res" and h: "hs_dbHealthy (as_health st') = hs_dbHealthy (as_health st)"
    using run runJob_health [of a st] by (auto simp: Run_def job split: sum.splits prod.splits)
  have "\<forall>h \<in> {as_health st, as_health st'}. fst (ServeHTTP fmt t ''GET'' h) = 503"
    using h start(2) by (simp add: ServeHTTP_def buildHealthResponse_def determineOverallStatus_def NewHealthService_def Let_def)
  then show ?thesis
    using load job x e env(2)
    by (simp add: start readConfig_def getEnv_defs ParseDuration_30s BuildAgentJob_def Let_def httpGet_def healthPort_def port_text)
qed

definition sample_params :: JobParams where
  "sample_params = \<lparr>jp_Namespace = ''ns'', jp_Name = ''j'', jp_Image = ''i'', jp_PullPolicy = [], jp_ServiceAccountName = [],
     jp_NodeName = ''node-1'', jp_NodeCRNamespace = ''ns'', jp_TTLSecondsAfterDone = None, jp_Action = []\<rparr>"

definition env_of_job :: "JobParams \<Rightarrow> environ" where
  "env_of_job p k = (case map_of (agentEnv p) k of Some (Value v) \<Rightarrow> v | _ \<Rightarrow> [])"

theorem job_probe_never_passes_witness:
  "\<exists>c st'. Load (\<lambda>s. None) (env_of_job sample_params) = Inr c \<and>
     snd (Run max_int64 (sample_app c) [] (sample_state 0)) = st' \<and> fst (ServeHTTP (\<lambda>t. []) 60 ''GET'' (as_health st')) = 503"
proof -
  let ?env = "env_of_job sample_params" and ?c = "readConfig (\<lambda>s. None) (env_of_job sample_params)"
  have env: "job_environ sample_params ?env" by (simp add: job_environ_def env_of_job_def agentEnv_def)
  obtain r st' where run: "Run max_int64 (sample_app ?c) [] (sample_state 0) = (r, st')" by fastforce
  have x: "Load (\<lambda>s. None) ?env = Inr (ap_config (sample_app ?c)) \<and>
      (\<forall>h \<in> {as_health (sample_state 0), as_health st'}. fst (ServeHTTP (\<lambda>t. []) 60 ''GET'' h) = 503)"
    using job_probe_never_passes [OF env _ _ _ run, where parseFloat = "\<lambda>s. None" and ?t0.0 = 0 and fmt = "\<lambda>t. []" and t = 60]
    by (simp add: sample_params_def sample_app_def sample_state_def)
  then have "Load (\<lambda>s. None) ?env = Inr ?c" by (simp add: sample_app_def)
  then show ?thesis using x run by auto
qed

section \<open>Crossed names\<close>

definition crossed_entry :: NodeInterface where
  "crossed_entry = (sample_entry ''multinic2'')\<lparr>nif_ID := 1\<rparr>"

definition spec_iface :: "int \<Rightarrow> string \<Rightarrow> json" where
  "spec_iface i mac = JObject [(''id'', JInt i), (''macAddress'', JString mac)]"

text \<open>
  The agent replaces the identifier of a named entry by the index of its name, and the
  controller attributes a failure by identifier or address. So when the interface with id 1 is
  named multinic2 and it alone fails, the one with id 2 is reported as failed too.
\<close>

theorem crossed_names_blame_both:
  "\<exists>ent. entryEntity ''node-1'' 0 crossed_entry = Inr ent \<and> nif_ID crossed_entry = 1 \<and> ID ent = 2 \<and>
     map (\<lambda>v. nested v [''status'']) (outcome_statuses t fr ok [read_failure (failure ent name err)]
       [spec_iface 1 ''fa:16:3e:00:00:01'', spec_iface 2 ''fa:16:3e:00:00:02'']) = [Some (JString ''Failed''), Some (JString ''Failed'')]"
proof -
  let ?e = "example_iface 2 ''fa:16:3e:00:00:01'' [250, 22, 62, 0, 0, 1] True"
  have t: "InterfacePrefix @ Itoa 2 = ''multinic2''" by code_simp
  have n: "NewInterfaceName ''multinic2'' = Inr \<lparr>name_value = ''multinic2'', name_index = 2\<rparr>" by code_simp
  have "ParseMAC ''fa:16:3e:00:00:01'' = Some [250, 22, 62, 0, 0, 1]" by code_simp
  then have "wf_interface ?e" by (rule wf_example_iface) simp_all
  then have l: "entryEntity ''node-1'' 0 crossed_entry = Inr ?e"
    by (simp add: entryEntity_def entryId_def crossed_entry_def sample_entry_def n NewNetworkInterfaceWithName_ok)
      (simp add: example_iface_def getter_defs t)
  have i: "ID ?e = 2" "MacAddress ?e = ''fa:16:3e:00:00:01''" by (simp_all add: example_iface_def getter_defs)
  have st: "nested (outcome_status t fr ok fs k v) [''status''] = Some (JString ''Failed'')" if "\<exists>f \<in> set fs. names_interface f v" for fs k v
    using outcome_entry [of t fr ok fs k v] that by simp
  have m: "ToLower (TrimSpace ''fa:16:3e:00:00:01'') = ''fa:16:3e:00:00:01''" "ToLower ''fa:16:3e:00:00:01'' = ''fa:16:3e:00:00:01''"
    "TrimSpace ''fa:16:3e:00:00:01'' \<noteq> []" by code_simp+
  have f: "jf_ID (read_failure (failure ?e name err)) = 2" "jf_MAC (read_failure (failure ?e name err)) = ''fa:16:3e:00:00:01''"
    by (simp_all only: read_failure_def failure_def i Failure.simps InterfaceFailure.simps)
  have "names_interface (read_failure (failure ?e name err)) (spec_iface 1 ''fa:16:3e:00:00:01'')"
    "names_interface (read_failure (failure ?e name err)) (spec_iface 2 ''fa:16:3e:00:00:02'')"
    by (simp_all add: names_interface_def spec_iface_def f m Let_def getIntFromMap_def getStringFromMap_def macKey_def)
  then have "map (\<lambda>v. nested v [''status'']) (outcome_statuses t fr ok [read_failure (failure ?e name err)]
       [spec_iface 1 ''fa:16:3e:00:00:01'', spec_iface 2 ''fa:16:3e:00:00:02'']) = [Some (JString ''Failed''), Some (JString ''Failed'')]"
    using st [of "[read_failure (failure ?e name err)]"] by (simp add: outcome_statuses_def numbered_def del: nested.simps)
  then show ?thesis using l i by (intro exI [of _ ?e]) (simp add: crossed_entry_def)
qed

end
