(* ===== verification/Container.thy ===== *)
theory Container
  imports Agent
begin

text \<open>
  \<open>infrastructure/container/container.go\<close>: how the configuration and the platform become the
  services, the repository and the two use cases of the agent, and \<open>main\<close> of
  \<open>cmd/agent/main.go\<close>, which composes them. The platform is a record of what the program is
  started on: the host, the Kubernetes client when one can be built, the MySQL driver, the
  environment, and the encoders of YAML and JSON.
\<close>

section \<open>The platform\<close>

text \<open>
  The calls of the client: the image of a node's system, and the configuration resource of a
  node in a namespace.
\<close>

record 'w KubeClient =
  kc_osImage :: "string \<Rightarrow> 'w \<Rightarrow> (go_error, string option) result"
  kc_nodeConfig :: "string \<Rightarrow> string \<Rightarrow> 'w \<Rightarrow> (go_error, json) result"

text \<open>
  \<open>pf_inCluster\<close> is the client from inside a cluster, \<open>pf_kubeconfig\<close> one from a configuration
  file; \<open>pf_open\<close> opens the database of a source name and pings it.
\<close>

record 'w Platform =
  pf_host :: "'w Host"
  pf_inCluster :: "'w KubeClient option"
  pf_kubeconfig :: "string \<Rightarrow> 'w KubeClient option"
  pf_open :: "string \<Rightarrow> 'w \<Rightarrow> (go_error, 'w SQLServer) result"
  pf_env :: environ
  pf_hostname :: "(go_error, string) result"
  pf_yaml :: "yaml \<Rightarrow> (go_error, string) result"
  pf_unmarshal :: decoder
  pf_decode :: mac_decoder
  pf_marshal :: "json \<Rightarrow> string option"
  pf_rfc3339 :: "'w \<Rightarrow> string"
  pf_now :: "'w \<Rightarrow> int"

section \<open>The container\<close>

record 'w Container =
  cn_config :: Config
  cn_osDetector :: "'w \<Rightarrow> (go_error, OSType) result"
  cn_repository :: "'w Repository"
  cn_healthService :: HealthService
  cn_namingService :: NamingService
  cn_configureNetworkUseCase :: "'w ConfigureNetworkUseCase"
  cn_deleteNetworkUseCase :: "'w DeleteNetworkUseCase"

definition buildDSN :: "Config \<Rightarrow> string" where
  "buildDSN c = (let d = cf_Database c
     in db_User d @ '':'' @ db_Password d @ ''@tcp('' @ db_Host d @ '':'' @ db_Port d @ '')/'' @ db_Database d @ ''?parseTime=true'')"

definition dynamicClient :: "'w Platform \<Rightarrow> 'w KubeClient option" where
  "dynamicClient p =
     (case pf_inCluster p of
        Some d \<Rightarrow> Some d
      | None \<Rightarrow> if pf_env p ''KUBECONFIG'' \<noteq> [] then pf_kubeconfig p (pf_env p ''KUBECONFIG'') else None)"

definition osDetector :: "'w Platform \<Rightarrow> 'w \<Rightarrow> (go_error, OSType) result" where
  "osDetector p w =
     (case dynamicClient p of
        Some d \<Rightarrow> K8s_DetectOS (pf_env p ''NODE_NAME'') (pf_hostname p) (\<lambda>n. kc_osImage d n w)
      | None \<Rightarrow> DetectOS (pf_host p) w)"

definition initializeInfrastructure :: "'w Platform \<Rightarrow> Config \<Rightarrow> 'w \<Rightarrow> (go_error, 'w Repository) result" where
  "initializeInfrastructure p c w =
     (if ag_DataSource (cf_Agent c) = ''nodecr'' then
        (case dynamicClient p of
           None \<Rightarrow> Inl (PlainError ''kubernetes client not available for nodecr data source'')
         | Some d \<Rightarrow>
             (let namespace = ag_NodeCRNamespace (cf_Agent c)
              in Inr (NewNodeCRRepository (GetNodeConfig (kc_nodeConfig d namespace) namespace))))
      else rbind (pf_open p (buildDSN c) w) (\<lambda>db. Inr (NewMySQLRepository db)))"

definition netOpts :: "Config \<Rightarrow> Options" where
  "netOpts c = (let n = cf_Network c
     in \<lparr>EnablePolicyRouting = nw_PolicyRoutingEnabled n, RoutingTableBase = nw_RoutingTableBase n, RouteMetric = nw_RouteMetric n,
         UseNoprefixroute = nw_UseNoPrefixRoute n, SetArpSysctls = nw_SetArpSysctls n, SetLooseRPFilter = nw_SetLooseRPFilter n\<rparr>)"

definition networkFactory :: "'w Platform \<Rightarrow> Config \<Rightarrow> 'w NetworkManagerFactory" where
  "networkFactory p c = NewNetworkManagerFactory (osDetector p) (pf_host p) (pf_yaml p) (netOpts c)"

definition initializeUseCases :: "int \<Rightarrow> 'w Platform \<Rightarrow> Config \<Rightarrow> 'w Repository \<Rightarrow> 'w
    \<Rightarrow> (go_error, 'w ConfigureNetworkUseCase \<times> 'w DeleteNetworkUseCase) result" where
  "initializeUseCases big p c repository w =
     rbind (CreateNetworkConfigurer (networkFactory p c) w) (\<lambda>configurer.
     rbind (CreateNetworkRollbacker (networkFactory p c) w) (\<lambda>rollbacker.
       Inr (NewConfigureNetworkUseCaseWithDetector big repository configurer rollbacker (pf_host p) (osDetector p) (pf_env p)
              (ag_MaxConcurrentTasks (cf_Agent c)) (pf_unmarshal p) (ag_MaxRetries (cf_Agent c)) (bo_Multiplier (ag_Backoff (cf_Agent c))),
            NewDeleteNetworkUseCase (osDetector p) rollbacker repository (pf_host p) (pf_decode p) (pf_env p))))"

definition NewContainer :: "int \<Rightarrow> 'w Platform \<Rightarrow> Config \<Rightarrow> 'w \<Rightarrow> (go_error, 'w Container) result" where
  "NewContainer big p c w =
     rbind (initializeInfrastructure p c w) (\<lambda>repository.
     rbind (initializeUseCases big p c repository w) (\<lambda>(configure, delete).
       Inr \<lparr>cn_config = c, cn_osDetector = osDetector p, cn_repository = repository, cn_healthService = NewHealthService (pf_now p w),
         cn_namingService = NewInterfaceNamingService (pf_host p) w, cn_configureNetworkUseCase = configure, cn_deleteNetworkUseCase = delete\<rparr>))"

section \<open>The program\<close>

definition NewApplication :: "'w Platform \<Rightarrow> 'w Container \<Rightarrow> 'w Application" where
  "NewApplication p c =
     \<lparr>ap_config = cn_config c, ap_configure = cn_configureNetworkUseCase c, ap_delete = cn_deleteNetworkUseCase c,
      ap_detect = cn_osDetector c, ap_env = pf_env p, ap_hostname = pf_hostname p, ap_marshal = pf_marshal p, ap_now = pf_rfc3339 p\<rparr>"

definition started :: "'w Container \<Rightarrow> 'w \<Rightarrow> 'w AgentState" where
  "started c w = \<lparr>as_world = w, as_naming = cn_namingService c, as_health = cn_healthService c, as_termination = None\<rparr>"

text \<open>A failure to load the configuration or to build the container ends the process, as a failed run does.\<close>

definition agent_main :: "(string \<Rightarrow> real option) \<Rightarrow> int \<Rightarrow> 'w Platform \<Rightarrow> ('w \<Rightarrow> 'w) list \<Rightarrow> 'w
    \<Rightarrow> (go_error, run \<times> 'w AgentState) result" where
  "agent_main parseFloat big p envs w =
     rbind (Load parseFloat (pf_env p)) (\<lambda>cfg.
     rbind (NewContainer big p cfg w) (\<lambda>c. Inr (Run big (NewApplication p c) envs (started c w))))"

section \<open>Facts\<close>

lemma osDetector_node:
  assumes "dynamicClient P = Some d" "pf_env P ''NODE_NAME'' = node" "TrimSpace node \<noteq> []" "kc_osImage d node w = Inr (Some img)"
  shows "osDetector P w = K8s_DetectOS node (pf_hostname P) (\<lambda>n. Inr (Some img))"
  using assms by (simp add: osDetector_def K8s_DetectOS_def K8s_nodeName_def)

lemma detected_family:
  assumes "K8s_DetectOS node hn (\<lambda>n. Inr (Some img)) = Inr osType"
  shows "osType = OSTypeUbuntu \<longleftrightarrow> OSFamilyFromOSImage img = OSUbuntu"
  using assms by (auto simp: K8s_DetectOS_def OSFamilyFromOSImage_def rbind_eq_Inr Let_def split: if_splits)

lemma networkFactory_detector [simp]: "nf_osDetector (networkFactory P c) = osDetector P"
  by (simp add: networkFactory_def NewNetworkManagerFactory_def)

lemma initializeUseCases_ok:
  "initializeUseCases big P c repository w = Inr (configure, delete) \<Longrightarrow>
     uc_repository configure = repository \<and> uc_detect configure = osDetector P \<and> du_repository delete = repository"
  "is_ok (initializeUseCases big P c repository w) \<longleftrightarrow> is_ok (osDetector P w)"
  using CreateNetworkConfigurer_ok [of "networkFactory P c" w]
  by (auto simp: initializeUseCases_def rbind_eq_Inr is_ok_iff NewConfigureNetworkUseCaseWithDetector_def NewDeleteNetworkUseCase_def)

text \<open>The container of a job: only the client and the detection can fail.\<close>

lemma NewContainer_nodecr:
  assumes "ag_DataSource (cf_Agent c) = ''nodecr''" "dynamicClient P = Some d" "is_ok (osDetector P w)"
  shows "\<exists>cn. NewContainer big P c w = Inr cn \<and> cn_config cn = c \<and> cn_osDetector cn = osDetector P \<and>
    uc_detect (cn_configureNetworkUseCase cn) = osDetector P \<and>
    uc_repository (cn_configureNetworkUseCase cn) = NewNodeCRRepository (GetNodeConfig (kc_nodeConfig d (ag_NodeCRNamespace (cf_Agent c)))
      (ag_NodeCRNamespace (cf_Agent c)))"
proof -
  let ?r = "NewNodeCRRepository (GetNodeConfig (kc_nodeConfig d (ag_NodeCRNamespace (cf_Agent c))) (ag_NodeCRNamespace (cf_Agent c)))"
  have r: "initializeInfrastructure P c w = Inr ?r" using assms by (simp add: initializeInfrastructure_def Let_def)
  obtain configure delete where u: "initializeUseCases big P c ?r w = Inr (configure, delete)"
    using assms(3) initializeUseCases_ok(2) [of big P c ?r w] by (auto simp: is_ok_iff)
  show ?thesis using initializeUseCases_ok(1) [OF u] by (simp add: NewContainer_def r u)
qed

lemma job_Load:
  assumes env: "job_environ p env" "jp_NodeCRNamespace p \<noteq> []"
  shows "\<exists>c. Load parseFloat env = Inr c \<and> ag_RunMode (cf_Agent c) = ''job'' \<and> ag_DataSource (cf_Agent c) = ''nodecr'' \<and>
    ag_NodeCRNamespace (cf_Agent c) = jp_NodeCRNamespace p"
proof -
  note e = env(1) [unfolded job_environ_def agentEnv_def, simplified]
  have load: "Load parseFloat env = Inr (readConfig parseFloat env)"
    using Load_cases [of parseFloat env] e Load_readConfig [of parseFloat env]
    by (auto simp: is_ok_iff getEnv_defs ParseDuration_30s second_def)
  then show ?thesis using e env(2) by (simp add: readConfig_def getEnv_defs)
qed

section \<open>A job of the controller\<close>

text \<open>
  A job that the controller built for a node, started where the Kubernetes client is there, the node's system is
  recognised and its resource has a valid interface, loads its configuration, reads the resource
  of its own node in the namespace it was given, and exits with a summary in its termination log.
\<close>

lemma job_run:
  assumes env: "job_environ p (pf_env P)" "jp_NodeCRNamespace p \<noteq> []" "jp_Action p \<noteq> ''cleanup''"
    and node: "pf_env P ''NODE_NAME'' = node" "TrimSpace node \<noteq> []"
    and kube: "dynamicClient P = Some d" "\<And>w. kc_osImage d node w = Inr (Some img)" "\<And>w. kc_nodeConfig d (jp_NodeCRNamespace p) node w = Inr u"
    and family: "K8s_DetectOS node (pf_hostname P) (\<lambda>n. Inr (Some img)) = Inr osType"
    and some: "loadEntries (nc_NodeName (unstructuredToNodeConfig u)) 0 (nc_Interfaces (unstructuredToNodeConfig u)) = ifaces" "ifaces \<noteq> []"
  shows "\<exists>r st' v fs rs. agent_main parseFloat big P envs w = Inr (Exit r, st') \<and>
    (\<forall>msg. pf_marshal P v = Some msg \<longrightarrow> as_termination st' = Some msg) \<and>
    (\<forall>(c :: 'k Controller) msg. c_json c msg = Some v \<longrightarrow> summaryFailures c msg = Some fs \<and> summaryResults c msg = Some rs) \<and>
    mset (map jr_key rs) + mset (map jf_key fs) = mset (map job_key ifaces) \<and>
    (r = None \<longleftrightarrow> fs = [] \<or> rs \<noteq> [] \<and> completeOnPartial (pf_env P)) \<and>
    (osType = OSTypeUbuntu \<longleftrightarrow> OSFamilyFromOSImage img = OSUbuntu)"
proof -
  have os: "osDetector P w' = Inr osType" for w' using osDetector_node [OF kube(1) node kube(2)] family by simp
  obtain c where c: "Load parseFloat (pf_env P) = Inr c" "ag_RunMode (cf_Agent c) = ''job''" "ag_DataSource (cf_Agent c) = ''nodecr''"
    "ag_NodeCRNamespace (cf_Agent c) = jp_NodeCRNamespace p" using job_Load [OF env(1,2)] by blast
  obtain cn where cn: "NewContainer big P c w = Inr cn" "cn_config cn = c" "cn_osDetector cn = osDetector P"
      "uc_detect (cn_configureNetworkUseCase cn) = osDetector P"
      "uc_repository (cn_configureNetworkUseCase cn) = NewNodeCRRepository (GetNodeConfig (kc_nodeConfig d (jp_NodeCRNamespace p)) (jp_NodeCRNamespace p))"
    using NewContainer_nodecr [OF c(3) kube(1), of w] os [of w] c(4) by auto
  let ?a = "NewApplication P cn" and ?st = "started cn w"
  have a: "ap_env ?a = pf_env P" "ap_hostname ?a = pf_hostname P" "ap_configure ?a = cn_configureNetworkUseCase cn" "ap_detect ?a = osDetector P"
    "ap_config ?a = c" "ap_marshal ?a = pf_marshal P" by (simp_all add: NewApplication_def cn)
  have act: "pf_env P ''AGENT_ACTION'' \<noteq> ''cleanup''" using env by (simp add: job_environ_def agentEnv_def)
  obtain r st' where cyc: "processNetworkConfigurations ?a ?st = (r, st')" by fastforce
  have run: "agent_main parseFloat big P envs w = Inr (Exit r, st')"
    by (simp add: agent_main_def c cn Run_def runJob_def a os act cyc)
  have nm: "resolveNodeName (ap_env ?a) (ap_hostname ?a) = Inr node" using node by (simp add: resolveNodeName_def a)
  have "\<exists>v fs rs. (\<forall>msg. ap_marshal ?a v = Some msg \<longrightarrow> as_termination st' = Some msg) \<and>
      (\<forall>(c :: 'k Controller) msg. c_json c msg = Some v \<longrightarrow> summaryFailures c msg = Some fs \<and> summaryResults c msg = Some rs) \<and>
      mset (map jr_key rs) + mset (map jf_key fs) = mset (map job_key ifaces) \<and>
      hs_processedVMs (as_health st') = hs_processedVMs (as_health ?st) + int (length rs) \<and>
      hs_failedConfigs (as_health st') = hs_failedConfigs (as_health ?st) + int (length fs) \<and>
      (r = None \<longleftrightarrow> fs = [] \<or> rs \<noteq> [] \<and> completeOnPartial (ap_env ?a))"
    by (rule cycle_reports [OF nm _ _ some(2) cyc, where osType = osType])
      (simp_all add: a cn os NewNodeCRRepository_def loadAll_def GetNodeConfig_def kube(3) some(1))
  then obtain v fs rs where x: "\<forall>msg. pf_marshal P v = Some msg \<longrightarrow> as_termination st' = Some msg"
      "\<forall>(c :: 'k Controller) msg. c_json c msg = Some v \<longrightarrow> summaryFailures c msg = Some fs \<and> summaryResults c msg = Some rs"
      "mset (map jr_key rs) + mset (map jf_key fs) = mset (map job_key ifaces)"
      "r = None \<longleftrightarrow> fs = [] \<or> rs \<noteq> [] \<and> completeOnPartial (pf_env P)"
    unfolding a by blast
  then show ?thesis using run detected_family [OF family] by (intro exI [of _ r] exI [of _ st'] exI [of _ v] exI [of _ fs] exI [of _ rs]) simp
qed

end
