(* ===== verification/Outcome.thy ===== *)
theory Outcome
  imports Container
begin

text \<open>
  The agent and the controller together: which interfaces the controller reports as failed after
  a job of the agent. Attribution goes by identifier and hardware address; it is exact for
  resources whose entries cannot be mistaken for each other.
\<close>

section \<open>Entries that cannot be mistaken\<close>

definition specId :: "json \<Rightarrow> int" where
  "specId iface = getIntFromMap (as_object (Some iface)) ''id''"

text \<open>
  No interface has the identifier that the specification gives to another, and no two have the
  same address up to the case of its letters.
\<close>

definition separate :: "json list \<Rightarrow> NetworkInterface list \<Rightarrow> bool" where
  "separate specs ents \<longleftrightarrow> length specs = length ents \<and>
     (\<forall>k < length ents. \<forall>j < length ents. j \<noteq> k \<longrightarrow>
        (specId (specs ! k) \<noteq> 0 \<longrightarrow> specId (specs ! k) \<noteq> ID (ents ! j)) \<and>
        ToLower (MacAddress (ents ! k)) \<noteq> ToLower (MacAddress (ents ! j)))"

lemma loadEntries_length: "length (loadEntries node i nis) \<le> length nis"
  by (induction nis arbitrary: i) (auto split: sum.splits intro: le_SucI)

lemma loadEntries_all:
  "length (loadEntries node i nis) = length nis \<Longrightarrow> k < length nis \<Longrightarrow> entryEntity node (i + k) (nis ! k) = Inr (loadEntries node i nis ! k)"
proof (induction nis arbitrary: i k)
  case (Cons ni nis)
  obtain ent where e: "entryEntity node i ni = Inr ent"
    using Cons.prems(1) loadEntries_length [of node "i + 1" nis] by (cases "entryEntity node i ni") auto
  then show ?case using Cons.IH [of "i + 1"] Cons.prems by (cases k) auto
qed simp

lemma entry_mac:
  assumes "is_object s" "entryEntity node i (decodeInterface s) = Inr ent"
  shows "getStringFromMap (as_object (Some s)) ''macAddress'' = MacAddress ent"
proof -
  obtain kvs where s: "s = JObject kvs" using assms(1) by (cases s) auto
  have "MacAddress ent = nif_MacAddress (decodeInterface s)"
    using assms(2) by (auto simp: entryEntity_def NewNetworkInterface_ok NewNetworkInterfaceWithName_ok split: if_splits)
  then show ?thesis by (simp add: s decodeInterface_def getStringFromMap_def split: option.splits json.splits)
qed

lemma entry_mac_text:
  assumes "entryEntity node i ni = Inr ent"
  shows "MacAddress ent \<noteq> []" "TrimSpace (MacAddress ent) = MacAddress ent"
proof -
  have "wf_interface ent" using wf_entry [OF assms] by simp
  then have "ParseMAC (MacAddress ent) = Some (mac_mac (ni_macAddress ent))" by (simp add: wf_interface_def NewMACAddress_ok)
  then show "MacAddress ent \<noteq> []" "TrimSpace (MacAddress ent) = MacAddress ent" by (rule ParseMAC_trimmed)+
qed

text \<open>A failure of the agent names an interface exactly when it is the interface's own.\<close>

lemma blamed_own:
  assumes specs: "list_all is_object specs" "separate specs ents"
    and ents: "ents = loadEntries node 0 (map decodeInterface specs)"
    and own: "set (map jf_key fs) \<subseteq> set (map job_key ents)" and k: "k < length ents"
  shows "(\<exists>f \<in> set fs. names_interface f (specs ! k)) \<longleftrightarrow> job_key (ents ! k) \<in> set (map jf_key fs)"
proof -
  have len: "length specs = length ents" using specs(2) by (simp add: separate_def)
  have e: "entryEntity node j (decodeInterface (specs ! j)) = Inr (ents ! j)" if "j < length ents" for j
    using loadEntries_all [of node 0 "map decodeInterface specs" j] that len ents by simp
  have o: "is_object (specs ! k)" using specs(1) k len by (simp add: list_all_length)
  note mac = entry_mac [OF o e [OF k]] and mt = entry_mac_text [OF e [OF k]]
  have n: "names_interface f (specs ! k) \<longleftrightarrow> specId (specs ! k) \<noteq> 0 \<and> jf_ID f = specId (specs ! k) \<or>
      macKey (jf_MAC f) = ToLower (MacAddress (ents ! k))" for f
    using mt(1) unfolding names_interface_def Let_def mac specId_def [symmetric] by (auto simp: macKey_def ToLower_def)
  show ?thesis
  proof
    assume "\<exists>f \<in> set fs. names_interface f (specs ! k)"
    then obtain f where f: "f \<in> set fs" "names_interface f (specs ! k)" by blast
    then obtain j where j: "j < length ents" "jf_key f = job_key (ents ! j)" using own by (fastforce simp: in_set_conv_nth)
    have "j = k"
    proof (rule ccontr)
      assume "j \<noteq> k"
      then have "specId (specs ! k) \<noteq> 0 \<longrightarrow> specId (specs ! k) \<noteq> ID (ents ! j)"
        "ToLower (MacAddress (ents ! k)) \<noteq> ToLower (MacAddress (ents ! j))"
        using specs(2) j(1) k unfolding separate_def by blast+
      then show False using f(2) j(2) entry_mac_text [OF e [OF j(1)]] by (auto simp: n jf_key_def job_key_def macKey_def)
    qed
    then show "job_key (ents ! k) \<in> set (map jf_key fs)" using f(1) j(2) by (metis image_eqI image_set)
  next
    assume "job_key (ents ! k) \<in> set (map jf_key fs)"
    then obtain f where "f \<in> set fs" "jf_key f = job_key (ents ! k)" by auto
    then show "\<exists>f \<in> set fs. names_interface f (specs ! k)"
      using mt by (intro bexI [of _ f]) (auto simp: n jf_key_def job_key_def macKey_def)
  qed
qed

section \<open>What the controller records\<close>

text \<open>What the controller needs of a finished job of a node to look at it.\<close>

definition finished :: "string \<Rightarrow> Job \<Rightarrow> go_error option \<Rightarrow> bool" where
  "finished n job r \<longleftrightarrow> label (job_Labels job) ''multinic.io/node-name'' = n \<and>
     \<not> EqualFold (TrimSpace (label (job_Labels job) ''multinic.io/action'')) ''cleanup'' \<and>
     (if r = None then 0 < job_Succeeded job else job_Succeeded job \<le> 0 \<and> 0 < job_Failed job)"

lemma same_spec_interfaces: "same_spec u v \<Longrightarrow> interfaces v = interfaces u"
  by (simp add: same_spec_def interfaces_def NestedSlice_def)

context writable_api
begin

lemma outcome_written:
  assumes c: "c_api c = K" and g: "k_getCR K ns n (cs_world st) = Inr u" "n \<noteq> []" "stateOf u \<notin> {''Configured'', ''Failed''}"
    and job: "finished n job r" "r = None \<or> fs \<noteq> []"
    and msg: "TrimSpace (getJobTerminationMessage c ns (job_Name job) (cs_world st)) \<noteq> []"
      "summaryFailures c (getJobTerminationMessage c ns (job_Name job) (cs_world st)) = Some fs"
    and own: "\<And>k. k < length ents \<Longrightarrow> (\<exists>f \<in> set fs. names_interface f (interfaces u ! k)) \<longleftrightarrow> job_key (ents ! k) \<in> set (map jf_key fs)"
      "length (interfaces u) = length ents"
  shows "\<exists>v. k_getCR K ns n (cs_world (processJob c ns job st)) = Inr v \<and> same_spec u v \<and>
    stateOf v = (if fs = [] then ''Configured'' else ''Failed'') \<and>
    (fs \<noteq> [] \<longrightarrow> (\<exists>es. nested v [''status'', ''interfaceStatuses''] = Some (JArray es) \<and> length es = length ents \<and>
      (\<forall>k < length ents. nested (es ! k) [''status''] = Some (JString (if job_key (ents ! k) \<in> set (map jf_key fs) then ''Failed'' else ''Configured'')))))"
proof (cases "fs = []")
  case True
  then show ?thesis
    using success_configures [OF c g(1,2), of job] job msg g(3) by (auto simp: finished_def)
next
  case False
  then obtain v fr ok where v: "k_getCR K ns n (cs_world (processJob c ns job st)) = Inr v" "same_spec u v" "stateOf v = ''Failed''"
    "nested v [''status'', ''interfaceStatuses''] = Some (JArray (outcome_statuses (now c st) fr ok fs (interfaces u)))"
    using failures_recorded [OF c g(1,2), of job fs] job msg g(3) by (auto simp: finished_def split: if_splits)
  have "nested (outcome_statuses (now c st) fr ok fs (interfaces u) ! k) [''status''] =
      Some (JString (if job_key (ents ! k) \<in> set (map jf_key fs) then ''Failed'' else ''Configured''))" if "k < length ents" for k
    using outcome_entry [of "now c st" fr ok fs k "interfaces u ! k"] own that by (simp del: nested.simps)
  then show ?thesis using v False own(2) by (intro exI [of _ v]) (simp del: nested.simps)
qed

end

section \<open>Property\<close>

text \<open>
  C1: from the resource of a node to its status. A job that the controller built for a node,
  started where the Kubernetes client is there and the node's system is recognised, loads its
  configuration, reads the resource of its own node in the namespace it was given, and exits,
  with the encoding of a summary in its termination log. The summary has one result or failure
  for each interface of the resource, and the process succeeds exactly when nothing failed, or when something succeeded and
  partial failures are to complete the job. When the controller later finds the job ended as
  the process exited and decodes that summary, it puts the resource into the state
  Configured if nothing failed, and otherwise into the state Failed with one entry for each
  interface, which says Failed exactly for those that the agent failed to configure. This holds for a
  resource whose entries are all valid and cannot be mistaken for each other, which is not yet
  Configured or Failed when the controller processes the job, on an API server that can store
  its status.
\<close>

theorem node_outcome_recorded:
  assumes env: "job_environ p (pf_env P)" "jp_NodeCRNamespace p \<noteq> []" "jp_Action p \<noteq> ''cleanup''"
    and node: "pf_env P ''NODE_NAME'' = n" "TrimSpace n \<noteq> []"
    and kube: "dynamicClient P = Some d" "\<And>w. kc_osImage d n w = Inr (Some img)" "\<And>w. kc_nodeConfig d (jp_NodeCRNamespace p) n w = Inr u"
    and family: "K8s_DetectOS n (pf_hostname P) (\<lambda>n. Inr (Some img)) = Inr osType"
    and spec: "list_all is_object (interfaces u)" "separate (interfaces u) ents" "ents \<noteq> []"
      "ents = loadEntries (nc_NodeName (unstructuredToNodeConfig u)) 0 (map decodeInterface (interfaces u))"
  shows "\<exists>r st' v fs rs. agent_main parseFloat big P envs w = Inr (Exit r, st') \<and>
    (\<forall>msg. pf_marshal P v = Some msg \<longrightarrow> as_termination st' = Some msg) \<and>
    mset (map jr_key rs) + mset (map jf_key fs) = mset (map job_key ents) \<and>
    (r = None \<longleftrightarrow> fs = [] \<or> rs \<noteq> [] \<and> completeOnPartial (pf_env P)) \<and>
    (\<forall>(c :: 'k Controller) ns st job u'. writable_api (c_api c) \<and> k_getCR (c_api c) ns n (cs_world st) = Inr u' \<and> same_spec u u' \<and>
       stateOf u' \<notin> {''Configured'', ''Failed''} \<and> finished n job r \<and>
       TrimSpace (getJobTerminationMessage c ns (job_Name job) (cs_world st)) \<noteq> [] \<and>
       c_json c (getJobTerminationMessage c ns (job_Name job) (cs_world st)) = Some v \<longrightarrow>
       (\<exists>v'. k_getCR (c_api c) ns n (cs_world (processJob c ns job st)) = Inr v' \<and> same_spec u' v' \<and>
          stateOf v' = (if fs = [] then ''Configured'' else ''Failed'') \<and>
          (fs \<noteq> [] \<longrightarrow> (\<exists>es. nested v' [''status'', ''interfaceStatuses''] = Some (JArray es) \<and> length es = length ents \<and>
             (\<forall>k < length ents. nested (es ! k) [''status''] =
                Some (JString (if job_key (ents ! k) \<in> set (map jf_key fs) then ''Failed'' else ''Configured'')))))))"
proof -
  have f: "nc_Interfaces (unstructuredToNodeConfig u) = map decodeInterface (interfaces u)"
    using spec(1) by (simp add: unstructuredToNodeConfig_def interfaces_def Let_def list_all_iff)
  have e: "loadEntries (nc_NodeName (unstructuredToNodeConfig u)) 0 (nc_Interfaces (unstructuredToNodeConfig u)) = ents"
    unfolding f spec(4) ..
  obtain r st' v fs rs where x: "agent_main parseFloat big P envs w = Inr (Exit r, st')"
      "\<forall>msg. pf_marshal P v = Some msg \<longrightarrow> as_termination st' = Some msg"
      "\<forall>(c :: 'k Controller) msg. c_json c msg = Some v \<longrightarrow> summaryFailures c msg = Some fs \<and> summaryResults c msg = Some rs"
      "mset (map jr_key rs) + mset (map jf_key fs) = mset (map job_key ents)"
      "r = None \<longleftrightarrow> fs = [] \<or> rs \<noteq> [] \<and> completeOnPartial (pf_env P)"
    using job_run [OF env node kube family e spec(3), of parseFloat big envs w, where 'k = 'k] by (elim exE conjE) (rule that)
  have "set (map jf_key fs) \<subseteq> set (map job_key ents)"
    using arg_cong [OF x(4), of set_mset] by auto
  note own = blamed_own [OF spec(1,2,4) this]
  have n: "n \<noteq> []" using node(2) by auto
  have "\<exists>v'. k_getCR (c_api c) ns n (cs_world (processJob c ns job st)) = Inr v' \<and> same_spec u' v' \<and>
          stateOf v' = (if fs = [] then ''Configured'' else ''Failed'') \<and>
          (fs \<noteq> [] \<longrightarrow> (\<exists>es. nested v' [''status'', ''interfaceStatuses''] = Some (JArray es) \<and> length es = length ents \<and>
             (\<forall>k < length ents. nested (es ! k) [''status''] =
                Some (JString (if job_key (ents ! k) \<in> set (map jf_key fs) then ''Failed'' else ''Configured'')))))"
    if "writable_api (c_api c)" "k_getCR (c_api c) ns n (cs_world st) = Inr u'" "same_spec u u'" "stateOf u' \<notin> {''Configured'', ''Failed''}"
      "finished n job r" "TrimSpace (getJobTerminationMessage c ns (job_Name job) (cs_world st)) \<noteq> []"
      "c_json c (getJobTerminationMessage c ns (job_Name job) (cs_world st)) = Some v" for c :: "'k Controller" and ns st job u'
    by (rule writable_api.outcome_written [OF that(1) refl that(2) n that(4,5) _ that(6)])
      (use x(3,5) that(7) own spec(2) same_spec_interfaces [OF that(3)] in \<open>auto simp: separate_def\<close>)
  then show ?thesis using x by (intro exI [of _ r] exI [of _ st'] exI [of _ v] exI [of _ fs] exI [of _ rs]) simp
qed

section \<open>An example\<close>

definition sample_resource :: json where
  "sample_resource = JObject
     [(''metadata'', JObject [(''name'', JString ''node-1''), (''namespace'', JString ''ns'')]),
      (''spec'', JObject [(''nodeName'', JString ''node-1''), (''interfaces'', JArray [JObject
         [(''id'', JInt 5), (''macAddress'', JString ''fa:16:3e:00:00:01''), (''address'', JString ''10.0.0.5''), (''cidr'', JString ''10.0.0.0/24''),
          (''mtu'', JInt 1450)]])]),
      (''status'', JObject [(''state'', JString ''InProgress'')])]"

definition sample_client :: "os_state KubeClient" where
  "sample_client = \<lparr>kc_osImage = \<lambda>n w. Inr (Some ''Ubuntu 22.04''), kc_nodeConfig = \<lambda>namespace n w. Inr sample_resource\<rparr>"

definition sample_platform :: "os_state Platform" where
  "sample_platform = \<lparr>pf_host = mute_host, pf_inCluster = Some sample_client, pf_kubeconfig = \<lambda>f. None,
     pf_open = \<lambda>dsn w. Inl (PlainError ''no database''), pf_env = (env_of_job sample_params)(''NODE_NAME'' := ''node-1''),
     pf_hostname = Inr ''node-1'', pf_yaml = \<lambda>y. Inr ''yaml'', pf_unmarshal = \<lambda>s. Inl (PlainError s), pf_decode = \<lambda>s. Inl (PlainError s),
     pf_marshal = \<lambda>v. Some ''{}'', pf_rfc3339 = \<lambda>w. [], pf_now = \<lambda>w. 0\<rparr>"

definition reading_controller :: "json \<Rightarrow> Cluster Controller" where
  "reading_controller v = (sample_controller 0)\<lparr>c_json := \<lambda>s. Some v\<rparr>"

definition ended_job :: "go_error option \<Rightarrow> Job" where
  "ended_job r = (sample_job 1)\<lparr>job_Name := ''job'', job_Labels := [(''multinic.io/node-name'', ''node-1''), (''multinic.io/action'', ''apply'')],
     job_Succeeded := (if r = None then 1 else 0), job_Failed := (if r = None then 0 else 1)\<rparr>"

definition reporting_cluster :: "Cluster Cluster_state" where
  "reporting_cluster = \<lparr>cs_world = \<lparr>cl_crs = [((''ns'', ''node-1''), sample_resource)], cl_nodes = [(''node-1'', sample_node)], cl_jobs = [],
     cl_pods = [sample_pod ''job'' ''{}''], cl_clock = ''t''\<rparr>, cs_pending = []\<rparr>"

lemma sample_run:
  "job_environ sample_params (pf_env sample_platform)" "jp_NodeCRNamespace sample_params \<noteq> []" "jp_Action sample_params \<noteq> ''cleanup''"
  "pf_env sample_platform ''NODE_NAME'' = ''node-1''" "TrimSpace ''node-1'' \<noteq> []"
  "dynamicClient sample_platform = Some sample_client" "kc_osImage sample_client ''node-1'' w = Inr (Some ''Ubuntu 22.04'')"
  "kc_nodeConfig sample_client (jp_NodeCRNamespace sample_params) ''node-1'' w = Inr sample_resource"
  by (simp_all add: job_environ_def sample_platform_def env_of_job_def agentEnv_def sample_params_def TrimSpace_def Trim_def is_space_def
      dynamicClient_def sample_client_def)

lemma sample_family: "K8s_DetectOS ''node-1'' (pf_hostname sample_platform) (\<lambda>n. Inr (Some ''Ubuntu 22.04'')) = Inr OSTypeUbuntu"
proof -
  have "Contains (ToLower ''Ubuntu 22.04'') ''ubuntu''" by code_simp
  then show ?thesis using sample_run(5) by (simp add: K8s_DetectOS_def K8s_nodeName_def)
qed

lemma sample_spec:
  "list_all is_object (interfaces sample_resource)"
  "loadEntries (nc_NodeName (unstructuredToNodeConfig sample_resource)) 0 (map decodeInterface (interfaces sample_resource)) =
     [example_iface 5 ''fa:16:3e:00:00:01'' [250, 22, 62, 0, 0, 1] False]"
  "separate (interfaces sample_resource) [example_iface 5 ''fa:16:3e:00:00:01'' [250, 22, 62, 0, 0, 1] False]"
proof -
  have i: "map decodeInterface (interfaces sample_resource) = [(sample_entry [])\<lparr>nif_ID := 5\<rparr>]"
    "nc_NodeName (unstructuredToNodeConfig sample_resource) = ''node-1''"
    by (simp_all add: sample_resource_def interfaces_def unstructuredToNodeConfig_def decodeInterface_def sample_entry_def NestedString_def NestedSlice_def)
  have "entryEntity ''node-1'' 0 ((sample_entry [])\<lparr>nif_ID := 5\<rparr>) = entryEntity ''node-1'' 4 (sample_entry [])"
    by (simp add: entryEntity_def entryId_def sample_entry_def)
  then show "loadEntries (nc_NodeName (unstructuredToNodeConfig sample_resource)) 0 (map decodeInterface (interfaces sample_resource)) =
     [example_iface 5 ''fa:16:3e:00:00:01'' [250, 22, 62, 0, 0, 1] False]"
    unfolding i by (simp add: sample_entry_loads)
  show "list_all is_object (interfaces sample_resource)" by (simp add: sample_resource_def interfaces_def NestedSlice_def)
  show "separate (interfaces sample_resource) [example_iface 5 ''fa:16:3e:00:00:01'' [250, 22, 62, 0, 0, 1] False]"
    using arg_cong [OF i(1), of length] by (simp add: separate_def)
qed

lemma sample_report:
  "writable_api (c_api (reading_controller v))" "c_json (reading_controller v) msg = Some v"
  "k_getCR (c_api (reading_controller v)) ''ns'' ''node-1'' (cs_world reporting_cluster) = Inr sample_resource"
  "same_spec sample_resource sample_resource" "stateOf sample_resource \<notin> {''Configured'', ''Failed''}" "finished ''node-1'' (ended_job r) r"
  "TrimSpace (getJobTerminationMessage (reading_controller v) ''ns'' (job_Name (ended_job r)) (cs_world reporting_cluster)) \<noteq> []"
proof -
  have ap: "\<not> EqualFold (TrimSpace ''apply'') ''cleanup''" by code_simp
  then show "finished ''node-1'' (ended_job r) r" by (simp add: finished_def ended_job_def label_def)
  show "writable_api (c_api (reading_controller v))" using memory.writable_api_axioms by (simp add: reading_controller_def)
  have "getJobTerminationMessage (reading_controller v) ''ns'' (job_Name (ended_job r)) (cs_world reporting_cluster) = ''{}''"
    by (simp add: getJobTerminationMessage_def reading_controller_def reporting_cluster_def ended_job_def sample_pod_def selected_def)
  then show "TrimSpace (getJobTerminationMessage (reading_controller v) ''ns'' (job_Name (ended_job r)) (cs_world reporting_cluster)) \<noteq> []"
    by (simp add: TrimSpace_def Trim_def is_space_def)
qed (simp_all add: reading_controller_def reporting_cluster_def mem_getCR_def sample_resource_def same_spec_def GetName_def GetNamespace_def
    NestedString_def stateOf_def)

theorem node_outcome_recorded_witness:
  "\<exists>r st' v v'. agent_main (\<lambda>s. None) max_int64 sample_platform [] fresh_os = Inr (Exit r, st') \<and> as_termination st' = Some ''{}'' \<and>
     mem_getCR ''ns'' ''node-1'' (cs_world (processJob (reading_controller v) ''ns'' (ended_job r) reporting_cluster)) = Inr v' \<and>
     stateOf v' \<in> {''Configured'', ''Failed''}"
proof -
  have ne: "[example_iface 5 ''fa:16:3e:00:00:01'' [250, 22, 62, 0, 0, 1] False] \<noteq> []" by simp
  obtain r st' v and fs :: "Failure list" where x: "agent_main (\<lambda>s. None) max_int64 sample_platform [] fresh_os = Inr (Exit r, st')"
    "\<forall>msg. pf_marshal sample_platform v = Some msg \<longrightarrow> as_termination st' = Some msg"
    and y: "\<forall>(c :: Cluster Controller) ns st job u'. writable_api (c_api c) \<and> k_getCR (c_api c) ns ''node-1'' (cs_world st) = Inr u' \<and>
       same_spec sample_resource u' \<and> stateOf u' \<notin> {''Configured'', ''Failed''} \<and> finished ''node-1'' job r \<and>
       TrimSpace (getJobTerminationMessage c ns (job_Name job) (cs_world st)) \<noteq> [] \<and>
       c_json c (getJobTerminationMessage c ns (job_Name job) (cs_world st)) = Some v \<longrightarrow>
       (\<exists>v'. k_getCR (c_api c) ns ''node-1'' (cs_world (processJob c ns job st)) = Inr v' \<and> stateOf v' = (if fs = [] then ''Configured'' else ''Failed''))"
    using node_outcome_recorded [OF sample_run sample_family sample_spec(1,3) ne sample_spec(2) [symmetric],
        where parseFloat = "\<lambda>s. None" and big = max_int64 and envs = "[]" and w = fresh_os and 'k = Cluster]
    by (elim exE conjE) (rule that, assumption, assumption, fast)
  obtain v' where v': "k_getCR (c_api (reading_controller v)) ''ns'' ''node-1''
        (cs_world (processJob (reading_controller v) ''ns'' (ended_job r) reporting_cluster)) = Inr v'"
      "stateOf v' = (if fs = [] then ''Configured'' else ''Failed'')"
    using mp [OF spec [OF spec [OF spec [OF spec [OF spec [OF y, of "reading_controller v"], of "''ns''"], of reporting_cluster], of "ended_job r"],
        of sample_resource]] sample_report by blast
  have "as_termination st' = Some ''{}''" using x(2) by (simp add: sample_platform_def)
  moreover have "c_api (reading_controller v) = memory_api" by (simp add: reading_controller_def)
  moreover have "stateOf v' \<in> {''Configured'', ''Failed''}" unfolding v'(2) by simp
  ultimately show ?thesis
    using x(1) v'(1) by (intro exI [of _ r] exI [of _ st'] exI [of _ v] exI [of _ v']) simp
qed

end
