(* ===== verification/Watcher.thy ===== *)
theory Watcher
  imports Reconciliation Transition
begin

text \<open>
  \<open>internal/controller/watcher.go\<close> and \<open>service.go\<close>: the two ways the controller is driven,
  by the events of the informers and by a timer. The informers deliver events one at a time;
  the sequence of events, and what the rest of the cluster does between two ticks of the
  timer, are arguments.
\<close>

section \<open>Events\<close>

text \<open>
  What an informer hands over: a resource, the tombstone of an object whose deletion was
  missed, a pod, another object with a name and a namespace, or anything else.
\<close>

datatype event_object =
    Unstructured json
  | DeletedFinalStateUnknown event_object
  | PodObject Pod
  | Accessor string string
  | OtherObject

definition named_object :: "string \<Rightarrow> string \<Rightarrow> json" where
  "named_object name ns = JObject [(''metadata'', JObject [(''name'', JString name), (''namespace'', JString ns)])]"

fun unwrap :: "event_object \<Rightarrow> json option" where
  "unwrap (Unstructured u) = Some u"
| "unwrap (DeletedFinalStateUnknown (Unstructured u)) = Some u"
| "unwrap (Accessor name ns) = Some (named_object name ns)"
| "unwrap _ = None"

record 'w Watcher =
  wt_Ctrl :: "'w Controller"
  wt_Namespace :: string

definition NewWatcher :: "'w Controller \<Rightarrow> string \<Rightarrow> 'w Watcher" where
  "NewWatcher ctrl namespace = \<lparr>wt_Ctrl = ctrl, wt_Namespace = namespace\<rparr>"

definition handleCR :: "'w Watcher \<Rightarrow> event_object \<Rightarrow> 'w Cluster_state \<Rightarrow> 'w Cluster_state" where
  "handleCR w obj st =
     (case unwrap obj of None \<Rightarrow> st | Some u \<Rightarrow> snd (Reconcile (wt_Ctrl w) (GetNamespace u) (GetName u) st))"

text \<open>The last message that is not empty and the last exit code of the terminated containers.\<close>

fun terminations :: "terminated option list \<Rightarrow> string \<times> int \<Rightarrow> string \<times> int" where
  "terminations [] acc = acc"
| "terminations (None # ts) acc = terminations ts acc"
| "terminations (Some t # ts) acc =
     terminations ts (if tm_Message t \<noteq> [] then tm_Message t else fst acc, tm_ExitCode t)"

definition podNode :: "Pod \<Rightarrow> string" where
  "podNode pod =
     (let jobName = label (pod_Labels pod) ''job-name''; nodeName = label (pod_Labels pod) ''multinic.io/node-name''
      in if nodeName = [] \<and> jobName \<noteq> [] then
           (if length ''multinic-agent-'' < length jobName \<and> take (length ''multinic-agent-'') jobName = ''multinic-agent-''
            then drop (length ''multinic-agent-'') jobName else nodeName)
         else nodeName)"

fun handlePod :: "'w Watcher \<Rightarrow> event_object \<Rightarrow> 'w Cluster_state \<Rightarrow> 'w Cluster_state" where
  "handlePod w (PodObject pod) st =
     (if label (pod_Labels pod) ''app.kubernetes.io/name'' \<noteq> ''multinic-agent'' then st
      else case terminations (pod_Containers pod) ([], -1) of (msg, exitCode) \<Rightarrow>
        if msg = [] then st
        else if podNode pod = [] then st
        else if exitCode \<noteq> 0 then
          snd (ApplyTerminationSummary (wt_Ctrl w) (wt_Namespace w) (podNode pod) (label (pod_Labels pod) ''job-name'') msg st)
        else st)"
| "handlePod w _ st = st"

definition handleCRDelete :: "'w Watcher \<Rightarrow> event_object \<Rightarrow> 'w Cluster_state \<Rightarrow> 'w Cluster_state" where
  "handleCRDelete w obj st =
     (case unwrap obj of None \<Rightarrow> st | Some u \<Rightarrow> snd (LaunchCleanupJob (wt_Ctrl w) (wt_Namespace w) (GetName u) st))"

datatype event =
    CRAdded event_object | CRUpdated event_object | CRDeleted event_object | JobUpdated
  | PodAdded event_object | PodUpdated event_object

fun handle :: "'w Watcher \<Rightarrow> event \<Rightarrow> 'w Cluster_state \<Rightarrow> 'w Cluster_state" where
  "handle w (CRAdded obj) st = handleCR w obj st"
| "handle w (CRUpdated obj) st = handleCR w obj st"
| "handle w (CRDeleted obj) st = handleCRDelete w obj st"
| "handle w JobUpdated st = snd (ProcessJobs (wt_Ctrl w) (wt_Namespace w) st)"
| "handle w (PodAdded obj) st = handlePod w obj st"
| "handle w (PodUpdated obj) st = handlePod w obj st"

text \<open>
  The watcher: a first pass over all resources and jobs, whose errors it drops, then the
  events, each after a change of the cluster that is not the controller's.
\<close>

definition initialPass :: "'w Watcher \<Rightarrow> 'w Cluster_state \<Rightarrow> 'w Cluster_state" where
  "initialPass w st = snd (ProcessJobs (wt_Ctrl w) (wt_Namespace w) (snd (ProcessAll (wt_Ctrl w) (wt_Namespace w) st)))"

definition Watcher_Start :: "'w Watcher \<Rightarrow> (('w Cluster_state \<Rightarrow> 'w Cluster_state) \<times> event) list \<Rightarrow> 'w Cluster_state \<Rightarrow> 'w Cluster_state" where
  "Watcher_Start w events st = fold (\<lambda>(env, e) st. handle w e (env st)) events (initialPass w st)"

section \<open>The timer\<close>

record 'w Service =
  sv_Controller :: "'w Controller"
  sv_Namespace :: string
  sv_Interval :: int

definition RunOnce :: "'w Service \<Rightarrow> 'w Cluster_state \<Rightarrow> go_error option \<times> 'w Cluster_state" where
  "RunOnce s st =
     (case ProcessAll (sv_Controller s) (sv_Namespace s) st of
        (Some err, st') \<Rightarrow> (Some err, st')
      | (None, st') \<Rightarrow> ProcessJobs (sv_Controller s) (sv_Namespace s) st')"

text \<open>The ticks until the context is cancelled; an error ends the service.\<close>

fun ticking :: "'w Service \<Rightarrow> ('w Cluster_state \<Rightarrow> 'w Cluster_state) list \<Rightarrow> 'w Cluster_state \<Rightarrow> go_error option \<times> 'w Cluster_state" where
  "ticking s [] st = (None, st)"
| "ticking s (env # envs) st =
     (case RunOnce s (env st) of (Some err, st') \<Rightarrow> (Some err, st') | (None, st') \<Rightarrow> ticking s envs st')"

text \<open>The ticker of an interval that is not positive panics before the first pass.\<close>

datatype service_end = NewTickerPanics | Returned "go_error option"

definition Service_Start :: "'w Service \<Rightarrow> ('w Cluster_state \<Rightarrow> 'w Cluster_state) list \<Rightarrow> 'w Cluster_state \<Rightarrow> service_end \<times> 'w Cluster_state" where
  "Service_Start s envs st =
     (if sv_Interval s \<le> 0 then (NewTickerPanics, st)
      else case (case RunOnce s st of (Some err, st') \<Rightarrow> (Some err, st') | (None, st') \<Rightarrow> ticking s envs st') of
        (r, st') \<Rightarrow> (Returned r, st'))"

section \<open>What the controller leaves alone\<close>

definition specs_kept :: "'w KubeAPI \<Rightarrow> 'w \<Rightarrow> 'w \<Rightarrow> bool" where
  "specs_kept K w w' \<longleftrightarrow> (\<forall>ns n u. k_getCR K ns n w = Inr u \<longrightarrow> (\<exists>v. k_getCR K ns n w' = Inr v \<and> same_spec u v))"

lemma specs_kept_trans: "specs_kept K w w' \<Longrightarrow> specs_kept K w' w'' \<Longrightarrow> specs_kept K w w''"
  unfolding specs_kept_def using same_spec_trans by metis

text \<open>A step of the controller: an event, a tick of the timer, or a delayed deletion.\<close>

inductive controller_step :: "'w Watcher \<Rightarrow> 'w Cluster_state \<Rightarrow> 'w Cluster_state \<Rightarrow> bool" for w :: "'w Watcher" where
  event: "controller_step w st (handle w e st)"
| tick: "controller_step w st (snd (RunOnce \<lparr>sv_Controller = wt_Ctrl w, sv_Namespace = wt_Namespace w, sv_Interval = i\<rparr> st))"
| deletion: "controller_step w st (fireDeletion (wt_Ctrl w) i st)"

inductive_cases controller_stepE: "controller_step w st st'"

context kube_api
begin

lemma specs_kept_refl: "specs_kept K w w"
  unfolding specs_kept_def using getCR_object same_spec_refl by blast

lemma specs_kept_resources: "keeps_resources K w w' \<Longrightarrow> specs_kept K w w'"
  using specs_kept_refl by (simp add: specs_kept_def keeps_resources_def)

lemma specs_kept_status:
  assumes c: "c_api c = K" and g: "k_getCR K ns n (cs_world st) = Inr u"
  shows "specs_kept K (cs_world st) (cs_world (snd (updateCRStatus c u s st)))"
  unfolding specs_kept_def
proof (intro allI impI)
  fix ns' n' u' assume g': "k_getCR K ns' n' (cs_world st) = Inr u'"
  obtain r st' where u: "updateCRStatus c u s st = (r, st')" by fastforce
  have o: "is_object u" "GetName u = n" "GetNamespace u = ns" using getCR_object [OF g] by auto
  have m: "GetName (merge_status u s) = n" using merge_status_names o by simp
  show "\<exists>v. k_getCR K ns' n' (cs_world (snd (updateCRStatus c u s st))) = Inr v \<and> same_spec u' v"
  proof (cases "(ns', n') = (ns, n)")
    case True
    then show ?thesis using updateCRStatus_spec [OF c g u] g g' u by auto
  next
    case False
    obtain r1 w1 where s1: "k_UpdateStatus K ns (merge_status u s) (cs_world st) = (r1, w1)" by fastforce
    obtain v where v: "k_getCR K ns' n' w1 = Inr v" "same_spec u' v" using UpdateStatus_spec [OF s1 g'] by auto
    show ?thesis
    proof (cases r1)
      case None
      then show ?thesis using v s1 o c by (simp add: updateCRStatus_def onCluster_def)
    next
      case (Some e)
      obtain r2 w2 where s2: "k_Update K ns (merge_status u s) w1 = (r2, w2)" by fastforce
      have "k_getCR K ns' n' w2 = Inr v" using Update_other [OF s2] m False v(1) by simp
      then show ?thesis using v(2) s1 s2 Some o c by (simp add: updateCRStatus_def onCluster_def)
    qed
  qed
qed

lemma specs_kept_deletion: "c_api c = K \<Longrightarrow> specs_kept K (cs_world st) (cs_world (scheduleJobDeletion c ns n st))"
  using scheduleJobDeletion_removes [of c ns n st] specs_kept_resources by (simp add: removes_only_def)

lemma specs_kept_delete: "c_api c = K \<Longrightarrow> specs_kept K (cs_world st) (cs_world (snd (deleteJob c ns n st)))"
  using deleteJob_removes [of c ns n st] specs_kept_resources by (cases "deleteJob c ns n st") (simp add: removes_only_def)

lemma specs_kept_create: "specs_kept K (cs_world st) (cs_world (snd (onCluster (k_createJob K ns j) st)))"
  using createJob_frame specs_kept_resources by (cases "k_createJob K ns j (cs_world st)") (auto simp: onCluster_def)

lemma specs_kept_ensureJob:
  assumes "c_api c = K"
  shows "specs_kept K (cs_world st) (cs_world (snd (ensureJob c ns node job st)))"
proof (cases "k_getJob K ns (job_Name job) (cs_world st)")
  case (Inl e)
  obtain r st' where cr: "onCluster (k_createJob K ns job) st = (r, st')" by fastforce
  have s: "specs_kept K (cs_world st) (cs_world st')" using specs_kept_create [of st ns job] cr by simp
  have d: "specs_kept K (cs_world st') (cs_world (deleteStale c ns (job_Name job) js st'))" for js
    using deleteStale_removes [OF assms] specs_kept_resources unfolding removes_only_def by blast
  show ?thesis using Inl cr assms s specs_kept_trans [OF s d] by (cases r) (simp_all add: ensureJob_def)
qed (use assms specs_kept_refl in \<open>simp add: ensureJob_def\<close>)

lemma specs_kept_Reconcile:
  assumes c: "c_api c = K"
  shows "specs_kept K (cs_world st) (cs_world (snd (Reconcile c ns n st)))"
proof (cases "k_getCR K ns n (cs_world st)")
  case (Inr u)
  obtain r st' where r: "Reconcile c ns n st = (r, st')" by fastforce
  show ?thesis
  proof (cases rule: Reconcile_cases [OF c Inr r, case_names idle scheduled])
    case idle
    then show ?thesis using r specs_kept_refl by simp
  next
    case (scheduled node job r1 st1)
    then show ?thesis
      using specs_kept_trans [OF specs_kept_status [OF c Inr, of "inProgress c u job st"] specs_kept_ensureJob [OF c, of _ ns "nodeOf u" job]] r
      by simp
  qed
qed (use c specs_kept_refl in \<open>simp add: Reconcile_def\<close>)

lemma specs_kept_updateInterfaceStates:
  assumes c: "c_api c = K"
  shows "specs_kept K (cs_world st) (cs_world (snd (updateInterfaceStates c ns n st)))"
  using c specs_kept_refl specs_kept_status [OF c, of ns n st]
  by (auto simp: updateInterfaceStates_def split: sum.splits)

lemma specs_kept_processNames:
  assumes c: "c_api c = K"
  shows "specs_kept K (cs_world st) (cs_world (snd (processNames c ns names st)))"
proof (induction names arbitrary: st)
  case (Cons name names)
  obtain r st1 where r: "Reconcile c ns name st = (r, st1)" by fastforce
  have a: "specs_kept K (cs_world st) (cs_world st1)" using specs_kept_Reconcile [OF c, of st ns name] r by simp
  note b = specs_kept_trans [OF specs_kept_updateInterfaceStates [OF c, of st1 ns name] Cons.IH]
  show ?case using r a specs_kept_trans [OF a b] by (cases r) simp_all
qed (simp add: specs_kept_refl)

lemma specs_kept_ProcessAll: "c_api c = K \<Longrightarrow> specs_kept K (cs_world st) (cs_world (snd (ProcessAll c ns st)))"
  using specs_kept_processNames specs_kept_refl by (simp add: ProcessAll_def split: sum.splits)

lemma specs_kept_processJob:
  assumes c: "c_api c = K"
  shows "specs_kept K (cs_world st) (cs_world (processJob c ns job st))"
proof -
  note d = specs_kept_deletion [OF c]
  have "specs_kept K (cs_world st) (cs_world (jobSucceeded c ns job u st))" if "k_getCR K ns n (cs_world st) = Inr u" for u n
    using specs_kept_trans [OF specs_kept_status [OF c that] d]
    by (auto simp: jobSucceeded_def Let_def partialFailure_def fullSuccess_def split: option.splits list.splits)
  moreover have "specs_kept K (cs_world st) (cs_world (jobFailed c ns job u st))" if "k_getCR K ns n (cs_world st) = Inr u" for u n
    using specs_kept_trans [OF specs_kept_status [OF c that] d] by (auto simp: jobFailed_def split: prod.splits)
  ultimately show ?thesis using c d specs_kept_refl by (auto simp: processJob_def Let_def split: sum.splits)
qed

lemma specs_kept_ProcessJobs:
  assumes c: "c_api c = K"
  shows "specs_kept K (cs_world st) (cs_world (snd (ProcessJobs c ns st)))"
proof -
  have "specs_kept K (cs_world st) (cs_world (fold (processJob c ns) js st))" for js
    by (induction js arbitrary: st) (auto simp: specs_kept_refl intro: specs_kept_trans specs_kept_processJob [OF c])
  then show ?thesis using specs_kept_refl by (simp add: ProcessJobs_def split: sum.splits)
qed

lemma specs_kept_handle:
  assumes c: "c_api (wt_Ctrl w) = K"
  shows "specs_kept K (cs_world st) (cs_world (handle w e st))"
proof -
  have cr: "specs_kept K (cs_world st) (cs_world (handleCR w obj st))" for obj
    using specs_kept_Reconcile [OF c] specs_kept_refl by (simp add: handleCR_def split: option.splits)
  have del: "specs_kept K (cs_world st) (cs_world (handleCRDelete w obj st))" for obj
    using specs_kept_create specs_kept_refl c
    by (simp add: handleCRDelete_def LaunchCleanupJob_def Let_def split: option.splits sum.splits)
  have pod: "specs_kept K (cs_world st) (cs_world (handlePod w obj st))" for obj
    using specs_kept_status [OF c] specs_kept_refl c
    by (cases obj) (auto simp: ApplyTerminationSummary_def Let_def split: sum.splits option.splits prod.splits)
  show ?thesis using cr del pod specs_kept_ProcessJobs [OF c] by (cases e) simp_all
qed

lemma specs_kept_step:
  assumes c: "c_api (wt_Ctrl w) = K" and s: "controller_step w st st'"
  shows "specs_kept K (cs_world st) (cs_world st')"
  using s
proof cases
  case (event e)
  then show ?thesis using specs_kept_handle [OF c] by simp
next
  case tick
  let ?c = "wt_Ctrl w" and ?ns = "wt_Namespace w"
  obtain r st1 where r: "ProcessAll ?c ?ns st = (r, st1)" by fastforce
  have a: "specs_kept K (cs_world st) (cs_world st1)" using specs_kept_ProcessAll [OF c, of st ?ns] r by simp
  show ?thesis using a specs_kept_trans [OF a specs_kept_ProcessJobs [OF c]] tick r by (cases r) (simp_all add: RunOnce_def)
next
  case (deletion i)
  then show ?thesis using specs_kept_delete [OF c] specs_kept_refl
    by (auto simp: fireDeletion_def split: prod.splits) (metis Cluster_state.select_convs(1) Cluster_state.surjective Cluster_state.update_convs(2))
qed

end

section \<open>Properties\<close>

text \<open>
  C14: the controller never changes what it is asked for. However events, ticks of the timer and
  delayed deletions follow each other, every resource that was there is still there with the
  specification, the generation and the identifying metadata it had.
\<close>

theorem controller_keeps_specs:
  assumes "kube_api (c_api (wt_Ctrl w))" "(controller_step w)\<^sup>*\<^sup>* st st'"
  shows "specs_kept (c_api (wt_Ctrl w)) (cs_world st) (cs_world st')"
proof -
  have "invariant_system (controller_step w) (\<lambda>s. specs_kept (c_api (wt_Ctrl w)) (cs_world st) (cs_world s))"
    by unfold_locales (rule specs_kept_trans [OF _ kube_api.specs_kept_step [OF assms(1) refl]])
  from invariant_system.run_good [OF this assms(2) kube_api.specs_kept_refl [OF assms(1)]] show ?thesis .
qed

theorem controller_keeps_specs_witness:
  "specs_kept memory_api (cs_world (sample_cluster (sample_cr 2 []) [] []))
     (cs_world (handle \<lparr>wt_Ctrl = sample_controller 0, wt_Namespace = ''ns''\<rparr> JobUpdated
       (handle \<lparr>wt_Ctrl = sample_controller 0, wt_Namespace = ''ns''\<rparr> (CRAdded (Unstructured (sample_cr 2 []))) (sample_cluster (sample_cr 2 []) [] []))))"
proof -
  let ?w = "\<lparr>wt_Ctrl = sample_controller 0, wt_Namespace = ''ns''\<rparr>"
  have k: "kube_api (c_api (wt_Ctrl ?w))" using memory.kube_api_axioms by simp
  let ?st = "sample_cluster (sample_cr 2 []) [] []"
  have "(controller_step ?w)\<^sup>*\<^sup>* ?st (handle ?w JobUpdated (handle ?w (CRAdded (Unstructured (sample_cr 2 []))) ?st))"
    using controller_step.event [of ?w] by (meson rtranclp.rtrancl_into_rtrancl rtranclp.rtrancl_refl)
  note s = controller_keeps_specs [OF k this]
  have a: "c_api (wt_Ctrl ?w) = memory_api" by simp
  show ?thesis by (rule s [unfolded a])
qed

text \<open>
  The summary of a failed pod reaches no resource. The pods of the jobs that the controller
  builds carry no label with the node, so the name is taken from the job's name, generation and
  all; when no resource has that name, the event changes nothing.
\<close>

theorem failed_pod_unattributed:
  assumes "pod_Labels pod = job_podLabels (agentJob c ns img (agentJobName node gen) node act) @ [(''job-name'', agentJobName node gen)]"
    and "found (k_getCR (c_api (wt_Ctrl w)) (wt_Namespace w) (node @ ''-g'' @ Itoa gen) (cs_world st)) = None"
  shows "podNode pod = node @ ''-g'' @ Itoa gen \<and> podNode pod \<noteq> node \<and> handlePod w (PodObject pod) st = st"
proof -
  have l: "label (pod_Labels pod) ''job-name'' = ''multinic-agent-'' @ node @ ''-g'' @ Itoa gen" "label (pod_Labels pod) ''multinic.io/node-name'' = []"
    using assms(1) by (simp_all add: label_def agentJob_def BuildAgentJob_def Let_def agentJobName_def)
  then have "podNode pod = node @ ''-g'' @ Itoa gen" by (simp add: podNode_def)
  moreover have "handlePod w (PodObject pod) st = st"
    using assms(2) calculation by (auto simp: found_eq ApplyTerminationSummary_def split: prod.splits)
  ultimately show ?thesis by simp
qed

theorem failed_pod_unattributed_witness:
  "handlePod \<lparr>wt_Ctrl = sample_controller 0, wt_Namespace = ''ns''\<rparr> (PodObject (sample_pod (agentJobName ''n1'' 2) ''summary''))
     (sample_cluster (sample_cr 2 []) [] []) = sample_cluster (sample_cr 2 []) [] []"
proof -
  have l: "pod_Labels (sample_pod (agentJobName ''n1'' 2) ''summary'') =
      job_podLabels (agentJob (sample_controller 0) ''ns'' ''Ubuntu'' (agentJobName ''n1'' 2) ''n1'' []) @ [(''job-name'', agentJobName ''n1'' 2)]"
    by (simp add: sample_pod_def agentJob_def BuildAgentJob_def Let_def)
  have "found (k_getCR (c_api (wt_Ctrl \<lparr>wt_Ctrl = sample_controller 0, wt_Namespace = ''ns''\<rparr>)) (wt_Namespace \<lparr>wt_Ctrl = sample_controller 0, wt_Namespace = ''ns''\<rparr>)
      (''n1'' @ ''-g'' @ Itoa 2) (cs_world (sample_cluster (sample_cr 2 []) [] []))) = None"
    by (simp add: sample_cluster_def mem_getCR_def)
  from failed_pod_unattributed [OF l this] show ?thesis by blast
qed

text \<open>
  A cleanup job is never removed by the controller, whatever became of it, and while it is
  there the deletion of the resource of its node starts no other.
\<close>

theorem cleanup_job_blocks:
  assumes "job = agentJob c ns img (''multinic-agent-cleanup-'' @ node) node ''cleanup''"
  shows "processJob c ns (job\<lparr>job_Succeeded := a, job_Failed := b\<rparr>) st = st"
    and "k_getNode (c_api c) node (cs_world st) = Inr nd \<Longrightarrow> k_getJob (c_api c) ns (job_Name job) (cs_world st) = Inr j \<Longrightarrow>
      handleCRDelete \<lparr>wt_Ctrl = c, wt_Namespace = ns\<rparr> (Accessor node ns') st = st"
proof -
  have "EqualFold (TrimSpace ''cleanup'') ''cleanup''" by code_simp
  moreover have "TrimSpace ''cleanup'' \<noteq> []" by code_simp
  ultimately have a: "EqualFold (TrimSpace (label (job_Labels (job\<lparr>job_Succeeded := a, job_Failed := b\<rparr>)) ''multinic.io/action'')) ''cleanup''"
    using assms by (simp add: agentJob_def BuildAgentJob_def Let_def label_def)
  show "processJob c ns (job\<lparr>job_Succeeded := a, job_Failed := b\<rparr>) st = st"
    unfolding processJob_def Let_def using a by (simp only: if_True)
  show "handleCRDelete \<lparr>wt_Ctrl = c, wt_Namespace = ns\<rparr> (Accessor node ns') st = st"
    if "k_getNode (c_api c) node (cs_world st) = Inr nd" "k_getJob (c_api c) ns (job_Name job) (cs_world st) = Inr j"
    using that assms by (simp add: handleCRDelete_def LaunchCleanupJob_def named_object_def GetName_def NestedString_def Let_def)
qed

end
