(* ===== verification/Controller_Main.thy ===== *)
theory Controller_Main
  imports Watcher Config "HOL-Library.Signed_Division"
begin

text \<open>
  \<open>cmd/controller/main.go\<close>: the settings of the controller and its two modes. The clients of the
  cluster, the JSON parser and the digest are parameters; the metrics server is its address, and
  the logging is left out.
\<close>

section \<open>Settings\<close>

definition getenv :: "environ \<Rightarrow> string \<Rightarrow> string \<Rightarrow> string" where
  "getenv env k def = (let v = env k in if v = [] then def else v)"

definition controllerNamespace :: "environ \<Rightarrow> string" where
  "controllerNamespace env = getenv env ''CONTROLLER_NAMESPACE'' (getenv env ''POD_NAMESPACE'' ''multinic-system'')"

text \<open>The zero duration stands for a text that does not parse.\<close>

definition controllerInterval :: "environ \<Rightarrow> int" where
  "controllerInterval env = or_zero 0 (ParseDuration (getenv env ''POLL_INTERVAL'' ''15s''))"

text \<open>A conversion to 32 bits keeps the low bits.\<close>

definition wrap32 :: "int \<Rightarrow> int" where "wrap32 i = (i + 2 ^ 31) mod 2 ^ 32 - 2 ^ 31"

definition seconds :: "string \<Rightarrow> int option" where
  "seconds text = map_option (\<lambda>secs. secs sdiv second) (ParseDuration (text @ ''s''))"

definition newController :: "'w KubeAPI \<Rightarrow> (string \<Rightarrow> json option) \<Rightarrow> (json \<Rightarrow> string) \<Rightarrow> environ \<Rightarrow> 'w Controller" where
  "newController api parse digest env =
     \<lparr>c_api = api, c_AgentImage = getenv env ''AGENT_IMAGE'' ''multinic-agent:latest'', c_ImagePullPolicy = ''IfNotPresent'',
      c_ServiceAccount = getenv env ''CONTROLLER_SA_NAME'' (getenv env ''SERVICE_ACCOUNT'' ''multinic-agent''),
      c_NodeCRNamespace = getenv env ''NODE_CR_NAMESPACE'' (controllerNamespace env),
      c_JobTTLSeconds = map_option wrap32 (seconds (getenv env ''CONTROLLER_JOB_TTL'' ''600'')),
      c_JobDeleteDelaySeconds = or_zero 0 (seconds (getenv env ''CONTROLLER_JOB_DELETE_DELAY'' ''0'')),
      c_json = parse, c_digest = digest\<rparr>"

section \<open>The program\<close>

text \<open>
  What the cluster does to the controller: the events of the informers, each after a change
  that is not the controller's, or the changes between the ticks.
\<close>

definition controller_main :: "'w KubeAPI \<Rightarrow> (string \<Rightarrow> json option) \<Rightarrow> (json \<Rightarrow> string) \<Rightarrow> environ
    \<Rightarrow> (('w Cluster_state \<Rightarrow> 'w Cluster_state) \<times> event) list \<Rightarrow> ('w Cluster_state \<Rightarrow> 'w Cluster_state) list
    \<Rightarrow> 'w Cluster_state \<Rightarrow> service_end \<times> 'w Cluster_state" where
  "controller_main api parse digest env events ticks st =
     (let c = newController api parse digest env
      in if getenv env ''CONTROLLER_MODE'' ''watch'' = ''watch''
         then (Returned None, Watcher_Start (NewWatcher c (controllerNamespace env)) events st)
         else Service_Start \<lparr>sv_Controller = c, sv_Namespace = controllerNamespace env, sv_Interval = controllerInterval env\<rparr> ticks st)"

text \<open>
  The clients: from inside the cluster first, then from a configuration file, which may be the
  empty text. How a client is made is the Kubernetes library's; an error ends the process with a
  message.
\<close>

record ('cfg, 'dyn, 'cli) KubeLibrary =
  kl_inCluster :: "(go_error, 'cfg) result"
  kl_fromFlags :: "string \<Rightarrow> string \<Rightarrow> (go_error, 'cfg) result"
  kl_dynamic :: "'cfg \<Rightarrow> (go_error, 'dyn) result"
  kl_kubernetes :: "'cfg \<Rightarrow> (go_error, 'cli) result"

definition fatal :: "string \<Rightarrow> (go_error, 'a) result \<Rightarrow> (string, 'a) result" where
  "fatal msg r = (case r of Inl err \<Rightarrow> Inl (msg @ '': '' @ Error err) | Inr x \<Rightarrow> Inr x)"

definition buildClients :: "('cfg, 'dyn, 'cli) KubeLibrary \<Rightarrow> environ \<Rightarrow> (string, 'dyn \<times> 'cli) result" where
  "buildClients k env =
     rbind (case kl_inCluster k of
              Inr cfg \<Rightarrow> Inr cfg
            | Inl _ \<Rightarrow> fatal ''kubeconfig error'' (kl_fromFlags k [] (env ''KUBECONFIG''))) (\<lambda>cfg.
     rbind (fatal ''dynamic client error'' (kl_dynamic k cfg)) (\<lambda>dyn.
     rbind (fatal ''kube client error'' (kl_kubernetes k cfg)) (\<lambda>cli. Inr (dyn, cli))))"

definition metricsAddr :: "environ \<Rightarrow> string" where
  "metricsAddr env = '':'' @ getenv env ''CONTROLLER_METRICS_PORT'' ''9090''"

text \<open>The whole process: a message that it dies with, or the end of its loop.\<close>

definition controller_process :: "('cfg, 'dyn, 'cli) KubeLibrary \<Rightarrow> ('dyn \<times> 'cli \<Rightarrow> 'w KubeAPI) \<Rightarrow> (string \<Rightarrow> json option) \<Rightarrow> (json \<Rightarrow> string)
    \<Rightarrow> environ \<Rightarrow> (('w Cluster_state \<Rightarrow> 'w Cluster_state) \<times> event) list \<Rightarrow> ('w Cluster_state \<Rightarrow> 'w Cluster_state) list
    \<Rightarrow> 'w Cluster_state \<Rightarrow> (string, service_end \<times> 'w Cluster_state) result" where
  "controller_process k api parse digest env events ticks st =
     rbind (buildClients k env) (\<lambda>clients. Inr (controller_main (api clients) parse digest env events ticks st))"

lemma buildClients_ok:
  "is_ok (buildClients k env) \<longleftrightarrow>
     (\<exists>cfg. (kl_inCluster k = Inr cfg \<or> \<not> is_ok (kl_inCluster k) \<and> kl_fromFlags k [] (env ''KUBECONFIG'') = Inr cfg) \<and>
       is_ok (kl_dynamic k cfg) \<and> is_ok (kl_kubernetes k cfg))"
  by (auto simp: buildClients_def fatal_def is_ok_iff rbind_eq_Inr split: sum.splits)

section \<open>Numbers of seconds\<close>

lemma leadingInt_digits:
  assumes "list_all is_digit s" "2 ^ 63 > foldl (\<lambda>a c. a * 10 + digit_val c) x s"
  shows "leadingInt x (s @ CHR ''s'' # t) = Some (foldl (\<lambda>a c. a * 10 + digit_val c) x s, CHR ''s'' # t)"
  using assms
proof (induction s arbitrary: x)
  case Nil
  then show ?case by (simp add: is_digit_def)
next
  case (Cons c s)
  have "y \<le> foldl (\<lambda>a c. a * 10 + digit_val c) y s" for y :: nat
  proof (induction s arbitrary: y)
    case (Cons d s)
    have "y \<le> y * 10 + digit_val d" by simp
    then show ?case using Cons [of "y * 10 + digit_val d"] by simp
  qed simp
  from this [of "x * 10 + digit_val c"] have "x * 10 + digit_val c < 2 ^ 63" using Cons.prems(2) by simp
  then show ?case using Cons by simp
qed

lemma ParseDuration_seconds:
  assumes "n \<le> 9223372036"
  shows "ParseDuration (utoa n @ ''s'') = Some (int n * second)"
proof -
  obtain c r where u: "utoa n = c # r" by (cases "utoa n") auto
  have dg: "list_all is_digit (utoa n)" by (rule utoa_digits)
  then have c: "is_digit c" using u by simp
  have l: "leadingInt 0 (utoa n @ ''s'') = Some (n, ''s'')"
    using leadingInt_digits [OF dg, of 0 "[]"] assms dec_val_utoa [of n] by (simp add: dec_val_def)
  have h: "number_char c" "c \<noteq> CHR ''-''" "c \<noteq> CHR ''+''" using c by (auto simp: number_char_def is_digit_def)
  have p: "durationPart (utoa n @ ''s'') = Some (n * 1000000000, [])"
    using l assms h u by (simp add: durationPart_def fraction_def durationUnit_def number_char_def is_digit_def)
  have "durationLoop (utoa n @ ''s'') 0 = Some (n * 1000000000)"
    using p assms by (simp add: u)
  then show ?thesis using h assms by (simp add: ParseDuration_def u second_def)
qed

lemma seconds_utoa: "n \<le> 9223372036 \<Longrightarrow> seconds (utoa n) = Some (int n)"
  by (cases "n = 0") (simp_all add: seconds_def ParseDuration_seconds signed_divide_int_def second_def sgn_if)

lemma wrap32_low: "0 \<le> i \<Longrightarrow> i < 2 ^ 31 \<Longrightarrow> wrap32 i = i"
  and wrap32_high: "2 ^ 31 \<le> i \<Longrightarrow> i < 2 ^ 32 \<Longrightarrow> wrap32 i = i - 2 ^ 32"
proof -
  show "0 \<le> i \<Longrightarrow> i < 2 ^ 31 \<Longrightarrow> wrap32 i = i" by (simp add: wrap32_def)
  assume a: "2 ^ 31 \<le> i" "i < 2 ^ 32"
  have "(i + 2 ^ 31) mod 2 ^ 32 = (i + 2 ^ 31 - 2 ^ 32) mod 2 ^ 32" by (simp only: minus_mod_self2)
  also have "\<dots> = i + 2 ^ 31 - 2 ^ 32" using a by (intro mod_pos_pos_trivial) simp_all
  finally show "wrap32 i = i - 2 ^ 32" by (simp add: wrap32_def)
qed

section \<open>Property\<close>

text \<open>
  C40: how the controller reads the lifetime of its jobs and the interval of its poll mode. A
  plain number of seconds is taken as it is while it fits 31 bits; the next ones become
  negative. Since the unit is appended to the text, a value with a unit is not what it says:
  10m is ten milliseconds, that is no lifetime at all, and 600s does not parse, so that the
  jobs are kept for ever. An interval that does not parse makes the poll mode panic before it does anything.
\<close>

theorem controller_settings:
  "(env ''CONTROLLER_JOB_TTL'' = [] \<longrightarrow> c_JobTTLSeconds (newController api parse digest env) = Some 600) \<and>
   (env ''CONTROLLER_JOB_TTL'' = utoa n \<and> n < 2 ^ 31 \<longrightarrow> c_JobTTLSeconds (newController api parse digest env) = Some (int n)) \<and>
   (env ''CONTROLLER_JOB_TTL'' = utoa n \<and> 2 ^ 31 \<le> n \<and> n < 2 ^ 32 \<longrightarrow>
      c_JobTTLSeconds (newController api parse digest env) = Some (int n - 2 ^ 32)) \<and>
   (env ''CONTROLLER_JOB_TTL'' = ''10m'' \<longrightarrow> c_JobTTLSeconds (newController api parse digest env) = Some 0) \<and>
   (env ''CONTROLLER_JOB_TTL'' = ''600s'' \<longrightarrow> c_JobTTLSeconds (newController api parse digest env) = None) \<and>
   (env ''CONTROLLER_MODE'' = ''poll'' \<and> ParseDuration (env ''POLL_INTERVAL'') = None \<and> env ''POLL_INTERVAL'' \<noteq> [] \<longrightarrow>
      controller_main api parse digest env events ticks st = (NewTickerPanics, st))"
proof -
  have ttl: "c_JobTTLSeconds (newController api parse digest env) = map_option wrap32 (seconds (getenv env ''CONTROLLER_JOB_TTL'' ''600''))"
    by (simp add: newController_def)
  have e: "seconds ''600'' = Some 600" "seconds ''10m'' = Some 0" "seconds ''600s'' = None"
    by (simp_all add: seconds_def ParseDuration_def durationPart_def fraction_def durationUnit_def number_char_def is_digit_def digit_val_def
        signed_divide_int_def second_def)
  have n: "n < 2 ^ 32 \<Longrightarrow> seconds (utoa n) = Some (int n)" using seconds_utoa [of n] by simp
  show ?thesis
    using n wrap32_low [of "int n"] wrap32_high [of "int n"]
    by (auto simp: ttl e getenv_def Let_def wrap32_def controller_main_def Service_Start_def controllerInterval_def)
qed

theorem controller_settings_witness:
  "c_JobTTLSeconds (newController memory_api (\<lambda>s. None) (\<lambda>v. []) ((\<lambda>k. [])(''CONTROLLER_JOB_TTL'' := ''10m''))) = Some 0 \<and>
   c_JobTTLSeconds (newController memory_api (\<lambda>s. None) (\<lambda>v. []) ((\<lambda>k. [])(''CONTROLLER_JOB_TTL'' := utoa 3000000000))) = Some (- 1294967296)"
  using controller_settings [of "(\<lambda>k. [])(''CONTROLLER_JOB_TTL'' := ''10m'')" memory_api "\<lambda>s. None" "\<lambda>v. []" 0 "[]" "[]" undefined]
    controller_settings [of "(\<lambda>k. [])(''CONTROLLER_JOB_TTL'' := utoa 3000000000)" memory_api "\<lambda>s. None" "\<lambda>v. []" 3000000000 "[]" "[]" undefined]
  by simp

end
