(* ===== verification/Metrics.thy ===== *)
theory Metrics
  imports Worker_Pool Polling
begin

text \<open>
  \<open>internal/infrastructure/metrics/metrics.go\<close>: the metrics that the agent registers with the
  Prometheus client, and the functions through which it records them, each as the list of calls
  of the client that it makes. The client itself, which keeps the values, is not modelled; the
  help texts and the buckets of the histograms are left out.
\<close>

section \<open>Families\<close>

datatype metric_kind = Counter | Gauge | Histogram

record family =
  fm_kind :: metric_kind
  fm_name :: string
  fm_labels :: "string list"

definition InterfacesProcessed :: family where
  "InterfacesProcessed = \<lparr>fm_kind = Counter, fm_name = ''multinic_interfaces_processed_total'', fm_labels = [''status'']\<rparr>"

definition InterfaceProcessingDuration :: family where
  "InterfaceProcessingDuration = \<lparr>fm_kind = Histogram, fm_name = ''multinic_interface_processing_duration_seconds'', fm_labels =
    [''interface_name'', ''status'']\<rparr>"

definition PollingCycleCount :: family where
  "PollingCycleCount = \<lparr>fm_kind = Counter, fm_name = ''multinic_polling_cycles_total'', fm_labels = []\<rparr>"

definition PollingCycleDuration :: family where
  "PollingCycleDuration = \<lparr>fm_kind = Histogram, fm_name = ''multinic_polling_cycle_duration_seconds'', fm_labels = []\<rparr>"

definition PollingBackoffLevel :: family where
  "PollingBackoffLevel = \<lparr>fm_kind = Gauge, fm_name = ''multinic_polling_backoff_level'', fm_labels = []\<rparr>"

definition DBConnectionStatus :: family where
  "DBConnectionStatus = \<lparr>fm_kind = Gauge, fm_name = ''multinic_db_connection_status'', fm_labels = []\<rparr>"

definition DBQueryDuration :: family where
  "DBQueryDuration = \<lparr>fm_kind = Histogram, fm_name = ''multinic_db_query_duration_seconds'', fm_labels = [''query_type'']\<rparr>"

definition ConcurrentTasks :: family where
  "ConcurrentTasks = \<lparr>fm_kind = Gauge, fm_name = ''multinic_concurrent_tasks'', fm_labels = []\<rparr>"

definition WorkerQueueDepth :: family where
  "WorkerQueueDepth = \<lparr>fm_kind = Gauge, fm_name = ''multinic_worker_queue_depth'', fm_labels = [''pool'']\<rparr>"

definition WorkerActive :: family where
  "WorkerActive = \<lparr>fm_kind = Gauge, fm_name = ''multinic_worker_active'', fm_labels = [''pool'']\<rparr>"

definition WorkerUtilization :: family where
  "WorkerUtilization = \<lparr>fm_kind = Gauge, fm_name = ''multinic_worker_utilization'', fm_labels = [''pool'']\<rparr>"

definition WorkerTaskDuration :: family where
  "WorkerTaskDuration = \<lparr>fm_kind = Histogram, fm_name = ''multinic_worker_task_duration_seconds'', fm_labels = [''pool'',
    ''status'']\<rparr>"

definition WorkerRetries :: family where
  "WorkerRetries = \<lparr>fm_kind = Counter, fm_name = ''multinic_worker_task_retries_total'', fm_labels = [''pool'']\<rparr>"

definition WorkerPanics :: family where
  "WorkerPanics = \<lparr>fm_kind = Counter, fm_name = ''multinic_worker_panics_total'', fm_labels = [''pool'']\<rparr>"

definition ConfigurationDrifts :: family where
  "ConfigurationDrifts = \<lparr>fm_kind = Counter, fm_name = ''multinic_configuration_drifts_total'', fm_labels = [''drift_type'']\<rparr>"

definition OrphanedInterfacesDeleted :: family where
  "OrphanedInterfacesDeleted = \<lparr>fm_kind = Counter, fm_name = ''multinic_orphaned_interfaces_deleted_total'', fm_labels = []\<rparr>"

definition ErrorsTotal :: family where
  "ErrorsTotal = \<lparr>fm_kind = Counter, fm_name = ''multinic_errors_total'', fm_labels = [''error_type'']\<rparr>"

definition AgentInfo :: family where
  "AgentInfo = \<lparr>fm_kind = Gauge, fm_name = ''multinic_agent_info'', fm_labels = [''version'', ''os_type'', ''node_name'']\<rparr>"

definition RoutingLockWaitDuration :: family where
  "RoutingLockWaitDuration = \<lparr>fm_kind = Histogram, fm_name = ''multinic_routing_lock_wait_duration_seconds'', fm_labels = []\<rparr>"

definition RoutingOperationDuration :: family where
  "RoutingOperationDuration = \<lparr>fm_kind = Histogram, fm_name = ''multinic_routing_operation_duration_seconds'', fm_labels =
    []\<rparr>"

definition RoutingOperationFailures :: family where
  "RoutingOperationFailures = \<lparr>fm_kind = Counter, fm_name = ''multinic_routing_operation_failures_total'', fm_labels = []\<rparr>"

definition PreflightUpBlockTotal :: family where
  "PreflightUpBlockTotal = \<lparr>fm_kind = Counter, fm_name = ''multinic_preflight_up_block_total'', fm_labels = [''reason'']\<rparr>"

definition families :: "family list" where
  "families = [InterfacesProcessed, InterfaceProcessingDuration, PollingCycleCount, PollingCycleDuration, PollingBackoffLevel,
    DBConnectionStatus, DBQueryDuration, ConcurrentTasks, WorkerQueueDepth, WorkerActive, WorkerUtilization, WorkerTaskDuration, WorkerRetries,
    WorkerPanics, ConfigurationDrifts, OrphanedInterfacesDeleted, ErrorsTotal, AgentInfo, RoutingLockWaitDuration, RoutingOperationDuration,
    RoutingOperationFailures, PreflightUpBlockTotal]"

lemmas family_defs = InterfacesProcessed_def InterfaceProcessingDuration_def PollingCycleCount_def PollingCycleDuration_def
    PollingBackoffLevel_def DBConnectionStatus_def DBQueryDuration_def ConcurrentTasks_def WorkerQueueDepth_def WorkerActive_def
    WorkerUtilization_def WorkerTaskDuration_def WorkerRetries_def WorkerPanics_def ConfigurationDrifts_def OrphanedInterfacesDeleted_def
    ErrorsTotal_def AgentInfo_def RoutingLockWaitDuration_def RoutingOperationDuration_def RoutingOperationFailures_def
    PreflightUpBlockTotal_def

section \<open>Calls\<close>

text \<open>A call on the metric of a family with the given label values.\<close>

datatype metric_call = Inc family "string list" | Set family "string list" real | Observe family "string list" real

text \<open>
  The method and the number of label values of a call are those of a registered family; which
  label values the client takes is its own affair.
\<close>

fun call_shape :: "metric_call \<Rightarrow> metric_kind \<times> family \<times> nat" where
  "call_shape (Inc f ls) = (Counter, f, length ls)"
| "call_shape (Set f ls x) = (Gauge, f, length ls)"
| "call_shape (Observe f ls x) = (Histogram, f, length ls)"

definition fits_family :: "metric_call \<Rightarrow> bool" where
  "fits_family c = (case call_shape c of (k, f, n) \<Rightarrow> List.member families f \<and> fm_kind f = k \<and> n = length (fm_labels f))"

section \<open>Recording\<close>

definition RecordInterfaceProcessing :: "string \<Rightarrow> string \<Rightarrow> real \<Rightarrow> metric_call list" where
  "RecordInterfaceProcessing interfaceName status duration = [Observe InterfaceProcessingDuration [interfaceName, status] duration, Inc InterfacesProcessed [status]]"

definition RecordPollingCycle :: "real \<Rightarrow> metric_call list" where
  "RecordPollingCycle duration = [Inc PollingCycleCount [], Observe PollingCycleDuration [] duration]"

definition RecordDBQuery :: "string \<Rightarrow> real \<Rightarrow> metric_call list" where
  "RecordDBQuery queryType duration = [Observe DBQueryDuration [queryType] duration]"

definition RecordError :: "string \<Rightarrow> metric_call list" where
  "RecordError errorType = [Inc ErrorsTotal [errorType]]"

definition RecordDrift :: "string \<Rightarrow> metric_call list" where
  "RecordDrift driftType = [Inc ConfigurationDrifts [driftType]]"

definition SetConcurrentTasks :: "real \<Rightarrow> metric_call list" where
  "SetConcurrentTasks n = [Set ConcurrentTasks [] n]"

definition SetWorkerQueueDepth :: "string \<Rightarrow> int \<Rightarrow> metric_call list" where
  "SetWorkerQueueDepth pool depth = [Set WorkerQueueDepth [pool] (of_int depth)]"

definition SetWorkerActive :: "string \<Rightarrow> int \<Rightarrow> int \<Rightarrow> metric_call list" where
  "SetWorkerActive pool active n = Set WorkerActive [pool] (of_int active) #
     (if 0 < n then [Set WorkerUtilization [pool] (of_int active / of_int n)] else [])"

definition ObserveWorkerTask :: "string \<Rightarrow> string \<Rightarrow> real \<Rightarrow> metric_call list" where
  "ObserveWorkerTask pool status durationSeconds = [Observe WorkerTaskDuration [pool, status] durationSeconds]"

definition IncWorkerRetry :: "string \<Rightarrow> metric_call list" where
  "IncWorkerRetry pool = [Inc WorkerRetries [pool]]"

definition IncWorkerPanic :: "string \<Rightarrow> metric_call list" where
  "IncWorkerPanic pool = [Inc WorkerPanics [pool]]"

definition SetBackoffLevel :: "real \<Rightarrow> metric_call list" where
  "SetBackoffLevel level = [Set PollingBackoffLevel [] level]"

definition SetDBConnectionStatus :: "bool \<Rightarrow> metric_call list" where
  "SetDBConnectionStatus up = (if up then [Set DBConnectionStatus [] 1] else [Set DBConnectionStatus [] 0])"

definition SetAgentInfo :: "string \<Rightarrow> string \<Rightarrow> string \<Rightarrow> metric_call list" where
  "SetAgentInfo version osType nodeName = [Set AgentInfo [version, osType, nodeName] 1]"

definition ObserveRoutingLockWaitDuration :: "real \<Rightarrow> metric_call list" where
  "ObserveRoutingLockWaitDuration duration = [Observe RoutingLockWaitDuration [] duration]"

definition ObserveRoutingOperationDuration :: "real \<Rightarrow> metric_call list" where
  "ObserveRoutingOperationDuration duration = [Observe RoutingOperationDuration [] duration]"

definition IncRoutingOperationFailures :: "metric_call list" where
  "IncRoutingOperationFailures = [Inc RoutingOperationFailures []]"

definition IncPreflightUpBlock :: "string \<Rightarrow> metric_call list" where
  "IncPreflightUpBlock reason = [Inc PreflightUpBlockTotal [reason]]"

lemmas helper_defs = RecordInterfaceProcessing_def RecordPollingCycle_def RecordDBQuery_def RecordError_def RecordDrift_def
  SetConcurrentTasks_def SetWorkerQueueDepth_def SetWorkerActive_def ObserveWorkerTask_def IncWorkerRetry_def IncWorkerPanic_def
  SetBackoffLevel_def SetDBConnectionStatus_def SetAgentInfo_def ObserveRoutingLockWaitDuration_def
  ObserveRoutingOperationDuration_def IncRoutingOperationFailures_def IncPreflightUpBlock_def

section \<open>Recording of the strategy and the pool\<close>

text \<open>What the exponential strategy records when it is asked for an interval, and when it is reset.\<close>

definition NextInterval_calls :: "bool \<Rightarrow> ExponentialBackoffStrategy \<Rightarrow> metric_call list" where
  "NextInterval_calls success s =
     (if success then (if 0 < eb_currentBackoff s then SetBackoffLevel 0 else [])
      else SetBackoffLevel (real (eb_currentBackoff s + 1)))"

definition Reset_calls :: "metric_call list" where
  "Reset_calls = SetBackoffLevel 0"

text \<open>What the pool of a name records of its queue and its workers.\<close>

definition pool_calls :: "string \<Rightarrow> 'j WorkerPool \<Rightarrow> metric_call list" where
  "pool_calls name p = SetWorkerQueueDepth name (int (QueueLen p)) @ SetWorkerActive name (int (ActiveWorkers p)) (int (NumWorkers p))"

section \<open>Facts\<close>

lemma families_names: "distinct (map fm_name families)"
  by (simp add: families_def family_defs)

text \<open>Every recording function uses the methods of the families it names, with a value for each label.\<close>

lemma helpers_fit:
  "list_all fits_family (RecordInterfaceProcessing n s d)" "list_all fits_family (RecordPollingCycle d)" "list_all fits_family (RecordDBQuery q d)"
  "list_all fits_family (RecordError t)" "list_all fits_family (RecordDrift t)" "list_all fits_family (SetConcurrentTasks x)"
  "list_all fits_family (SetWorkerQueueDepth p i)" "list_all fits_family (SetWorkerActive p i j)" "list_all fits_family (ObserveWorkerTask p s d)"
  "list_all fits_family (IncWorkerRetry p)" "list_all fits_family (IncWorkerPanic p)" "list_all fits_family (SetBackoffLevel x)"
  "list_all fits_family (SetDBConnectionStatus c)" "list_all fits_family (SetAgentInfo v t n)" "list_all fits_family (ObserveRoutingLockWaitDuration d)"
  "list_all fits_family (ObserveRoutingOperationDuration d)" "list_all fits_family IncRoutingOperationFailures"
  "list_all fits_family (IncPreflightUpBlock r)" "fits_family (Inc OrphanedInterfacesDeleted [])"
  by (simp_all add: helper_defs fits_family_def families_def) (simp_all add: family_defs)

text \<open>The level of the back-off that is recorded is the strategy's counter of failures.\<close>

lemma backoff_level_tracks:
  "NextInterval_calls success s =
     (if success \<and> eb_currentBackoff s = 0 then []
      else SetBackoffLevel (real (eb_currentBackoff (snd (Exponential_NextInterval big success s)))))"
  "Reset_calls = SetBackoffLevel (real (eb_currentBackoff (Exponential_Reset s)))"
  by (simp_all add: NextInterval_calls_def Reset_calls_def Exponential_NextInterval_def Exponential_Reset_def Let_def)

text \<open>The utilisation that is recorded for a pool is a ratio.\<close>

lemma pool_calls_bounds:
  assumes "(run_step policy)\<^sup>*\<^sup>* (NewWorkerPool w (int (length js)) js) p"
  shows "\<exists>u. Set WorkerUtilization [name] u \<in> set (pool_calls name p) \<and> 0 \<le> u \<and> u \<le> 1"
proof -
  have n: "0 < NumWorkers p" using run_frame [OF assms] by (simp add: NewWorkerPool_def NumWorkers_def)
  then have "0 \<le> real (ActiveWorkers p) / real (NumWorkers p)" "real (ActiveWorkers p) / real (NumWorkers p) \<le> 1"
    using ActiveWorkers_le [of p] by simp_all
  then show ?thesis using n
    by (intro exI [of _ "real (ActiveWorkers p) / real (NumWorkers p)"]) (simp add: pool_calls_def SetWorkerQueueDepth_def SetWorkerActive_def)
qed

end
