(* ===== verification/Service.thy ===== *)
theory Service
  imports Container
begin

text \<open>
  The service mode of the agent (\<open>cmd/agent/main.go\<close>): the polling loop over the cycles of the
  program. What the loop does depends only on the results of the cycles, so that the run
  refines the polling controller of \<open>application/polling/strategy.go\<close>, and the health endpoint
  shows the last of them.
\<close>

section \<open>Starting\<close>

text \<open>The level of the log; \<open>parse\<close> is the logging library's reading of a level.\<close>

definition logLevel :: "(string \<Rightarrow> log_level option) \<Rightarrow> environ \<Rightarrow> log_level" where
  "logLevel parse env = (let s = env ''LOG_LEVEL'' in if s \<noteq> [] then (case parse s of None \<Rightarrow> Info | Some l \<Rightarrow> l) else Info)"

text \<open>
  The health server: its address, and what answers a request for a path; the pattern \<open>/\<close> of a
  \<open>ServeMux\<close> matches every path that no other pattern matches.
\<close>

datatype endpoint = Health_endpoint | Metrics_endpoint

definition startHealthServer :: "string \<Rightarrow> string \<times> (string \<Rightarrow> endpoint)" where
  "startHealthServer port = ('':'' @ port, \<lambda>path. if path = ''/metrics'' then Metrics_endpoint else Health_endpoint)"

lemma probes_reach_health:
  assumes "c \<in> set (job_containers (BuildAgentJob img p))" "pr \<in> {ct_liveness c, ct_readiness c}"
  shows "snd (startHealthServer port) (pr_path pr) = Health_endpoint"
  using assms by (auto simp: BuildAgentJob_def Let_def httpGet_def startHealthServer_def)

section \<open>The cycles\<close>

text \<open>The results of the cycles, and the state they leave; before each the world changes.\<close>

fun cycles :: "'w Application \<Rightarrow> ('w \<Rightarrow> 'w) list \<Rightarrow> 'w AgentState \<Rightarrow> go_error option list \<times> 'w AgentState" where
  "cycles a [] st = ([], st)"
| "cycles a (env # envs) st =
     (case service_task a (st\<lparr>as_world := env (as_world st)\<rparr>) of (r, st') \<Rightarrow> case cycles a envs st' of (rs, st'') \<Rightarrow> (r # rs, st''))"

lemma cycles_length: "cycles a envs st = (rs, st') \<Longrightarrow> length rs = length envs"
  by (induction a envs st arbitrary: rs st' rule: cycles.induct) (auto split: prod.splits)

text \<open>The loop of the service is the polling loop on the results of its cycles.\<close>

lemma serving_poll:
  assumes "cycles a envs st = (rs, st')" "serving strat a envs s st out = (t, st'')"
  shows "t = poll strat rs s out \<and> (\<forall>is. t = Stopped is \<longrightarrow> st'' = st')"
  using assms
proof (induction envs arbitrary: s st out rs)
  case (Cons env envs)
  obtain r st1 where r: "service_task a (st\<lparr>as_world := env (as_world st)\<rparr>) = (r, st1)" by fastforce
  obtain rs1 st2 where c: "cycles a envs st1 = (rs1, st2)" by fastforce
  obtain i s' where i: "strat (r = None) s = (i, s')" by fastforce
  have x: "rs = r # rs1" "st' = st2" using Cons.prems(1) r c by simp_all
  have y: "if i \<le> 0 then t = TickerPanic out \<and> st'' = st1 else serving strat a envs s' st1 (out @ [i]) = (t, st'')"
    using Cons.prems(2) r i by (simp split: if_splits)
  show ?case
  proof (cases "i \<le> 0")
    case False
    then show ?thesis using Cons.IH [of st1 rs1 s' "out @ [i]"] x y i c by simp
  qed (use x y i in simp)
qed simp

lemma serve_poll:
  assumes "cycles a envs st = (rs, st')" "Polling_Start strat rs s = Stopped is"
  shows "serve strat a envs s st = (Stopped is, st')"
proof -
  obtain i s' where i: "strat True s = (i, s')" by fastforce
  obtain t st'' where t: "serving strat a envs s' st [i] = (t, st'')" by fastforce
  have "0 < i" "poll strat rs s' [i] = Stopped is" using assms(2) i by (auto simp: Polling_Start_def split: if_splits)
  then show ?thesis using serving_poll [OF assms(1) t] i t by (simp add: serve_def)
qed

lemma serve_panic:
  assumes "cycles a envs st = (rs, st')" "Polling_Start strat rs s = TickerPanic is"
  shows "fst (serve strat a envs s st) = TickerPanic is"
proof -
  obtain i s' where i: "strat True s = (i, s')" by fastforce
  obtain t st'' where t: "serving strat a envs s' st [i] = (t, st'')" by fastforce
  show ?thesis using serving_poll [OF assms(1) t] assms(2) i t by (auto simp: serve_def Polling_Start_def split: if_splits)
qed

section \<open>Intervals\<close>

text \<open>After a successful cycle the loop waits as long as at the start.\<close>

lemma poll_after_success:
  assumes step: "\<And>ok s. P s \<Longrightarrow> P (snd (strat ok s))" "\<And>s. P s \<Longrightarrow> fst (strat True s) = b"
    and run: "P s" "poll strat rs s out = Stopped is"
  shows "\<exists>js. is = out @ js \<and> length js = length rs \<and> (\<forall>k < length rs. rs ! k = None \<longrightarrow> js ! k = b)"
  using run
proof (induction rs arbitrary: s out)
  case (Cons r rs)
  obtain i s' where i: "strat (r = None) s = (i, s')" by fastforce
  have "P s'" "r = None \<Longrightarrow> i = b" using step(1) [OF Cons.prems(1), of "r = None"] step(2) [OF Cons.prems(1)] i by auto
  moreover have "poll strat rs s' (out @ [i]) = Stopped is" using Cons.prems(2) i by (auto split: if_splits)
  ultimately obtain js where "is = (out @ [i]) @ js" "length js = length rs" "\<forall>k < length rs. rs ! k = None \<longrightarrow> js ! k = b"
    using Cons.IH by blast
  then show ?case using \<open>r = None \<Longrightarrow> i = b\<close> by (intro exI [of _ "i # js"]) (auto simp: nth_Cons split: nat.splits)
qed simp

lemma Start_after_success:
  assumes "\<And>ok s. P s \<Longrightarrow> P (snd (strat ok s))" "\<And>s. P s \<Longrightarrow> fst (strat True s) = b" "P s" "Polling_Start strat rs s = Stopped is"
  shows "hd is = b \<and> (\<forall>k < length rs. rs ! k = None \<longrightarrow> is ! Suc k = b)"
proof -
  obtain i s' where i: "strat True s = (i, s')" by fastforce
  then have "poll strat rs s' [i] = Stopped is" "P s'" "i = b"
    using assms(4) assms(1) [OF assms(3), of True] assms(2) [OF assms(3)] by (auto simp: Polling_Start_def split: if_splits)
  then show ?thesis using poll_after_success [of P strat b s' rs "[i]" "is", OF assms(1,2)] by auto
qed

lemma fixed_Start: "0 < p \<Longrightarrow> Polling_Start (fixed_NextInterval p) rs () = Stopped (replicate (Suc (length rs)) p)"
proof -
  assume p: "0 < p"
  have "poll (fixed_NextInterval p) rs () out = Stopped (out @ replicate (length rs) p)" for out
    using p by (induction rs arbitrary: out) (simp_all add: fixed_NextInterval_def)
  then show ?thesis using p by (simp add: Polling_Start_def fixed_NextInterval_def)
qed

section \<open>Health\<close>

lemma ServeHTTP_status: "fst (ServeHTTP fmt t ''GET'' h) = (if hs_dbHealthy h then 200 else 503)"
  by (simp add: ServeHTTP_def buildHealthResponse_def determineOverallStatus_def Let_def)

lemma service_task_health: "service_task a st = (r, st') \<Longrightarrow> hs_dbHealthy (as_health st') \<longleftrightarrow> r = None"
  by (auto simp: service_task_def UpdateDBHealth_def split: prod.splits option.splits)

lemma cycles_health:
  "cycles a envs st = (rs, st') \<Longrightarrow> hs_dbHealthy (as_health st') \<longleftrightarrow> (if rs = [] then hs_dbHealthy (as_health st) else last rs = None)"
proof (induction a envs st arbitrary: rs st' rule: cycles.induct)
  case (2 a env envs st)
  obtain r st1 where r: "service_task a (st\<lparr>as_world := env (as_world st)\<rparr>) = (r, st1)" by fastforce
  obtain rs1 st2 where c: "cycles a envs st1 = (rs1, st2)" by fastforce
  then show ?case using 2 r service_task_health [OF r] by (auto split: if_splits)
qed simp

section \<open>The service\<close>

text \<open>The intervals of a service with a loaded configuration and back-off.\<close>

lemma service_intervals:
  assumes cfg: "Load parseFloat env = Inr c" "env ''BACKOFF_MAX_INTERVAL'' = []" "ag_PollInterval (cf_Agent c) \<le> max_int64 div 10"
    and fits: "backoff_fits (configured_strategy c) (failure_run rs 0) \<or> 10 * ag_PollInterval (cf_Agent c) \<le> big"
  shows "\<exists>is. Polling_Start (Exponential_NextInterval big) rs (configured_strategy c) = Stopped is \<and> length is = length rs + 1 \<and>
      list_all (\<lambda>i. ag_PollInterval (cf_Agent c) \<le> i \<and> i \<le> 10 * ag_PollInterval (cf_Agent c)) is \<and>
      (\<forall>k < length rs. rs ! k = None \<longrightarrow> is ! Suc k = ag_PollInterval (cf_Agent c))"
proof -
  note s = loaded_strategy [OF cfg]
  let ?P = "\<lambda>s :: ExponentialBackoffStrategy. eb_baseInterval s = ag_PollInterval (cf_Agent c)"
  obtain "is" where x: "Polling_Start (Exponential_NextInterval big) rs (configured_strategy c) = Stopped is" "length is = length rs + 1"
    "list_all (\<lambda>i. ag_PollInterval (cf_Agent c) \<le> i \<and> i \<le> 10 * ag_PollInterval (cf_Agent c)) is"
    using fresh_run(1) [OF s(2-4), of rs big] fits by (auto simp: s(5,6))
  have "\<And>ok s. ?P s \<Longrightarrow> ?P (snd (Exponential_NextInterval big ok s))" "\<And>s. ?P s \<Longrightarrow> fst (Exponential_NextInterval big True s) = ag_PollInterval (cf_Agent c)"
    by (simp_all add: Exponential_NextInterval_def Let_def)
  from Start_after_success [of ?P, OF this s(5) x(1)] show ?thesis using x by blast
qed

text \<open>
  C3: how long a service polls, and what its health endpoint tells. For an agent in service mode
  with a configuration that loads, whose maximal back-off is not set and whose interval is at
  most a tenth of the largest duration: the run makes one cycle for each tick, in the changing
  world, leaves the state of its cycles and is never ended by the ticker, when back-off is
  disabled, when the back-off of the longest run of failed cycles fits a duration, or when the
  platform converts larger floats to at least the tenfold of the interval. Every interval it sets then lies
  between the configured one and its tenfold, and is the configured one after a cycle that
  succeeded; the endpoint answers 200 when the last cycle succeeded and 503 when
  it failed, or as at the start when there was none. When back-off is enabled and does not fit on a platform that
  converts such a float to a value that is not positive, as amd64 does, the ticker panics and
  ends the service.
\<close>

theorem service_polls:
  assumes service: "ag_RunMode (cf_Agent (ap_config a)) \<noteq> RunModeJob" "ap_detect a (as_world st) = Inr osType"
    and cfg: "Load parseFloat env = Inr (ap_config a)" "env ''BACKOFF_MAX_INTERVAL'' = []"
      "ag_PollInterval (cf_Agent (ap_config a)) \<le> max_int64 div 10"
    and cycles: "cycles a envs st = (rs, st')"
  shows "(\<not> bo_Enabled (ag_Backoff (cf_Agent (ap_config a))) \<or> backoff_fits (configured_strategy (ap_config a)) (failure_run rs 0) \<or>
        10 * ag_PollInterval (cf_Agent (ap_config a)) \<le> big \<longrightarrow>
      (\<exists>is. Run big a envs st = (Served (Stopped is), st') \<and> length rs = length envs \<and> length is = length envs + 1 \<and>
        list_all (\<lambda>i. ag_PollInterval (cf_Agent (ap_config a)) \<le> i \<and> i \<le> 10 * ag_PollInterval (cf_Agent (ap_config a))) is \<and>
        (\<forall>k < length rs. rs ! k = None \<longrightarrow> is ! Suc k = ag_PollInterval (cf_Agent (ap_config a))) \<and>
        fst (ServeHTTP fmt t ''GET'' (as_health st')) =
          (if (if rs = [] then hs_dbHealthy (as_health st) else last rs = None) then 200 else 503))) \<and>
    (bo_Enabled (ag_Backoff (cf_Agent (ap_config a))) \<and> \<not> backoff_fits (configured_strategy (ap_config a)) (failure_run rs 0) \<and> big \<le> 0 \<longrightarrow>
      (\<exists>is. fst (Run big a envs st) = Served (TickerPanic is)))"
proof (intro conjI impI, goal_cases)
  case 1
  let ?p = "ag_PollInterval (cf_Agent (ap_config a))"
  have p: "0 < ?p" by (rule loaded_strategy(1) [OF cfg])
  have health: "fst (ServeHTTP fmt t ''GET'' (as_health st')) =
      (if (if rs = [] then hs_dbHealthy (as_health st) else last rs = None) then 200 else 503)"
    unfolding ServeHTTP_status cycles_health [OF cycles] ..
  have n: "length rs = length envs" by (rule cycles_length [OF cycles])
  show ?case
  proof (cases "bo_Enabled (ag_Backoff (cf_Agent (ap_config a)))")
    case True
    obtain "is" where x: "Polling_Start (Exponential_NextInterval big) rs (configured_strategy (ap_config a)) = Stopped is"
        "length is = length rs + 1" "list_all (\<lambda>i. ?p \<le> i \<and> i \<le> 10 * ?p) is" "\<forall>k < length rs. rs ! k = None \<longrightarrow> is ! Suc k = ?p"
      using service_intervals [OF cfg, of rs big] 1 True by blast
    have "Run big a envs st = (Served (Stopped is), st')" using serve_poll [OF cycles x(1)] service True by (simp add: Run_def)
    then show ?thesis using x(2-4) n health by auto
  next
    case False
    have "Run big a envs st = (Served (Stopped (replicate (Suc (length rs)) ?p)), st')"
      using serve_poll [OF cycles fixed_Start [OF p]] service False by (simp add: Run_def)
    moreover have "list_all (\<lambda>i. ?p \<le> i \<and> i \<le> 10 * ?p) (replicate (Suc (length rs)) ?p)" using p by (simp add: list_all_iff)
    ultimately show ?thesis using n health by (intro exI [of _ "replicate (Suc (length rs)) ?p"]) (auto simp: nth_Cons split: nat.splits)
  qed
next
  case 2
  then obtain "is" where x: "Polling_Start (Exponential_NextInterval big) rs (configured_strategy (ap_config a)) = TickerPanic is"
    using fresh_run(2) [OF loaded_strategy(2-4) [OF cfg], of rs big] by blast
  show ?case using serve_panic [OF cycles x] service 2 by (auto simp: Run_def split: prod.splits)
qed

text \<open>On amd64: two cycles, whatever their results, do not end the service.\<close>

theorem service_polls_witness:
  "\<exists>c is st'. Load (\<lambda>s. None) (\<lambda>k. []) = Inr c \<and> Run min_int64 (sample_app c) [id, id] (sample_state 0) = (Served (Stopped is), st') \<and> length is = 3"
proof -
  have "is_ok (Load (\<lambda>s. None) (\<lambda>k. []))" unfolding Load_cases by (simp add: getEnv_defs second_def)
  then obtain c where c: "Load (\<lambda>s. None) (\<lambda>k. []) = Inr c" by (auto simp: is_ok_iff)
  obtain rs st' where cy: "cycles (sample_app c) [id, id] (sample_state 0) = (rs, st')" by fastforce
  have p: "ag_PollInterval (cf_Agent c) \<le> max_int64 div 10" "ag_RunMode (cf_Agent c) \<noteq> RunModeJob"
    using Load_readConfig [OF c] by (simp_all add: readConfig_def getEnv_defs second_def max_int64_def)
  have s: "configured_strategy c = NewExponentialBackoffStrategy (30 * second) (10 * (30 * second)) 2"
    using Load_readConfig [OF c] by (simp add: configured_strategy_def readConfig_def getEnv_defs second_def wrap64_def)
  have good: "exp_good (configured_strategy c)" by (simp add: s exp_good_def NewExponentialBackoffStrategy_def second_def)
  have two: "backoff_fits (configured_strategy c) 2"
    by (simp add: s backoff_fits_def NewExponentialBackoffStrategy_def second_def)
  obtain r1 r2 where rs: "rs = [r1, r2]" using cycles_length [OF cy] by (auto simp: length_Suc_conv)
  have fits: "backoff_fits (configured_strategy c) (failure_run rs 0)"
    by (rule backoff_fits_mono [OF good two]) (simp add: rs)
  have a: "ap_config (sample_app c) = c" "ap_detect (sample_app c) w = Inr OSTypeUbuntu" for w by (simp_all add: sample_app_def)
  have "\<exists>is. Run min_int64 (sample_app c) [id, id] (sample_state 0) = (Served (Stopped is), st') \<and> length is = 3"
    using service_polls [OF _ _ _ _ _ cy, where env = "\<lambda>k. []" and big = min_int64 and osType = OSTypeUbuntu and parseFloat = "\<lambda>s. None"
        and fmt = "\<lambda>t. []" and t = 0] c p fits a
    by auto
  then show ?thesis using c by blast
qed

end
