(* ===== verification/Cleanup.thy ===== *)
theory Cleanup
  imports Outcome
begin

text \<open>
  The cleanup job, from the environment that the controller gives it to the files of the node:
  \<open>main\<close>, the container, the delete use case in its full mode and the Netplan adapter on the
  file system adapter. Commands change no file; the kernel may refuse to remove one.
\<close>

section \<open>Commands leave the files alone\<close>

definition only_log :: "os_state \<Rightarrow> os_state \<Rightarrow> bool" where
  "only_log w w' \<longleftrightarrow> (\<exists>l. w' = w\<lparr>os_log := l\<rparr>)"

lemma only_log_refl [simp]: "only_log w w"
  unfolding only_log_def by (rule exI [of _ "os_log w"]) simp

lemma only_log_trans: "only_log u v \<Longrightarrow> only_log v w \<Longrightarrow> only_log u w"
  by (auto simp: only_log_def)

lemma only_log_update [simp]: "only_log w (w\<lparr>os_log := l\<rparr>)"
  by (auto simp: only_log_def)

lemma only_log_scripted: "only_log w (snd (scripted answer c a w))"
  by (simp add: scripted_def)

lemma only_log_files: "only_log w w' \<Longrightarrow> os_ReadFile q w' = os_ReadFile q w"
  by (auto simp: only_log_def os_ReadFile_def is_dir_def)

lemma cleanupRouting_log: "only_log w (cleanupRouting (scripted answer) opts n w)"
  by (auto simp: cleanupRouting_def attempt_def Let_def intro: only_log_trans only_log_scripted)

lemma releaseName_log:
  assumes "du_host uc = RealHost (scripted answer)"
  shows "only_log w (releaseName uc w name)"
proof -
  have "only_log w (snd (RenameInterface (du_host uc) a b w))" for a b
    by (simp add: RenameInterface_def assms RealHost_def scripted_def split: sum.splits)
  then show ?thesis by (auto simp: releaseName_def split: sum.splits option.splits)
qed

lemma release_all_log:
  assumes "du_host uc = RealHost (scripted answer)"
  shows "only_log w (cleanupMultinicInterfaceNames uc w)"
proof -
  have "only_log w (foldl (releaseName uc) w ns)" for ns
    by (induction ns arbitrary: w) (auto intro: only_log_trans releaseName_log [OF assms])
  then show ?thesis by (simp add: cleanupMultinicInterfaceNames_def)
qed

section \<open>Removal of the files\<close>

text \<open>Nothing is in the way of removing a file of the program.\<close>

definition removable :: "os_state \<Rightarrow> bool" where
  "removable w \<longleftrightarrow> (\<forall>n. is_interface_name n \<longrightarrow> os_fault w ''remove'' (netplanPath n) = None \<and> \<not> is_dir w (netplanPath n))"

lemma removable_files: "removable (w\<lparr>os_files := fs\<rparr>) = removable w" "only_log w w' \<Longrightarrow> removable w' = removable w"
  by (auto simp: removable_def is_dir_def only_log_def)

lemma rollback_removes:
  assumes "removable w" "is_interface_name n"
  shows "\<exists>w'. Netplan_Rollback (RealHost (scripted answer)) opts n w = (None, w') \<and> removable w'"
proof -
  let ?p = "netplanPath n"
  obtain en where en: "NewInterfaceName n = Inr en" using assms(2) by (auto simp: is_interface_name_def is_ok_iff)
  have c: "Clean ?p = ?p" by (rule Clean_config_paths(1) [OF valid_name_chars(1) [OF en]])
  have p: "os_fault w ''remove'' ?p = None" "\<not> is_dir w ?p" using assms by (auto simp: removable_def)
  have "\<exists>w1. (if os_Stat_ok ?p w then RFS_Remove ?p w else (None, w)) = (None, w1) \<and> removable w1"
    using p c config_paths_allowed(1) [OF en] assms(1)
    by (auto simp: RFS_Remove_def os_Remove_def os_Stat_ok_def removable_files)
  then obtain w1 where w1: "(if os_Stat_ok ?p w then RFS_Remove ?p w else (None, w)) = (None, w1)" "removable w1" by blast
  then have "Netplan_Rollback (RealHost (scripted answer)) opts n w = (None, cleanupRouting (scripted answer) opts n w1)"
    by (auto simp: Netplan_Rollback_def RealHost_def RFS_Exists_def sysErr_def andThen_def split: if_splits)
  then show ?thesis using w1(2) removable_files(2) [OF cleanupRouting_log] by auto
qed

lemma delete_all_removable:
  assumes "du_manager uc = NetplanAdapter (RealHost (scripted answer)) marshal opts" "removable w"
    and "\<forall>f \<in> set fs. is_interface_name (extractInterfaceNameFromFile f)" "deleteNetplanFiles uc fs out w = (out', w')"
  shows "Errors out' = Errors out"
  using assms(2-)
proof (induction fs arbitrary: out w)
  case (Cons f fs)
  obtain w1 where w1: "Netplan_Rollback (RealHost (scripted answer)) (normalize opts) (extractInterfaceNameFromFile f) w = (None, w1)" "removable w1"
    using rollback_removes [OF Cons.prems(1), of "extractInterfaceNameFromFile f" answer "normalize opts"] Cons.prems(2) by auto
  then have "deleteNetplanFile uc (extractInterfaceNameFromFile f) w = (None, w1)"
    by (simp add: deleteNetplanFile_def assms(1) NetplanAdapter_def)
  then show ?case using Cons.IH [OF w1(2)] Cons.prems(2,3) by (simp add: record_deletion_def)
qed simp

text \<open>A file of an interface name in the Netplan directory is listed there.\<close>

lemma config_file_listed:
  assumes "os_ReadDir_files ''/etc/netplan'' w = Inr fs" "is_interface_name n" "os_ReadFile (netplanPath n) w = Inr c"
  shows "config_file n ''.yaml'' \<in> set fs"
proof -
  obtain en where en: "NewInterfaceName n = Inr en" using assms(2) by (auto simp: is_interface_name_def is_ok_iff)
  note v = valid_name_chars(1) [OF en]
  have "plain (config_file n ''.yaml'')" by (intro config_file_plain v) simp
  then have b: "Base (netplanPath n) = config_file n ''.yaml''"
    unfolding config_paths(1) [OF v] using Base_plain [of "[''etc'', ''netplan'']" "config_file n ''.yaml''"] by simp
  have d: "Clean ''/etc/netplan'' = ''/etc/netplan''" by code_simp
  have "netplanPath n \<in> fst ` set (os_files w)"
    using assms(3) Clean_config_paths(1) [OF v] by (force simp: os_ReadFile_ok dest: map_of_SomeD)
  then have "netplanPath n \<in> set (filter (\<lambda>q. Dir q = ''/etc/netplan'') (remdups (map fst (os_files w))))"
    using config_dirs(1) [OF en] by auto
  then show ?thesis using assms(1) b unfolding os_ReadDir_files_def d by (force split: option.splits if_splits)
qed

section \<open>The full cleanup\<close>

lemma full_cleanup:
  assumes man: "du_manager uc = NetplanAdapter (RealHost (scripted answer)) marshal opts" and host: "du_host uc = RealHost (scripted answer)"
    and files: "os_inv w" "os_ReadDir_files ''/etc/netplan'' w = Inr fs"
    and own: "\<forall>f \<in> set fs. isMultinicNetplanFile f \<longrightarrow> (\<exists>n. is_interface_name n \<and> f = config_file n ''.yaml'')"
  shows "\<exists>out w'. executeFullNetplanCleanup uc w = (Inr out, w') \<and>
    (\<forall>q c. (\<forall>n. is_interface_name n \<longrightarrow> Clean q \<noteq> netplanPath n) \<longrightarrow> (os_ReadFile q w' = Inr c \<longleftrightarrow> os_ReadFile q w = Inr c)) \<and>
    (removable w \<longrightarrow> Errors out = [] \<and> (\<forall>n c. is_interface_name n \<longrightarrow> os_ReadFile (netplanPath n) w' \<noteq> Inr c))"
proof -
  let ?h = "RealHost (scripted answer)" and ?fs = "filter isMultinicNetplanFile fs"
  have l: "ListNetplanFiles (du_host uc) w ''/etc/netplan'' = Inr fs"
    using files(2) by (simp add: ListNetplanFiles_def host RealHost_def RFS_ListFiles_def)
  have listed: "config_file n ''.yaml'' \<in> set ?fs" if "is_interface_name n" "os_ReadFile (netplanPath n) w = Inr c" for n c
    using config_file_listed [OF files(2) that] extract_config_file(2) [OF that(1)] by simp
  have name: "is_interface_name (extractInterfaceNameFromFile f)" if "f \<in> set ?fs" for f
    using own that extract_config_file(1) by auto
  have clean: "Clean (netplanPath n) = netplanPath n" if "is_interface_name n" for n
    using that Clean_config_paths(1) [OF valid_name_chars(1)] by (auto simp: is_interface_name_def is_ok_iff)
  show ?thesis
  proof (cases "?fs = []")
    case True
    let ?w = "cleanupMultinicInterfaceNames uc w"
    have "executeFullNetplanCleanup uc w = (Inr no_output, ?w)" by (simp add: executeFullNetplanCleanup_def l True)
    moreover have "os_ReadFile (netplanPath n) w \<noteq> Inr c" if "is_interface_name n" for n c using listed [OF that] True by auto
    ultimately show ?thesis using only_log_files [OF release_all_log [OF host]] by (intro exI [of _ no_output] exI [of _ ?w]) (simp add: no_output_def)
  next
    case False
    obtain out w' where d: "deleteNetplanFiles uc ?fs no_output w = (out, w')" by fastforce
    have e: "executeFullNetplanCleanup uc w = (Inr out, w')" using False d by (simp add: executeFullNetplanCleanup_def l)
    have k: "keeps_except (\<Union>n \<in> set (map extractInterfaceNameFromFile ?fs). {Clean (netplanPath n)}) ?h os_inv w w'"
      using sh.netplan.rollback_all_frame [of "map extractInterfaceNameFromFile ?fs" answer w marshal opts]
        deleteNetplanFiles_world [of uc ?fs no_output w] d man by simp
    have frame: "os_ReadFile q w' = Inr c \<longleftrightarrow> os_ReadFile q w = Inr c" if "\<forall>n. is_interface_name n \<longrightarrow> Clean q \<noteq> netplanPath n" for q c
    proof -
      have "Clean q \<notin> (\<Union>n \<in> set (map extractInterfaceNameFromFile ?fs). {Clean (netplanPath n)})" using that name clean by auto
      then show ?thesis using k by (simp add: keeps_except_def RealHost_def)
    qed
    have gone: "Errors out = [] \<and> (\<forall>n c. is_interface_name n \<longrightarrow> os_ReadFile (netplanPath n) w' \<noteq> Inr c)" if r: "removable w"
    proof (intro conjI allI impI notI)
      show er: "Errors out = []" using delete_all_removable [OF man r _ d] name by (simp add: no_output_def)
      fix n c assume n: "is_interface_name n" and c: "os_ReadFile (netplanPath n) w' = Inr c"
      have "fs_ReadFile ?h (netplanPath n) w = Inr c"
        using shn.rollback_all_shrinks [OF files(1), where q = "netplanPath n" and answer = answer and marshal = marshal and opts = opts
            and ns = "map extractInterfaceNameFromFile ?fs" and c = c]
          deleteNetplanFiles_world [of uc ?fs no_output w] d man c by (simp add: RealHost_def)
      then have f: "config_file n ''.yaml'' \<in> set ?fs" using listed [OF n] by (simp add: RealHost_def)
      have "fs_ReadFile ?h (netplanPath n) w' \<noteq> Inr c"
        using shn.deleted_files_gone [OF files(1) d man f, of "netplanPath n" c] extract_config_file(1) [OF n] er by (simp add: no_output_def)
      then show False using c by (simp add: RealHost_def)
    qed
    show ?thesis using e frame gone by blast
  qed
qed

section \<open>The job\<close>

text \<open>A cleanup job is one call of the delete use case, whose errors for single files it does not look at.\<close>

lemma cleanup_main:
  assumes env: "job_environ p (pf_env P)" "jp_NodeCRNamespace p \<noteq> []" "jp_Action p = ''cleanup''"
    and platform: "dynamicClient P = Some d" "osDetector P w = Inr osType"
  shows "\<exists>uc input cn. agent_main parseFloat big P envs w =
      Inr (case Delete_Execute uc input w of (Inl err, w') \<Rightarrow> (Exit (Some err), started cn w') | (Inr out, w') \<Rightarrow> (Exit None, started cn w')) \<and>
    du_host uc = pf_host P \<and> du_detect uc w = Inr osType \<and> du_env uc ''AGENT_ACTION'' = ''cleanup'' \<and>
    (osType = OSTypeUbuntu \<longrightarrow> (\<exists>opts. du_manager uc = NetplanAdapter (pf_host P) (pf_yaml P) opts))"
proof -
  obtain c where c: "Load parseFloat (pf_env P) = Inr c" "ag_RunMode (cf_Agent c) = ''job''" "ag_DataSource (cf_Agent c) = ''nodecr''"
    using job_Load [OF env(1,2)] by blast
  let ?f = "networkFactory P c"
  obtain man where man: "CreateNetworkConfigurer ?f w = Inr man"
    using CreateNetworkConfigurer_ok [of ?f w] platform(2) by (auto simp: is_ok_iff)
  define uc where "uc = (\<lambda>repository. NewDeleteNetworkUseCase (osDetector P) man repository (pf_host P) (pf_decode P) (pf_env P))"
  obtain cn repository where cn: "NewContainer big P c w = Inr cn" "cn_config cn = c" "cn_osDetector cn = osDetector P"
      "cn_deleteNetworkUseCase cn = uc repository"
    using c(3) platform(1) by (simp add: NewContainer_def initializeInfrastructure_def initializeUseCases_def man Let_def uc_def)
  have act: "pf_env P ''AGENT_ACTION'' = ''cleanup''" using env(1,3) by (simp add: job_environ_def agentEnv_def)
  let ?a = "NewApplication P cn" and ?i = "\<lparr>di_NodeName = (case pf_hostname P of Inr h \<Rightarrow> h | Inl _ \<Rightarrow> []), di_FullCleanup = False\<rparr>"
  have a: "ap_env ?a = pf_env P" "ap_hostname ?a = pf_hostname P" "ap_delete ?a = uc repository" "ap_detect ?a = osDetector P" "ap_config ?a = c"
    by (simp_all add: NewApplication_def cn)
  have "agent_main parseFloat big P envs w = Inr (case Delete_Execute (uc repository) ?i w of
      (Inl err, w') \<Rightarrow> (Exit (Some err), started cn w') | (Inr out, w') \<Rightarrow> (Exit None, started cn w'))"
    by (simp add: agent_main_def c cn(1) Run_def runJob_def a act platform(2) started_def split: prod.splits sum.splits)
  moreover have "osType = OSTypeUbuntu \<longrightarrow> du_manager (uc repository) = NetplanAdapter (pf_host P) (pf_yaml P) (nf_opts ?f)"
    using man platform(2) by (auto simp: uc_def NewDeleteNetworkUseCase_def CreateNetworkConfigurer_def networkFactory_def NewNetworkManagerFactory_def)
  ultimately show ?thesis
    by (intro exI [of _ "uc repository"] exI [of _ ?i] exI [of _ cn]) (auto simp: uc_def NewDeleteNetworkUseCase_def act platform(2))
qed

text \<open>
  What a cleanup does to the files: none but the Netplan files of interface names changed, and when
  the kernel lets these be removed none of them is left.
\<close>

definition netplan_cleaned :: "os_state \<Rightarrow> os_state \<Rightarrow> bool" where
  "netplan_cleaned w w' \<longleftrightarrow>
     (\<forall>q c. (\<forall>n. is_interface_name n \<longrightarrow> Clean q \<noteq> netplanPath n) \<longrightarrow> (os_ReadFile q w' = Inr c \<longleftrightarrow> os_ReadFile q w = Inr c)) \<and>
     (removable w \<longrightarrow> (\<forall>n c. is_interface_name n \<longrightarrow> os_ReadFile (netplanPath n) w' \<noteq> Inr c))"

text \<open>
  An Ubuntu node that the agent can work on: the Kubernetes client is there, the system is
  detected, and the Netplan directory can be listed and holds of the program's files only those its adapter wrote.
\<close>

definition ubuntu_node :: "os_state Platform \<Rightarrow> os_state \<Rightarrow> bool" where
  "ubuntu_node P w \<longleftrightarrow> dynamicClient P \<noteq> None \<and> osDetector P w = Inr OSTypeUbuntu \<and> (\<exists>answer. pf_host P = RealHost (scripted answer)) \<and>
     os_inv w \<and> (\<exists>fs. os_ReadDir_files ''/etc/netplan'' w = Inr fs \<and>
       (\<forall>f \<in> set fs. isMultinicNetplanFile f \<longrightarrow> (\<exists>n. is_interface_name n \<and> f = config_file n ''.yaml'')))"

lemma cleanup_run:
  assumes env: "job_environ p (pf_env P)" "jp_NodeCRNamespace p \<noteq> []" "jp_Action p = ''cleanup''" and node: "ubuntu_node P w"
  shows "\<exists>st'. agent_main parseFloat big P envs w = Inr (Exit None, st') \<and> as_termination st' = None \<and> netplan_cleaned w (as_world st')"
proof -
  obtain d answer fs where platform: "dynamicClient P = Some d" "osDetector P w = Inr OSTypeUbuntu" "pf_host P = RealHost (scripted answer)"
    and files: "os_inv w" "os_ReadDir_files ''/etc/netplan'' w = Inr fs"
    and own: "\<forall>f \<in> set fs. isMultinicNetplanFile f \<longrightarrow> (\<exists>n. is_interface_name n \<and> f = config_file n ''.yaml'')"
    using node by (auto simp: ubuntu_node_def)
  obtain uc input cn opts where m: "agent_main parseFloat big P envs w =
      Inr (case Delete_Execute uc input w of (Inl err, w') \<Rightarrow> (Exit (Some err), started cn w') | (Inr out, w') \<Rightarrow> (Exit None, started cn w'))"
    and uc: "du_host uc = pf_host P" "du_detect uc w = Inr OSTypeUbuntu" "du_env uc ''AGENT_ACTION'' = ''cleanup''"
      "du_manager uc = NetplanAdapter (pf_host P) (pf_yaml P) opts"
    using cleanup_main [OF env platform(1,2), of parseFloat big envs] by blast
  obtain out w' where x: "executeFullNetplanCleanup uc w = (Inr out, w')" "netplan_cleaned w w'"
    using full_cleanup [OF uc(4,1) [unfolded platform(3)] files own] unfolding netplan_cleaned_def by blast
  have "agent_main parseFloat big P envs w = Inr (Exit None, started cn w')" by (simp add: m Delete_Execute_def uc(2,3) x(1))
  then show ?thesis using x(2) by (intro exI [of _ "started cn w'"]) (simp add: started_def)
qed

section \<open>From the deleted resource to the files\<close>

text \<open>The environment of a container, where it sets nothing else that must be in range.\<close>

definition container_environ :: "container \<Rightarrow> environ \<Rightarrow> bool" where
  "container_environ ct env \<longleftrightarrow> list_all (\<lambda>(k, v). case v of Value x \<Rightarrow> env k = x | FieldRef path \<Rightarrow> True) (ct_env ct) \<and>
     env ''MAX_RETRIES'' = [] \<and> env ''NETWORK_ROUTING_TABLE_BASE'' = [] \<and> env ''NETWORK_ROUTE_METRIC'' = []"

abbreviation cleanup_name :: "string \<Rightarrow> string" where
  "cleanup_name node \<equiv> ''multinic-agent-cleanup-'' @ node"

lemma agentJob_params:
  "\<exists>p. agentJob c ns img name node action = BuildAgentJob img p \<and> jp_NodeName p = node \<and> jp_NodeCRNamespace p = c_NodeCRNamespace c \<and>
     jp_Action p = action"
  by (rule exI, rule conjI, rule agentJob_def) simp

lemma job_container: "\<exists>ct. job_containers (BuildAgentJob img p) = [ct] \<and> ct_env ct = agentEnv p"
  by (simp add: BuildAgentJob_def Let_def)

lemma launched_job:
  assumes "kube_api (c_api c)" "LaunchCleanupJob c ns node st = (None, st1)" "found (k_getJob (c_api c) ns (cleanup_name node) (cs_world st)) = None"
  shows "\<exists>img. k_getJob (c_api c) ns (cleanup_name node) (cs_world st1) = Inr (agentJob c ns img (cleanup_name node) node ''cleanup'')"
proof -
  let ?job = "\<lambda>img. agentJob c ns img (cleanup_name node) node ''cleanup''"
  have n: "job_Name (?job img) = cleanup_name node" for img by (simp add: agentJob_def BuildAgentJob_def Let_def)
  obtain nd where nd: "k_getNode (c_api c) node (cs_world st) = Inr nd" using assms(2) by (auto simp: LaunchCleanupJob_def split: sum.splits)
  obtain e where e: "k_getJob (c_api c) ns (cleanup_name node) (cs_world st) = Inl e" using assms(3) by (auto simp: found_def split: sum.splits)
  have "onCluster (k_createJob (c_api c) ns (?job (nd_OSImage nd))) st = (None, st1)"
    using assms(2) nd e by (simp add: LaunchCleanupJob_def Let_def n)
  then have "k_createJob (c_api c) ns (?job (nd_OSImage nd)) (cs_world st) = (None, cs_world st1)"
    by (auto simp: onCluster_def split: prod.splits)
  from kube_api.createJob_ok [OF assms(1) this] show ?thesis unfolding n by blast
qed

text \<open>
  C2: when a resource is deleted, the job that the controller starts for it cleans an Ubuntu
  node. If the creation of the job succeeds, and no cleanup job of the node was there, the cluster has a job bound to
  the node with one container. An agent that is started with the environment of this container on an
  Ubuntu node it can work on exits with success and leaves no summary; no
  file changed other than the Netplan files of interface names; and when the kernel lets
  these be removed, none of them is left, for any interface name. The exit status does not
  depend on that: a file that cannot be removed is only logged.
\<close>

theorem deleted_resource_cleaned:
  assumes api: "kube_api (c_api c)"
    and launch: "LaunchCleanupJob c ns node st = (None, st1)" "found (k_getJob (c_api c) ns (''multinic-agent-cleanup-'' @ node) (cs_world st)) = None"
    and settings: "c_NodeCRNamespace c \<noteq> []"
  shows "\<exists>job ct. k_getJob (c_api c) ns (''multinic-agent-cleanup-'' @ node) (cs_world st1) = Inr job \<and>
    job_nodeSelector job = [(''kubernetes.io/hostname'', node)] \<and> job_containers job = [ct] \<and>
    (\<forall>P w. container_environ ct (pf_env P) \<and> ubuntu_node P w \<longrightarrow>
      (\<exists>st'. agent_main parseFloat big P envs w = Inr (Exit None, st') \<and> as_termination st' = None \<and> netplan_cleaned w (as_world st')))"
proof -
  obtain img where j: "k_getJob (c_api c) ns (cleanup_name node) (cs_world st1) = Inr (agentJob c ns img (cleanup_name node) node ''cleanup'')"
    using launched_job [OF api launch] by blast
  obtain p where p: "agentJob c ns img (cleanup_name node) node ''cleanup'' = BuildAgentJob img p" "jp_NodeName p = node"
      "jp_NodeCRNamespace p = c_NodeCRNamespace c" "jp_Action p = ''cleanup''"
    using agentJob_params [of c ns img "cleanup_name node" node "''cleanup''"] by blast
  obtain ct where ct: "job_containers (BuildAgentJob img p) = [ct]" "ct_env ct = agentEnv p" using job_container by blast
  have "\<exists>st'. agent_main parseFloat big P envs w = Inr (Exit None, st') \<and> as_termination st' = None \<and> netplan_cleaned w (as_world st')"
    if "container_environ ct (pf_env P)" "ubuntu_node P w" for P w
  proof -
    have "job_environ p (pf_env P)" using that(1) by (simp add: container_environ_def job_environ_def ct(2))
    then show ?thesis using cleanup_run [OF _ _ p(4) that(2)] settings p(3) by simp
  qed
  moreover have "job_nodeSelector (BuildAgentJob img p) = [(''kubernetes.io/hostname'', node)]" by (simp add: BuildAgentJob_def Let_def p(2))
  ultimately show ?thesis
    using j ct(1) unfolding p(1) by (intro exI [of _ "BuildAgentJob img p"] exI [of _ ct]) simp
qed

definition cleanup_params :: JobParams where
  "cleanup_params = sample_params\<lparr>jp_Action := ''cleanup''\<rparr>"

definition cleanup_platform :: "os_state Platform" where
  "cleanup_platform = sample_platform\<lparr>pf_env := (env_of_job cleanup_params)(''NODE_NAME'' := ''node-1'')\<rparr>"

lemma two_files_removable: "removable two_files"
proof -
  have d: "Dir ''/'' = ''/''" "Dir ''/etc'' = ''/''" "Dir ''/etc/netplan'' = ''/etc''" by code_simp+
  have "netplanPath n \<notin> set (os_dirs two_files)" if "NewInterfaceName n = Inr en" for n en
    using config_dirs(1) [OF that] d by (auto simp: two_files_def)
  then show ?thesis
    using Clean_config_paths(1) [OF valid_name_chars(1)]
    by (auto simp: removable_def is_dir_def is_interface_name_def is_ok_iff) (simp add: two_files_def)
qed

lemma cleanup_sample:
  "job_environ cleanup_params (pf_env cleanup_platform)" "jp_NodeCRNamespace cleanup_params \<noteq> []" "jp_Action cleanup_params = ''cleanup''"
  "dynamicClient cleanup_platform = Some sample_client" "osDetector cleanup_platform w = Inr OSTypeUbuntu"
proof -
  show "dynamicClient cleanup_platform = Some sample_client"
    by (simp add: dynamicClient_def cleanup_platform_def sample_platform_def)
  moreover have "pf_env cleanup_platform ''NODE_NAME'' = ''node-1''" "pf_hostname cleanup_platform = pf_hostname sample_platform"
    by (simp_all add: cleanup_platform_def)
  ultimately show "osDetector cleanup_platform w = Inr OSTypeUbuntu"
    using osDetector_node [OF _ _ sample_run(5,7), of cleanup_platform] sample_family by simp
qed (simp_all add: job_environ_def cleanup_platform_def cleanup_params_def env_of_job_def agentEnv_def sample_params_def)

lemma cleanup_ubuntu: "ubuntu_node cleanup_platform two_files"
proof -
  have h: "pf_host cleanup_platform = RealHost (scripted (\<lambda>c a s. Inl (PlainError c)))"
    by (simp add: cleanup_platform_def sample_platform_def mute_host_def)
  have l: "os_ReadDir_files ''/etc/netplan'' two_files = Inr [''91-multinic1.yaml'', ''92-multinic2.yaml'']" "os_inv two_files" by code_simp+
  have n: "is_interface_name ''multinic1''" "is_interface_name ''multinic2''" "config_file ''multinic1'' ''.yaml'' = ''91-multinic1.yaml''"
    "config_file ''multinic2'' ''.yaml'' = ''92-multinic2.yaml''" by code_simp+
  have "\<forall>f \<in> set [''91-multinic1.yaml'', ''92-multinic2.yaml'']. isMultinicNetplanFile f \<longrightarrow>
      (\<exists>n. is_interface_name n \<and> f = config_file n ''.yaml'')" using n by force
  then show ?thesis unfolding ubuntu_node_def using cleanup_sample(4,5) h l by blast
qed

theorem deleted_resource_cleaned_witness:
  "\<exists>st'. agent_main (\<lambda>s. None) max_int64 cleanup_platform [] two_files = Inr (Exit None, st') \<and>
     os_ReadFile (netplanPath ''multinic1'') (as_world st') \<noteq> Inr ''fa:16:3e:00:00:01''"
proof -
  let ?c = "sample_controller 0" and ?st = "sample_cluster (JObject []) [] []"
  let ?job = "agentJob ?c ''ns'' ''Ubuntu 22.04'' (cleanup_name ''n1'') ''n1'' ''cleanup''"
  have api: "kube_api (c_api ?c)" using memory.kube_api_axioms by (simp add: sample_controller_def)
  have jn: "job_Name ?job = cleanup_name ''n1''" by (simp add: agentJob_def BuildAgentJob_def Let_def)
  have launch: "LaunchCleanupJob ?c ''ns'' ''n1'' ?st = (None, ?st\<lparr>cs_world := (cs_world ?st)\<lparr>cl_jobs := [((''ns'', cleanup_name ''n1''), ?job)]\<rparr>\<rparr>)"
    by (simp add: LaunchCleanupJob_def Let_def jn sample_cluster_def or_not_found_def onCluster_def mem_createJob_def mem_getJob_def
        sample_controller_def sample_node_def)
  have none: "found (k_getJob (c_api ?c) ''ns'' (cleanup_name ''n1'') (cs_world ?st)) = None"
    by (simp add: sample_controller_def sample_cluster_def mem_getJob_def)
  have ns: "c_NodeCRNamespace ?c \<noteq> []" by (simp add: sample_controller_def)
  obtain job ct where job: "k_getJob (c_api ?c) ''ns'' (cleanup_name ''n1'')
        (cs_world (?st\<lparr>cs_world := (cs_world ?st)\<lparr>cl_jobs := [((''ns'', cleanup_name ''n1''), ?job)]\<rparr>\<rparr>)) = Inr job" "job_containers job = [ct]"
    and run: "\<forall>P w. container_environ ct (pf_env P) \<and> ubuntu_node P w \<longrightarrow>
      (\<exists>st'. agent_main (\<lambda>s. None) max_int64 P [] w = Inr (Exit None, st') \<and> as_termination st' = None \<and> netplan_cleaned w (as_world st'))"
    using deleted_resource_cleaned [OF api launch none ns, where parseFloat = "\<lambda>s. None" and big = max_int64 and envs = "[]"] by blast
  have "job = ?job" using job(1) jn by (simp add: sample_controller_def mem_getJob_def)
  then have "ct_env ct = agentEnv cleanup_params"
    using job(2) by (auto simp: agentJob_def BuildAgentJob_def Let_def agentEnv_def sample_controller_def cleanup_params_def sample_params_def)
  then have "container_environ ct (pf_env cleanup_platform)" using cleanup_sample(1) by (simp add: container_environ_def job_environ_def)
  moreover have "is_interface_name ''multinic1''" by code_simp
  ultimately show ?thesis using run cleanup_ubuntu two_files_removable unfolding netplan_cleaned_def by blast
qed

text \<open>
  On RHEL the cleanup job fails where the directory of the old scripts is missing, as it is in
  the container of the job: the full cleanup takes for an error what the orphan cleanup takes
  for nothing to do.
\<close>

theorem rhel_cleanup_job_fails:
  assumes env: "job_environ p (pf_env P)" "jp_NodeCRNamespace p \<noteq> []" "jp_Action p = ''cleanup''"
    and platform: "dynamicClient P = Some d" "osDetector P w = Inr OSTypeRHEL" "pf_host P = RealHost (scripted answer)"
    and files: "os_fault w ''readdir'' ''/etc/sysconfig/network-scripts'' = None" "\<not> is_dir w ''/etc/sysconfig/network-scripts''"
  shows "\<exists>err st'. agent_main parseFloat big P envs w = Inr (Exit (Some err), st') \<and> as_world st' = w"
proof -
  obtain uc input cn where m: "agent_main parseFloat big P envs w =
      Inr (case Delete_Execute uc input w of (Inl err, w') \<Rightarrow> (Exit (Some err), started cn w') | (Inr out, w') \<Rightarrow> (Exit None, started cn w'))"
    and uc: "du_host uc = pf_host P" "du_detect uc w = Inr OSTypeRHEL" "du_env uc ''AGENT_ACTION'' = ''cleanup''"
    using cleanup_main [OF env platform(1,2), of parseFloat big envs] by blast
  have d: "Clean ''/etc/sysconfig/network-scripts'' = ''/etc/sysconfig/network-scripts''" by code_simp
  obtain err where "ListNetplanFiles (du_host uc) w ''/etc/sysconfig/network-scripts'' = Inl err"
    using files by (simp add: ListNetplanFiles_def uc(1) platform(3) RealHost_def RFS_ListFiles_def os_ReadDir_files_def d)
  then show ?thesis
    by (intro exI [of _ "wrap ''failed to list ifcfg files'' err"] exI [of _ "started cn w"])
      (simp add: m Delete_Execute_def uc executeFullIfcfgCleanup_def started_def)
qed

end
