(* ===== verification/Controller_Log.thy ===== *)
theory Controller_Log
  imports Agent
begin

text \<open>
  What the controller writes to its log (\<open>internal/controller/reconciler.go\<close>): the outcome of a
  job, from the summary that the agent left in the termination log of its pod, and the
  interfaces of a resource for which it creates a job. A log is the list of its lines, without
  the time stamps.
\<close>

section \<open>The summary of a job\<close>

record JobSummary =
  js_Node :: string
  js_Processed :: int
  js_Failed :: int
  js_Total :: int
  js_Failures :: "Failure list"
  js_Timestamp :: string

definition decodeSummary :: "json \<Rightarrow> JobSummary option" where
  "decodeSummary v = Option.bind (struct_fields v) (\<lambda>kvs.
     Option.bind (decode_field into_string ''node'' kvs []) (\<lambda>node.
     Option.bind (decode_field into_int ''processed'' kvs 0) (\<lambda>processed.
     Option.bind (decode_field into_int ''failed'' kvs 0) (\<lambda>failed.
     Option.bind (decode_field into_int ''total'' kvs 0) (\<lambda>total.
     Option.bind (decode_field (into_list decodeFailure) ''failures'' kvs []) (\<lambda>failures.
     Option.bind (decode_field into_string ''timestamp'' kvs []) (\<lambda>timestamp.
       Some \<lparr>js_Node = node, js_Processed = processed, js_Failed = failed, js_Total = total, js_Failures = failures,
             js_Timestamp = timestamp\<rparr>)))))))"

definition failureLine :: "Failure \<Rightarrow> string" where
  "failureLine f = ''failed interface: id='' @ Itoa (jf_ID f) @ '' mac='' @ jf_MAC f @ '' name='' @ jf_Name f @
     '' type='' @ jf_ErrorType f @ '' reason='' @ jf_Reason f"

definition logJobSummary :: "'w Controller \<Rightarrow> string \<Rightarrow> string list" where
  "logJobSummary c msg =
     (case Option.bind (c_json c msg) decodeSummary of
        None \<Rightarrow> [''job termination message: '' @ msg]
      | Some s \<Rightarrow>
          (''job summary: node='' @ js_Node s @ '' processed='' @ Itoa (js_Processed s) @ '' failed='' @ Itoa (js_Failed s) @
           '' total='' @ Itoa (js_Total s) @ '' at='' @ js_Timestamp s) # map failureLine (js_Failures s))"

section \<open>The interfaces of a resource\<close>

definition interfaceLine :: "nat \<Rightarrow> (string \<times> json) list \<Rightarrow> string" where
  "interfaceLine i m = ''  Interface['' @ utoa i @ '']: ID='' @ Itoa (getIntFromMap m ''id'') @ '', MAC='' @ getStringFromMap m ''macAddress'' @
     '', IP='' @ getStringFromMap m ''address'' @ '', CIDR='' @ getStringFromMap m ''cidr'' @ '', MTU='' @ Itoa (getIntFromMap m ''mtu'')"

definition logInterfaceDetails :: "json \<Rightarrow> string \<Rightarrow> string list" where
  "logInterfaceDetails u nodeName =
     (case as_array (nested u [''spec'', ''interfaces'']) of
        None \<Rightarrow> [''No interfaces found in CR '' @ GetNamespace u @ ''/'' @ GetName u]
      | Some ifaces \<Rightarrow>
          [''=== Interface Details for Node: '' @ nodeName @ '' (CR: '' @ GetNamespace u @ ''/'' @ GetName u @ '') ===''] @
          map (\<lambda>(i, iface). interfaceLine i (as_object (Some iface))) (filter (\<lambda>(i, iface). is_object iface) (numbered ifaces)) @
          [''=== End Interface Details ===''])"

text \<open>Nothing calls it, and it names no interface.\<close>

definition getInterfaceNameForMAC :: "string \<Rightarrow> string" where
  "getInterfaceNameForMAC macAddress = (if macAddress = [] then [] else [])"

section \<open>Facts\<close>

text \<open>The summary of the agent is read whole: its counts, and one line for each failure.\<close>

lemma decodeSummary_summary:
  "decodeSummary (summary node out deleted ts) = Some \<lparr>js_Node = node, js_Processed = ProcessedCount out, js_Failed = FailedCount out,
     js_Total = TotalCount out, js_Failures = map read_failure (Failures out), js_Timestamp = ts\<rparr>"
  using into_list_slice [of decodeFailure failure_json read_failure "Failures out", OF decode_failure_json]
  by (simp add: decodeSummary_def summary_def fold_defs)

lemma logJobSummary_summary:
  assumes "c_json c msg = Some (summary node out deleted ts)"
  shows "logJobSummary c msg =
    (''job summary: node='' @ node @ '' processed='' @ Itoa (ProcessedCount out) @ '' failed='' @ Itoa (FailedCount out) @
     '' total='' @ Itoa (TotalCount out) @ '' at='' @ ts) # map (failureLine \<circ> read_failure) (Failures out)"
  using assms by (simp add: logJobSummary_def decodeSummary_summary)

text \<open>
  The lines of a resource name the interfaces by the positions that its status gives them: one
  line for each entry of the status list.
\<close>

lemma logInterfaceDetails_statuses:
  assumes "as_array (nested u [''spec'', ''interfaces'']) = Some ifaces"
  shows "length (logInterfaceDetails u n) = length (buildInterfaceStatuses t u status reason) + 2"
  using assms by (simp add: logInterfaceDetails_def buildInterfaceStatuses_def interfaces_def NestedSlice_def)

end
