(* ===== verification/Spec2Isabelle.thy ===== *)
theory Spec2Isabelle
  imports Routing Adapters Drift_Check Outcome Controller_Main Metrics Service Cleanup Controller_Log
begin

text \<open>
  A verification development for the multi-network-interface agent: a program in Go that gives
  the extra network interfaces of a Kubernetes node their names, addresses and routes
  (the agent, \<open>src/cmd/agent\<close>), and a controller that starts the agent as a job on each node and
  reports what became of it (\<open>src/cmd/controller\<close>, \<open>src/internal/controller\<close>).

  \<^bold>\<open>How the parts work together.\<close> A node resource lists the interfaces a node should have. The
  controller sees the resource and creates a job for its generation on the node. The job
  runs the agent: the delete use case removes the configuration of interfaces the node no
  longer has, then the configure use case loads the interfaces from the node resource or a
  database, reserves a name for each, and hands them to a worker pool. A worker checks that the
  device is not in use, lets the network adapter of the operating system write and apply the
  configuration, validates the result and rolls back when something failed. The counts and
  failures go into a summary that the controller reads when the job ends, and writes into the
  status of the resource.

  \<^bold>\<open>The theories.\<close>
  \<^item> \<open>Prelude\<close>: results of fallible functions, the bounds of \<open>int\<close>, collections of facts. \<open>Duration\<close>: the
    conversion of a float to a duration, with the platform's value for floats that do not fit as parameter.
  \<^item> \<open>Go_Strings\<close>, \<open>Go_Path\<close>, \<open>Go_Regexp\<close>, \<open>Go_Net\<close>: the functions of Go's packages strings,
    strconv, path/filepath, regexp and net that the program uses, executable, on strings of
    8-bit characters; the round trips of decimal printing and of addresses are proved here.
  \<^item> \<open>Domain_Errors\<close>: \<open>domain/errors/errors.go\<close>. \<open>Entities\<close>: \<open>domain/entities\<close>, the value objects, the
    interface entity and its invariant \<open>wf_interface\<close>.
  \<^item> \<open>Host\<close>: the interfaces of \<open>domain/interfaces\<close> to files and commands as records of functions
    over a world, with the locales that state what their users rely on, and a file system with
    scripted commands that meets them. \<open>Adapters\<close>: \<open>infrastructure/adapters\<close>.
  \<^item> \<open>Naming\<close>: \<open>domain/services/interface_naming.go\<close>; the reservations are the state of the service.
  \<^item> \<open>Network\<close>: \<open>infrastructure/network\<close>, the Netplan and RHEL adapters with every command and every
    file they touch. \<open>Drift\<close>: \<open>domain/services/drift_detector.go\<close>; \<open>Drift_Check\<close>: the detector
    on the files the adapter writes.
  \<^item> \<open>Transition\<close>: invariants, bounds and simulations of step relations, as locales.
    \<open>Worker_Pool\<close>: \<open>usecases/worker_pool.go\<close>, a step relation of submitter, workers and channel.
    \<open>Routing\<close>: \<open>domain/services/routing_coordinator.go\<close>, a step relation of the callers.
  \<^item> \<open>Configure\<close>: \<open>usecases/configure_network.go\<close> and the files it is split into. \<open>Delete\<close>:
    \<open>usecases/delete_network.go\<close>. \<open>Repository\<close>: \<open>infrastructure/persistence\<close>. \<open>Polling\<close>:
    \<open>application/polling\<close>.
  \<^item> \<open>Json\<close>: unstructured objects and the decoding into structs. \<open>Kube_API\<close>: the operations of the
    API server the controller calls, the locales \<open>kube_api\<close> and \<open>writable_api\<close>, a cluster in memory.
    \<open>Job_Factory\<close>: \<open>controller/jobfactory.go\<close>. \<open>Controller\<close>: \<open>controller/reconciler.go\<close>, with what
    every operation keeps. \<open>Reconciliation\<close>: what reconciling achieves. \<open>Watcher\<close>: \<open>watcher.go\<close> and
    \<open>service.go\<close>. \<open>Controller_Main\<close>: the settings and modes of \<open>cmd/controller/main.go\<close>.
  \<^item> \<open>Go_Parse\<close>: \<open>strconv.ParseBool\<close> and \<open>time.ParseDuration\<close>. \<open>Config\<close>: \<open>infrastructure/config\<close>.
    \<open>Health\<close>: \<open>infrastructure/health\<close>. \<open>Agent\<close>: \<open>cmd/agent/main.go\<close>, a cycle, its summary and exit
    status, job and service mode. \<open>Container\<close>: \<open>infrastructure/container\<close> and the composition of the
    whole agent, \<open>agent_main\<close>. \<open>Outcome\<close>: agent and controller together. \<open>Service\<close>: the service mode
    over its cycles. \<open>Cleanup\<close>: the cleanup job, from its environment to the files.
  \<^item> \<open>Metrics\<close>: \<open>infrastructure/metrics\<close>, the families and the calls of each recording function.
    \<open>Controller_Log\<close>: what \<open>reconciler.go\<close> logs of jobs and resources.

  \<^bold>\<open>How the code is read.\<close> A struct is a record, an enumeration a datatype, \<open>(T, error)\<close> a sum, a lone
  \<open>error\<close> an option. Go's \<open>int\<close> is an integer; where it can leave its 64 bits the bounds are part of the
  statement, except for the sum of routing table base and index, which is taken as an integer. A float is a
  finite real: NaN and the infinities, which a multiplier can be set to, are not represented. State is passed explicitly: the world (files, commands, database, cluster), the
  reservations of the naming service, the counters of a run. Each definition is named after its
  Go function, with the type or file in front where two functions share a name.

  \<^bold>\<open>What is shown.\<close> Names: from consistent reservations and explicit names that do not collide, reservations
  stay unique, whatever the system answers. Values: what the
  constructors accept, and that the entity's invariant is kept. Files: which paths pass the safety check,
  exactly; the rollback restores what the configuration changed; the cleanup removes for each orphan the file of the
  name read back from it and nothing else; the detector finds a file just written as it was written, except for records with host bits.
  Concurrency: every run of the pool ends within an explicit number of
  steps with each job reported once, it refines a bag of jobs, the routing lock serialises its
  callers. Use cases: every interface is accounted for, by the computed run and by every
  interleaving; devices in use are not touched; a failed job leaves no file behind unless the rollback failed or the
  failure was that of the last status update. Controller: a resource that is due gets one
  job for its generation and a settled one nothing, no change of a specification, a settled status after the success of
  the only ended job of the node, an
  entry for each interface after a failure. Programs: which environments load, and for which results on which platforms the
  polling then stays in bounds or its ticker panics; a job started from the controller's manifest reads its own node's resource,
  and what it leaves behind is what the controller decodes, one entry for each interface, with the exit
  status that belongs to it; for a resource whose entries are valid and cannot be mistaken, the status then names exactly the interfaces that failed; a
  cleanup job leaves no Netplan file of the program; a service polls as long as its context lives, while its back-off
  fits a duration, and shows the result of its last cycle.

  Some theorems show where the code falls short of its
  purpose: a cancelled pool may wait for ever, thirty failures in a row end a service on amd64, two devices can be given one explicit name, a path beside
  a managed directory passes the safety check, a failed status update leaves a file in force, a misnumbered orphan costs an active interface
  its file, an old job decides the status of a new generation, the health endpoint of a job never
  passes its probes, a cleanup job on RHEL fails without the old directory, a lifetime with a unit is misread.

  \<^bold>\<open>Bounds and fuel.\<close> The sequential run of the configure use case (\<open>drain\<close>) has as fuel the number of
  interfaces times the largest number of attempts plus one; \<open>Execute_accounts\<close> shows that it never
  runs out. All other loops are structural or have a measure.

  \<^bold>\<open>Simplifications.\<close> \<open>Execute\<close> computes the run of one worker without cancellation, the default; \<open>exec_step\<close>
  has any number of workers, whose handlers are single steps that do not panic; panics and cancellation
  are in \<open>Worker_Pool\<close>. The informers of the watcher deliver one event at a time. What the API server must do
  for a status to be recorded is the locale \<open>writable_api\<close>, which a resource with and one without status subresource meet.

  \<^bold>\<open>Not modelled.\<close> Log lines other than those of \<open>Controller_Log\<close> and \<open>handleInterfaceError\<close>, and the Prometheus client behind
  \<open>Metrics\<close>, which have no effect on the rest; the clock; the time a step takes (timeouts and back-off appear as choices
  of the environment and as returned durations); HTTP servers, signals and the building of the
  Kubernetes clients. YAML, JSON texts, SHA-256, SQL and the Kubernetes client are
  parameters, with what the code relies on as assumptions of locales that a concrete
  instance meets.
\<close>

end
